(* ===== verification/Prelude.thy ===== *)
theory Prelude
  imports Main "HOL-Library.Word"
begin

unbundle bit_operations_syntax

text \<open>
  What every component shares: the machine types of the Go code, the errors it returns and the
  panics it raises as values of one datatype, results as sums, the sequencing of fallible steps,
  the two's complement reading of Go's 64-bit \<open>int\<close>, byte slices and their bounds
  checks, and the conversion between Go strings and bytes.
\<close>

named_theorems res_simps "rewriting of results and their sequencing"
named_theorems slice_simps "bounds-checked reads, writes and slices in range"

section \<open>Types\<close>

type_synonym u8 = "8 word"
type_synonym u64 = "64 word"
type_synonym bytes = "8 word list"

text \<open>
  One constructor per error value or message of the source. The sentinels of the generated codec
  exist once per file (\<open>ErrIntOverflowParams\<close>, \<open>ErrIntOverflowTx\<close>, ...); they
  carry the file's suffix. \<open>Panic\<close> is a Go panic (run-time or explicit), \<open>PanicErr\<close> a \<open>panic(err)\<close>,
  \<open>Fatal\<close> a \<open>log.Fatal\<close> (the process exits), \<open>External\<close> an error
  made by code outside the repository, and \<open>OutOfFuel\<close> only marks a loop of the model that
  was given too few iterations; each codec is proved never to return it.
\<close>

datatype err =
    ErrIntOverflow string
  | ErrInvalidLength string
  | ErrUnexpectedEndOfGroup string
  | ErrUnexpectedEOF
  | WiretypeEndGroup string
  | IllegalTag string int u64
  | WrongWireType int string
  | IllegalWireType int
  | EmptyMintDenom
  | NegativeMintAmount
  | InvalidSigner string string
  | InvalidArgument string
  | Unimplemented string
  | Wrapped string err
  | ErrText string
  | External string
  | Panic string
  | PanicErr err
  | Fatal err
  | OutOfFuel

type_synonym 'a res = "err + 'a"

fun is_panic :: "err \<Rightarrow> bool" where
  "is_panic (Panic _) = True"
| "is_panic (PanicErr _) = True"
| "is_panic (Wrapped _ e) = is_panic e"
| "is_panic _ = False"

section \<open>Sequencing\<close>

fun bindR :: "'a res \<Rightarrow> ('a \<Rightarrow> 'b res) \<Rightarrow> 'b res" where
  "bindR (Inl e) f = Inl e"
| "bindR (Inr x) f = f x"

lemma bindR_Inr_conv [res_simps]:
  "bindR r f = Inr y \<longleftrightarrow> (\<exists>x. r = Inr x \<and> f x = Inr y)"
  by (cases r) auto

lemma bindR_Inl_conv [res_simps]:
  "bindR r f = Inl e \<longleftrightarrow> r = Inl e \<or> (\<exists>x. r = Inr x \<and> f x = Inl e)"
  by (cases r) auto

lemma bindR_assoc: "bindR (bindR r f) g = bindR r (\<lambda>x. bindR (f x) g)"
  by (cases r) auto

lemma bindR_cong [fundef_cong]:
  "r = r' \<Longrightarrow> (\<And>x. r' = Inr x \<Longrightarrow> f x = g x) \<Longrightarrow> bindR r f = bindR r' g"
  by (cases r') auto

text \<open>A result that is neither a panic nor an exhausted loop.\<close>

definition clean :: "'a res \<Rightarrow> bool" where
  "clean r \<longleftrightarrow> (case r of Inl e \<Rightarrow> \<not> is_panic e \<and> e \<noteq> OutOfFuel | Inr _ \<Rightarrow> True)"

lemma clean_simps [simp]:
  "clean (Inr x)"
  "clean (Inl e) \<longleftrightarrow> \<not> is_panic e \<and> e \<noteq> OutOfFuel"
  by (auto simp: clean_def)

lemma clean_fuel: "clean r \<Longrightarrow> r \<noteq> Inl OutOfFuel"
  by auto

lemma clean_panic: "clean r \<Longrightarrow> r \<noteq> Inl (Panic s)"
  by auto

lemma clean_bindR [intro]:
  "clean r \<Longrightarrow> (\<And>x. r = Inr x \<Longrightarrow> clean (f x)) \<Longrightarrow> clean (bindR r f)"
  by (cases r) auto

text \<open>
  Code outside the repository either returns, fails with an error or panics; \<open>ext\<close> embeds its
  outcome.
\<close>

datatype fault = Failed string | Panicked string

type_synonym 'a ext = "fault + 'a"

fun ext :: "'a ext \<Rightarrow> 'a res" where
  "ext (Inr x) = Inr x"
| "ext (Inl (Failed s)) = Inl (External s)"
| "ext (Inl (Panicked s)) = Inl (Panic s)"

lemma ext_Inr_iff [simp]: "ext r = Inr x \<longleftrightarrow> r = Inr x"
  by (cases r rule: ext.cases) auto

lemma ext_fuel [simp]: "ext r \<noteq> Inl OutOfFuel"
  by (cases r rule: ext.cases) auto

section \<open>Operations on a state\<close>

text \<open>
  An operation on the chain's state returns the state it leaves behind together with its result:
  what was written before an error or a panic stays written here (it is the caller, outside the
  repository, that discards it).
\<close>

type_synonym ('s, 'a) act = "'s \<Rightarrow> 's \<times> 'a res"

definition bindS :: "('s, 'a) act \<Rightarrow> ('a \<Rightarrow> ('s, 'b) act) \<Rightarrow> ('s, 'b) act" where
  "bindS m f s = (case m s of (s', Inl e) \<Rightarrow> (s', Inl e) | (s', Inr x) \<Rightarrow> f x s')"

definition lift :: "'a res \<Rightarrow> ('s, 'a) act" where
  "lift r s = (s, r)"

definition readS :: "('s \<Rightarrow> 'a res) \<Rightarrow> ('s, 'a) act" where
  "readS f s = (s, f s)"

definition call :: "('s \<Rightarrow> 's \<times> 'a ext) \<Rightarrow> ('s, 'a) act" where
  "call f s = (fst (f s), ext (snd (f s)))"

lemma bindS_ok [res_simps]: "m s = (s', Inr x) \<Longrightarrow> bindS m f s = f x s'"
  by (simp add: bindS_def)

lemma bindS_err [res_simps]: "m s = (s', Inl e) \<Longrightarrow> bindS m f s = (s', Inl e)"
  by (simp add: bindS_def)

lemma bindS_Inr_iff:
  "bindS m f s = (s', Inr y) \<longleftrightarrow> (\<exists>t x. m s = (t, Inr x) \<and> f x t = (s', Inr y))"
  by (auto simp: bindS_def split: prod.splits sum.splits)

lemma lift_readS [simp]:
  "bindS (lift (Inr x)) f s = f x s"
  "bindS (lift (Inl e)) f s = (s, Inl e)"
  "bindS (readS g) f s = (case g s of Inl e \<Rightarrow> (s, Inl e) | Inr x \<Rightarrow> f x s)"
  by (simp_all add: bindS_def lift_def readS_def)

lemma call_simps [simp]:
  "f s = (s', Inr x) \<Longrightarrow> call f s = (s', Inr x)"
  "f s = (s', Inl (Failed m)) \<Longrightarrow> call f s = (s', Inl (External m))"
  "f s = (s', Inl (Panicked m)) \<Longrightarrow> call f s = (s', Inl (Panic m))"
  by (simp_all add: call_def)

text \<open>\<open>if err != nil { panic(err) }\<close>; a panic on the way is not caught.\<close>

fun panicking :: "'a res \<Rightarrow> 'a res" where
  "panicking (Inr x) = Inr x"
| "panicking (Inl e) = Inl (if is_panic e then e else PanicErr e)"

text \<open>The same on operations; an error that is dropped (\<open>_ = f()\<close>); a loop over a list.\<close>

definition panicS :: "('s, 'a) act \<Rightarrow> ('s, 'a) act" where
  "panicS f s = (fst (f s), panicking (snd (f s)))"

definition dropS :: "('s, 'a) act \<Rightarrow> ('s, unit) act" where
  "dropS f s =
     (case f s of
        (s', Inl e) \<Rightarrow> (s', if is_panic e then Inl e else Inr ())
      | (s', Inr _) \<Rightarrow> (s', Inr ()))"

fun forS :: "('a \<Rightarrow> ('s, unit) act) \<Rightarrow> 'a list \<Rightarrow> ('s, unit) act" where
  "forS f [] = lift (Inr ())"
| "forS f (x # xs) = bindS (f x) (\<lambda>_. forS f xs)"

lemma call_Inr_iff: "call f s = (s', Inr x) \<longleftrightarrow> f s = (s', Inr x)"
  by (cases "f s") (auto simp: call_def)

lemma panicS_Inr_iff: "panicS f s = (s', Inr x) \<longleftrightarrow> f s = (s', Inr x)"
  by (cases "f s"; cases "snd (f s)") (auto simp: panicS_def)

lemma fst_call [simp]: "fst (call f s) = fst (f s)"
  by (simp add: call_def)

lemma fst_dropS [simp]: "fst (dropS f s) = fst (f s)"
  by (cases "f s") (auto simp: dropS_def split: sum.splits)

section \<open>Go's 64-bit int\<close>

text \<open>
  A Go \<open>int\<close> is 64 bits wide on every platform the chain supports. Sums the code computes
  from untrusted lengths wrap: \<open>wrap64\<close> is the two's complement reading of the low 64 bits.
\<close>

definition wrap64 :: "int \<Rightarrow> int" where
  "wrap64 x = (x + 2 ^ 63) mod 2 ^ 64 - 2 ^ 63"

lemma wrap64_id: "- (2 ^ 63) \<le> x \<Longrightarrow> x < 2 ^ 63 \<Longrightarrow> wrap64 x = x"
  by (simp add: wrap64_def)

lemma wrap64_bounds: "- (2 ^ 63) \<le> wrap64 x" "wrap64 x < 2 ^ 63"
  by (simp_all add: wrap64_def)

lemma wrap64_overflow: "2 ^ 63 \<le> x \<Longrightarrow> x < 2 ^ 64 \<Longrightarrow> wrap64 x = x - 2 ^ 64"
proof -
  assume a: "2 ^ 63 \<le> x" "x < 2 ^ 64"
  have "(x + 2 ^ 63) mod 2 ^ 64 = (x + 2 ^ 63 - 2 ^ 64) mod 2 ^ 64"
    by (metis minus_mod_self2)
  also have "\<dots> = x + 2 ^ 63 - 2 ^ 64"
    using a by (intro mod_pos_pos_trivial) auto
  finally show ?thesis by (simp add: wrap64_def)
qed

text \<open>
  The sum of two non-negative ints is negative exactly when it overflows; a sum that passes the
  code's check is the mathematical one.
\<close>

lemma wrap64_nonneg_sum:
  assumes "0 \<le> a" "a < 2 ^ 63" "0 \<le> b" "b < 2 ^ 63" "0 \<le> wrap64 (a + b)"
  shows "wrap64 (a + b) = a + b"
proof (cases "a + b < 2 ^ 63")
  case True
  with assms show ?thesis by (intro wrap64_id) auto
next
  case False
  then have "wrap64 (a + b) = a + b - 2 ^ 64"
    using assms by (intro wrap64_overflow) auto
  with assms show ?thesis by auto
qed

section \<open>Byte slices\<close>

text \<open>
  \<open>d[lo:hi]\<close> of Go panics unless \<open>0 \<le> lo \<le> hi \<le> len d\<close> (the capacity of the slices
  here is their length).
\<close>

definition gslice :: "'a list \<Rightarrow> nat \<Rightarrow> nat \<Rightarrow> 'a list res" where
  "gslice d lo hi = (if lo \<le> hi \<and> hi \<le> length d then Inr (take (hi - lo) (drop lo d))
                    else Inl (Panic ''slice bounds out of range''))"

lemma gslice_in_range [slice_simps]:
  "lo \<le> hi \<Longrightarrow> hi \<le> length d \<Longrightarrow> gslice d lo hi = Inr (take (hi - lo) (drop lo d))"
  by (simp add: gslice_def)

lemma gslice_append [slice_simps]:
  "gslice (p @ x @ s) (length p) (length p + length x) = Inr x"
  by (simp add: gslice_def)

section \<open>Strings and bytes\<close>

text \<open>A Go string is a sequence of bytes; HOL's \<^typ>\<open>char\<close> is a byte as well.\<close>

definition byte_of_char :: "char \<Rightarrow> u8" where
  "byte_of_char c = word_of_nat (of_char c)"

definition char_of_byte :: "u8 \<Rightarrow> char" where
  "char_of_byte b = char_of (unat b)"

definition bytes_of :: "string \<Rightarrow> bytes" where
  "bytes_of s = map byte_of_char s"

definition string_of :: "bytes \<Rightarrow> string" where
  "string_of b = map char_of_byte b"

lemma char_of_byte_of_char [simp]: "char_of_byte (byte_of_char c) = c"
proof -
  have "(of_char c :: nat) < 2 ^ 8" by simp
  then show ?thesis
    by (simp add: char_of_byte_def byte_of_char_def unat_of_nat take_bit_nat_eq_self)
qed

lemma byte_of_char_of_byte [simp]: "byte_of_char (char_of_byte b) = b"
proof -
  have "unat b < 256" using unsigned_less [of b, where 'a = nat] by simp
  then show ?thesis
    by (simp add: char_of_byte_def byte_of_char_def of_char_of)
qed

lemma string_of_bytes_of [simp]: "string_of (bytes_of s) = s"
  by (simp add: string_of_def bytes_of_def comp_def map_idI)

lemma bytes_of_string_of [simp]: "bytes_of (string_of b) = b"
  by (simp add: string_of_def bytes_of_def comp_def map_idI)

lemma length_bytes_of [simp]: "length (bytes_of s) = length s"
  by (simp add: bytes_of_def)

lemma length_string_of [simp]: "length (string_of s) = length s"
  by (simp add: string_of_def)

lemma bytes_of_eq_Nil [simp]: "bytes_of s = [] \<longleftrightarrow> s = []"
  by (simp add: bytes_of_def)

end
