(* ===== verification/Descriptor.thy ===== *)
theory Descriptor
  imports Prelude
begin

text \<open>
  Protobuf's descriptors: the documented wire format of a \<open>FileDescriptorProto\<close>, as far as the tables embedded in
  the generated code use it. A schema is what such a table declares; \<open>encodeFile\<close> writes it in the order of
  its field numbers, and \<open>readFile\<close> reads any table. Reading what was written gives the schema back, so
  a table that equals an encoding declares that schema and no other.
\<close>

section \<open>Fields on the wire\<close>

datatype wval = VarintV nat | BytesV bytes

fun vint :: "nat \<Rightarrow> bytes" where
  "vint n = (if n < 128 then [of_nat n] else of_nat (n mod 128 + 128) # vint (n div 128))"

declare vint.simps [simp del]

fun encodeEntry :: "nat \<times> wval \<Rightarrow> bytes" where
  "encodeEntry (k, VarintV v) = vint (8 * k) @ vint v"
| "encodeEntry (k, BytesV b) = vint (8 * k + 2) @ vint (length b) @ b"

definition encodeEntries :: "(nat \<times> wval) list \<Rightarrow> bytes" where
  "encodeEntries fs = concat (map encodeEntry fs)"

fun uvarint :: "bytes \<Rightarrow> (nat \<times> bytes) option" where
  "uvarint [] = None"
| "uvarint (b # bs) =
     (if b < 128 then Some (unat b, bs)
      else case uvarint bs of None \<Rightarrow> None | Some (v, r) \<Rightarrow> Some (unat b - 128 + 128 * v, r))"

lemma uvarint_shorter: "uvarint bs = Some (v, r) \<Longrightarrow> length r < length bs"
  by (induction bs arbitrary: v r) (auto split: if_splits option.splits intro: less_SucI)

text \<open>The fields of a message in order; the descriptors have varints and length-delimited fields only.\<close>

function protoFields :: "bytes \<Rightarrow> (nat \<times> wval) list option" where
  "protoFields [] = Some []"
| "protoFields (b # bs) =
     (case uvarint (b # bs) of
        None \<Rightarrow> None
      | Some (tag, r) \<Rightarrow>
          (case uvarint r of
             None \<Rightarrow> None
           | Some (v, r') \<Rightarrow>
               if tag mod 8 = 0 then map_option ((#) (tag div 8, VarintV v)) (protoFields r')
               else if tag mod 8 = 2 \<and> v \<le> length r' then
                 map_option ((#) (tag div 8, BytesV (take v r'))) (protoFields (drop v r'))
               else None))"
  by pat_completeness auto
termination
  by (relation "measure length") (auto dest!: uvarint_shorter simp del: uvarint.simps)

lemma vint_not_Nil [simp]: "vint n \<noteq> []"
  by (simp add: vint.simps [of n])

lemma of_nat_u8: "n < 256 \<Longrightarrow> unat (of_nat n :: 8 word) = n"
  by (simp add: unat_of_nat take_bit_nat_eq_self)

lemma uvarint_vint [simp]: "uvarint (vint n @ r) = Some (n, r)"
proof (induction n rule: vint.induct)
  case (1 n)
  show ?case
  proof (cases "n < 128")
    case True
    then show ?thesis by (simp add: vint.simps [of n] word_less_nat_alt of_nat_u8)
  next
    case False
    have m: "n mod 128 < 128" by simp
    then have "unat (of_nat (n mod 128 + 128) :: 8 word) = n mod 128 + 128" by (intro of_nat_u8) simp
    with False 1 show ?thesis
      by (subst vint.simps) (simp add: word_less_nat_alt del: of_nat_add)
  qed
qed

lemma protoFields_step:
  assumes "bs \<noteq> []"
  shows "protoFields bs = (case uvarint bs of None \<Rightarrow> None | Some (tag, r) \<Rightarrow>
     (case uvarint r of None \<Rightarrow> None | Some (v, r') \<Rightarrow>
        if tag mod 8 = 0 then map_option ((#) (tag div 8, VarintV v)) (protoFields r')
        else if tag mod 8 = 2 \<and> v \<le> length r' then
          map_option ((#) (tag div 8, BytesV (take v r'))) (protoFields (drop v r'))
        else None))"
  using assms by (cases bs) simp_all

lemma protoFields_entry: "protoFields (encodeEntry e @ r) = map_option ((#) e) (protoFields r)"
proof (cases e rule: encodeEntry.cases)
  case (1 k v)
  then show ?thesis by (subst protoFields_step) simp_all
next
  case (2 k b)
  have "(8 * k + 2) mod 8 = 2" "(8 * k + 2) div 8 = k" by presburger+
  with 2 show ?thesis by (subst protoFields_step) simp_all
qed

lemma encodeEntries_Nil_iff: "encodeEntries fs = [] \<longleftrightarrow> fs = []"
proof (cases fs)
  case (Cons e es)
  then show ?thesis by (cases e rule: encodeEntry.cases) (simp_all add: encodeEntries_def)
qed (simp add: encodeEntries_def)

lemma encodeEntries_Nil [simp]: "encodeEntries [] = []"
  by (simp add: encodeEntries_def)

lemma protoFields_encodeEntries [simp]: "protoFields (encodeEntries fs) = Some fs"
  by (induction fs) (simp_all add: encodeEntries_def protoFields_entry)

section \<open>Schemas\<close>

text \<open>Options are kept as the entries they are.\<close>

type_synonym entries = "(nat \<times> wval) list"

record field_schema =
  fsName :: string
  fsNumber :: nat
  fsLabel :: nat
  fsType :: nat
  fsTypeName :: string
  fsOptions :: entries
  fsJson :: string

record message_schema =
  msName :: string
  msFields :: "field_schema list"
  msOptions :: entries

record method_schema =
  mtName :: string
  mtInput :: string
  mtOutput :: string
  mtOptions :: entries

record service_schema =
  svName :: string
  svMethods :: "method_schema list"
  svOptions :: entries

record file_schema =
  flName :: string
  flPackage :: string
  flImports :: "string list"
  flMessages :: "message_schema list"
  flServices :: "service_schema list"
  flOptions :: entries
  flSyntax :: string

text \<open>A text entry, and an entry that is left out when it is empty.\<close>

definition textE :: "nat \<Rightarrow> string \<Rightarrow> nat \<times> wval" where
  "textE k s = (k, BytesV (bytes_of s))"

definition optE :: "nat \<Rightarrow> bytes \<Rightarrow> entries" where
  "optE k b = (if b = [] then [] else [(k, BytesV b)])"

definition optionsE :: "nat \<Rightarrow> entries \<Rightarrow> entries" where
  "optionsE k es = optE k (encodeEntries es)"

definition fieldEntries :: "field_schema \<Rightarrow> entries" where
  "fieldEntries f = [textE 1 (fsName f), (3, VarintV (fsNumber f)), (4, VarintV (fsLabel f)),
     (5, VarintV (fsType f))] @ optE 6 (bytes_of (fsTypeName f)) @ optionsE 8 (fsOptions f) @ [textE 10 (fsJson f)]"

definition messageEntries :: "message_schema \<Rightarrow> entries" where
  "messageEntries m = textE 1 (msName m) #
     map (\<lambda>f. (2, BytesV (encodeEntries (fieldEntries f)))) (msFields m) @ optionsE 7 (msOptions m)"

definition methodEntries :: "method_schema \<Rightarrow> entries" where
  "methodEntries m = [textE 1 (mtName m), textE 2 (mtInput m), textE 3 (mtOutput m)] @ optionsE 4 (mtOptions m)"

definition serviceEntries :: "service_schema \<Rightarrow> entries" where
  "serviceEntries s = textE 1 (svName s) #
     map (\<lambda>m. (2, BytesV (encodeEntries (methodEntries m)))) (svMethods s) @ optionsE 3 (svOptions s)"

definition fileEntries :: "file_schema \<Rightarrow> entries" where
  "fileEntries f = [textE 1 (flName f), textE 2 (flPackage f)] @ map (textE 3) (flImports f) @
     map (\<lambda>m. (4, BytesV (encodeEntries (messageEntries m)))) (flMessages f) @
     map (\<lambda>s. (6, BytesV (encodeEntries (serviceEntries s)))) (flServices f) @
     optionsE 8 (flOptions f) @ [textE 12 (flSyntax f)]"

definition encodeFile :: "file_schema \<Rightarrow> bytes" where
  "encodeFile f = encodeEntries (fileEntries f)"

section \<open>Reading\<close>

text \<open>The last value of a field counts, all values of a repeated one.\<close>

definition getBytes :: "nat \<Rightarrow> (nat \<times> wval) list \<Rightarrow> bytes" where
  "getBytes k fs = (case map_of (rev fs) k of Some (BytesV b) \<Rightarrow> b | _ \<Rightarrow> [])"

definition getText :: "nat \<Rightarrow> (nat \<times> wval) list \<Rightarrow> string" where
  "getText k fs = string_of (getBytes k fs)"

definition getNumber :: "nat \<Rightarrow> (nat \<times> wval) list \<Rightarrow> nat" where
  "getNumber k fs = (case map_of (rev fs) k of Some (VarintV v) \<Rightarrow> v | _ \<Rightarrow> 0)"

definition getAll :: "nat \<Rightarrow> (nat \<times> wval) list \<Rightarrow> bytes list" where
  "getAll k fs = List.map_filter (\<lambda>(j, v). case v of BytesV b \<Rightarrow> (if j = k then Some b else None) | _ \<Rightarrow> None) fs"

definition readField :: "bytes \<Rightarrow> field_schema option" where
  "readField bs = Option.bind (protoFields bs) (\<lambda>fs.
     map_option (\<lambda>es. \<lparr>fsName = getText 1 fs, fsNumber = getNumber 3 fs, fsLabel = getNumber 4 fs,
       fsType = getNumber 5 fs, fsTypeName = getText 6 fs, fsOptions = es, fsJson = getText 10 fs\<rparr>)
       (protoFields (getBytes 8 fs)))"

definition readMessage :: "bytes \<Rightarrow> message_schema option" where
  "readMessage bs = Option.bind (protoFields bs) (\<lambda>fs.
     Option.bind (those (map readField (getAll 2 fs))) (\<lambda>l.
     map_option (\<lambda>es. \<lparr>msName = getText 1 fs, msFields = l, msOptions = es\<rparr>)
       (protoFields (getBytes 7 fs))))"

definition readMethod :: "bytes \<Rightarrow> method_schema option" where
  "readMethod bs = Option.bind (protoFields bs) (\<lambda>fs.
     map_option (\<lambda>es. \<lparr>mtName = getText 1 fs, mtInput = getText 2 fs, mtOutput = getText 3 fs, mtOptions = es\<rparr>)
       (protoFields (getBytes 4 fs)))"

definition readService :: "bytes \<Rightarrow> service_schema option" where
  "readService bs = Option.bind (protoFields bs) (\<lambda>fs.
     Option.bind (those (map readMethod (getAll 2 fs))) (\<lambda>l.
     map_option (\<lambda>es. \<lparr>svName = getText 1 fs, svMethods = l, svOptions = es\<rparr>)
       (protoFields (getBytes 3 fs))))"

definition readFile :: "bytes \<Rightarrow> file_schema option" where
  "readFile bs = Option.bind (protoFields bs) (\<lambda>fs.
     Option.bind (those (map readMessage (getAll 4 fs))) (\<lambda>ms.
     Option.bind (those (map readService (getAll 6 fs))) (\<lambda>ss.
     map_option (\<lambda>es. \<lparr>flName = getText 1 fs, flPackage = getText 2 fs, flImports = map string_of (getAll 3 fs),
       flMessages = ms, flServices = ss, flOptions = es, flSyntax = getText 12 fs\<rparr>)
       (protoFields (getBytes 8 fs)))))"

section \<open>Reading what was written\<close>

named_theorems entry_simps "access to lists of entries"

lemma those_map_Some: "(\<And>x. x \<in> set xs \<Longrightarrow> f (g x) = Some x) \<Longrightarrow> those (map f (map g xs)) = Some xs"
  by (induction xs) auto

lemma getAll_simps [entry_simps]:
  "getAll k [] = []"
  "getAll k ((j, BytesV b) # fs) = (if j = k then b # getAll k fs else getAll k fs)"
  "getAll k ((j, VarintV v) # fs) = getAll k fs"
  "getAll k (textE j s # fs) = (if j = k then bytes_of s # getAll k fs else getAll k fs)"
  "getAll k (fs @ gs) = getAll k fs @ getAll k gs"
  "getAll k (optE j b) = (if j = k \<and> b \<noteq> [] then [b] else [])"
  "getAll k (map (\<lambda>x. (j, BytesV (h x))) xs) = (if j = k then map h xs else [])"
  "getAll k (map (textE j) ss) = (if j = k then map bytes_of ss else [])"
  by (simp_all add: getAll_def map_filter_simps textE_def optE_def)
     (simp_all add: List.map_filter_def textE_def comp_def)

text \<open>Lookup in entries that each have one field number: what follows counts before what comes first.\<close>

definition last_of :: "nat \<Rightarrow> (nat \<times> wval) list \<Rightarrow> wval option" where
  "last_of k fs = map_of (rev fs) k"

lemma map_of_const: "map_of (map (\<lambda>x. (j, h x)) xs) k = (if j = k \<and> xs \<noteq> [] then Some (h (hd xs)) else None)"
  by (induction xs) auto

lemma last_of_simps [entry_simps]:
  "last_of k [] = None"
  "last_of k ((j, v) # fs) = (case last_of k fs of Some w \<Rightarrow> Some w | None \<Rightarrow> if j = k then Some v else None)"
  "last_of k (textE j s # fs) =
     (case last_of k fs of Some w \<Rightarrow> Some w | None \<Rightarrow> if j = k then Some (BytesV (bytes_of s)) else None)"
  "last_of k (fs @ gs) = (case last_of k gs of Some w \<Rightarrow> Some w | None \<Rightarrow> last_of k fs)"
  "last_of k (optE j b) = (if j = k \<and> b \<noteq> [] then Some (BytesV b) else None)"
  "j \<noteq> k \<Longrightarrow> last_of k (map (\<lambda>x. (j, BytesV (h x))) xs) = None"
  "j \<noteq> k \<Longrightarrow> last_of k (map (textE j) ss) = None"
  by (simp_all add: last_of_def map_add_def textE_def optE_def rev_map map_of_const [abs_def] split: option.splits)
     (auto simp: map_of_eq_None_iff textE_def)

lemma get_last_of [entry_simps]:
  "getBytes k fs = (case last_of k fs of Some (BytesV b) \<Rightarrow> b | _ \<Rightarrow> [])"
  "getText k fs = string_of (case last_of k fs of Some (BytesV b) \<Rightarrow> b | _ \<Rightarrow> [])"
  "getNumber k fs = (case last_of k fs of Some (VarintV v) \<Rightarrow> v | _ \<Rightarrow> 0)"
  by (simp_all add: getBytes_def getText_def getNumber_def last_of_def)

lemma optionsE_simps [entry_simps]:
  "getAll k (optionsE j es) = (if j = k \<and> es \<noteq> [] then [encodeEntries es] else [])"
  "last_of k (optionsE j es) = (if j = k \<and> es \<noteq> [] then Some (BytesV (encodeEntries es)) else None)"
  by (simp_all add: optionsE_def entry_simps encodeEntries_Nil_iff)

lemma string_of_Nil [simp]: "string_of [] = []"
  by (simp add: string_of_def)

lemma readField_encode: "readField (encodeEntries (fieldEntries f)) = Some f"
  by (simp add: readField_def fieldEntries_def entry_simps)

lemma readMethod_encode: "readMethod (encodeEntries (methodEntries m)) = Some m"
  by (simp add: readMethod_def methodEntries_def entry_simps)

lemma readMessage_encode: "readMessage (encodeEntries (messageEntries m)) = Some m"
  using those_map_Some [of "msFields m" readField "\<lambda>f. encodeEntries (fieldEntries f)"]
  by (simp add: readMessage_def messageEntries_def entry_simps readField_encode)

lemma readService_encode: "readService (encodeEntries (serviceEntries s)) = Some s"
  using those_map_Some [of "svMethods s" readMethod "\<lambda>m. encodeEntries (methodEntries m)"]
  by (simp add: readService_def serviceEntries_def entry_simps readMethod_encode)

lemma readFile_encodeFile: "readFile (encodeFile f) = Some f"
  using those_map_Some [of "flMessages f" readMessage "\<lambda>m. encodeEntries (messageEntries m)"]
    those_map_Some [of "flServices f" readService "\<lambda>s. encodeEntries (serviceEntries s)"]
  by (simp add: readFile_def encodeFile_def fileEntries_def entry_simps readMessage_encode readService_encode
      comp_def)

lemma encodeFile_inject: "encodeFile f = encodeFile g \<Longrightarrow> f = g"
  by (metis option.inject readFile_encodeFile)

end
