(* ===== verification/ApiTables.thy ===== *)
theory ApiTables
  imports Descriptor
begin

text \<open>
  The raw descriptors that the five \<open>*.pulsar.go\<close> files embed, byte by byte, and the schemas they declare.
  Each table is proved equal to the encoding of its schema, so reading it gives that schema.
\<close>

section \<open>The tables\<close>

definition params_rawDesc :: bytes where
  "params_rawDesc = [
     0x0a, 0x24, 0x62, 0x6c, 0x75, 0x65, 0x63, 0x68, 0x69, 0x70, 0x63, 0x68, 0x61, 0x69, 0x6e, 0x2f,
     0x66, 0x69, 0x78, 0x65, 0x64, 0x6d, 0x69, 0x6e, 0x74, 0x2f, 0x70, 0x61, 0x72, 0x61, 0x6d, 0x73,
     0x2e, 0x70, 0x72, 0x6f, 0x74, 0x6f, 0x12, 0x17, 0x62, 0x6c, 0x75, 0x65, 0x63, 0x68, 0x69, 0x70,
     0x63, 0x68, 0x61, 0x69, 0x6e, 0x2e, 0x66, 0x69, 0x78, 0x65, 0x64, 0x6d, 0x69, 0x6e, 0x74, 0x1a,
     0x11, 0x61, 0x6d, 0x69, 0x6e, 0x6f, 0x2f, 0x61, 0x6d, 0x69, 0x6e, 0x6f, 0x2e, 0x70, 0x72, 0x6f,
     0x74, 0x6f, 0x1a, 0x19, 0x63, 0x6f, 0x73, 0x6d, 0x6f, 0x73, 0x5f, 0x70, 0x72, 0x6f, 0x74, 0x6f,
     0x2f, 0x63, 0x6f, 0x73, 0x6d, 0x6f, 0x73, 0x2e, 0x70, 0x72, 0x6f, 0x74, 0x6f, 0x1a, 0x14, 0x67,
     0x6f, 0x67, 0x6f, 0x70, 0x72, 0x6f, 0x74, 0x6f, 0x2f, 0x67, 0x6f, 0x67, 0x6f, 0x2e, 0x70, 0x72,
     0x6f, 0x74, 0x6f, 0x22, 0xc3, 0x01, 0x0a, 0x06, 0x50, 0x61, 0x72, 0x61, 0x6d, 0x73, 0x12, 0x1d,
     0x0a, 0x0a, 0x6d, 0x69, 0x6e, 0x74, 0x5f, 0x64, 0x65, 0x6e, 0x6f, 0x6d, 0x18, 0x01, 0x20, 0x01,
     0x28, 0x09, 0x52, 0x09, 0x6d, 0x69, 0x6e, 0x74, 0x44, 0x65, 0x6e, 0x6f, 0x6d, 0x12, 0x4c, 0x0a,
     0x0b, 0x6d, 0x69, 0x6e, 0x74, 0x5f, 0x61, 0x6d, 0x6f, 0x75, 0x6e, 0x74, 0x18, 0x02, 0x20, 0x01,
     0x28, 0x09, 0x42, 0x2b, 0xc8, 0xde, 0x1f, 0x00, 0xda, 0xde, 0x1f, 0x15, 0x63, 0x6f, 0x73, 0x6d,
     0x6f, 0x73, 0x73, 0x64, 0x6b, 0x2e, 0x69, 0x6f, 0x2f, 0x6d, 0x61, 0x74, 0x68, 0x2e, 0x49, 0x6e,
     0x74, 0xd2, 0xb4, 0x2d, 0x0a, 0x63, 0x6f, 0x73, 0x6d, 0x6f, 0x73, 0x2e, 0x49, 0x6e, 0x74, 0x52,
     0x0a, 0x6d, 0x69, 0x6e, 0x74, 0x41, 0x6d, 0x6f, 0x75, 0x6e, 0x74, 0x12, 0x21, 0x0a, 0x0c, 0x6d,
     0x69, 0x6e, 0x74, 0x5f, 0x65, 0x6e, 0x61, 0x62, 0x6c, 0x65, 0x64, 0x18, 0x03, 0x20, 0x01, 0x28,
     0x08, 0x52, 0x0b, 0x6d, 0x69, 0x6e, 0x74, 0x45, 0x6e, 0x61, 0x62, 0x6c, 0x65, 0x64, 0x3a, 0x29,
     0xe8, 0xa0, 0x1f, 0x01, 0x8a, 0xe7, 0xb0, 0x2a, 0x20, 0x62, 0x6c, 0x75, 0x65, 0x63, 0x68, 0x69,
     0x70, 0x63, 0x68, 0x61, 0x69, 0x6e, 0x2f, 0x78, 0x2f, 0x66, 0x69, 0x78, 0x65, 0x64, 0x6d, 0x69,
     0x6e, 0x74, 0x2f, 0x50, 0x61, 0x72, 0x61, 0x6d, 0x73, 0x42, 0xd2, 0x01, 0x0a, 0x1b, 0x63, 0x6f,
     0x6d, 0x2e, 0x62, 0x6c, 0x75, 0x65, 0x63, 0x68, 0x69, 0x70, 0x63, 0x68, 0x61, 0x69, 0x6e, 0x2e,
     0x66, 0x69, 0x78, 0x65, 0x64, 0x6d, 0x69, 0x6e, 0x74, 0x42, 0x0b, 0x50, 0x61, 0x72, 0x61, 0x6d,
     0x73, 0x50, 0x72, 0x6f, 0x74, 0x6f, 0x50, 0x01, 0x5a, 0x29, 0x62, 0x6c, 0x75, 0x65, 0x63, 0x68,
     0x69, 0x70, 0x43, 0x68, 0x61, 0x69, 0x6e, 0x2f, 0x61, 0x70, 0x69, 0x2f, 0x62, 0x6c, 0x75, 0x65,
     0x63, 0x68, 0x69, 0x70, 0x63, 0x68, 0x61, 0x69, 0x6e, 0x2f, 0x66, 0x69, 0x78, 0x65, 0x64, 0x6d,
     0x69, 0x6e, 0x74, 0xa2, 0x02, 0x03, 0x42, 0x46, 0x58, 0xaa, 0x02, 0x17, 0x42, 0x6c, 0x75, 0x65,
     0x63, 0x68, 0x69, 0x70, 0x63, 0x68, 0x61, 0x69, 0x6e, 0x2e, 0x46, 0x69, 0x78, 0x65, 0x64, 0x6d,
     0x69, 0x6e, 0x74, 0xca, 0x02, 0x17, 0x42, 0x6c, 0x75, 0x65, 0x63, 0x68, 0x69, 0x70, 0x63, 0x68,
     0x61, 0x69, 0x6e, 0x5c, 0x46, 0x69, 0x78, 0x65, 0x64, 0x6d, 0x69, 0x6e, 0x74, 0xe2, 0x02, 0x23,
     0x42, 0x6c, 0x75, 0x65, 0x63, 0x68, 0x69, 0x70, 0x63, 0x68, 0x61, 0x69, 0x6e, 0x5c, 0x46, 0x69,
     0x78, 0x65, 0x64, 0x6d, 0x69, 0x6e, 0x74, 0x5c, 0x47, 0x50, 0x42, 0x4d, 0x65, 0x74, 0x61, 0x64,
     0x61, 0x74, 0x61, 0xea, 0x02, 0x18, 0x42, 0x6c, 0x75, 0x65, 0x63, 0x68, 0x69, 0x70, 0x63, 0x68,
     0x61, 0x69, 0x6e, 0x3a, 0x3a, 0x46, 0x69, 0x78, 0x65, 0x64, 0x6d, 0x69, 0x6e, 0x74, 0x62, 0x06,
     0x70, 0x72, 0x6f, 0x74, 0x6f, 0x33]"

definition genesis_rawDesc :: bytes where
  "genesis_rawDesc = [
     0x0a, 0x25, 0x62, 0x6c, 0x75, 0x65, 0x63, 0x68, 0x69, 0x70, 0x63, 0x68, 0x61, 0x69, 0x6e, 0x2f,
     0x66, 0x69, 0x78, 0x65, 0x64, 0x6d, 0x69, 0x6e, 0x74, 0x2f, 0x67, 0x65, 0x6e, 0x65, 0x73, 0x69,
     0x73, 0x2e, 0x70, 0x72, 0x6f, 0x74, 0x6f, 0x12, 0x17, 0x62, 0x6c, 0x75, 0x65, 0x63, 0x68, 0x69,
     0x70, 0x63, 0x68, 0x61, 0x69, 0x6e, 0x2e, 0x66, 0x69, 0x78, 0x65, 0x64, 0x6d, 0x69, 0x6e, 0x74,
     0x1a, 0x11, 0x61, 0x6d, 0x69, 0x6e, 0x6f, 0x2f, 0x61, 0x6d, 0x69, 0x6e, 0x6f, 0x2e, 0x70, 0x72,
     0x6f, 0x74, 0x6f, 0x1a, 0x14, 0x67, 0x6f, 0x67, 0x6f, 0x70, 0x72, 0x6f, 0x74, 0x6f, 0x2f, 0x67,
     0x6f, 0x67, 0x6f, 0x2e, 0x70, 0x72, 0x6f, 0x74, 0x6f, 0x1a, 0x24, 0x62, 0x6c, 0x75, 0x65, 0x63,
     0x68, 0x69, 0x70, 0x63, 0x68, 0x61, 0x69, 0x6e, 0x2f, 0x66, 0x69, 0x78, 0x65, 0x64, 0x6d, 0x69,
     0x6e, 0x74, 0x2f, 0x70, 0x61, 0x72, 0x61, 0x6d, 0x73, 0x2e, 0x70, 0x72, 0x6f, 0x74, 0x6f, 0x22,
     0x52, 0x0a, 0x0c, 0x47, 0x65, 0x6e, 0x65, 0x73, 0x69, 0x73, 0x53, 0x74, 0x61, 0x74, 0x65, 0x12,
     0x42, 0x0a, 0x06, 0x70, 0x61, 0x72, 0x61, 0x6d, 0x73, 0x18, 0x01, 0x20, 0x01, 0x28, 0x0b, 0x32,
     0x1f, 0x2e, 0x62, 0x6c, 0x75, 0x65, 0x63, 0x68, 0x69, 0x70, 0x63, 0x68, 0x61, 0x69, 0x6e, 0x2e,
     0x66, 0x69, 0x78, 0x65, 0x64, 0x6d, 0x69, 0x6e, 0x74, 0x2e, 0x50, 0x61, 0x72, 0x61, 0x6d, 0x73,
     0x42, 0x09, 0xc8, 0xde, 0x1f, 0x00, 0xa8, 0xe7, 0xb0, 0x2a, 0x01, 0x52, 0x06, 0x70, 0x61, 0x72,
     0x61, 0x6d, 0x73, 0x42, 0xd3, 0x01, 0x0a, 0x1b, 0x63, 0x6f, 0x6d, 0x2e, 0x62, 0x6c, 0x75, 0x65,
     0x63, 0x68, 0x69, 0x70, 0x63, 0x68, 0x61, 0x69, 0x6e, 0x2e, 0x66, 0x69, 0x78, 0x65, 0x64, 0x6d,
     0x69, 0x6e, 0x74, 0x42, 0x0c, 0x47, 0x65, 0x6e, 0x65, 0x73, 0x69, 0x73, 0x50, 0x72, 0x6f, 0x74,
     0x6f, 0x50, 0x01, 0x5a, 0x29, 0x62, 0x6c, 0x75, 0x65, 0x63, 0x68, 0x69, 0x70, 0x43, 0x68, 0x61,
     0x69, 0x6e, 0x2f, 0x61, 0x70, 0x69, 0x2f, 0x62, 0x6c, 0x75, 0x65, 0x63, 0x68, 0x69, 0x70, 0x63,
     0x68, 0x61, 0x69, 0x6e, 0x2f, 0x66, 0x69, 0x78, 0x65, 0x64, 0x6d, 0x69, 0x6e, 0x74, 0xa2, 0x02,
     0x03, 0x42, 0x46, 0x58, 0xaa, 0x02, 0x17, 0x42, 0x6c, 0x75, 0x65, 0x63, 0x68, 0x69, 0x70, 0x63,
     0x68, 0x61, 0x69, 0x6e, 0x2e, 0x46, 0x69, 0x78, 0x65, 0x64, 0x6d, 0x69, 0x6e, 0x74, 0xca, 0x02,
     0x17, 0x42, 0x6c, 0x75, 0x65, 0x63, 0x68, 0x69, 0x70, 0x63, 0x68, 0x61, 0x69, 0x6e, 0x5c, 0x46,
     0x69, 0x78, 0x65, 0x64, 0x6d, 0x69, 0x6e, 0x74, 0xe2, 0x02, 0x23, 0x42, 0x6c, 0x75, 0x65, 0x63,
     0x68, 0x69, 0x70, 0x63, 0x68, 0x61, 0x69, 0x6e, 0x5c, 0x46, 0x69, 0x78, 0x65, 0x64, 0x6d, 0x69,
     0x6e, 0x74, 0x5c, 0x47, 0x50, 0x42, 0x4d, 0x65, 0x74, 0x61, 0x64, 0x61, 0x74, 0x61, 0xea, 0x02,
     0x18, 0x42, 0x6c, 0x75, 0x65, 0x63, 0x68, 0x69, 0x70, 0x63, 0x68, 0x61, 0x69, 0x6e, 0x3a, 0x3a,
     0x46, 0x69, 0x78, 0x65, 0x64, 0x6d, 0x69, 0x6e, 0x74, 0x62, 0x06, 0x70, 0x72, 0x6f, 0x74, 0x6f,
     0x33]"

definition query_rawDesc :: bytes where
  "query_rawDesc = [
     0x0a, 0x23, 0x62, 0x6c, 0x75, 0x65, 0x63, 0x68, 0x69, 0x70, 0x63, 0x68, 0x61, 0x69, 0x6e, 0x2f,
     0x66, 0x69, 0x78, 0x65, 0x64, 0x6d, 0x69, 0x6e, 0x74, 0x2f, 0x71, 0x75, 0x65, 0x72, 0x79, 0x2e,
     0x70, 0x72, 0x6f, 0x74, 0x6f, 0x12, 0x17, 0x62, 0x6c, 0x75, 0x65, 0x63, 0x68, 0x69, 0x70, 0x63,
     0x68, 0x61, 0x69, 0x6e, 0x2e, 0x66, 0x69, 0x78, 0x65, 0x64, 0x6d, 0x69, 0x6e, 0x74, 0x1a, 0x11,
     0x61, 0x6d, 0x69, 0x6e, 0x6f, 0x2f, 0x61, 0x6d, 0x69, 0x6e, 0x6f, 0x2e, 0x70, 0x72, 0x6f, 0x74,
     0x6f, 0x1a, 0x14, 0x67, 0x6f, 0x67, 0x6f, 0x70, 0x72, 0x6f, 0x74, 0x6f, 0x2f, 0x67, 0x6f, 0x67,
     0x6f, 0x2e, 0x70, 0x72, 0x6f, 0x74, 0x6f, 0x1a, 0x1c, 0x67, 0x6f, 0x6f, 0x67, 0x6c, 0x65, 0x2f,
     0x61, 0x70, 0x69, 0x2f, 0x61, 0x6e, 0x6e, 0x6f, 0x74, 0x61, 0x74, 0x69, 0x6f, 0x6e, 0x73, 0x2e,
     0x70, 0x72, 0x6f, 0x74, 0x6f, 0x1a, 0x2a, 0x63, 0x6f, 0x73, 0x6d, 0x6f, 0x73, 0x2f, 0x62, 0x61,
     0x73, 0x65, 0x2f, 0x71, 0x75, 0x65, 0x72, 0x79, 0x2f, 0x76, 0x31, 0x62, 0x65, 0x74, 0x61, 0x31,
     0x2f, 0x70, 0x61, 0x67, 0x69, 0x6e, 0x61, 0x74, 0x69, 0x6f, 0x6e, 0x2e, 0x70, 0x72, 0x6f, 0x74,
     0x6f, 0x1a, 0x24, 0x62, 0x6c, 0x75, 0x65, 0x63, 0x68, 0x69, 0x70, 0x63, 0x68, 0x61, 0x69, 0x6e,
     0x2f, 0x66, 0x69, 0x78, 0x65, 0x64, 0x6d, 0x69, 0x6e, 0x74, 0x2f, 0x70, 0x61, 0x72, 0x61, 0x6d,
     0x73, 0x2e, 0x70, 0x72, 0x6f, 0x74, 0x6f, 0x22, 0x14, 0x0a, 0x12, 0x51, 0x75, 0x65, 0x72, 0x79,
     0x50, 0x61, 0x72, 0x61, 0x6d, 0x73, 0x52, 0x65, 0x71, 0x75, 0x65, 0x73, 0x74, 0x22, 0x59, 0x0a,
     0x13, 0x51, 0x75, 0x65, 0x72, 0x79, 0x50, 0x61, 0x72, 0x61, 0x6d, 0x73, 0x52, 0x65, 0x73, 0x70,
     0x6f, 0x6e, 0x73, 0x65, 0x12, 0x42, 0x0a, 0x06, 0x70, 0x61, 0x72, 0x61, 0x6d, 0x73, 0x18, 0x01,
     0x20, 0x01, 0x28, 0x0b, 0x32, 0x1f, 0x2e, 0x62, 0x6c, 0x75, 0x65, 0x63, 0x68, 0x69, 0x70, 0x63,
     0x68, 0x61, 0x69, 0x6e, 0x2e, 0x66, 0x69, 0x78, 0x65, 0x64, 0x6d, 0x69, 0x6e, 0x74, 0x2e, 0x50,
     0x61, 0x72, 0x61, 0x6d, 0x73, 0x42, 0x09, 0xc8, 0xde, 0x1f, 0x00, 0xa8, 0xe7, 0xb0, 0x2a, 0x01,
     0x52, 0x06, 0x70, 0x61, 0x72, 0x61, 0x6d, 0x73, 0x32, 0x96, 0x01, 0x0a, 0x05, 0x51, 0x75, 0x65,
     0x72, 0x79, 0x12, 0x8c, 0x01, 0x0a, 0x06, 0x50, 0x61, 0x72, 0x61, 0x6d, 0x73, 0x12, 0x2b, 0x2e,
     0x62, 0x6c, 0x75, 0x65, 0x63, 0x68, 0x69, 0x70, 0x63, 0x68, 0x61, 0x69, 0x6e, 0x2e, 0x66, 0x69,
     0x78, 0x65, 0x64, 0x6d, 0x69, 0x6e, 0x74, 0x2e, 0x51, 0x75, 0x65, 0x72, 0x79, 0x50, 0x61, 0x72,
     0x61, 0x6d, 0x73, 0x52, 0x65, 0x71, 0x75, 0x65, 0x73, 0x74, 0x1a, 0x2c, 0x2e, 0x62, 0x6c, 0x75,
     0x65, 0x63, 0x68, 0x69, 0x70, 0x63, 0x68, 0x61, 0x69, 0x6e, 0x2e, 0x66, 0x69, 0x78, 0x65, 0x64,
     0x6d, 0x69, 0x6e, 0x74, 0x2e, 0x51, 0x75, 0x65, 0x72, 0x79, 0x50, 0x61, 0x72, 0x61, 0x6d, 0x73,
     0x52, 0x65, 0x73, 0x70, 0x6f, 0x6e, 0x73, 0x65, 0x22, 0x27, 0x82, 0xd3, 0xe4, 0x93, 0x02, 0x21,
     0x12, 0x1f, 0x2f, 0x62, 0x6c, 0x75, 0x65, 0x63, 0x68, 0x69, 0x70, 0x43, 0x68, 0x61, 0x69, 0x6e,
     0x2f, 0x66, 0x69, 0x78, 0x65, 0x64, 0x6d, 0x69, 0x6e, 0x74, 0x2f, 0x70, 0x61, 0x72, 0x61, 0x6d,
     0x73, 0x42, 0xd1, 0x01, 0x0a, 0x1b, 0x63, 0x6f, 0x6d, 0x2e, 0x62, 0x6c, 0x75, 0x65, 0x63, 0x68,
     0x69, 0x70, 0x63, 0x68, 0x61, 0x69, 0x6e, 0x2e, 0x66, 0x69, 0x78, 0x65, 0x64, 0x6d, 0x69, 0x6e,
     0x74, 0x42, 0x0a, 0x51, 0x75, 0x65, 0x72, 0x79, 0x50, 0x72, 0x6f, 0x74, 0x6f, 0x50, 0x01, 0x5a,
     0x29, 0x62, 0x6c, 0x75, 0x65, 0x63, 0x68, 0x69, 0x70, 0x43, 0x68, 0x61, 0x69, 0x6e, 0x2f, 0x61,
     0x70, 0x69, 0x2f, 0x62, 0x6c, 0x75, 0x65, 0x63, 0x68, 0x69, 0x70, 0x63, 0x68, 0x61, 0x69, 0x6e,
     0x2f, 0x66, 0x69, 0x78, 0x65, 0x64, 0x6d, 0x69, 0x6e, 0x74, 0xa2, 0x02, 0x03, 0x42, 0x46, 0x58,
     0xaa, 0x02, 0x17, 0x42, 0x6c, 0x75, 0x65, 0x63, 0x68, 0x69, 0x70, 0x63, 0x68, 0x61, 0x69, 0x6e,
     0x2e, 0x46, 0x69, 0x78, 0x65, 0x64, 0x6d, 0x69, 0x6e, 0x74, 0xca, 0x02, 0x17, 0x42, 0x6c, 0x75,
     0x65, 0x63, 0x68, 0x69, 0x70, 0x63, 0x68, 0x61, 0x69, 0x6e, 0x5c, 0x46, 0x69, 0x78, 0x65, 0x64,
     0x6d, 0x69, 0x6e, 0x74, 0xe2, 0x02, 0x23, 0x42, 0x6c, 0x75, 0x65, 0x63, 0x68, 0x69, 0x70, 0x63,
     0x68, 0x61, 0x69, 0x6e, 0x5c, 0x46, 0x69, 0x78, 0x65, 0x64, 0x6d, 0x69, 0x6e, 0x74, 0x5c, 0x47,
     0x50, 0x42, 0x4d, 0x65, 0x74, 0x61, 0x64, 0x61, 0x74, 0x61, 0xea, 0x02, 0x18, 0x42, 0x6c, 0x75,
     0x65, 0x63, 0x68, 0x69, 0x70, 0x63, 0x68, 0x61, 0x69, 0x6e, 0x3a, 0x3a, 0x46, 0x69, 0x78, 0x65,
     0x64, 0x6d, 0x69, 0x6e, 0x74, 0x62, 0x06, 0x70, 0x72, 0x6f, 0x74, 0x6f, 0x33]"

definition tx_rawDesc :: bytes where
  "tx_rawDesc = [
     0x0a, 0x20, 0x62, 0x6c, 0x75, 0x65, 0x63, 0x68, 0x69, 0x70, 0x63, 0x68, 0x61, 0x69, 0x6e, 0x2f,
     0x66, 0x69, 0x78, 0x65, 0x64, 0x6d, 0x69, 0x6e, 0x74, 0x2f, 0x74, 0x78, 0x2e, 0x70, 0x72, 0x6f,
     0x74, 0x6f, 0x12, 0x17, 0x62, 0x6c, 0x75, 0x65, 0x63, 0x68, 0x69, 0x70, 0x63, 0x68, 0x61, 0x69,
     0x6e, 0x2e, 0x66, 0x69, 0x78, 0x65, 0x64, 0x6d, 0x69, 0x6e, 0x74, 0x1a, 0x11, 0x61, 0x6d, 0x69,
     0x6e, 0x6f, 0x2f, 0x61, 0x6d, 0x69, 0x6e, 0x6f, 0x2e, 0x70, 0x72, 0x6f, 0x74, 0x6f, 0x1a, 0x17,
     0x63, 0x6f, 0x73, 0x6d, 0x6f, 0x73, 0x2f, 0x6d, 0x73, 0x67, 0x2f, 0x76, 0x31, 0x2f, 0x6d, 0x73,
     0x67, 0x2e, 0x70, 0x72, 0x6f, 0x74, 0x6f, 0x1a, 0x19, 0x63, 0x6f, 0x73, 0x6d, 0x6f, 0x73, 0x5f,
     0x70, 0x72, 0x6f, 0x74, 0x6f, 0x2f, 0x63, 0x6f, 0x73, 0x6d, 0x6f, 0x73, 0x2e, 0x70, 0x72, 0x6f,
     0x74, 0x6f, 0x1a, 0x14, 0x67, 0x6f, 0x67, 0x6f, 0x70, 0x72, 0x6f, 0x74, 0x6f, 0x2f, 0x67, 0x6f,
     0x67, 0x6f, 0x2e, 0x70, 0x72, 0x6f, 0x74, 0x6f, 0x1a, 0x24, 0x62, 0x6c, 0x75, 0x65, 0x63, 0x68,
     0x69, 0x70, 0x63, 0x68, 0x61, 0x69, 0x6e, 0x2f, 0x66, 0x69, 0x78, 0x65, 0x64, 0x6d, 0x69, 0x6e,
     0x74, 0x2f, 0x70, 0x61, 0x72, 0x61, 0x6d, 0x73, 0x2e, 0x70, 0x72, 0x6f, 0x74, 0x6f, 0x22, 0xcb,
     0x01, 0x0a, 0x0f, 0x4d, 0x73, 0x67, 0x55, 0x70, 0x64, 0x61, 0x74, 0x65, 0x50, 0x61, 0x72, 0x61,
     0x6d, 0x73, 0x12, 0x36, 0x0a, 0x09, 0x61, 0x75, 0x74, 0x68, 0x6f, 0x72, 0x69, 0x74, 0x79, 0x18,
     0x01, 0x20, 0x01, 0x28, 0x09, 0x42, 0x18, 0xd2, 0xb4, 0x2d, 0x14, 0x63, 0x6f, 0x73, 0x6d, 0x6f,
     0x73, 0x2e, 0x41, 0x64, 0x64, 0x72, 0x65, 0x73, 0x73, 0x53, 0x74, 0x72, 0x69, 0x6e, 0x67, 0x52,
     0x09, 0x61, 0x75, 0x74, 0x68, 0x6f, 0x72, 0x69, 0x74, 0x79, 0x12, 0x42, 0x0a, 0x06, 0x70, 0x61,
     0x72, 0x61, 0x6d, 0x73, 0x18, 0x02, 0x20, 0x01, 0x28, 0x0b, 0x32, 0x1f, 0x2e, 0x62, 0x6c, 0x75,
     0x65, 0x63, 0x68, 0x69, 0x70, 0x63, 0x68, 0x61, 0x69, 0x6e, 0x2e, 0x66, 0x69, 0x78, 0x65, 0x64,
     0x6d, 0x69, 0x6e, 0x74, 0x2e, 0x50, 0x61, 0x72, 0x61, 0x6d, 0x73, 0x42, 0x09, 0xc8, 0xde, 0x1f,
     0x00, 0xa8, 0xe7, 0xb0, 0x2a, 0x01, 0x52, 0x06, 0x70, 0x61, 0x72, 0x61, 0x6d, 0x73, 0x3a, 0x3c,
     0x82, 0xe7, 0xb0, 0x2a, 0x09, 0x61, 0x75, 0x74, 0x68, 0x6f, 0x72, 0x69, 0x74, 0x79, 0x8a, 0xe7,
     0xb0, 0x2a, 0x29, 0x62, 0x6c, 0x75, 0x65, 0x63, 0x68, 0x69, 0x70, 0x63, 0x68, 0x61, 0x69, 0x6e,
     0x2f, 0x78, 0x2f, 0x66, 0x69, 0x78, 0x65, 0x64, 0x6d, 0x69, 0x6e, 0x74, 0x2f, 0x4d, 0x73, 0x67,
     0x55, 0x70, 0x64, 0x61, 0x74, 0x65, 0x50, 0x61, 0x72, 0x61, 0x6d, 0x73, 0x22, 0x19, 0x0a, 0x17,
     0x4d, 0x73, 0x67, 0x55, 0x70, 0x64, 0x61, 0x74, 0x65, 0x50, 0x61, 0x72, 0x61, 0x6d, 0x73, 0x52,
     0x65, 0x73, 0x70, 0x6f, 0x6e, 0x73, 0x65, 0x32, 0x78, 0x0a, 0x03, 0x4d, 0x73, 0x67, 0x12, 0x6a,
     0x0a, 0x0c, 0x55, 0x70, 0x64, 0x61, 0x74, 0x65, 0x50, 0x61, 0x72, 0x61, 0x6d, 0x73, 0x12, 0x28,
     0x2e, 0x62, 0x6c, 0x75, 0x65, 0x63, 0x68, 0x69, 0x70, 0x63, 0x68, 0x61, 0x69, 0x6e, 0x2e, 0x66,
     0x69, 0x78, 0x65, 0x64, 0x6d, 0x69, 0x6e, 0x74, 0x2e, 0x4d, 0x73, 0x67, 0x55, 0x70, 0x64, 0x61,
     0x74, 0x65, 0x50, 0x61, 0x72, 0x61, 0x6d, 0x73, 0x1a, 0x30, 0x2e, 0x62, 0x6c, 0x75, 0x65, 0x63,
     0x68, 0x69, 0x70, 0x63, 0x68, 0x61, 0x69, 0x6e, 0x2e, 0x66, 0x69, 0x78, 0x65, 0x64, 0x6d, 0x69,
     0x6e, 0x74, 0x2e, 0x4d, 0x73, 0x67, 0x55, 0x70, 0x64, 0x61, 0x74, 0x65, 0x50, 0x61, 0x72, 0x61,
     0x6d, 0x73, 0x52, 0x65, 0x73, 0x70, 0x6f, 0x6e, 0x73, 0x65, 0x1a, 0x05, 0x80, 0xe7, 0xb0, 0x2a,
     0x01, 0x42, 0xce, 0x01, 0x0a, 0x1b, 0x63, 0x6f, 0x6d, 0x2e, 0x62, 0x6c, 0x75, 0x65, 0x63, 0x68,
     0x69, 0x70, 0x63, 0x68, 0x61, 0x69, 0x6e, 0x2e, 0x66, 0x69, 0x78, 0x65, 0x64, 0x6d, 0x69, 0x6e,
     0x74, 0x42, 0x07, 0x54, 0x78, 0x50, 0x72, 0x6f, 0x74, 0x6f, 0x50, 0x01, 0x5a, 0x29, 0x62, 0x6c,
     0x75, 0x65, 0x63, 0x68, 0x69, 0x70, 0x43, 0x68, 0x61, 0x69, 0x6e, 0x2f, 0x61, 0x70, 0x69, 0x2f,
     0x62, 0x6c, 0x75, 0x65, 0x63, 0x68, 0x69, 0x70, 0x63, 0x68, 0x61, 0x69, 0x6e, 0x2f, 0x66, 0x69,
     0x78, 0x65, 0x64, 0x6d, 0x69, 0x6e, 0x74, 0xa2, 0x02, 0x03, 0x42, 0x46, 0x58, 0xaa, 0x02, 0x17,
     0x42, 0x6c, 0x75, 0x65, 0x63, 0x68, 0x69, 0x70, 0x63, 0x68, 0x61, 0x69, 0x6e, 0x2e, 0x46, 0x69,
     0x78, 0x65, 0x64, 0x6d, 0x69, 0x6e, 0x74, 0xca, 0x02, 0x17, 0x42, 0x6c, 0x75, 0x65, 0x63, 0x68,
     0x69, 0x70, 0x63, 0x68, 0x61, 0x69, 0x6e, 0x5c, 0x46, 0x69, 0x78, 0x65, 0x64, 0x6d, 0x69, 0x6e,
     0x74, 0xe2, 0x02, 0x23, 0x42, 0x6c, 0x75, 0x65, 0x63, 0x68, 0x69, 0x70, 0x63, 0x68, 0x61, 0x69,
     0x6e, 0x5c, 0x46, 0x69, 0x78, 0x65, 0x64, 0x6d, 0x69, 0x6e, 0x74, 0x5c, 0x47, 0x50, 0x42, 0x4d,
     0x65, 0x74, 0x61, 0x64, 0x61, 0x74, 0x61, 0xea, 0x02, 0x18, 0x42, 0x6c, 0x75, 0x65, 0x63, 0x68,
     0x69, 0x70, 0x63, 0x68, 0x61, 0x69, 0x6e, 0x3a, 0x3a, 0x46, 0x69, 0x78, 0x65, 0x64, 0x6d, 0x69,
     0x6e, 0x74, 0x62, 0x06, 0x70, 0x72, 0x6f, 0x74, 0x6f, 0x33]"

definition module_rawDesc :: bytes where
  "module_rawDesc = [
     0x0a, 0x2b, 0x62, 0x6c, 0x75, 0x65, 0x63, 0x68, 0x69, 0x70, 0x63, 0x68, 0x61, 0x69, 0x6e, 0x2f,
     0x66, 0x69, 0x78, 0x65, 0x64, 0x6d, 0x69, 0x6e, 0x74, 0x2f, 0x6d, 0x6f, 0x64, 0x75, 0x6c, 0x65,
     0x2f, 0x6d, 0x6f, 0x64, 0x75, 0x6c, 0x65, 0x2e, 0x70, 0x72, 0x6f, 0x74, 0x6f, 0x12, 0x1e, 0x62,
     0x6c, 0x75, 0x65, 0x63, 0x68, 0x69, 0x70, 0x63, 0x68, 0x61, 0x69, 0x6e, 0x2e, 0x66, 0x69, 0x78,
     0x65, 0x64, 0x6d, 0x69, 0x6e, 0x74, 0x2e, 0x6d, 0x6f, 0x64, 0x75, 0x6c, 0x65, 0x1a, 0x20, 0x63,
     0x6f, 0x73, 0x6d, 0x6f, 0x73, 0x2f, 0x61, 0x70, 0x70, 0x2f, 0x76, 0x31, 0x61, 0x6c, 0x70, 0x68,
     0x61, 0x31, 0x2f, 0x6d, 0x6f, 0x64, 0x75, 0x6c, 0x65, 0x2e, 0x70, 0x72, 0x6f, 0x74, 0x6f, 0x22,
     0x49, 0x0a, 0x06, 0x4d, 0x6f, 0x64, 0x75, 0x6c, 0x65, 0x12, 0x1c, 0x0a, 0x09, 0x61, 0x75, 0x74,
     0x68, 0x6f, 0x72, 0x69, 0x74, 0x79, 0x18, 0x01, 0x20, 0x01, 0x28, 0x09, 0x52, 0x09, 0x61, 0x75,
     0x74, 0x68, 0x6f, 0x72, 0x69, 0x74, 0x79, 0x3a, 0x21, 0xba, 0xc0, 0x96, 0xda, 0x01, 0x1b, 0x0a,
     0x19, 0x62, 0x6c, 0x75, 0x65, 0x63, 0x68, 0x69, 0x70, 0x43, 0x68, 0x61, 0x69, 0x6e, 0x2f, 0x78,
     0x2f, 0x66, 0x69, 0x78, 0x65, 0x64, 0x6d, 0x69, 0x6e, 0x74, 0x42, 0xfd, 0x01, 0x0a, 0x22, 0x63,
     0x6f, 0x6d, 0x2e, 0x62, 0x6c, 0x75, 0x65, 0x63, 0x68, 0x69, 0x70, 0x63, 0x68, 0x61, 0x69, 0x6e,
     0x2e, 0x66, 0x69, 0x78, 0x65, 0x64, 0x6d, 0x69, 0x6e, 0x74, 0x2e, 0x6d, 0x6f, 0x64, 0x75, 0x6c,
     0x65, 0x42, 0x0b, 0x4d, 0x6f, 0x64, 0x75, 0x6c, 0x65, 0x50, 0x72, 0x6f, 0x74, 0x6f, 0x50, 0x01,
     0x5a, 0x30, 0x62, 0x6c, 0x75, 0x65, 0x63, 0x68, 0x69, 0x70, 0x43, 0x68, 0x61, 0x69, 0x6e, 0x2f,
     0x61, 0x70, 0x69, 0x2f, 0x62, 0x6c, 0x75, 0x65, 0x63, 0x68, 0x69, 0x70, 0x63, 0x68, 0x61, 0x69,
     0x6e, 0x2f, 0x66, 0x69, 0x78, 0x65, 0x64, 0x6d, 0x69, 0x6e, 0x74, 0x2f, 0x6d, 0x6f, 0x64, 0x75,
     0x6c, 0x65, 0xa2, 0x02, 0x03, 0x42, 0x46, 0x4d, 0xaa, 0x02, 0x1e, 0x42, 0x6c, 0x75, 0x65, 0x63,
     0x68, 0x69, 0x70, 0x63, 0x68, 0x61, 0x69, 0x6e, 0x2e, 0x46, 0x69, 0x78, 0x65, 0x64, 0x6d, 0x69,
     0x6e, 0x74, 0x2e, 0x4d, 0x6f, 0x64, 0x75, 0x6c, 0x65, 0xca, 0x02, 0x1e, 0x42, 0x6c, 0x75, 0x65,
     0x63, 0x68, 0x69, 0x70, 0x63, 0x68, 0x61, 0x69, 0x6e, 0x5c, 0x46, 0x69, 0x78, 0x65, 0x64, 0x6d,
     0x69, 0x6e, 0x74, 0x5c, 0x4d, 0x6f, 0x64, 0x75, 0x6c, 0x65, 0xe2, 0x02, 0x2a, 0x42, 0x6c, 0x75,
     0x65, 0x63, 0x68, 0x69, 0x70, 0x63, 0x68, 0x61, 0x69, 0x6e, 0x5c, 0x46, 0x69, 0x78, 0x65, 0x64,
     0x6d, 0x69, 0x6e, 0x74, 0x5c, 0x4d, 0x6f, 0x64, 0x75, 0x6c, 0x65, 0x5c, 0x47, 0x50, 0x42, 0x4d,
     0x65, 0x74, 0x61, 0x64, 0x61, 0x74, 0x61, 0xea, 0x02, 0x20, 0x42, 0x6c, 0x75, 0x65, 0x63, 0x68,
     0x69, 0x70, 0x63, 0x68, 0x61, 0x69, 0x6e, 0x3a, 0x3a, 0x46, 0x69, 0x78, 0x65, 0x64, 0x6d, 0x69,
     0x6e, 0x74, 0x3a, 0x3a, 0x4d, 0x6f, 0x64, 0x75, 0x6c, 0x65, 0x62, 0x06, 0x70, 0x72, 0x6f, 0x74,
     0x6f, 0x33]"

section \<open>The schemas\<close>

definition params_schema :: file_schema where
  "params_schema =
    \<lparr>flName = ''bluechipchain/fixedmint/params.proto'', flPackage = ''bluechipchain.fixedmint'',
    flImports = [''amino/amino.proto'', ''cosmos_proto/cosmos.proto'', ''gogoproto/gogo.proto''],
    flMessages = [
     \<lparr>msName = ''Params'', msFields = [
       \<lparr>fsName = ''mint_denom'', fsNumber = 1, fsLabel = 1, fsType = 9,
        fsTypeName = '''',
        fsOptions = [], fsJson = ''mintDenom''\<rparr>,
       \<lparr>fsName = ''mint_amount'', fsNumber = 2, fsLabel = 1, fsType = 9,
        fsTypeName = '''',
        fsOptions = [(65001, VarintV 0), textE 65003 ''cosmossdk.io/math.Int'', textE 93002 ''cosmos.Int''],
          fsJson = ''mintAmount''\<rparr>,
       \<lparr>fsName = ''mint_enabled'', fsNumber = 3, fsLabel = 1, fsType = 8,
        fsTypeName = '''',
        fsOptions = [], fsJson = ''mintEnabled''\<rparr>],
      msOptions = [(64013, VarintV 1), textE 11110001 ''bluechipchain/x/fixedmint/Params'']\<rparr>],
    flServices = [],
    flOptions = [textE 1 ''com.bluechipchain.fixedmint'', textE 8 ''ParamsProto'', (10, VarintV 1),
      textE 11 ''bluechipChain/api/bluechipchain/fixedmint'', textE 36 ''BFX'',
      textE 37 ''Bluechipchain.Fixedmint'', textE 41 (''Bluechipchain'' @ [CHR 0x5C] @ ''Fixedmint''),
      textE 44 (''Bluechipchain'' @ [CHR 0x5C] @ ''Fixedmint'' @ [CHR 0x5C] @ ''GPBMetadata''),
      textE 45 ''Bluechipchain::Fixedmint''],
    flSyntax = ''proto3''\<rparr>"

definition genesis_schema :: file_schema where
  "genesis_schema =
    \<lparr>flName = ''bluechipchain/fixedmint/genesis.proto'', flPackage = ''bluechipchain.fixedmint'',
    flImports = [''amino/amino.proto'', ''gogoproto/gogo.proto'', ''bluechipchain/fixedmint/params.proto''],
    flMessages = [
     \<lparr>msName = ''GenesisState'', msFields = [
       \<lparr>fsName = ''params'', fsNumber = 1, fsLabel = 1, fsType = 11,
        fsTypeName = ''.bluechipchain.fixedmint.Params'',
        fsOptions = [(65001, VarintV 0), (11110005, VarintV 1)], fsJson = ''params''\<rparr>],
      msOptions = []\<rparr>],
    flServices = [],
    flOptions = [textE 1 ''com.bluechipchain.fixedmint'', textE 8 ''GenesisProto'', (10, VarintV 1),
      textE 11 ''bluechipChain/api/bluechipchain/fixedmint'', textE 36 ''BFX'',
      textE 37 ''Bluechipchain.Fixedmint'', textE 41 (''Bluechipchain'' @ [CHR 0x5C] @ ''Fixedmint''),
      textE 44 (''Bluechipchain'' @ [CHR 0x5C] @ ''Fixedmint'' @ [CHR 0x5C] @ ''GPBMetadata''),
      textE 45 ''Bluechipchain::Fixedmint''],
    flSyntax = ''proto3''\<rparr>"

definition query_schema :: file_schema where
  "query_schema =
    \<lparr>flName = ''bluechipchain/fixedmint/query.proto'', flPackage = ''bluechipchain.fixedmint'',
    flImports = [''amino/amino.proto'', ''gogoproto/gogo.proto'', ''google/api/annotations.proto'',
      ''cosmos/base/query/v1beta1/pagination.proto'', ''bluechipchain/fixedmint/params.proto''],
    flMessages = [
     \<lparr>msName = ''QueryParamsRequest'', msFields = [],
      msOptions = []\<rparr>,
     \<lparr>msName = ''QueryParamsResponse'', msFields = [
       \<lparr>fsName = ''params'', fsNumber = 1, fsLabel = 1, fsType = 11,
        fsTypeName = ''.bluechipchain.fixedmint.Params'',
        fsOptions = [(65001, VarintV 0), (11110005, VarintV 1)], fsJson = ''params''\<rparr>],
      msOptions = []\<rparr>],
    flServices = [\<lparr>svName = ''Query'', svMethods = [
       \<lparr>mtName = ''Params'', mtInput = ''.bluechipchain.fixedmint.QueryParamsRequest'',
        mtOutput = ''.bluechipchain.fixedmint.QueryParamsResponse'',
        mtOptions = [(72295728,
          BytesV (encodeEntries [textE 2 ''/bluechipChain/fixedmint/params'']))]\<rparr>],
      svOptions = []\<rparr>],
    flOptions = [textE 1 ''com.bluechipchain.fixedmint'', textE 8 ''QueryProto'', (10, VarintV 1),
      textE 11 ''bluechipChain/api/bluechipchain/fixedmint'', textE 36 ''BFX'',
      textE 37 ''Bluechipchain.Fixedmint'', textE 41 (''Bluechipchain'' @ [CHR 0x5C] @ ''Fixedmint''),
      textE 44 (''Bluechipchain'' @ [CHR 0x5C] @ ''Fixedmint'' @ [CHR 0x5C] @ ''GPBMetadata''),
      textE 45 ''Bluechipchain::Fixedmint''],
    flSyntax = ''proto3''\<rparr>"

definition tx_schema :: file_schema where
  "tx_schema =
    \<lparr>flName = ''bluechipchain/fixedmint/tx.proto'', flPackage = ''bluechipchain.fixedmint'',
    flImports = [''amino/amino.proto'', ''cosmos/msg/v1/msg.proto'', ''cosmos_proto/cosmos.proto'',
      ''gogoproto/gogo.proto'', ''bluechipchain/fixedmint/params.proto''],
    flMessages = [
     \<lparr>msName = ''MsgUpdateParams'', msFields = [
       \<lparr>fsName = ''authority'', fsNumber = 1, fsLabel = 1, fsType = 9,
        fsTypeName = '''',
        fsOptions = [textE 93002 ''cosmos.AddressString''], fsJson = ''authority''\<rparr>,
       \<lparr>fsName = ''params'', fsNumber = 2, fsLabel = 1, fsType = 11,
        fsTypeName = ''.bluechipchain.fixedmint.Params'',
        fsOptions = [(65001, VarintV 0), (11110005, VarintV 1)], fsJson = ''params''\<rparr>],
      msOptions = [textE 11110000 ''authority'',
        textE 11110001 ''bluechipchain/x/fixedmint/MsgUpdateParams'']\<rparr>,
     \<lparr>msName = ''MsgUpdateParamsResponse'', msFields = [],
      msOptions = []\<rparr>],
    flServices = [\<lparr>svName = ''Msg'', svMethods = [
       \<lparr>mtName = ''UpdateParams'', mtInput = ''.bluechipchain.fixedmint.MsgUpdateParams'',
        mtOutput = ''.bluechipchain.fixedmint.MsgUpdateParamsResponse'',
        mtOptions = []\<rparr>],
      svOptions = [(11110000, VarintV 1)]\<rparr>],
    flOptions = [textE 1 ''com.bluechipchain.fixedmint'', textE 8 ''TxProto'', (10, VarintV 1),
      textE 11 ''bluechipChain/api/bluechipchain/fixedmint'', textE 36 ''BFX'',
      textE 37 ''Bluechipchain.Fixedmint'', textE 41 (''Bluechipchain'' @ [CHR 0x5C] @ ''Fixedmint''),
      textE 44 (''Bluechipchain'' @ [CHR 0x5C] @ ''Fixedmint'' @ [CHR 0x5C] @ ''GPBMetadata''),
      textE 45 ''Bluechipchain::Fixedmint''],
    flSyntax = ''proto3''\<rparr>"

definition module_schema :: file_schema where
  "module_schema =
    \<lparr>flName = ''bluechipchain/fixedmint/module/module.proto'',
      flPackage = ''bluechipchain.fixedmint.module'',
    flImports = [''cosmos/app/v1alpha1/module.proto''],
    flMessages = [
     \<lparr>msName = ''Module'', msFields = [
       \<lparr>fsName = ''authority'', fsNumber = 1, fsLabel = 1, fsType = 9,
        fsTypeName = '''',
        fsOptions = [], fsJson = ''authority''\<rparr>],
      msOptions = [(57193479, BytesV (encodeEntries [textE 1 ''bluechipChain/x/fixedmint'']))]\<rparr>],
    flServices = [],
    flOptions = [textE 1 ''com.bluechipchain.fixedmint.module'', textE 8 ''ModuleProto'', (10, VarintV 1),
      textE 11 ''bluechipChain/api/bluechipchain/fixedmint/module'', textE 36 ''BFM'',
      textE 37 ''Bluechipchain.Fixedmint.Module'',
      textE 41 (''Bluechipchain'' @ [CHR 0x5C] @ ''Fixedmint'' @ [CHR 0x5C] @ ''Module''),
      textE 44 (''Bluechipchain'' @ [CHR 0x5C] @ ''Fixedmint'' @ [CHR 0x5C] @ ''Module'' @ [CHR 0x5C] @ ''GPBMetadata''), textE 45 ''Bluechipchain::Fixedmint::Module''],
    flSyntax = ''proto3''\<rparr>"

section \<open>The tables declare the schemas\<close>

text \<open>Evaluation of an encoding: lengths as numerals, bytes of constant texts.\<close>

fun blen :: "'a list \<Rightarrow> nat" where
  "blen [] = 0"
| "blen (x # xs) = blen xs + 1"

lemma length_blen: "length xs = blen xs"
  by (induction xs) simp_all

lemmas encode_eval = encodeFile_def fileEntries_def messageEntries_def fieldEntries_def serviceEntries_def
  methodEntries_def optionsE_def optE_def textE_def encodeEntries_def length_blen vint.simps bytes_of_def
  byte_of_char_def

lemma params_table: "params_rawDesc = encodeFile params_schema"
  by (simp add: params_rawDesc_def params_schema_def encode_eval del: list.size)

lemma genesis_table: "genesis_rawDesc = encodeFile genesis_schema"
  by (simp add: genesis_rawDesc_def genesis_schema_def encode_eval del: list.size)

lemma query_table: "query_rawDesc = encodeFile query_schema"
  by (simp add: query_rawDesc_def query_schema_def encode_eval del: list.size)

lemma tx_table: "tx_rawDesc = encodeFile tx_schema"
  by (simp add: tx_rawDesc_def tx_schema_def encode_eval del: list.size)

lemma module_table: "module_rawDesc = encodeFile module_schema"
  by (simp add: module_rawDesc_def module_schema_def encode_eval del: list.size)

end
