(* ===== verification/Varint.thy ===== *)
theory Varint
  imports Prelude
begin

text \<open>
  The wire primitives that the generated codecs of \<open>x/fixedmint/types\<close> repeat in every file
  (\<open>params.pb.go\<close>, \<open>genesis.pb.go\<close>, \<open>tx.pb.go\<close>, \<open>query.pb.go\<close>): reading and writing base-128
  varints, their size, zigzag size, length-delimited fields, and skipping a field. The only
  difference between the files is the suffix of the sentinel errors, which is the first argument
  here. The reference is \<open>varint\<close>, the byte list of a 64-bit value.
\<close>

section \<open>Reading\<close>

text \<open>
  The inner loop \<open>for shift := uint(0); ; shift += 7\<close> of every \<open>Unmarshal\<close>: it accumulates
  seven bits a byte. The code reads some values into a \<open>uint64\<close> and others into an \<open>int\<close>; both
  are the same 64 bits, read with \<open>uint\<close> or \<open>sint\<close> by the caller.
\<close>

function readVarint :: "string \<Rightarrow> bytes \<Rightarrow> nat \<Rightarrow> nat \<Rightarrow> u64 \<Rightarrow> (u64 \<times> nat) res" where
  "readVarint f d iNdEx shift wire =
     (if shift \<ge> 64 then Inl (ErrIntOverflow f)
      else if iNdEx \<ge> length d then Inl ErrUnexpectedEOF
      else let b = d ! iNdEx;
               wire' = wire OR push_bit shift (ucast (b AND 0x7F))
           in if b < 0x80 then Inr (wire', Suc iNdEx)
              else readVarint f d (Suc iNdEx) (shift + 7) wire')"
  by pat_completeness auto
termination
  by (relation "measure (\<lambda>(f, d, iNdEx, shift, wire). 64 - shift)") auto

declare readVarint.simps [simp del]

text \<open>The loop that steps over a varint without keeping its value (wire type 0 of \<open>skip\<close>).\<close>

function skipVarint :: "string \<Rightarrow> bytes \<Rightarrow> nat \<Rightarrow> nat \<Rightarrow> nat res" where
  "skipVarint f d iNdEx shift =
     (if shift \<ge> 64 then Inl (ErrIntOverflow f)
      else if iNdEx \<ge> length d then Inl ErrUnexpectedEOF
      else if d ! iNdEx < 0x80 then Inr (Suc iNdEx)
      else skipVarint f d (Suc iNdEx) (shift + 7))"
  by pat_completeness auto
termination
  by (relation "measure (\<lambda>(f, d, iNdEx, shift). 64 - shift)") auto

declare skipVarint.simps [simp del]

text \<open>Both loops move forward, stay inside the slice and never panic.\<close>

lemma readVarint_progress:
  "readVarint f d i s w = Inr (v, j) \<Longrightarrow> i < j \<and> j \<le> length d"
proof (induction f d i s w rule: readVarint.induct)
  case (1 f d i s w)
  show ?case
  proof (cases "64 \<le> s \<or> length d \<le> i \<or> d ! i < 0x80")
    case True
    with "1.prems" show ?thesis by (subst (asm) readVarint.simps) (auto simp: Let_def split: if_splits)
  next
    case False
    with "1.prems" have "readVarint f d (Suc i) (s + 7) (w OR push_bit s (ucast (d ! i AND 0x7F))) = Inr (v, j)"
      by (subst (asm) readVarint.simps) (simp add: Let_def)
    with False "1.IH" [OF _ _ refl refl] show ?thesis by simp
  qed
qed

lemma skipVarint_progress:
  "skipVarint f d i s = Inr j \<Longrightarrow> i < j \<and> j \<le> length d"
proof (induction f d i s rule: skipVarint.induct)
  case (1 f d i s)
  show ?case
  proof (cases "64 \<le> s \<or> length d \<le> i \<or> d ! i < 0x80")
    case True
    with "1.prems" show ?thesis by (subst (asm) skipVarint.simps) (auto split: if_splits)
  next
    case False
    with "1.prems" have "skipVarint f d (Suc i) (s + 7) = Inr j"
      by (subst (asm) skipVarint.simps) simp
    with False "1.IH" show ?thesis by simp
  qed
qed

lemma readVarint_clean [simp]: "clean (readVarint f d i s w)"
proof (induction f d i s w rule: readVarint.induct)
  case (1 f d i s w)
  then show ?case by (subst readVarint.simps) (auto simp: Let_def)
qed

lemma skipVarint_clean [simp]: "clean (skipVarint f d i s)"
proof (induction f d i s rule: skipVarint.induct)
  case (1 f d i s)
  then show ?case by (subst skipVarint.simps) auto
qed

text \<open>
  Reading is local: bytes after the ones consumed do not matter, and neither do the bytes before
  the start.
\<close>

lemma readVarint_append:
  "readVarint f d i s w = Inr (v, j) \<Longrightarrow> readVarint f (d @ e) i s w = Inr (v, j)"
proof (induction f d i s w rule: readVarint.induct)
  case (1 f d i s w)
  then have lt: "s < 64" "i < length d"
    by (subst (asm) (3) readVarint.simps; auto split: if_splits)+
  with 1 show ?case
    by (subst readVarint.simps, subst (asm) (3) readVarint.simps)
       (auto simp: Let_def nth_append split: if_splits)
qed

lemma skipVarint_append:
  "skipVarint f d i s = Inr j \<Longrightarrow> skipVarint f (d @ e) i s = Inr j"
proof (induction f d i s rule: skipVarint.induct)
  case (1 f d i s)
  then have lt: "s < 64" "i < length d"
    by (subst (asm) (3) skipVarint.simps; auto split: if_splits)+
  with 1 show ?case
    by (subst skipVarint.simps, subst (asm) (3) skipVarint.simps)
       (auto simp: nth_append split: if_splits)
qed

lemma readVarint_shift:
  "readVarint f (p @ d) (length p + i) s w =
     map_sum id (\<lambda>(v, j). (v, length p + j)) (readVarint f d i s w)"
proof (induction f d i s w rule: readVarint.induct)
  case (1 f d i s w)
  then show ?case
    by (subst readVarint.simps, subst (2) readVarint.simps) (auto simp: Let_def id_def)
qed

lemma skipVarint_shift:
  "skipVarint f (p @ d) (length p + i) s = map_sum id (\<lambda>j. length p + j) (skipVarint f d i s)"
proof (induction f d i s rule: skipVarint.induct)
  case (1 f d i s)
  then show ?case
    by (subst skipVarint.simps, subst (2) skipVarint.simps) (auto simp: id_def)
qed

section \<open>The reference encoding and its size\<close>

function varint :: "u64 \<Rightarrow> bytes" where
  "varint v = (if v < 0x80 then [ucast v]
               else (ucast (v AND 0x7F) OR 0x80) # varint (drop_bit 7 v))"
  by pat_completeness auto
termination
proof (relation "measure unat")
  fix v :: u64 assume "\<not> v < 0x80"
  then have "128 \<le> unat v" by (simp add: not_less word_le_nat_alt)
  then show "(drop_bit 7 v, v) \<in> measure unat"
    by (simp add: unat_drop_bit_eq) (simp add: drop_bit_eq_div)
qed simp

declare varint.simps [simp del]

text \<open>\<open>math_bits.Len64\<close>: the number of bits needed to write the value.\<close>

fun bit_len :: "nat \<Rightarrow> nat" where
  "bit_len n = (if n = 0 then 0 else Suc (bit_len (n div 2)))"

declare bit_len.simps [simp del]

definition Len64 :: "u64 \<Rightarrow> nat" where
  "Len64 x = bit_len (unat x)"

definition sov :: "u64 \<Rightarrow> nat" where
  "sov x = (Len64 (x OR 1) + 6) div 7"

definition soz :: "u64 \<Rightarrow> nat" where
  "soz x = sov (push_bit 1 x XOR signed_drop_bit 63 x)"

lemma bit_len_le: "n < 2 ^ k \<Longrightarrow> bit_len n \<le> k"
proof (induction k arbitrary: n)
  case 0
  then show ?case by (simp add: bit_len.simps)
next
  case (Suc k)
  then have "bit_len (n div 2) \<le> k" by (intro Suc.IH) auto
  then show ?case by (subst bit_len.simps) auto
qed

lemma bit_len_step: "2 ^ k \<le> m \<Longrightarrow> bit_len m = Suc k + bit_len (m div 2 ^ Suc k)"
proof (induction k arbitrary: m)
  case 0
  then show ?case by (subst bit_len.simps) auto
next
  case (Suc k)
  then have "bit_len (m div 2) = Suc k + bit_len (m div 2 div 2 ^ Suc k)"
    by (intro Suc.IH) auto
  moreover have "m \<noteq> 0"
    using Suc.prems by (intro notI) simp
  ultimately show ?case
    by (subst bit_len.simps) (simp add: div_mult2_eq [symmetric] mult.assoc [symmetric])
qed

lemma unat_drop_bit_7: "unat (drop_bit 7 v) = unat v div 128" for v :: u64
  unfolding unat_drop_bit_eq by (simp add: drop_bit_eq_div)

lemma sov_alt: "sov x = Suc (bit_len (unat x div 2) div 7)"
proof -
  have "unat (x OR 1) = unat x OR 1" by (simp add: unsigned_or_eq)
  also have "\<dots> = unat x + of_bool (even (unat x))" by (rule or_one_eq)
  finally have u: "unat (x OR 1) = unat x + of_bool (even (unat x))" .
  then have "unat (x OR 1) div 2 = unat x div 2" "unat (x OR 1) \<noteq> 0"
    by (auto simp: of_bool_def intro!: Nat.gr0I)
  then have "bit_len (unat (x OR 1)) = Suc (bit_len (unat x div 2))"
    by (subst bit_len.simps) simp
  then show ?thesis by (simp add: sov_def Len64_def)
qed

lemma sov_varint: "sov v = length (varint v)"
proof (induction v rule: varint.induct)
  case (1 v)
  show ?case
  proof (cases "v < 0x80")
    case True
    then have "unat v div 2 < 2 ^ 6" by (simp add: word_less_nat_alt)
    then have "bit_len (unat v div 2) div 7 = 0" using bit_len_le by fastforce
    with True show ?thesis by (subst varint.simps) (simp add: sov_alt)
  next
    case False
    then have "2 ^ 6 \<le> unat v div 2" by (simp add: word_less_nat_alt)
    then have "bit_len (unat v div 2) = 7 + bit_len (unat v div 2 div 2 ^ 7)"
      by (subst bit_len_step [of 6]) auto
    moreover have "unat v div 2 div 2 ^ 7 = unat (drop_bit 7 v) div 2"
      by (simp only: unat_drop_bit_7 div_mult2_eq [symmetric]) simp
    ultimately have "sov v = Suc (sov (drop_bit 7 v))" by (simp add: sov_alt)
    with False "1.IH" show ?thesis by (subst varint.simps) simp
  qed
qed

lemma sov_pos [simp]: "0 < sov v"
  by (simp add: sov_alt)

lemma sov_le_10: "sov v \<le> 10"
proof -
  have "unat v div 2 < 2 ^ 63" using unsigned_less [of v, where 'a = nat] by simp
  then have "bit_len (unat v div 2) \<le> 63" by (rule bit_len_le)
  then show ?thesis by (simp add: sov_alt)
qed

lemma length_varint_le_10: "length (varint v) \<le> 10"
  using sov_le_10 [of v] by (simp add: sov_varint)

lemma varint_not_Nil [simp]: "varint v \<noteq> []"
  by (subst varint.simps) auto

section \<open>Reading what was written\<close>

lemma and_0x7F: "x AND 0x7F = take_bit 7 (x :: 'a::len word)"
  by (simp add: take_bit_eq_mask mask_numeral)

lemma low_bits_first: "v < 0x80 \<Longrightarrow> ucast ((ucast v :: u8) AND 0x7F) = (v :: u64)"
proof -
  assume "v < 0x80"
  then have "unat v < 2 ^ 7" by (simp add: word_less_nat_alt)
  then have "take_bit 7 v = v"
    by (intro word_unat_eq_iff [THEN iffD2])
       (simp add: unsigned_take_bit_eq take_bit_nat_eq_self)
  moreover have "ucast (take_bit 7 (ucast v :: u8)) = take_bit 7 v"
    by (rule bit_word_eqI) (auto simp: bit_simps)
  ultimately show ?thesis by (simp add: and_0x7F)
qed

lemma low_bits_more: "ucast ((ucast (v AND 0x7F) OR 0x80 :: u8) AND 0x7F) = (take_bit 7 v :: u64)"
proof -
  have "take_bit 7 (0x80 :: u8) = 0" by simp
  then have "take_bit 7 (ucast (take_bit 7 v) OR 0x80 :: u8) = take_bit 7 (ucast (take_bit 7 v))"
    by (simp only: take_bit_or) simp
  moreover have "ucast (take_bit 7 (ucast (take_bit 7 v) :: u8)) = take_bit 7 v"
    by (rule bit_word_eqI) (auto simp: bit_simps)
  ultimately show ?thesis by (simp add: and_0x7F)
qed

lemma continuation_bit: "\<not> (ucast (v AND 0x7F) OR 0x80 :: u8) < 0x80" for v :: u64
proof -
  have "(0x80 :: u8) \<le> 0x80 OR ucast (v AND 0x7F)"
    by (rule le_word_or2)
  then show ?thesis by (simp add: or.commute not_less)
qed

lemma last_byte_small: "v < 0x80 \<Longrightarrow> (ucast v :: u8) < 0x80" for v :: u64
  by (simp add: word_less_nat_alt unsigned_ucast_eq take_bit_nat_eq_self)

lemma push_bit_split: "push_bit s (take_bit 7 v) OR push_bit (s + 7) (drop_bit 7 v) = push_bit s (v :: u64)"
proof (rule bit_word_eqI)
  fix n
  have "s \<le> n \<Longrightarrow> \<not> n - s < 7 \<Longrightarrow> 7 + (n - (s + 7)) = n - s \<and> s + 7 \<le> n" by simp
  then show "bit (push_bit s (take_bit 7 v) OR push_bit (s + 7) (drop_bit 7 v)) n = bit (push_bit s v) n"
    by (cases "n - s < 7") (auto simp: bit_simps)
qed

lemma readVarint_varint_gen:
  "s < 64 \<Longrightarrow> unat v < 2 ^ (64 - s) \<Longrightarrow>
   readVarint f (p @ varint v @ r) (length p) s w =
     Inr (w OR push_bit s v, length p + length (varint v))"
proof (induction v arbitrary: p s w rule: varint.induct)
  case (1 v)
  show ?case
  proof (cases "v < 0x80")
    case True
    then have "varint v = [ucast v]" by (subst varint.simps) simp
    with True "1.prems"(1) show ?thesis
      by (subst readVarint.simps) (simp add: Let_def last_byte_small low_bits_first)
  next
    case False
    define b :: u8 where "b = ucast (v AND 0x7F) OR 0x80"
    have vv: "varint v = b # varint (drop_bit 7 v)"
      using False by (subst varint.simps) (simp add: b_def)
    have "2 ^ 7 \<le> unat v" using False by (simp add: word_less_nat_alt)
    then have "(2::nat) ^ 7 < 2 ^ (64 - s)" using "1.prems"(2) by (rule le_less_trans)
    then have s7: "s + 7 < 64" by (subst (asm) power_strict_increasing_iff) auto
    have "unat (drop_bit 7 v) < 2 ^ (64 - (s + 7))"
    proof -
      have "(2::nat) ^ (64 - s) = 2 ^ (64 - (s + 7)) * 2 ^ 7"
        using s7 by (subst power_add [symmetric]) (rule arg_cong [where f = "power 2"], simp)
      then show ?thesis
        using "1.prems"(2) by (simp add: unat_drop_bit_7 less_mult_imp_div_less)
    qed
    then have IH: "readVarint f ((p @ [b]) @ varint (drop_bit 7 v) @ r) (length (p @ [b])) (s + 7)
        (w OR push_bit s (take_bit 7 v)) =
      Inr ((w OR push_bit s (take_bit 7 v)) OR push_bit (s + 7) (drop_bit 7 v),
           length (p @ [b]) + length (varint (drop_bit 7 v)))"
      using s7 by (intro "1.IH" [OF False])
    have nb: "\<not> b < 0x80" "ucast (b AND 0x7F) = take_bit 7 v"
      unfolding b_def by (rule continuation_bit, rule low_bits_more)
    have "readVarint f (p @ varint v @ r) (length p) s w =
        readVarint f ((p @ [b]) @ varint (drop_bit 7 v) @ r) (length (p @ [b])) (s + 7)
          (w OR push_bit s (take_bit 7 v))"
      using "1.prems"(1) nb by (subst readVarint.simps) (simp add: Let_def vv)
    with IH show ?thesis
      by (simp add: vv or.assoc push_bit_split)
  qed
qed

lemma readVarint_varint [simp]:
  "readVarint f (p @ varint v @ r) (length p) 0 0 = Inr (v, length p + length (varint v))"
proof -
  have "unat v < 2 ^ 64" using unsigned_less [of v, where 'a = nat] by simp
  then show ?thesis by (subst readVarint_varint_gen) auto
qed

section \<open>Length-delimited fields\<close>

text \<open>
  Wire type 2: a length, read into an \<open>int\<close>; a negative length or a length whose end overflows
  is \<open>ErrInvalidLength\<close>, an end beyond the slice \<open>io.ErrUnexpectedEOF\<close>. The result is the
  field's bytes and the index after them.
\<close>

definition readLen :: "string \<Rightarrow> bytes \<Rightarrow> nat \<Rightarrow> (bytes \<times> nat) res" where
  "readLen f d iNdEx =
     bindR (readVarint f d iNdEx 0 0) (\<lambda>(w, i).
       let msglen = sint w in
       if msglen < 0 then Inl (ErrInvalidLength f)
       else let postIndex = wrap64 (int i + msglen) in
         if postIndex < 0 then Inl (ErrInvalidLength f)
         else if postIndex > int (length d) then Inl ErrUnexpectedEOF
         else bindR (gslice d i (nat postIndex)) (\<lambda>bs. Inr (bs, nat postIndex)))"

section \<open>Skipping a field\<close>

text \<open>
  \<open>skipParams\<close> and its copies: one iteration reads a tag and steps over the field's payload;
  start-group and end-group tags change the nesting depth. The new index may have overflowed,
  which the code checks before the next iteration.
\<close>

definition skipStep :: "string \<Rightarrow> bytes \<Rightarrow> nat \<Rightarrow> int \<Rightarrow> nat \<Rightarrow> (int \<times> nat) res" where
  "skipStep f d iNdEx wireType depth =
     (if wireType = 0 then bindR (skipVarint f d iNdEx 0) (\<lambda>i. Inr (int i, depth))
      else if wireType = 1 then Inr (wrap64 (int iNdEx + 8), depth)
      else if wireType = 2 then
        bindR (readVarint f d iNdEx 0 0) (\<lambda>(w, i).
          let len = sint w in
          if len < 0 then Inl (ErrInvalidLength f)
          else Inr (wrap64 (int i + len), depth))
      else if wireType = 3 then Inr (int iNdEx, depth + 1)
      else if wireType = 4 then
        (if depth = 0 then Inl (ErrUnexpectedEndOfGroup f) else Inr (int iNdEx, depth - 1))
      else if wireType = 5 then Inr (wrap64 (int iNdEx + 4), depth)
      else Inl (IllegalWireType wireType))"

fun skipLoop :: "nat \<Rightarrow> string \<Rightarrow> bytes \<Rightarrow> nat \<Rightarrow> nat \<Rightarrow> int res" where
  "skipLoop 0 f d iNdEx depth = Inl OutOfFuel"
| "skipLoop (Suc fuel) f d iNdEx depth =
     (if iNdEx \<ge> length d then Inl ErrUnexpectedEOF
      else bindR (readVarint f d iNdEx 0 0) (\<lambda>(wire, i).
        bindR (skipStep f d i (uint (wire AND 7)) depth) (\<lambda>(i', depth').
          if i' < 0 then Inl (ErrInvalidLength f)
          else if depth' = 0 then Inr i'
          else skipLoop fuel f d (nat i') depth')))"

definition skip :: "string \<Rightarrow> bytes \<Rightarrow> int res" where
  "skip f d = skipLoop (Suc (length d)) f d 0 0"

text \<open>The lengths a varint can carry, read as an \<open>int\<close>.\<close>

lemma sint_bounds: "- (2 ^ 63) \<le> sint (w :: u64)" "sint (w :: u64) < 2 ^ 63"
  using sint_greater_eq [of w] sint_less [of w] by simp_all

lemma sint_of_length:
  "n < 2 ^ 63 \<Longrightarrow> sint (word_of_nat n :: u64) = int n"
  by (simp add: signed_of_nat signed_take_bit_int_eq_self)

text \<open>A slice whose length fits into Go's \<open>int\<close>, as every slice does.\<close>

definition go_slice :: "'a list \<Rightarrow> bool" where
  "go_slice d \<longleftrightarrow> length d < 2 ^ 63"

lemma go_slice_append [intro]: "go_slice (d @ e) \<Longrightarrow> go_slice d" "go_slice (d @ e) \<Longrightarrow> go_slice e"
  by (auto simp: go_slice_def)

lemma go_slice_drop [intro]: "go_slice d \<Longrightarrow> go_slice (drop i d)"
  by (auto simp: go_slice_def)

lemma readLen_progress:
  assumes "go_slice d" and "readLen f d i = Inr (bs, j)"
  shows "i < j \<and> j \<le> length d"
proof -
  from assms(2) obtain w k where r: "readVarint f d i 0 0 = Inr (w, k)"
    and len: "0 \<le> sint w" "0 \<le> wrap64 (int k + sint w)" "wrap64 (int k + sint w) \<le> int (length d)"
    and j: "j = nat (wrap64 (int k + sint w))"
    by (auto simp: readLen_def Let_def bindR_Inr_conv split: if_splits prod.splits)
  from r have k: "i < k" "k \<le> length d" by (auto dest: readVarint_progress)
  have "wrap64 (int k + sint w) = int k + sint w"
    using len k assms(1) sint_bounds(2) [of w] by (intro wrap64_nonneg_sum) (auto simp: go_slice_def)
  with j len k show ?thesis by auto
qed

lemma readLen_clean [simp]: "go_slice d \<Longrightarrow> clean (readLen f d i)"
proof (cases "readVarint f d i 0 0")
  case (Inl e)
  then show ?thesis using readVarint_clean [of f d i 0 0] by (simp add: readLen_def)
next
  case (Inr x)
  obtain w k where x: "x = (w, k)" by (cases x)
  assume d: "go_slice d"
  from Inr x have k: "k \<le> length d" by (auto dest: readVarint_progress)
  have "k \<le> nat (wrap64 (int k + sint w))"
    if "0 \<le> sint w" "0 \<le> wrap64 (int k + sint w)"
  proof -
    have "wrap64 (int k + sint w) = int k + sint w"
      using that k d sint_bounds(2) [of w] by (intro wrap64_nonneg_sum) (auto simp: go_slice_def)
    with that show ?thesis by simp
  qed
  with Inr x show ?thesis
    by (auto simp: readLen_def Let_def gslice_def)
qed

lemma readLen_delimited [simp]:
  assumes "go_slice (p @ varint (word_of_nat (length x)) @ x @ r)"
  shows "readLen f (p @ varint (word_of_nat (length x)) @ x @ r) (length p) =
    Inr (x, length p + length (varint (word_of_nat (length x))) + length x)"
proof -
  let ?v = "varint (word_of_nat (length x))"
  have l: "sint (word_of_nat (length x) :: u64) = int (length x)"
    using assms by (intro sint_of_length) (auto simp: go_slice_def)
  have w: "wrap64 (int (length p + length ?v) + int (length x)) = int (length p + length ?v + length x)"
    using assms by (subst wrap64_id) (auto simp: go_slice_def)
  have "gslice (p @ ?v @ x @ r) (length p + length ?v) (length p + length ?v + length x) = Inr x"
    using gslice_append [of "p @ ?v" x r] by simp
  moreover have "nat (int (length p + length ?v + length x)) = length p + length ?v + length x"
    by (rule nat_int)
  ultimately show ?thesis
    using w by (simp only: readLen_def readVarint_varint Let_def bindR.simps prod.case l) simp
qed

lemma wrap64_advance:
  "i < 2 ^ 63 \<Longrightarrow> 0 \<le> n \<Longrightarrow> n < 2 ^ 63 \<Longrightarrow> 0 \<le> wrap64 (int i + n) \<Longrightarrow> int i \<le> wrap64 (int i + n)"
  by (subst wrap64_nonneg_sum) auto

lemma skipStep_progress:
  assumes "go_slice d" "i \<le> length d" "skipStep f d i wt depth = Inr (i', depth')" "0 \<le> i'"
  shows "int i \<le> i'"
proof -
  have i: "i < 2 ^ 63" using assms(1,2) by (simp add: go_slice_def)
  have k: "int i \<le> wrap64 (int k + sint w)"
    if "readVarint f d i 0 0 = Inr (w, k)" "0 \<le> sint w" "0 \<le> wrap64 (int k + sint w)" for w k
  proof -
    from that(1) have "i < k" "k \<le> length d" by (auto dest: readVarint_progress)
    moreover have "int k \<le> wrap64 (int k + sint w)"
      using that \<open>k \<le> length d\<close> assms(1) sint_bounds(2) [of w]
      by (intro wrap64_advance) (auto simp: go_slice_def)
    ultimately show ?thesis by simp
  qed
  from assms(3,4) show ?thesis
    by (auto simp: skipStep_def Let_def bindR_Inr_conv split: if_splits
        dest: skipVarint_progress intro: wrap64_advance [OF i] k)
qed

lemma skipStep_clean [simp]: "clean (skipStep f d i wt depth)"
proof -
  have "clean (bindR (skipVarint f d i 0) (\<lambda>i. Inr (int i, depth)))" by auto
  moreover have "clean (bindR (readVarint f d i 0 0) (\<lambda>(w, i). let len = sint w in
      if len < 0 then Inl (ErrInvalidLength f) else Inr (wrap64 (int i + len), depth)))"
    by (rule clean_bindR) (auto simp: Let_def split: prod.splits)
  ultimately show ?thesis by (auto simp: skipStep_def)
qed

lemma skipLoop_clean:
  assumes "go_slice d" "length d < i + fuel" "0 < fuel"
  shows "clean (skipLoop fuel f d i depth)"
  using assms(2,3)
proof (induction fuel arbitrary: i depth)
  case 0
  then show ?case by simp
next
  case (Suc fuel)
  show ?case
  proof (cases "i \<ge> length d")
    case False
    have "clean (bindR (skipStep f d k (uint (wire AND 7)) depth) (\<lambda>(i', depth').
            if i' < 0 then Inl (ErrInvalidLength f)
            else if depth' = 0 then Inr i' else skipLoop fuel f d (nat i') depth'))"
      if "readVarint f d i 0 0 = Inr (wire, k)" for wire k
    proof (rule clean_bindR [OF skipStep_clean], clarify)
      fix i' depth' assume st: "skipStep f d k (uint (wire AND 7)) depth = Inr (i', depth')"
      from that have k: "i < k" "k \<le> length d" by (auto dest: readVarint_progress)
      show "clean (if i' < 0 then Inl (ErrInvalidLength f)
            else if depth' = 0 then Inr i' else skipLoop fuel f d (nat i') depth')"
      proof (cases "i' < 0")
        case False
        then have "int k \<le> i'" using skipStep_progress [OF assms(1) k(2) st] by simp
        then have "length d < nat i' + fuel" "0 < fuel" using k Suc.prems \<open>\<not> length d \<le> i\<close> by auto
        then show ?thesis using Suc.IH by simp
      qed simp
    qed
    with False show ?thesis by (auto intro!: clean_bindR)
  qed simp
qed

lemma skip_clean [simp]: "go_slice d \<Longrightarrow> clean (skip f d)"
  by (simp add: skip_def skipLoop_clean del: skipLoop.simps)

lemma skipLoop_progress:
  assumes "go_slice d" "skipLoop fuel f d i depth = Inr n"
  shows "int i < n"
  using assms(2)
proof (induction fuel arbitrary: i depth)
  case 0
  then show ?case by simp
next
  case (Suc fuel)
  then obtain wire k i' depth' where r: "readVarint f d i 0 0 = Inr (wire, k)"
    and st: "skipStep f d k (uint (wire AND 7)) depth = Inr (i', depth')"
    and i': "0 \<le> i'" and n: "n = i' \<or> skipLoop fuel f d (nat i') depth' = Inr n"
    by (auto simp: bindR_Inr_conv split: if_splits prod.splits)
  from r have k: "i < k" "k \<le> length d" by (auto dest: readVarint_progress)
  with skipStep_progress [OF assms(1) k(2) st i'] have "int i < i'" by simp
  moreover have "skipLoop fuel f d (nat i') depth' = Inr n \<Longrightarrow> i' < n"
    using Suc.IH i' by fastforce
  ultimately show ?case using n by auto
qed

lemma skip_progress: "go_slice d \<Longrightarrow> skip f d = Inr n \<Longrightarrow> 0 < n"
  unfolding skip_def by (drule (1) skipLoop_progress) simp

text \<open>Skipping is local as well: what it accepts, it accepts before any continuation.\<close>

lemma skipStep_append:
  "skipStep f d i wt depth = Inr r \<Longrightarrow> skipStep f (d @ e) i wt depth = Inr r"
  by (auto simp: skipStep_def bindR_Inr_conv split: if_splits prod.splits
      dest: skipVarint_append readVarint_append)

lemma skipLoop_append:
  "skipLoop fuel f d i depth = Inr n \<Longrightarrow> skipLoop (fuel + k) f (d @ e) i depth = Inr n"
proof (induction fuel arbitrary: i depth)
  case 0
  then show ?case by simp
next
  case (Suc fuel)
  then obtain wire j i' depth' where i: "i < length d"
    and r: "readVarint f d i 0 0 = Inr (wire, j)"
    and st: "skipStep f d j (uint (wire AND 7)) depth = Inr (i', depth')" "0 \<le> i'"
    and n: "if depth' = 0 then n = i' else skipLoop fuel f d (nat i') depth' = Inr n"
    by (auto simp: bindR_Inr_conv split: if_splits prod.splits)
  from st n show ?case
    using Suc.IH [of "nat i'" depth'] i readVarint_append [OF r, of e] skipStep_append [OF st(1), of e]
    by (auto split: if_splits)
qed

lemma skip_append: "skip f d = Inr n \<Longrightarrow> skip f (d @ e) = Inr n"
  unfolding skip_def by (drule skipLoop_append [where k = "length e" and e = e]) simp

lemma skipLoop_int: "go_slice d \<Longrightarrow> skipLoop fuel f d i depth = Inr n \<Longrightarrow> n < 2 ^ 63"
proof (induction fuel arbitrary: i depth)
  case 0
  then show ?case by simp
next
  case (Suc fuel)
  then obtain wire j i' depth' where r: "readVarint f d i 0 0 = Inr (wire, j)"
    and st: "skipStep f d j (uint (wire AND 7)) depth = Inr (i', depth')"
    and n: "n = i' \<or> skipLoop fuel f d (nat i') depth' = Inr n"
    by (auto simp: bindR_Inr_conv split: if_splits prod.splits)
  from r have j: "j \<le> length d" by (auto dest: readVarint_progress)
  have "i' < 2 ^ 63"
    using st j Suc.prems(1) wrap64_bounds(2)
    by (auto simp: skipStep_def Let_def bindR_Inr_conv go_slice_def split: if_splits
        dest!: skipVarint_progress)
  with n Suc show ?case by auto
qed

lemma skip_int: "go_slice d \<Longrightarrow> skip f d = Inr n \<Longrightarrow> n < 2 ^ 63"
  unfolding skip_def by (rule skipLoop_int)

text \<open>The readers inside a longer slice.\<close>

lemma readVarint_local:
  "readVarint f d i 0 0 = Inr (w, k) \<Longrightarrow>
   readVarint f (p @ d @ e) (length p + i) 0 0 = Inr (w, length p + k)"
  using readVarint_append [of f d i 0 0 w k e] readVarint_shift [of f p "d @ e" i 0 0] by simp

lemma readLen_Inr_iff:
  assumes "go_slice d"
  shows "readLen f d i = Inr (bs, j) \<longleftrightarrow>
    (\<exists>w k. readVarint f d i 0 0 = Inr (w, k) \<and> 0 \<le> sint w \<and> j = k + nat (sint w) \<and>
       j \<le> length d \<and> bs = take (j - k) (drop k d))"
proof (cases "readVarint f d i 0 0")
  case (Inl e)
  then show ?thesis by (simp add: readLen_def)
next
  case (Inr x)
  obtain w k where x: "x = (w, k)" by (cases x)
  have k: "k \<le> length d" using Inr x by (auto dest: readVarint_progress)
  show ?thesis
  proof (cases "0 \<le> sint w \<and> 0 \<le> wrap64 (int k + sint w)")
    case True
    then have "wrap64 (int k + sint w) = int k + sint w"
      using k assms sint_bounds(2) [of w] by (intro wrap64_nonneg_sum) (auto simp: go_slice_def)
    moreover have "int (length d) < int k + sint w \<longleftrightarrow> \<not> k + nat (sint w) \<le> length d"
      "nat (int k + sint w) = k + nat (sint w)"
      using True by auto
    ultimately show ?thesis
      using Inr x True by (auto simp: readLen_def Let_def gslice_def)
  next
    case False
    have "\<not> k + nat (sint w) \<le> length d" if "0 \<le> sint w"
    proof
      assume "k + nat (sint w) \<le> length d"
      then have "int k + sint w < 2 ^ 63" using assms that by (simp add: go_slice_def)
      then show False using False that wrap64_id [of "int k + sint w"] by simp
    qed
    with Inr x False show ?thesis by (auto simp: readLen_def Let_def)
  qed
qed

lemma readLen_local:
  assumes "go_slice (p @ d @ e)" "readLen f d i = Inr (bs, j)"
  shows "readLen f (p @ d @ e) (length p + i) = Inr (bs, length p + j)"
proof -
  have d: "go_slice d" using assms(1) by auto
  from assms(2) obtain w k where r: "readVarint f d i 0 0 = Inr (w, k)" "0 \<le> sint w"
      "j = k + nat (sint w)" "j \<le> length d" "bs = take (j - k) (drop k d)"
    unfolding readLen_Inr_iff [OF d] by auto
  then show ?thesis
    unfolding readLen_Inr_iff [OF assms(1)]
    using readVarint_local [OF r(1), of p e] by auto
qed

text \<open>
  A whole field, tag and payload, is skipped in one iteration. The payloads of the four
  ungrouped wire types: a varint, eight bytes, a length with that many bytes, four bytes.
\<close>

definition payload :: "int \<Rightarrow> bytes \<Rightarrow> bool" where
  "payload wt x \<longleftrightarrow>
     (wt = 0 \<and> (\<exists>v. x = varint v)) \<or> (wt = 1 \<and> length x = 8) \<or>
     (wt = 2 \<and> (\<exists>y. x = varint (word_of_nat (length y)) @ y)) \<or> (wt = 5 \<and> length x = 4)"

lemma skipVarint_readVarint:
  "readVarint f d i s w = Inr (v, j) \<Longrightarrow> skipVarint f d i s = Inr j"
proof (induction f d i s w rule: readVarint.induct)
  case (1 f d i s w)
  show ?case
  proof (cases "64 \<le> s \<or> length d \<le> i \<or> d ! i < 0x80")
    case True
    with "1.prems" show ?thesis
      by (subst skipVarint.simps) (subst (asm) readVarint.simps, auto simp: Let_def split: if_splits)
  next
    case False
    with "1.prems" have "readVarint f d (Suc i) (s + 7) (w OR push_bit s (ucast (d ! i AND 0x7F))) = Inr (v, j)"
      by (subst (asm) readVarint.simps) (simp add: Let_def)
    with False "1.IH" [OF _ _ refl refl] show ?thesis by (subst skipVarint.simps) simp
  qed
qed

lemma skipStep_payload:
  assumes d: "go_slice (p @ x)" and x: "payload wt x"
  shows "skipStep f (p @ x) (length p) wt depth = Inr (int (length p + length x), depth)"
proof -
  have w: "wrap64 (int (length p) + int (length x)) = int (length p + length x)"
    using d by (subst wrap64_id) (auto simp: go_slice_def)
  from x consider v where "wt = 0" "x = varint v" | "wt = 1" "length x = 8"
    | y where "wt = 2" "x = varint (word_of_nat (length y)) @ y" | "wt = 5" "length x = 4"
    by (auto simp: payload_def)
  then show ?thesis
  proof cases
    case (1 v)
    have "skipVarint f (p @ varint v) (length p) 0 = Inr (length p + length (varint v))"
      using readVarint_varint [of f p v "[]"] by (intro skipVarint_readVarint [where w = 0 and v = v]) simp
    with 1 show ?thesis by (simp add: skipStep_def)
  next
    case 2
    with w show ?thesis by (simp add: skipStep_def)
  next
    case (3 y)
    let ?v = "varint (word_of_nat (length y))"
    have l: "sint (word_of_nat (length y) :: u64) = int (length y)"
      using d 3 by (intro sint_of_length) (auto simp: go_slice_def)
    have "wrap64 (int (length p + length ?v) + int (length y)) = int (length p + length x)"
      using w 3 by (simp add: add.assoc)
    then show ?thesis
      using 3 l by (simp only: skipStep_def readVarint_varint Let_def bindR.simps prod.case) simp
  next
    case 4
    with w show ?thesis by (simp add: skipStep_def)
  qed
qed

lemma skip_field:
  assumes "go_slice (varint w @ x)" "payload (uint (w AND 7)) x"
  shows "skip f (varint w @ x) = Inr (int (length (varint w @ x)))"
  using readVarint_varint [of f "[]" w x] skipStep_payload [OF assms, of f 0]
  by (simp add: skip_def)

end
