(* ===== verification/Wire.thy ===== *)
theory Wire
  imports Varint
begin

text \<open>
  What the generated marshalling code of every message shares. The writers fill a buffer from its
  end: \<open>putByte\<close>, \<open>putBytes\<close>, \<open>encodeVarint\<close> and \<open>putNested\<close> are the statements of
  \<open>MarshalToSizedBuffer\<close>, over the state (buffer, index), with Go's bounds checks. The readers
  share the loop over fields, \<open>unmarshalLoop\<close>. Two locales state the contracts: a
  field decoder (what the switch of an \<open>Unmarshal\<close> promises to its loop) and a wire message
  (what a message's methods promise to a message that embeds it).
\<close>

section \<open>Writing backwards into a buffer\<close>

type_synonym wbuf = "bytes \<times> nat"

text \<open>\<open>i--; dAtA[i] = b\<close>\<close>

fun putByte :: "u8 \<Rightarrow> wbuf \<Rightarrow> wbuf res" where
  "putByte b (d, i) =
     (if 1 \<le> i \<and> i \<le> length d then Inr (d[i - 1 := b], i - 1)
      else Inl (Panic ''index out of range''))"

text \<open>\<open>i -= len(x); copy(dAtA[i:], x)\<close>\<close>

fun putBytes :: "bytes \<Rightarrow> wbuf \<Rightarrow> wbuf res" where
  "putBytes x (d, i) =
     (if length x \<le> i \<and> i - length x \<le> length d then
        let j = i - length x
        in Inr (take j d @ take (length d - j) x @ drop (j + length x) d, j)
      else Inl (Panic ''slice bounds out of range''))"

text \<open>The loop of \<open>encodeVarint\<close>, from \<open>offset\<close> upwards.\<close>

function encodeLoop :: "bytes \<Rightarrow> nat \<Rightarrow> u64 \<Rightarrow> bytes res" where
  "encodeLoop d offset v =
     (if offset < length d then
        (if v \<ge> 0x80
         then encodeLoop (d[offset := ucast ((v AND 0x7F) OR 0x80)]) (Suc offset) (drop_bit 7 v)
         else Inr (d[offset := ucast v]))
      else Inl (Panic ''index out of range''))"
  by pat_completeness auto
termination
  by (relation "measure (\<lambda>(d, offset, v). length d - offset)") auto

declare encodeLoop.simps [simp del]

fun encodeVarint :: "u64 \<Rightarrow> wbuf \<Rightarrow> wbuf res" where
  "encodeVarint v (d, offset) =
     (if sov v \<le> offset
      then bindR (encodeLoop d (offset - sov v) v) (\<lambda>d'. Inr (d', offset - sov v))
      else Inl (Panic ''index out of range''))"

text \<open>\<open>writes x op\<close>: given room for \<open>x\<close> below the index, \<open>op\<close> puts \<open>x\<close> there and nothing else.\<close>

definition writes :: "bytes \<Rightarrow> (wbuf \<Rightarrow> wbuf res) \<Rightarrow> bool" where
  "writes x op \<longleftrightarrow>
     (\<forall>p hole s. length hole = length x \<longrightarrow>
        op (p @ hole @ s, length p + length x) = Inr (p @ x @ s, length p))"

lemma writesD:
  "writes x op \<Longrightarrow> length hole = length x \<Longrightarrow>
   op (p @ hole @ s, length p + length x) = Inr (p @ x @ s, length p)"
  by (simp add: writes_def)

named_theorems writes_intros "what the statements of a MarshalToSizedBuffer write"

lemma writes_byte [writes_intros]: "writes [b] (putByte b)"
  by (auto simp: writes_def length_Suc_conv list_update_append)

lemma writes_bytes [writes_intros]: "writes x (putBytes x)"
  by (auto simp: writes_def Let_def)

lemma writes_nothing [writes_intros]: "writes [] Inr"
  by (simp add: writes_def)

lemma writes_seq [writes_intros]:
  assumes "writes x op1" "writes y op2"
  shows "writes (y @ x) (\<lambda>b. bindR (op1 b) op2)"
  unfolding writes_def
proof (intro allI impI)
  fix p hole s :: bytes assume h: "length hole = length (y @ x)"
  define h1 h2 where "h1 = take (length y) hole" and "h2 = drop (length y) hole"
  have hh: "hole = h1 @ h2" "length h1 = length y" "length h2 = length x"
    using h by (auto simp: h1_def h2_def)
  have "op1 ((p @ h1) @ h2 @ s, length (p @ h1) + length x) = Inr ((p @ h1) @ x @ s, length (p @ h1))"
    by (rule writesD [OF assms(1) hh(3)])
  moreover have "op2 (p @ h1 @ x @ s, length p + length y) = Inr (p @ y @ x @ s, length p)"
    by (rule writesD [OF assms(2) hh(2)])
  ultimately show "bindR (op1 (p @ hole @ s, length p + length (y @ x))) op2 = Inr (p @ (y @ x) @ s, length p)"
    using hh by (simp add: add.assoc)
qed

lemma writes_if [writes_intros]:
  "(c \<Longrightarrow> writes x op1) \<Longrightarrow> (\<not> c \<Longrightarrow> writes y op2) \<Longrightarrow>
   writes (if c then x else y) (if c then op1 else op2)"
  by simp

lemma encodeLoop_varint:
  "length hole = length (varint v) \<Longrightarrow>
   encodeLoop (p @ hole @ s) (length p) v = Inr (p @ varint v @ s)"
proof (induction v arbitrary: p hole rule: varint.induct)
  case (1 v)
  then obtain h hs where hole: "hole = h # hs" by (cases hole) auto
  show ?case
  proof (cases "v < 0x80")
    case True
    then have "varint v = [ucast v]" by (subst varint.simps) simp
    moreover have "\<not> 0x80 \<le> v" using True by simp
    ultimately show ?thesis
      using hole "1.prems" by (subst encodeLoop.simps) (simp add: list_update_append)
  next
    case False
    define b :: u8 where "b = ucast (v AND 0x7F) OR 0x80"
    have vv: "varint v = b # varint (drop_bit 7 v)"
      using False by (subst varint.simps) (simp add: b_def)
    have b: "ucast ((v AND 0x7F) OR 0x80) = b"
      unfolding b_def by (simp add: unsigned_or_eq)
    have "encodeLoop ((p @ [b]) @ hs @ s) (length (p @ [b])) (drop_bit 7 v) =
        Inr ((p @ [b]) @ varint (drop_bit 7 v) @ s)"
      using "1.prems" hole vv by (intro "1.IH" [OF False]) simp
    with False hole show ?thesis
      by (subst encodeLoop.simps) (simp add: not_less list_update_append vv b)
  qed
qed

lemma writes_varint [writes_intros]: "writes (varint v) (encodeVarint v)"
  by (auto simp: writes_def sov_varint encodeLoop_varint)

text \<open>
  \<open>MarshalToSizedBuffer\<close> starts at the end of the buffer and returns how many bytes it
  wrote; \<open>MarshalTo\<close> and \<open>Marshal\<close> call it on a prefix or a fresh buffer of the message's size.
\<close>

definition sized :: "(wbuf \<Rightarrow> wbuf res) \<Rightarrow> bytes \<Rightarrow> (bytes \<times> nat) res" where
  "sized ops d = bindR (ops (d, length d)) (\<lambda>(d', i). Inr (d', length d' - i))"

definition marshalTo :: "nat \<Rightarrow> (bytes \<Rightarrow> (bytes \<times> nat) res) \<Rightarrow> bytes \<Rightarrow> (bytes \<times> nat) res" where
  "marshalTo sz mtsb d =
     bindR (gslice d 0 sz) (\<lambda>pre.
     bindR (mtsb pre) (\<lambda>(d', n). Inr (d' @ drop sz d, n)))"

definition marshal :: "nat \<Rightarrow> (bytes \<Rightarrow> (bytes \<times> nat) res) \<Rightarrow> bytes res" where
  "marshal sz mtsb =
     bindR (mtsb (replicate sz 0)) (\<lambda>(d, n). gslice d 0 n)"

text \<open>
  An embedded message: \<open>size, err := m.Params.MarshalToSizedBuffer(dAtA[:i]); i -= size;
  i = encodeVarint(dAtA, i, uint64(size))\<close>. The slice shares the buffer.
\<close>

fun putNested :: "(bytes \<Rightarrow> (bytes \<times> nat) res) \<Rightarrow> wbuf \<Rightarrow> wbuf res" where
  "putNested mtsb (d, i) =
     bindR (gslice d 0 i) (\<lambda>pre.
     bindR (mtsb pre) (\<lambda>(d', sz).
       if sz \<le> i then encodeVarint (word_of_nat sz) (d' @ drop i d, i - sz)
       else Inl (Panic ''index out of range'')))"

lemma sized_writes:
  assumes "writes x ops" "length x \<le> length d"
  shows "sized ops d = Inr (take (length d - length x) d @ x, length x)"
proof -
  let ?p = "take (length d - length x) d" and ?h = "drop (length d - length x) d"
  have "ops (?p @ ?h @ [], length ?p + length x) = Inr (?p @ x @ [], length ?p)"
    using assms by (intro writesD) auto
  then show ?thesis using assms(2) by (simp add: sized_def)
qed

lemma writes_nested:
  assumes "\<And>d. length x \<le> length d \<Longrightarrow> mtsb d = Inr (take (length d - length x) d @ x, length x)"
  shows "writes (varint (word_of_nat (length x)) @ x) (putNested mtsb)"
  unfolding writes_def
proof (intro allI impI)
  fix p hole s :: bytes
  let ?v = "varint (word_of_nat (length x))"
  assume h: "length hole = length (?v @ x)"
  define h1 h2 where "h1 = take (length ?v) hole" and "h2 = drop (length ?v) hole"
  have hh: "hole = h1 @ h2" "length h1 = length ?v" "length h2 = length x"
    using h by (auto simp: h1_def h2_def)
  have m: "mtsb (p @ h1 @ h2) = Inr (p @ h1 @ x, length x)"
    using hh by (subst assms) auto
  have e: "encodeVarint (word_of_nat (length x)) (p @ h1 @ x @ s, length p + length ?v) =
      Inr (p @ ?v @ x @ s, length p)"
    by (rule writesD [OF writes_varint hh(2)])
  have "gslice (p @ hole @ s) 0 (length p + length (?v @ x)) = Inr (p @ h1 @ h2)"
    using h by (simp add: gslice_def hh)
  then show "putNested mtsb (p @ hole @ s, length p + length (?v @ x)) = Inr (p @ (?v @ x) @ s, length p)"
    using m e hh by (simp add: add.assoc [symmetric] del: encodeVarint.simps)
qed

text \<open>
  \<open>XXX_Marshal(b, deterministic)\<close>: the deterministic branch calls the third-party reflection
  codec (\<open>info\<close> is its outcome), the other one marshals into the whole capacity of \<open>b\<close> and
  returns the first \<open>n\<close> bytes.
\<close>

definition xxxMarshal :: "bool \<Rightarrow> bytes ext \<Rightarrow> (bytes \<Rightarrow> (bytes \<times> nat) res) \<Rightarrow> bytes \<Rightarrow> bytes res" where
  "xxxMarshal deterministic info mtsb b =
     (if deterministic then ext info
      else bindR (mtsb b) (\<lambda>(b', n). gslice b' 0 n))"

section \<open>The loop over fields\<close>

text \<open>
  \<open>Unmarshal\<close>: read a tag, reject end-group tags and field numbers below 1, dispatch to the
  message's \<open>switch\<close> (\<open>field\<close>; \<open>None\<close> is its default branch), and skip unknown fields with
  \<open>skp\<close>. What happens to the skipped bytes is \<open>unknown\<close>: the \<open>x/fixedmint/types\<close> messages drop
  them, the \<open>api\<close> messages keep them. On an error Go leaves a half-filled receiver behind; the
  callers discard it, and so does the model. The fuel counts iterations; every one consumes at
  least a byte, so one more than the length of the input is enough
  (\<open>field_decoder.unmarshal_returns\<close>).
\<close>

type_synonym 'm field = "'m \<Rightarrow> int \<Rightarrow> int \<Rightarrow> bytes \<Rightarrow> nat \<Rightarrow> ('m \<times> nat) res option"

definition skipField ::
  "string \<Rightarrow> (bytes \<Rightarrow> int res) \<Rightarrow> ('m \<Rightarrow> bytes \<Rightarrow> 'm) \<Rightarrow> 'm \<Rightarrow> bytes \<Rightarrow> nat \<Rightarrow> ('m \<times> nat) res" where
  "skipField fl skp unknown m d iNdEx =
     bindR (skp (drop iNdEx d)) (\<lambda>skippy.
       let next = wrap64 (int iNdEx + skippy) in
       if skippy < 0 \<or> next < 0 then Inl (ErrInvalidLength fl)
       else if next > int (length d) then Inl ErrUnexpectedEOF
       else bindR (gslice d iNdEx (nat next)) (\<lambda>raw. Inr (unknown m raw, nat next)))"

definition dispatch ::
  "string \<Rightarrow> string \<Rightarrow> (bytes \<Rightarrow> int res) \<Rightarrow> 'm field \<Rightarrow> ('m \<Rightarrow> bytes \<Rightarrow> 'm) \<Rightarrow> 'm \<Rightarrow> bytes \<Rightarrow> nat \<Rightarrow>
   int \<Rightarrow> int \<Rightarrow> u64 \<Rightarrow> nat \<Rightarrow> ('m \<times> nat) res" where
  "dispatch fl name skp field unknown m d preIndex fieldNum wireType wire iNdEx =
     (if wireType = 4 then Inl (WiretypeEndGroup name)
      else if fieldNum \<le> 0 then Inl (IllegalTag name fieldNum wire)
      else (case field m fieldNum wireType d iNdEx of
              Some r \<Rightarrow> r
            | None \<Rightarrow> skipField fl skp unknown m d preIndex))"

definition tagField :: "u64 \<Rightarrow> int" where
  "tagField wire = sint (ucast (drop_bit 3 wire) :: 32 word)"

definition tagType :: "u64 \<Rightarrow> int" where
  "tagType wire = uint (wire AND 7)"

definition unmarshalStep ::
  "string \<Rightarrow> string \<Rightarrow> (bytes \<Rightarrow> int res) \<Rightarrow> 'm field \<Rightarrow> ('m \<Rightarrow> bytes \<Rightarrow> 'm) \<Rightarrow> 'm \<Rightarrow> bytes \<Rightarrow> nat \<Rightarrow>
   ('m \<times> nat) res" where
  "unmarshalStep fl name skp field unknown m d preIndex =
     bindR (readVarint fl d preIndex 0 0) (\<lambda>(wire, iNdEx).
       dispatch fl name skp field unknown m d preIndex (tagField wire) (tagType wire) wire iNdEx)"

fun unmarshalLoop ::
  "nat \<Rightarrow> string \<Rightarrow> string \<Rightarrow> (bytes \<Rightarrow> int res) \<Rightarrow> 'm field \<Rightarrow> ('m \<Rightarrow> bytes \<Rightarrow> 'm) \<Rightarrow> 'm \<Rightarrow> bytes \<Rightarrow> nat \<Rightarrow>
   'm res" where
  "unmarshalLoop 0 fl name skp field unknown m d iNdEx = Inl OutOfFuel"
| "unmarshalLoop (Suc fuel) fl name skp field unknown m d iNdEx =
     (if iNdEx < length d then
        bindR (unmarshalStep fl name skp field unknown m d iNdEx)
              (\<lambda>(m', i). unmarshalLoop fuel fl name skp field unknown m' d i)
      else if iNdEx > length d then Inl ErrUnexpectedEOF
      else Inr m)"

definition unmarshal ::
  "string \<Rightarrow> string \<Rightarrow> (bytes \<Rightarrow> int res) \<Rightarrow> 'm field \<Rightarrow> ('m \<Rightarrow> bytes \<Rightarrow> 'm) \<Rightarrow> 'm \<Rightarrow> bytes \<Rightarrow> 'm res" where
  "unmarshal fl name skp field unknown m d =
     unmarshalLoop (Suc (length d)) fl name skp field unknown m d 0"

text \<open>
  The two shapes of a branch of the \<open>switch\<close>: a length-delimited field, whose bytes \<open>upd\<close>
  stores, and a varint field.
\<close>

definition fieldLen ::
  "string \<Rightarrow> int \<Rightarrow> string \<Rightarrow> bytes \<Rightarrow> nat \<Rightarrow> (bytes \<Rightarrow> 'm res) \<Rightarrow> ('m \<times> nat) res option" where
  "fieldLen fl wireType name d iNdEx upd = Some
     (if wireType \<noteq> 2 then Inl (WrongWireType wireType name)
      else bindR (readLen fl d iNdEx) (\<lambda>(bs, postIndex).
        bindR (upd bs) (\<lambda>m. Inr (m, postIndex))))"

definition fieldVarint ::
  "string \<Rightarrow> int \<Rightarrow> string \<Rightarrow> bytes \<Rightarrow> nat \<Rightarrow> (u64 \<Rightarrow> 'm) \<Rightarrow> ('m \<times> nat) res option" where
  "fieldVarint fl wireType name d iNdEx upd = Some
     (if wireType \<noteq> 0 then Inl (WrongWireType wireType name)
      else bindR (readVarint fl d iNdEx 0 0) (\<lambda>(v, i). Inr (upd v, i)))"

named_theorems field_laws "what the branches of a switch guarantee"

lemma field_not_None [simp]:
  "fieldLen fl wt s d i upd \<noteq> None" "fieldVarint fl wt s d i updv \<noteq> None"
  by (simp_all add: fieldLen_def fieldVarint_def)

lemma fieldLen_progress [field_laws]:
  "go_slice d \<Longrightarrow> fieldLen fl wt s d i upd = Some (Inr (m', j)) \<Longrightarrow> i \<le> j \<and> j \<le> length d"
  by (auto simp: fieldLen_def bindR_Inr_conv split: if_splits dest: readLen_progress)

lemma fieldVarint_progress [field_laws]:
  "fieldVarint fl wt s d i upd = Some (Inr (m', j)) \<Longrightarrow> i \<le> j \<and> j \<le> length d"
  by (auto simp: fieldVarint_def bindR_Inr_conv split: if_splits dest: readVarint_progress)

lemma fieldLen_fuel [field_laws]:
  assumes "go_slice d" "\<And>bs. go_slice bs \<Longrightarrow> upd bs \<noteq> Inl OutOfFuel"
  shows "fieldLen fl wt s d i upd \<noteq> Some (Inl OutOfFuel)"
proof -
  have "go_slice bs" if "readLen fl d i = Inr (bs, j)" for bs j
    using that assms(1) unfolding readLen_Inr_iff [OF assms(1)] by (auto simp: go_slice_def)
  then show ?thesis
    using assms clean_fuel [OF readLen_clean [OF assms(1)], of fl i]
    by (auto simp: fieldLen_def bindR_Inl_conv)
qed

lemma fieldVarint_fuel [field_laws]: "fieldVarint fl wt s d i upd \<noteq> Some (Inl OutOfFuel)"
  using clean_fuel [OF readVarint_clean, of fl d i 0 0]
  by (auto simp: fieldVarint_def bindR_Inl_conv)

lemma fieldLen_local [field_laws]:
  assumes "go_slice (p @ d @ e)" "fieldLen fl wt s d i upd = Some (Inr (m', j))"
  shows "fieldLen fl wt s (p @ d @ e) (length p + i) upd = Some (Inr (m', length p + j))"
proof -
  from assms(2) obtain bs where wt: "wt = 2" and r: "readLen fl d i = Inr (bs, j)" "upd bs = Inr m'"
    by (auto simp: fieldLen_def bindR_Inr_conv split: if_splits)
  show ?thesis using wt r(2) readLen_local [OF assms(1) r(1)] by (simp add: fieldLen_def)
qed

lemma fieldVarint_local [field_laws]:
  assumes "fieldVarint fl wt s d i upd = Some (Inr (m', j))"
  shows "fieldVarint fl wt s (p @ d @ e) (length p + i) upd = Some (Inr (m', length p + j))"
proof -
  from assms obtain v where wt: "wt = 0" and r: "readVarint fl d i 0 0 = Inr (v, j)" "upd v = m'"
    by (auto simp: fieldVarint_def bindR_Inr_conv split: if_splits)
  show ?thesis using wt r(2) readVarint_local [OF r(1), of p e] by (simp add: fieldVarint_def)
qed

lemma fieldLen_clean:
  assumes "go_slice d" "\<And>bs. go_slice bs \<Longrightarrow> clean (upd bs)" "fieldLen fl wt s d i upd = Some r"
  shows "clean r"
proof -
  have "go_slice bs" if "readLen fl d i = Inr (bs, j)" for bs j
    using that assms(1) unfolding readLen_Inr_iff [OF assms(1)] by (auto simp: go_slice_def)
  then show ?thesis
    using assms readLen_clean [OF assms(1), of fl i]
    by (auto simp: fieldLen_def intro!: clean_bindR)
qed

lemma fieldVarint_clean: "fieldVarint fl wt s d i upd = Some r \<Longrightarrow> clean r"
  by (auto simp: fieldVarint_def intro!: clean_bindR)

text \<open>Reading a field written after a one-byte tag.\<close>

lemma fieldLen_read:
  assumes "go_slice (t # varint (word_of_nat (length x)) @ x)"
  shows "fieldLen fl 2 s (t # varint (word_of_nat (length x)) @ x) (Suc 0) upd =
    Some (bindR (upd x) (\<lambda>m. Inr (m, Suc (length (varint (word_of_nat (length x))) + length x))))"
  using readLen_delimited [of "[t]" x "[]" fl] assms by (simp add: fieldLen_def)

lemma fieldVarint_read:
  "fieldVarint fl 0 s (t # varint v) (Suc 0) upd = Some (Inr (upd v, Suc (length (varint v))))"
  using readVarint_varint [of fl "[t]" v "[]"] by (simp add: fieldVarint_def)

text \<open>
  The contract of a \<open>switch\<close> with its loop: a branch consumes bytes of the slice or none, it
  looks only at the bytes it consumes, whether there is a branch depends on the field number
  alone, and no branch raises the model's fuel error. The same is asked of the skip function.
\<close>

locale field_decoder =
  fixes fl name :: string
    and skp :: "bytes \<Rightarrow> int res"
    and field :: "'m field"
    and unknown :: "'m \<Rightarrow> bytes \<Rightarrow> 'm"
  assumes field_progress:
      "go_slice d \<Longrightarrow> i \<le> length d \<Longrightarrow> field m n wt d i = Some (Inr (m', j)) \<Longrightarrow> i \<le> j \<and> j \<le> length d"
    and field_fuel: "go_slice d \<Longrightarrow> i \<le> length d \<Longrightarrow> field m n wt d i \<noteq> Some (Inl OutOfFuel)"
    and field_default: "field m n wt d i = None \<Longrightarrow> field m' n wt' d' i' = None"
    and field_local:
      "go_slice (p @ d @ e) \<Longrightarrow> i \<le> length d \<Longrightarrow> field m n wt d i = Some (Inr (m', j)) \<Longrightarrow>
       field m n wt (p @ d @ e) (length p + i) = Some (Inr (m', length p + j))"
    and skp_progress: "go_slice d \<Longrightarrow> skp d = Inr n \<Longrightarrow> 0 < n"
    and skp_int: "go_slice d \<Longrightarrow> skp d = Inr n \<Longrightarrow> n < 2 ^ 63"
    and skp_fuel: "go_slice d \<Longrightarrow> skp d \<noteq> Inl OutOfFuel"
    and skp_append: "go_slice (d @ e) \<Longrightarrow> skp d = Inr n \<Longrightarrow> skp (d @ e) = Inr n"
begin

abbreviation step :: "'m \<Rightarrow> bytes \<Rightarrow> nat \<Rightarrow> ('m \<times> nat) res" where
  "step \<equiv> unmarshalStep fl name skp field unknown"

abbreviation loop :: "nat \<Rightarrow> 'm \<Rightarrow> bytes \<Rightarrow> nat \<Rightarrow> 'm res" where
  "loop fuel \<equiv> unmarshalLoop fuel fl name skp field unknown"

abbreviation decode :: "'m \<Rightarrow> bytes \<Rightarrow> 'm res" where
  "decode \<equiv> unmarshal fl name skp field unknown"

lemma skipField_Inr_iff:
  assumes "go_slice d" "i < length d"
  shows "skipField fl skp unknown m d i = Inr (m', j) \<longleftrightarrow>
    (\<exists>n. skp (drop i d) = Inr n \<and> 0 < n \<and> i + nat n \<le> length d \<and> j = i + nat n \<and>
         m' = unknown m (take (nat n) (drop i d)))"
proof (cases "skp (drop i d)")
  case (Inl e)
  then show ?thesis by (simp add: skipField_def)
next
  case (Inr n)
  have d: "go_slice (drop i d)" using assms(1) by (rule go_slice_drop)
  have n: "0 < n" "n < 2 ^ 63" using skp_progress [OF d Inr] skp_int [OF d Inr] by auto
  have i: "int i < 2 ^ 63" using assms by (simp add: go_slice_def)
  show ?thesis
  proof (cases "0 \<le> wrap64 (int i + n)")
    case True
    then have "wrap64 (int i + n) = int i + n" using n i by (intro wrap64_nonneg_sum) auto
    moreover have "nat (int i + n) = i + nat n" using n by simp
    moreover have "int (length d) < int i + n \<longleftrightarrow> \<not> i + nat n \<le> length d" using n by auto
    ultimately show ?thesis
      using Inr n by (auto simp: skipField_def gslice_def Let_def)
  next
    case False
    then have "\<not> int i + n < 2 ^ 63" using n i wrap64_id [of "int i + n"] by auto
    then have "\<not> i + nat n \<le> length d" using assms n by (auto simp: go_slice_def)
    then show ?thesis using Inr n False by (auto simp: skipField_def Let_def)
  qed
qed

lemma stepE:
  assumes "step m d i = Inr (m', j)"
  obtains (known) wire k where "readVarint fl d i 0 0 = Inr (wire, k)"
      "tagType wire \<noteq> 4" "0 < tagField wire"
      "field m (tagField wire) (tagType wire) d k = Some (Inr (m', j))"
    | (skipped) wire k where "readVarint fl d i 0 0 = Inr (wire, k)"
      "tagType wire \<noteq> 4" "0 < tagField wire"
      "field m (tagField wire) (tagType wire) d k = None"
      "skipField fl skp unknown m d i = Inr (m', j)"
proof -
  from assms obtain wire k where r: "readVarint fl d i 0 0 = Inr (wire, k)"
    and dp: "dispatch fl name skp field unknown m d i (tagField wire) (tagType wire) wire k = Inr (m', j)"
    by (auto simp: unmarshalStep_def bindR_Inr_conv)
  from dp have "tagType wire \<noteq> 4" "0 < tagField wire"
    by (auto simp: dispatch_def split: if_splits)
  with dp r that show thesis
    by (cases "field m (tagField wire) (tagType wire) d k") (auto simp: dispatch_def)
qed

lemma step_progress:
  assumes "go_slice d" "i < length d" "step m d i = Inr (m', j)"
  shows "i < j \<and> j \<le> length d"
  using assms(3)
proof (cases rule: stepE)
  case (known wire k)
  from known(1) have "i < k" "k \<le> length d" by (auto dest: readVarint_progress)
  then show ?thesis using field_progress [OF assms(1) _ known(4)] by simp
next
  case (skipped wire k)
  then show ?thesis unfolding skipField_Inr_iff [OF assms(1,2)] by auto
qed

lemma step_fuel:
  assumes "go_slice d" "i < length d"
  shows "step m d i \<noteq> Inl OutOfFuel"
proof (cases "readVarint fl d i 0 0")
  case (Inl e)
  then show ?thesis
    using clean_fuel [OF readVarint_clean, of fl d i 0 0] by (simp add: unmarshalStep_def)
next
  case (Inr x)
  obtain wire k where x: "x = (wire, k)" by (cases x)
  from Inr x have k: "k \<le> length d" by (auto dest: readVarint_progress)
  have "skipField fl skp unknown m d i \<noteq> Inl OutOfFuel"
    using skp_fuel [OF go_slice_drop [OF assms(1)]]
    by (auto simp: skipField_def Let_def bindR_Inl_conv gslice_def)
  then show ?thesis
    using field_fuel [OF assms(1) k, of m] Inr x
    by (auto simp: unmarshalStep_def dispatch_def split: option.splits)
qed

lemma skipField_local:
  assumes "go_slice (p @ d @ e)" "i < length d" "skipField fl skp unknown m d i = Inr (m', j)"
  shows "skipField fl skp unknown m (p @ d @ e) (length p + i) = Inr (m', length p + j)"
proof -
  have d: "go_slice d" using assms(1) by auto
  from assms(3) obtain n where n: "skp (drop i d) = Inr n" "0 < n" "i + nat n \<le> length d"
      "j = i + nat n" "m' = unknown m (take (nat n) (drop i d))"
    using skipField_Inr_iff [OF d assms(2)] by blast
  have "go_slice (drop i d @ e)" using assms(1,2) by (auto simp: go_slice_def)
  then have "skp (drop (length p + i) (p @ d @ e)) = Inr n"
    using skp_append [OF _ n(1)] assms(2) by simp
  then show ?thesis
    using n assms(1,2) by (subst skipField_Inr_iff) auto
qed

lemma step_local:
  assumes "go_slice (p @ d @ e)" "i < length d" "step m d i = Inr (m', j)"
  shows "step m (p @ d @ e) (length p + i) = Inr (m', length p + j)"
  using assms(3)
proof (cases rule: stepE)
  case (known wire k)
  from known(1) have "k \<le> length d" by (auto dest: readVarint_progress)
  then show ?thesis
    using known field_local [OF assms(1) _ known(4)] readVarint_local [OF known(1), of p e]
    by (simp add: unmarshalStep_def dispatch_def)
next
  case (skipped wire k)
  then show ?thesis
    using field_default [OF skipped(4)] readVarint_local [OF skipped(1), of p e]
      skipField_local [OF assms(1,2) skipped(5)]
    by (simp add: unmarshalStep_def dispatch_def)
qed

text \<open>The loop returns: fuel above the remaining length is never exhausted, and more changes nothing.\<close>

lemma loop_fuel:
  "go_slice d \<Longrightarrow> length d < i + fuel \<Longrightarrow> 0 < fuel \<Longrightarrow> loop fuel m d i \<noteq> Inl OutOfFuel"
proof (induction fuel arbitrary: m i)
  case 0
  then show ?case by simp
next
  case (Suc fuel)
  show ?case
  proof (cases "i < length d")
    case True
    have "loop fuel m' d j \<noteq> Inl OutOfFuel" if "step m d i = Inr (m', j)" for m' j
      using step_progress [OF Suc.prems(1) True that] Suc.prems True by (intro Suc.IH) auto
    with True step_fuel [OF Suc.prems(1) True] show ?thesis
      by (auto simp: bindR_Inl_conv)
  qed simp
qed

lemma loop_more_fuel:
  "loop fuel m d i \<noteq> Inl OutOfFuel \<Longrightarrow> loop (fuel + k) m d i = loop fuel m d i"
proof (induction fuel arbitrary: m i)
  case (Suc fuel)
  then show ?case
    by (cases "step m d i") (auto simp: bindR_Inl_conv split: if_splits)
qed simp

theorem unmarshal_returns: "go_slice d \<Longrightarrow> decode m d \<noteq> Inl OutOfFuel"
  unfolding unmarshal_def by (rule loop_fuel) auto

lemma decode_eq_loop: "go_slice d \<Longrightarrow> length d < fuel \<Longrightarrow> loop fuel m d 0 = decode m d"
  using loop_more_fuel [of "Suc (length d)" m d 0 "fuel - Suc (length d)"] unmarshal_returns [of d m]
  by (simp add: unmarshal_def)

text \<open>
  Decoding a concatenation is decoding the parts one after the other into the same message:
  the merge rule of the wire format, on which round trips and skipped fields rest.
\<close>

lemma loop_local:
  "go_slice (p @ d @ e) \<Longrightarrow> i \<le> length d \<Longrightarrow> loop fuel m d i = Inr m1 \<Longrightarrow>
   loop fuel' m1 (p @ d @ e) (length p + length d) = Inr m2 \<Longrightarrow>
   loop (fuel + fuel') m (p @ d @ e) (length p + i) = Inr m2"
proof (induction fuel arbitrary: m i)
  case 0
  then show ?case by simp
next
  case (Suc fuel)
  show ?case
  proof (cases "i < length d")
    case True
    with Suc.prems(3) obtain m' j where st: "step m d i = Inr (m', j)" "loop fuel m' d j = Inr m1"
      by (auto simp: bindR_Inr_conv)
    have "j \<le> length d" using Suc.prems(1) step_progress [OF _ True st(1)] by auto
    then have "loop (fuel + fuel') m' (p @ d @ e) (length p + j) = Inr m2"
      using Suc st(2) by blast
    with True step_local [OF Suc.prems(1) True st(1)] show ?thesis by simp
  next
    case False
    with Suc.prems have "i = length d" "m1 = m" by (auto split: if_splits)
    with Suc.prems(4) loop_more_fuel [of fuel' m "p @ d @ e" "length p + i" "Suc fuel"] show ?thesis
      by (simp only: add.commute [of "Suc fuel"]) simp
  qed
qed

theorem decode_append:
  assumes "go_slice (d1 @ d2)" "decode m d1 = Inr m1" "decode m1 d2 = Inr m2"
  shows "decode m (d1 @ d2) = Inr m2"
proof -
  have "loop 1 m2 (d1 @ d2) (length d1 + length d2) = Inr m2" by simp
  then have "loop (Suc (length d2) + 1) m1 (d1 @ d2) (length d1) = Inr m2"
    using loop_local [of d1 d2 "[]" 0 "Suc (length d2)" m1 m2 1 m2] assms(1,3)
    by (simp add: unmarshal_def del: unmarshalLoop.simps)
  then have "loop (Suc (length d1) + (Suc (length d2) + 1)) m (d1 @ d2) 0 = Inr m2"
    using loop_local [of "[]" d1 d2 0 "Suc (length d1)" m m1 "Suc (length d2) + 1" m2] assms(1,2)
    by (simp add: unmarshal_def del: unmarshalLoop.simps)
  moreover have "loop (Suc (length d1) + (Suc (length d2) + 1)) m (d1 @ d2) 0 = decode m (d1 @ d2)"
    using assms(1) by (intro decode_eq_loop) auto
  ultimately show ?thesis by simp
qed

lemma decode_Nil [simp]: "decode m [] = Inr m"
  by (simp add: unmarshal_def)

lemma decode_one_step:
  assumes "go_slice d" "0 < length d" "step m d 0 = Inr (m', length d)"
  shows "decode m d = Inr m'"
  using assms by (cases "length d") (auto simp: unmarshal_def)

end

section \<open>Messages\<close>

text \<open>A field whose tag fits one byte: the whole field is decoded by one branch of the switch.\<close>

lemma readVarint_tag:
  "t < 0x80 \<Longrightarrow> readVarint fl (t # r) 0 0 0 = Inr (ucast t, 1)"
proof -
  assume "t < 0x80"
  then have "unat t < 2 ^ 7" by (simp add: word_less_nat_alt)
  then have "take_bit 7 t = t"
    by (intro word_unat_eq_iff [THEN iffD2]) (simp add: unsigned_take_bit_eq take_bit_nat_eq_self)
  then have "t AND 0x7F = t" by (simp add: and_0x7F)
  with \<open>t < 0x80\<close> show ?thesis by (subst readVarint.simps) (simp add: Let_def)
qed

text \<open>The tags of the program's messages: fields 1 to 3.\<close>

lemma tag_values [simp]:
  "tagField 0x0A = 1" "tagType 0x0A = 2" "tagField 0x12 = 2" "tagType 0x12 = 2"
  "tagField 0x18 = 3" "tagType 0x18 = 0"
  by (simp_all add: tagField_def tagType_def)

context field_decoder
begin

lemma decode_field:
  assumes "go_slice (t # r)" "t < 0x80" "tagType (ucast t) \<noteq> 4" "0 < tagField (ucast t)"
    and "field m (tagField (ucast t)) (tagType (ucast t)) (t # r) 1 = Some (Inr (m', Suc (length r)))"
  shows "decode m (t # r) = Inr m'"
  using assms by (intro decode_one_step) (auto simp: unmarshalStep_def readVarint_tag dispatch_def)

text \<open>Nothing in the loop itself panics: a clean switch and a clean skip make a clean decoder.\<close>

lemma step_clean:
  assumes "go_slice d" "i < length d"
    and field: "\<And>m n wt i r. i \<le> length d \<Longrightarrow> field m n wt d i = Some r \<Longrightarrow> clean r"
    and skp: "\<And>d. go_slice d \<Longrightarrow> clean (skp d)"
  shows "clean (step m d i)"
proof -
  have "clean (skipField fl skp unknown m d i)"
  proof (cases "skp (drop i d)")
    case (Inl e)
    then show ?thesis using skp [OF go_slice_drop [OF assms(1)], of i] by (simp add: skipField_def)
  next
    case (Inr n)
    have d: "go_slice (drop i d)" using assms(1) by (rule go_slice_drop)
    have n: "0 < n" "n < 2 ^ 63" using skp_progress [OF d Inr] skp_int [OF d Inr] by auto
    have "i \<le> nat (wrap64 (int i + n))" if "0 \<le> wrap64 (int i + n)"
      using that n assms wrap64_advance [of i n] by (simp add: go_slice_def le_nat_iff)
    with Inr show ?thesis by (auto simp: skipField_def Let_def gslice_def)
  qed
  with field show ?thesis
    unfolding unmarshalStep_def
    by (intro clean_bindR readVarint_clean)
       (auto simp: dispatch_def dest!: readVarint_progress split: option.splits)
qed

lemma decode_clean:
  assumes "go_slice d"
    and field: "\<And>m n wt i r. i \<le> length d \<Longrightarrow> field m n wt d i = Some r \<Longrightarrow> clean r"
    and skp: "\<And>d. go_slice d \<Longrightarrow> clean (skp d)"
  shows "clean (decode m d)"
proof -
  have sc: "clean (step m d i)" if "i < length d" for m i
    using assms(1) that field skp by (rule step_clean)
  have "clean (loop fuel m d i)" if "loop fuel m d i \<noteq> Inl OutOfFuel" for fuel m i
    using that
  proof (induction fuel arbitrary: m i)
    case (Suc fuel)
    then show ?case
      by (auto simp: bindR_Inl_conv intro!: clean_bindR sc)
  qed simp
  then show ?thesis using unmarshal_returns [OF assms(1)] unfolding unmarshal_def by blast
qed

text \<open>A field of unknown number is skipped, whatever it holds.\<close>

lemma decode_unknown:
  assumes "go_slice d" "0 < length d" "readVarint fl d 0 0 0 = Inr (wire, k)"
    and "tagType wire \<noteq> 4" "0 < tagField wire"
    and "field m (tagField wire) (tagType wire) d k = None"
    and "skp d = Inr (int (length d))"
  shows "decode m d = Inr (unknown m d)"
proof -
  have "skipField fl skp unknown m d 0 = Inr (unknown m d, length d)"
    using assms by (subst skipField_Inr_iff) auto
  with assms show ?thesis
    by (intro decode_one_step) (auto simp: unmarshalStep_def dispatch_def)
qed

end

text \<open>
  The contract of a message type: \<open>Size\<close> is the length of its wire form, \<open>MarshalToSizedBuffer\<close>
  puts that form at the end of the buffer and leaves the rest alone, and \<open>Unmarshal\<close> into a
  zero message reads it back. \<open>ok\<close> says for which messages this holds (those that fit in memory
  and whose third-party parts can be encoded).
\<close>

locale wire_message =
  fixes sz :: "'m \<Rightarrow> nat"
    and mtsb :: "'m \<Rightarrow> bytes \<Rightarrow> (bytes \<times> nat) res"
    and unm :: "'m \<Rightarrow> bytes \<Rightarrow> 'm res"
    and wire :: "'m \<Rightarrow> bytes"
    and zero :: 'm
    and ok :: "'m \<Rightarrow> bool"
  assumes size_wire: "ok m \<Longrightarrow> sz m = length (wire m)"
    and mtsb_wire: "ok m \<Longrightarrow> length (wire m) \<le> length d \<Longrightarrow>
      mtsb m d = Inr (take (length d - length (wire m)) d @ wire m, length (wire m))"
    and unm_wire: "ok m \<Longrightarrow> unm zero (wire m) = Inr m"
    and wire_slice: "ok m \<Longrightarrow> go_slice (wire m)"
begin

lemma marshal_wire: "ok m \<Longrightarrow> marshal (sz m) (mtsb m) = Inr (wire m)"
  by (simp add: marshal_def mtsb_wire size_wire gslice_def)

lemma marshalTo_wire:
  "ok m \<Longrightarrow> sz m \<le> length d \<Longrightarrow> marshalTo (sz m) (mtsb m) d = Inr (wire m @ drop (sz m) d, sz m)"
  by (simp add: marshalTo_def mtsb_wire size_wire gslice_def)

lemma round_trip: "ok m \<Longrightarrow> bindR (marshal (sz m) (mtsb m)) (unm zero) = Inr m"
  by (simp add: marshal_wire unm_wire)

lemma wire_inject: "ok m \<Longrightarrow> ok m' \<Longrightarrow> wire m = wire m' \<longleftrightarrow> m = m'"
  using unm_wire by (metis sum.inject(2))

lemma xxxMarshal_wire:
  "ok m \<Longrightarrow> length b = sz m \<Longrightarrow> xxxMarshal False info (mtsb m) b = Inr (wire m)"
  by (simp add: xxxMarshal_def mtsb_wire size_wire gslice_def)

lemma nested_writes:
  "ok m \<Longrightarrow> writes (varint (word_of_nat (length (wire m))) @ wire m) (putNested (mtsb m))"
  by (rule writes_nested) (rule mtsb_wire)

end

end
