(* ===== verification/ApiCore.thy ===== *)
theory ApiCore
  imports Wire
begin

text \<open>
  What the second generated API, \<open>api/bluechipchain/fixedmint\<close> (\<open>*.pulsar.go\<close>), shares. Each file
  implements \<open>protoreflect.Message\<close> by hand-unrolled code: reflective access to fields by
  descriptor, and the three methods \<open>size\<close>, \<open>marshal\<close> and \<open>unmarshal\<close> that
  \<open>google.golang.org/protobuf\<close> calls. That library and \<open>github.com/cosmos/cosmos-proto/runtime\<close>
  are not part of the repository: what the files call of them are the records \<open>cosmos_runtime\<close> and
  \<open>proto_lib\<close>, arguments of the definitions, with their documented behaviour as the predicates
  \<open>runtime_ok\<close> and \<open>dispatches\<close>.

  A pointer to a message is an option; \<open>None\<close> is a typed nil. Messages keep the bytes of fields
  they do not know; a nil slice and an empty one are the same list.
\<close>

section \<open>Descriptors and receivers\<close>

record fieldDesc =
  FullName :: string
  IsExtension :: bool

text \<open>The default branch of every switch over field names: two panics with an error value.\<close>

definition noField :: "string \<Rightarrow> fieldDesc \<Rightarrow> 'a res" where
  "noField msg fd =
     (if IsExtension fd
      then Inl (PanicErr (ErrText (''proto3 declared messages do not support extensions: '' @ msg)))
      else Inl (PanicErr (ErrText (''message '' @ msg @ '' does not contain field '' @ FullName fd))))"

definition notMutable :: "string \<Rightarrow> string \<Rightarrow> 'a res" where
  "notMutable fld msg =
     Inl (PanicErr (ErrText (''field '' @ fld @ '' of message '' @ msg @ '' is not mutable'')))"

definition notOneof :: "string \<Rightarrow> string \<Rightarrow> 'a res" where
  "notOneof msg d = Inl (PanicErr (ErrText (d @ '' is not a oneof field in '' @ msg)))"

definition recv :: "'m option \<Rightarrow> 'm res" where
  "recv x = (case x of Some m \<Rightarrow> Inr m | None \<Rightarrow> Inl (Panic ''nil pointer dereference''))"

lemma recv_simps [simp]:
  "recv (Some m) = Inr m"
  "recv None = Inl (Panic ''nil pointer dereference'')"
  by (simp_all add: recv_def)

lemma noField_panics [simp]: "noField msg fd \<noteq> Inr x"
  by (simp add: noField_def)

text \<open>
  \<open>Range\<close> calls its callback on a state; the callback may stop the iteration or panic. One
  populated field of the iteration, with what comes after it:
\<close>

definition visit ::
  "bool \<Rightarrow> fieldDesc \<Rightarrow> 'v \<Rightarrow> (fieldDesc \<Rightarrow> 'v \<Rightarrow> ('s, bool) act) \<Rightarrow> ('s, unit) act \<Rightarrow> ('s, unit) act" where
  "visit populated fd v f rest =
     (if populated then bindS (f fd v) (\<lambda>go. if go then rest else lift (Inr ())) else rest)"

section \<open>The libraries\<close>

text \<open>
  \<open>rtDiscard flags\<close> and \<open>rtMerge\<close> are the options \<open>DiscardUnknown\<close> and \<open>Merge\<close> that
  \<open>runtime.UnmarshalInputToOptions\<close> makes of an input.
\<close>

record cosmos_runtime =
  rtSov :: "u64 \<Rightarrow> nat"
  rtEncodeVarint :: "u64 \<Rightarrow> wbuf \<Rightarrow> wbuf ext"
  rtSkip :: "bytes \<Rightarrow> int ext"
  rtDiscard :: "u8 \<Rightarrow> bool"
  rtMerge :: bool

text \<open>
  \<open>Sov\<close> is the length of a varint, \<open>EncodeVarint\<close> writes it before the index, \<open>Skip\<close> accepts
  every well-formed field, moves forward, does not look past what it skips and does not panic;
  the flag \<open>protoiface.UnmarshalDiscardUnknown\<close> is the lowest bit.
\<close>

definition runtime_ok :: "cosmos_runtime \<Rightarrow> bool" where
  "runtime_ok R \<longleftrightarrow>
     (\<forall>v. rtSov R v = length (varint v)) \<and>
     (\<forall>v. writes (varint v) (\<lambda>b. ext (rtEncodeVarint R v b))) \<and>
     (\<forall>d n. go_slice d \<longrightarrow> rtSkip R d = Inr n \<longrightarrow> 0 < n \<and> n < 2 ^ 63) \<and>
     (\<forall>d e n. go_slice (d @ e) \<longrightarrow> rtSkip R d = Inr n \<longrightarrow> rtSkip R (d @ e) = Inr n) \<and>
     (\<forall>d s. go_slice d \<longrightarrow> rtSkip R d \<noteq> Inl (Panicked s)) \<and>
     (\<forall>w x. go_slice (varint w @ x) \<longrightarrow> payload (tagType w) x \<longrightarrow>
        rtSkip R (varint w @ x) = Inr (int (length (varint w @ x)))) \<and>
     rtDiscard R 1 \<and> \<not> rtDiscard R 0"

text \<open>The three functions of \<open>protoiface.Methods\<close> that the files fill in.\<close>

record 'm methods =
  mSize :: "'m option \<Rightarrow> nat"
  mMarshal :: "'m option \<Rightarrow> bytes option \<Rightarrow> bytes option res"
  mUnmarshal :: "u8 \<Rightarrow> bytes \<Rightarrow> 'm option \<Rightarrow> 'm option res"

text \<open>
  The library's entry points that the files call: \<open>options.Size(m)\<close>, \<open>options.Marshal(m)\<close> and
  \<open>options.Unmarshal(b, m)\<close>, the last with its \<open>DiscardUnknown\<close>.
\<close>

record 'm proto_lib =
  optSize :: "'m option \<Rightarrow> nat"
  optMarshal :: "'m option \<Rightarrow> bytes res"
  optUnmarshal :: "bool \<Rightarrow> bytes \<Rightarrow> 'm option \<Rightarrow> 'm option res"

definition raw :: "bytes option \<Rightarrow> bytes" where
  "raw b = (case b of Some d \<Rightarrow> d | None \<Rightarrow> [])"

lemma raw_simps [simp]: "raw None = []" "raw (Some d) = d"
  by (simp_all add: raw_def)

text \<open>
  The documented dispatch: each entry point calls the message's own method, \<open>Marshal\<close> with a nil
  buffer; \<open>Unmarshal\<close> resets the message first unless \<open>Merge\<close> is set.
\<close>

definition dispatches :: "cosmos_runtime \<Rightarrow> 'm proto_lib \<Rightarrow> 'm methods \<Rightarrow> 'm \<Rightarrow> bool" where
  "dispatches R L M zero \<longleftrightarrow>
     (\<forall>x. optSize L x = mSize M x) \<and>
     (\<forall>x. optMarshal L x = bindR (mMarshal M x None) (\<lambda>b. Inr (raw b))) \<and>
     (\<forall>disc b m. optUnmarshal L disc b (Some m) =
        mUnmarshal M (if disc then 1 else 0) b (Some (if rtMerge R then m else zero)))"

section \<open>The shape of the three methods\<close>

text \<open>A nil message has size 0, marshals to the buffer it is given and accepts any bytes.\<close>

definition apiSize :: "('m \<Rightarrow> nat) \<Rightarrow> 'm option \<Rightarrow> nat" where
  "apiSize sz x = (case x of None \<Rightarrow> 0 | Some m \<Rightarrow> sz m)"

text \<open>
  \<open>marshal\<close>: the fields are written backwards into a fresh buffer of \<open>options.Size(x)\<close> bytes, all
  of which is appended to the input's buffer.
\<close>

definition apiMarshal ::
  "('m option \<Rightarrow> nat) \<Rightarrow> ('m \<Rightarrow> wbuf \<Rightarrow> wbuf res) \<Rightarrow> 'm option \<Rightarrow> bytes option \<Rightarrow> bytes option res" where
  "apiMarshal sz ops x buf =
     (case x of
        None \<Rightarrow> Inr buf
      | Some m \<Rightarrow>
          bindR (ops m (replicate (sz x) 0, sz x)) (\<lambda>(dAtA, i). Inr (Some (raw buf @ dAtA))))"

definition apiUnmarshal ::
  "cosmos_runtime \<Rightarrow> string \<Rightarrow> (bool \<Rightarrow> 'm field) \<Rightarrow> ('m \<Rightarrow> bytes \<Rightarrow> 'm) \<Rightarrow> u8 \<Rightarrow> bytes \<Rightarrow>
   'm option \<Rightarrow> 'm option res" where
  "apiUnmarshal R name field keep flags buf x =
     (case x of
        None \<Rightarrow> Inr None
      | Some m \<Rightarrow>
          bindR (unmarshal ''runtime'' name (\<lambda>d. ext (rtSkip R d)) (field (rtDiscard R flags))
                   (\<lambda>m u. if rtDiscard R flags then m else keep m u) m buf)
            (\<lambda>m. Inr (Some m)))"

text \<open>
  The statements of \<open>marshal\<close>: unknown fields, a string, a nested message that the library
  marshals, each written if it is populated; \<open>t\<close> is the tag.
\<close>

definition apiUnknown :: "bytes \<Rightarrow> wbuf \<Rightarrow> wbuf res" where
  "apiUnknown u = (if u \<noteq> [] then putBytes u else Inr)"

definition apiString :: "cosmos_runtime \<Rightarrow> u8 \<Rightarrow> string \<Rightarrow> wbuf \<Rightarrow> wbuf res" where
  "apiString R t s =
     (if length s > 0
      then (\<lambda>b. bindR (putBytes (bytes_of s) b) (\<lambda>b.
                bindR (ext (rtEncodeVarint R (word_of_nat (length s)) b)) (putByte t)))
      else Inr)"

definition apiNested :: "cosmos_runtime \<Rightarrow> 'm proto_lib \<Rightarrow> u8 \<Rightarrow> 'm option \<Rightarrow> wbuf \<Rightarrow> wbuf res" where
  "apiNested R L t x =
     (if x \<noteq> None
      then (\<lambda>b. bindR (optMarshal L x) (\<lambda>encoded.
                bindR (putBytes encoded b) (\<lambda>b.
                bindR (ext (rtEncodeVarint R (word_of_nat (length encoded)) b)) (putByte t))))
      else Inr)"

text \<open>The same fields in \<open>size\<close>.\<close>

definition sizeString :: "cosmos_runtime \<Rightarrow> string \<Rightarrow> nat" where
  "sizeString R s = (let l = length s in if l > 0 then 1 + l + rtSov R (word_of_nat l) else 0)"

definition sizeNested :: "cosmos_runtime \<Rightarrow> 'm proto_lib \<Rightarrow> 'm option \<Rightarrow> nat" where
  "sizeNested R L x =
     (if x \<noteq> None then let l = optSize L x in 1 + l + rtSov R (word_of_nat l) else 0)"

section \<open>What the statements write\<close>

text \<open>A length-delimited field: tag, length, bytes; absent when there is nothing to write.\<close>

definition lenField :: "u8 \<Rightarrow> bytes \<Rightarrow> bytes" where
  "lenField t x = t # varint (word_of_nat (length x)) @ x"

definition optField :: "u8 \<Rightarrow> bytes \<Rightarrow> bytes" where
  "optField t x = (if x \<noteq> [] then lenField t x else [])"

lemma optField_Nil [simp]: "optField t [] = []"
  by (simp add: optField_def)

lemma lenField_not_Nil [simp]: "lenField t x \<noteq> []"
  by (simp add: lenField_def)

lemma length_optField:
  "length (optField t x) = (if x = [] then 0 else Suc (length (varint (word_of_nat (length x))) + length x))"
  by (simp add: optField_def lenField_def)

text \<open>Fields the switch does not know: any number of well-formed fields with other numbers.\<close>

inductive unknownFields :: "int set \<Rightarrow> bytes \<Rightarrow> bool" for known :: "int set" where
  none: "unknownFields known []"
| more: "tagField w \<notin> known \<Longrightarrow> 0 < tagField w \<Longrightarrow> payload (tagType w) x \<Longrightarrow> unknownFields known u \<Longrightarrow>
    unknownFields known ((varint w @ x) @ u)"

lemma payload_type: "payload wt x \<Longrightarrow> wt \<noteq> 4"
  by (auto simp: payload_def)

locale cosmos =
  fixes R :: cosmos_runtime
  assumes runtime: "runtime_ok R"
begin

lemma rtSov_varint [simp]: "rtSov R v = length (varint v)"
  using runtime by (simp add: runtime_ok_def)

lemma rt_writes: "writes (varint v) (\<lambda>b. ext (rtEncodeVarint R v b))"
  using runtime by (simp add: runtime_ok_def)

lemma rtSkip_bounds: "go_slice d \<Longrightarrow> rtSkip R d = Inr n \<Longrightarrow> 0 < n \<and> n < 2 ^ 63"
  using runtime by (simp add: runtime_ok_def)

lemma rtSkip_append: "go_slice (d @ e) \<Longrightarrow> rtSkip R d = Inr n \<Longrightarrow> rtSkip R (d @ e) = Inr n"
  using runtime by (simp add: runtime_ok_def)

lemma rtSkip_field:
  "go_slice (varint w @ x) \<Longrightarrow> payload (tagType w) x \<Longrightarrow>
   rtSkip R (varint w @ x) = Inr (int (length (varint w @ x)))"
  using runtime unfolding runtime_ok_def by blast

lemma rtSkip_clean: "go_slice d \<Longrightarrow> clean (ext (rtSkip R d))"
proof (cases "rtSkip R d" rule: ext.cases)
  case (3 s)
  moreover assume "go_slice d"
  ultimately show ?thesis using runtime unfolding runtime_ok_def by metis
qed auto

lemma rtDiscard_bits [simp]: "\<not> rtDiscard R 0" "rtDiscard R 1"
  using runtime by (simp_all add: runtime_ok_def)

lemma rtDiscard_flag [simp]: "rtDiscard R (if disc then 1 else 0) \<longleftrightarrow> disc"
  using runtime by (simp add: runtime_ok_def)

lemma apiUnknown_writes [writes_intros]: "writes u (apiUnknown u)"
  by (auto simp: apiUnknown_def intro: writes_intros)

lemma bytes_writes:
  "writes (lenField t x)
     (\<lambda>b. bindR (putBytes x b) (\<lambda>b. bindR (ext (rtEncodeVarint R (word_of_nat (length x)) b)) (putByte t)))"
  using writes_seq [OF writes_bytes [of x] writes_seq [OF rt_writes [of "word_of_nat (length x)"] writes_byte [of t]]]
  by (simp add: lenField_def)

lemma apiString_writes [writes_intros]: "writes (optField t (bytes_of s)) (apiString R t s)"
  using bytes_writes [of t "bytes_of s"] writes_nothing by (simp add: apiString_def optField_def)

lemma apiNested_None [writes_intros]: "writes [] (apiNested R L t None)"
  by (simp add: apiNested_def writes_nothing)

lemma apiNested_Some:
  "optMarshal L (Some m) = Inr x \<Longrightarrow> writes (lenField t x) (apiNested R L t (Some m))"
  using bytes_writes [of t x] by (simp add: apiNested_def)

lemma sizeString_length: "sizeString R s = length (optField 0 (bytes_of s))"
  by (simp add: sizeString_def Let_def length_optField)

lemma sizeNested_None: "sizeNested R L None = 0"
  by (simp add: sizeNested_def)

lemma sizeNested_length:
  "optSize L (Some m) = length x \<Longrightarrow> sizeNested R L (Some m) = length (lenField t x)"
  by (simp add: sizeNested_def lenField_def Let_def)

lemma apiMarshal_writes:
  assumes "sz (Some m) = length x" "writes x (ops m)"
  shows "apiMarshal sz ops (Some m) buf = Inr (Some (raw buf @ x))"
  using writesD [OF assms(2), of "replicate (length x) 0" "[]" "[]"] assms(1)
  by (simp add: apiMarshal_def)

end

section \<open>The decoders\<close>

text \<open>
  What a switch promises, given the runtime: the contract of \<^theory_text>\<open>field_decoder\<close> for the
  branches alone; the skip function is the runtime's.
\<close>

locale api_decoder = cosmos +
  fixes name :: string
    and field :: "bool \<Rightarrow> 'm field"
    and keep :: "'m \<Rightarrow> bytes \<Rightarrow> 'm"
    and known :: "int set"
  assumes sw_progress:
      "go_slice d \<Longrightarrow> i \<le> length d \<Longrightarrow> field disc m n wt d i = Some (Inr (m', j)) \<Longrightarrow>
       i \<le> j \<and> j \<le> length d"
    and sw_clean: "go_slice d \<Longrightarrow> i \<le> length d \<Longrightarrow> field disc m n wt d i = Some r \<Longrightarrow> clean r"
    and sw_default: "field disc m n wt d i = None \<longleftrightarrow> n \<notin> known"
    and sw_local:
      "go_slice (p @ d @ e) \<Longrightarrow> i \<le> length d \<Longrightarrow> field disc m n wt d i = Some (Inr (m', j)) \<Longrightarrow>
       field disc m n wt (p @ d @ e) (length p + i) = Some (Inr (m', length p + j))"
    and keep_append: "keep (keep m u) v = keep m (u @ v)"
    and keep_Nil: "keep m [] = m"
begin

sublocale dec: field_decoder "''runtime''" name "\<lambda>d. ext (rtSkip R d)" "field disc"
    "\<lambda>m u. if disc then m else keep m u" for disc
proof
  fix d p e :: bytes and i j :: nat and n wt wt' :: int and m m' :: 'm and d' i' and k :: int
  show "i \<le> j \<and> j \<le> length d"
    if "go_slice d" "i \<le> length d" "field disc m n wt d i = Some (Inr (m', j))"
    using that by (rule sw_progress)
  show "field disc m n wt d i \<noteq> Some (Inl OutOfFuel)" if "go_slice d" "i \<le> length d"
    using sw_clean [OF that] clean_fuel by blast
  show "field disc m' n wt' d' i' = None" if "field disc m n wt d i = None"
    using that by (simp add: sw_default)
  show "field disc m n wt (p @ d @ e) (length p + i) = Some (Inr (m', length p + j))"
    if "go_slice (p @ d @ e)" "i \<le> length d" "field disc m n wt d i = Some (Inr (m', j))"
    using that by (rule sw_local)
  show "0 < k" "k < 2 ^ 63" if "go_slice d" "ext (rtSkip R d) = Inr k"
    using rtSkip_bounds [OF that(1), of k] that(2) by simp_all
  show "ext (rtSkip R d) \<noteq> Inl OutOfFuel" by simp
  show "ext (rtSkip R (d @ e)) = Inr k" if "go_slice (d @ e)" "ext (rtSkip R d) = Inr k"
    using rtSkip_append [OF that(1), of k] that(2) by simp
qed

abbreviation unm :: "u8 \<Rightarrow> bytes \<Rightarrow> 'm option \<Rightarrow> 'm option res" where
  "unm \<equiv> apiUnmarshal R name field keep"

lemma unm_Some:
  "unm fl d (Some m) = Inr y \<longleftrightarrow> (\<exists>m'. dec.decode (rtDiscard R fl) m d = Inr m' \<and> y = Some m')"
  by (auto simp: apiUnmarshal_def bindR_Inr_conv)

text \<open>Total, clean, and decoding a concatenation in two stages.\<close>

lemma unm_clean: "go_slice d \<Longrightarrow> clean (unm fl d x)"
  unfolding apiUnmarshal_def
  by (auto split: option.split intro!: clean_bindR dec.decode_clean rtSkip_clean dest: sw_clean)

lemma unm_append:
  "go_slice (d1 @ d2) \<Longrightarrow> unm fl d1 (Some m) = Inr (Some m1) \<Longrightarrow> unm fl d2 (Some m1) = Inr y \<Longrightarrow>
   unm fl (d1 @ d2) (Some m) = Inr y"
  by (auto simp: unm_Some intro: dec.decode_append)

lemma unm_Nil [simp]: "unm fl [] x = Inr x"
  by (cases x) (auto simp: apiUnmarshal_def)

text \<open>A field with a one-byte tag, length-delimited, is decoded by its branch.\<close>

lemma unm_lenField:
  assumes "go_slice (lenField t x)" "t < 0x80" "tagType (ucast t) = 2" "0 < tagField (ucast t)"
    and "field (rtDiscard R fl) m (tagField (ucast t)) 2 (lenField t x) 1 =
      fieldLen ''runtime'' 2 s (lenField t x) 1 f"
    and "f x = Inr m'"
  shows "unm fl (lenField t x) (Some m) = Inr (Some m')"
proof -
  have "dec.decode (rtDiscard R fl) m (lenField t x) = Inr m'"
    unfolding lenField_def
    using assms fieldLen_read [of t x "''runtime''" s f] by (intro dec.decode_field) (auto simp: lenField_def)
  then show ?thesis by (simp add: unm_Some)
qed

lemma unm_stringField:
  assumes "go_slice (optField t (bytes_of v))" "t < 0x80" "tagType (ucast t) = 2" "0 < tagField (ucast t)"
    and "field (rtDiscard R fl) m (tagField (ucast t)) 2 (lenField t (bytes_of v)) 1 =
      fieldLen ''runtime'' 2 s (lenField t (bytes_of v)) 1 (\<lambda>bs. Inr (f (string_of bs)))"
    and "m' = (if v = [] then m else f v)"
  shows "unm fl (optField t (bytes_of v)) (Some m) = Inr (Some m')"
  using assms unm_lenField [of t "bytes_of v" fl m s "\<lambda>bs. Inr (f (string_of bs))" m']
  by (cases "v = []") (auto simp: optField_def)

lemma unm_boolField:
  assumes "t < 0x80" "tagType (ucast t) = 0" "0 < tagField (ucast t)"
    and "field (rtDiscard R fl) m (tagField (ucast t)) 0 [t, 1] 1 = fieldVarint ''runtime'' 0 s [t, 1] 1 upd"
  shows "unm fl [t, 1] (Some m) = Inr (Some (upd 1))"
proof -
  have "varint 1 = [1]" by (subst varint.simps) simp
  then have "fieldVarint ''runtime'' 0 s [t, 1] (Suc 0) upd = Some (Inr (upd 1, Suc (Suc 0)))"
    using fieldVarint_read [of "''runtime''" s t 1 upd] by simp
  then have "dec.decode (rtDiscard R fl) m [t, 1] = Inr (upd 1)"
    using assms by (intro dec.decode_field) (auto simp: go_slice_def)
  then show ?thesis by (simp add: unm_Some)
qed

text \<open>Unknown fields are kept in order, or dropped when the flag says so.\<close>

lemma unm_unknown:
  assumes "unknownFields known u" "go_slice u"
  shows "unm fl u (Some m) = Inr (Some (if rtDiscard R fl then m else keep m u))"
  using assms
proof (induction arbitrary: m)
  case none
  then show ?case by (simp add: keep_Nil)
next
  case (more w x u)
  let ?f = "varint w @ x" and ?m = "if rtDiscard R fl then m else keep m (varint w @ x)"
  have g: "go_slice ?f" "go_slice u" using more.prems by blast+
  have "readVarint ''runtime'' ?f 0 0 0 = Inr (w, length (varint w))"
    using readVarint_varint [of "''runtime''" "[]" w x] by simp
  then have "dec.decode (rtDiscard R fl) m ?f = Inr ?m"
    using more.hyps g(1) rtSkip_field [OF g(1)] payload_type
    by (intro dec.decode_unknown) (auto simp: sw_default)
  then have "unm fl ?f (Some m) = Inr (Some ?m)" by (simp add: unm_Some)
  from unm_append [OF more.prems this more.IH [OF g(2)]] show ?case
    by (simp add: keep_append)
qed

end

section \<open>The contract of a message\<close>

text \<open>
  \<open>Size\<close> is the length of the wire form, \<open>Marshal\<close> appends that form to the buffer it is given,
  and \<open>Unmarshal\<close> into an empty message gives the message back, without its unknown fields (that
  is \<open>strip\<close>) when the flags discard them. A message that embeds another one meets it through the
  library, so the second half is about the library's entry points.
\<close>

locale api_message = cosmos +
  fixes M :: "'m methods"
    and wire :: "'m \<Rightarrow> bytes"
    and zero :: 'm
    and ok :: "'m \<Rightarrow> bool"
    and strip :: "'m \<Rightarrow> 'm"
  assumes size_wire: "ok m \<Longrightarrow> mSize M (Some m) = length (wire m)"
    and marshal_wire: "ok m \<Longrightarrow> mMarshal M (Some m) buf = Inr (Some (raw buf @ wire m))"
    and unm_wire: "ok m \<Longrightarrow> mUnmarshal M fl (wire m) (Some zero) =
      Inr (Some (if rtDiscard R fl then strip m else m))"
begin

lemma unm_kept: "ok m \<Longrightarrow> mUnmarshal M 0 (wire m) (Some zero) = Inr (Some m)"
  by (simp add: unm_wire)

lemma round_trip:
  "ok m \<Longrightarrow> bindR (mMarshal M (Some m) None) (\<lambda>b. mUnmarshal M 0 (raw b) (Some zero)) = Inr (Some m)"
  by (simp add: marshal_wire unm_kept)

lemma wire_inject: "ok m \<Longrightarrow> ok m' \<Longrightarrow> wire m = wire m' \<longleftrightarrow> m = m'"
  using unm_kept [of m] unm_kept [of m'] by (metis sum.inject(2) option.inject)

lemma lib_size: "dispatches R L M zero \<Longrightarrow> ok m \<Longrightarrow> optSize L (Some m) = length (wire m)"
  by (simp add: dispatches_def size_wire)

lemma lib_marshal: "dispatches R L M zero \<Longrightarrow> ok m \<Longrightarrow> optMarshal L (Some m) = Inr (wire m)"
  by (simp add: dispatches_def marshal_wire)

lemma lib_unmarshal:
  "dispatches R L M zero \<Longrightarrow> ok m \<Longrightarrow>
   optUnmarshal L disc (wire m) (Some zero) = Inr (Some (if disc then strip m else m))"
  unfolding dispatches_def using rtDiscard_flag [of disc] by (simp add: unm_wire)

end

section \<open>A runtime\<close>

text \<open>
  The repository's own copies of the three functions (\<open>x/fixedmint/types\<close>) meet the documented
  behaviour, so the hypotheses on the runtime can be met. \<open>unext\<close> turns their results into those of
  outside code.
\<close>

definition unext :: "'a res \<Rightarrow> 'a ext" where
  "unext r = (case r of Inr x \<Rightarrow> Inr x
     | Inl e \<Rightarrow> if is_panic e then Inl (Panicked ''panic'') else Inl (Failed ''error''))"

definition own_runtime :: cosmos_runtime where
  "own_runtime = \<lparr>rtSov = sov, rtEncodeVarint = (\<lambda>v b. unext (encodeVarint v b)),
     rtSkip = (\<lambda>d. unext (skip ''runtime'' d)), rtDiscard = (\<lambda>fl. fl AND 1 \<noteq> 0), rtMerge = False\<rparr>"

lemma unext_Inr_iff [simp]: "unext r = Inr x \<longleftrightarrow> r = Inr x"
  by (auto simp: unext_def split: sum.splits)

lemma unext_clean: "clean r \<Longrightarrow> unext r \<noteq> Inl (Panicked s)"
  by (auto simp: unext_def split: sum.splits)

lemma own_runtime_ok: "runtime_ok own_runtime"
  unfolding runtime_ok_def
proof (intro conjI allI impI)
  show "writes (varint v) (\<lambda>b. ext (rtEncodeVarint own_runtime v b))" for v
    using writes_varint [of v] unfolding writes_def own_runtime_def by simp
  show "rtSkip own_runtime (varint w @ x) = Inr (int (length (varint w @ x)))"
    if "go_slice (varint w @ x)" "payload (tagType w) x" for w x
    using skip_field [of w x "''runtime''"] that by (simp add: own_runtime_def tagType_def)
qed (auto simp: own_runtime_def sov_varint unext_clean simp del: encodeVarint.simps
      intro: skip_append dest: skip_progress skip_int)

interpretation own: cosmos own_runtime
  by unfold_locales (rule own_runtime_ok)

end
