(* ===== verification/ApiReflect.thy ===== *)
theory ApiReflect
  imports ApiCore
begin

text \<open>
  The contract of reflective field access. \<open>google.golang.org/protobuf\<close> documents it for
  \<open>protoreflect.Message\<close>: \<open>Set\<close> stores what \<open>Get\<close> returns and touches no other field, \<open>Clear\<close>
  makes \<open>Has\<close> false, \<open>Range\<close> visits the populated fields. The generic algorithms over messages
  (merging, copying, printing) use nothing else, so one of them, copying, is derived here once for
  every message of the API.
\<close>

text \<open>The reference iteration: the populated fields in the order of the descriptor.\<close>

fun rangeOver ::
  "(fieldDesc \<Rightarrow> 'm \<Rightarrow> 'v) \<Rightarrow> (fieldDesc \<Rightarrow> 'v) \<Rightarrow> (fieldDesc \<Rightarrow> 'v \<Rightarrow> ('s, bool) act) \<Rightarrow> 'm \<Rightarrow>
   fieldDesc list \<Rightarrow> ('s, unit) act" where
  "rangeOver val dflt f m [] = lift (Inr ())"
| "rangeOver val dflt f m (fd # fds) =
     visit (val fd m \<noteq> dflt fd) fd (val fd m) f (rangeOver val dflt f m fds)"

text \<open>The callback that copies: it sets every field it is shown on its state, a message.\<close>

definition copyField :: "(fieldDesc \<Rightarrow> 'v \<Rightarrow> 'm option \<Rightarrow> 'm res) \<Rightarrow> fieldDesc \<Rightarrow> 'v \<Rightarrow> ('m, bool) act" where
  "copyField st fd v m =
     (case st fd v (Some m) of Inl e \<Rightarrow> (m, Inl e) | Inr m' \<Rightarrow> (m', Inr True))"

text \<open>
  \<open>val\<close> is the value a field has, \<open>dflt\<close> the one of an unpopulated field, \<open>typed\<close> the values a
  field accepts, \<open>unk\<close> the unknown fields.
\<close>

locale reflected_message =
  fixes fds :: "fieldDesc list"
    and typed :: "fieldDesc \<Rightarrow> 'v \<Rightarrow> bool"
    and dflt :: "fieldDesc \<Rightarrow> 'v"
    and val :: "fieldDesc \<Rightarrow> 'm \<Rightarrow> 'v"
    and unk :: "'m \<Rightarrow> bytes"
    and has :: "fieldDesc \<Rightarrow> 'm option \<Rightarrow> bool res"
    and get :: "fieldDesc \<Rightarrow> 'm option \<Rightarrow> 'v res"
    and st :: "fieldDesc \<Rightarrow> 'v \<Rightarrow> 'm option \<Rightarrow> 'm res"
    and clr :: "fieldDesc \<Rightarrow> 'm option \<Rightarrow> 'm res"
  assumes distinct_fds: "distinct fds"
    and val_typed: "fd \<in> set fds \<Longrightarrow> typed fd (val fd m)"
    and dflt_typed: "fd \<in> set fds \<Longrightarrow> typed fd (dflt fd)"
    and get_val: "fd \<in> set fds \<Longrightarrow> get fd (Some m) = Inr (val fd m)"
    and has_val: "fd \<in> set fds \<Longrightarrow> has fd (Some m) = Inr (val fd m \<noteq> dflt fd)"
    and clr_set: "fd \<in> set fds \<Longrightarrow> clr fd (Some m) = st fd (dflt fd) (Some m)"
    and set_typed: "fd \<in> set fds \<Longrightarrow> typed fd v \<Longrightarrow>
      \<exists>m'. st fd v (Some m) = Inr m' \<and> val fd m' = v \<and> unk m' = unk m \<and>
           (\<forall>g \<in> set fds. g \<noteq> fd \<longrightarrow> val g m' = val g m)"
    and set_only: "fd \<in> set fds \<Longrightarrow> st fd v (Some m) = Inr m' \<Longrightarrow> typed fd v"
    and extensional: "\<forall>g \<in> set fds. val g m = val g m' \<Longrightarrow> unk m = unk m' \<Longrightarrow> m = m'"
begin

lemma set_total: "fd \<in> set fds \<Longrightarrow> typed fd v \<Longrightarrow> \<exists>m'. st fd v (Some m) = Inr m'"
  using set_typed by blast

lemma set_iff: "fd \<in> set fds \<Longrightarrow> (\<exists>m'. st fd v (Some m) = Inr m') = typed fd v"
  using set_total set_only by blast

lemma set_effect:
  assumes "fd \<in> set fds" "typed fd v" "st fd v (Some m) = Inr m'"
  shows "val fd m' = v" "unk m' = unk m" "\<And>g. g \<in> set fds \<Longrightarrow> g \<noteq> fd \<Longrightarrow> val g m' = val g m"
  using set_typed [OF assms(1,2), of m] assms(3) by auto

lemma set_unique:
  assumes "fd \<in> set fds" "typed fd v" "st fd v (Some m) = Inr m'"
    and "val fd m'' = v" "unk m'' = unk m" "\<And>g. g \<in> set fds \<Longrightarrow> g \<noteq> fd \<Longrightarrow> val g m'' = val g m"
  shows "m'' = m'"
  using set_effect [OF assms(1-3)] assms(4-6) by (intro extensional ballI) (case_tac "g = fd", simp_all)

lemma set_get:
  assumes "fd \<in> set fds"
  shows "st fd (val fd m) (Some m) = Inr m"
proof -
  have t: "typed fd (val fd m)" using assms by (rule val_typed)
  obtain m' where m': "st fd (val fd m) (Some m) = Inr m'" using set_total [OF assms t] by blast
  have "m = m'" by (rule set_unique [OF assms t m']) simp_all
  with m' show ?thesis by simp
qed

lemma get_set:
  "fd \<in> set fds \<Longrightarrow> typed fd v \<Longrightarrow> st fd v (Some m) = Inr m' \<Longrightarrow> get fd (Some m') = Inr v"
  by (simp add: get_val set_effect(1))

lemma set_set:
  assumes "fd \<in> set fds" "typed fd v" "typed fd w" "st fd v (Some m) = Inr m'"
  shows "st fd w (Some m') = st fd w (Some m)"
proof -
  obtain m2 where m2: "st fd w (Some m) = Inr m2" using set_total [OF assms(1,3)] by blast
  obtain m3 where m3: "st fd w (Some m') = Inr m3" using set_total [OF assms(1,3)] by blast
  have "m2 = m3"
    using set_effect [OF assms(1,3) m2] set_effect [OF assms(1,2,4)]
    by (intro set_unique [OF assms(1,3) m3]) simp_all
  with m2 m3 show ?thesis by simp
qed

lemma clear_spec:
  assumes "fd \<in> set fds"
  shows "\<exists>m'. clr fd (Some m) = Inr m' \<and> has fd (Some m') = Inr False \<and> unk m' = unk m \<and>
    (\<forall>g \<in> set fds. g \<noteq> fd \<longrightarrow> get g (Some m') = get g (Some m))"
proof -
  have t: "typed fd (dflt fd)" using assms by (rule dflt_typed)
  obtain m' where m': "st fd (dflt fd) (Some m) = Inr m'" using set_total [OF assms t] by blast
  from set_effect [OF assms t m'] m' show ?thesis
    by (simp add: clr_set has_val get_val assms)
qed

text \<open>Ranging over a message with \<open>copyField\<close> on an empty one with the same unknown fields.\<close>

lemma rangeOver_copies:
  assumes "distinct xs" "set xs \<subseteq> set fds" "\<And>g. g \<in> set xs \<Longrightarrow> val g s = dflt g"
  shows "\<exists>s'. rangeOver val dflt (copyField st) m xs s = (s', Inr ()) \<and> unk s' = unk s \<and>
    (\<forall>g \<in> set fds. val g s' = (if g \<in> set xs then val g m else val g s))"
  using assms
proof (induction xs arbitrary: s)
  case Nil
  then show ?case by (simp add: lift_def)
next
  case (Cons fd xs)
  then have fd: "fd \<in> set fds" "fd \<notin> set xs" by auto
  show ?case
  proof (cases "val fd m = dflt fd")
    case True
    with Cons.IH [of s] Cons.prems fd show ?thesis by (auto simp: visit_def)
  next
    case False
    have t: "typed fd (val fd m)" using fd(1) by (rule val_typed)
    obtain s1 where st: "st fd (val fd m) (Some s) = Inr s1" using set_total [OF fd(1) t] by blast
    note s1 = set_effect [OF fd(1) t st]
    have "\<And>g. g \<in> set xs \<Longrightarrow> val g s1 = dflt g"
      using s1(3) Cons.prems fd(2) by (metis list.set_intros(2) subsetD)
    then obtain s' where "rangeOver val dflt (copyField st) m xs s1 = (s', Inr ())" "unk s' = unk s1"
      "\<forall>g \<in> set fds. val g s' = (if g \<in> set xs then val g m else val g s1)"
      using Cons.IH [of s1] Cons.prems by auto
    moreover have "rangeOver val dflt (copyField st) m (fd # xs) s =
        rangeOver val dflt (copyField st) m xs s1"
      using False st by (simp add: visit_def bindS_def copyField_def)
    ultimately show ?thesis using s1 fd by auto
  qed
qed

theorem range_copies:
  assumes "\<And>g. g \<in> set fds \<Longrightarrow> val g s = dflt g" "unk s = unk m"
  shows "rangeOver val dflt (copyField st) m fds s = (m, Inr ())"
proof -
  obtain s' where s': "rangeOver val dflt (copyField st) m fds s = (s', Inr ())" "unk s' = unk s"
    "\<forall>g \<in> set fds. val g s' = val g m"
    using rangeOver_copies [OF distinct_fds subset_refl assms(1)] by auto
  then have "s' = m" using assms(2) by (intro extensional) auto
  with s'(1) show ?thesis by simp
qed

end

end
