(* ===== verification/ApiParams.thy ===== *)
theory ApiParams
  imports ApiReflect
begin

text \<open>
  \<open>api/bluechipchain/fixedmint/params.pulsar.go\<close>: the second implementation of \<open>Params\<close>. The amount
  is the text of the number here, and every field is left out when it is empty. Setters return the
  receiver's new content; a value of the wrong kind and a nil receiver panic.
\<close>

section \<open>The message\<close>

record apiParams =
  apiMintDenom :: string
  apiMintAmount :: string
  apiMintEnabled :: bool
  paramsUnknown :: bytes

definition apiParams_zero :: apiParams where
  "apiParams_zero = \<lparr>apiMintDenom = '''', apiMintAmount = '''', apiMintEnabled = False, paramsUnknown = []\<rparr>"

text \<open>
  The values of the API's fields, as \<open>protoreflect.Value\<close>: a string, a bool, a message, which is a
  \<open>Params\<close> or of another type, or a value of a kind no field has. The accessors panic on the wrong
  kind: \<open>value.Interface().(string)\<close>, \<open>value.Bool()\<close>, \<open>value.Message().Interface().(*Params)\<close>.
\<close>

datatype protoValue =
    VString string
  | VBool bool
  | VMessage "apiParams option"
  | VForeign
  | VScalar

fun valueString :: "protoValue \<Rightarrow> string res" where
  "valueString (VString s) = Inr s"
| "valueString _ = Inl (Panic ''interface conversion'')"

fun valueBool :: "protoValue \<Rightarrow> bool res" where
  "valueBool (VBool b) = Inr b"
| "valueBool _ = Inl (Panic ''type mismatch: cannot convert to bool'')"

fun valueParams :: "protoValue \<Rightarrow> apiParams option res" where
  "valueParams (VMessage p) = Inr p"
| "valueParams VForeign = Inl (Panic ''interface conversion'')"
| "valueParams _ = Inl (Panic ''type mismatch: cannot convert to message'')"

lemma accessor_iffs [simp]:
  "valueString v = Inr s \<longleftrightarrow> v = VString s" "valueBool v = Inr b \<longleftrightarrow> v = VBool b"
  "valueParams v = Inr p \<longleftrightarrow> v = VMessage p"
  by (cases v, simp_all)+

text \<open>The field descriptors that \<open>init\<close> looks up by name.\<close>

definition fd_Params_mint_denom :: fieldDesc where
  "fd_Params_mint_denom = \<lparr>FullName = ''bluechipchain.fixedmint.Params.mint_denom'', IsExtension = False\<rparr>"

definition fd_Params_mint_amount :: fieldDesc where
  "fd_Params_mint_amount = \<lparr>FullName = ''bluechipchain.fixedmint.Params.mint_amount'', IsExtension = False\<rparr>"

definition fd_Params_mint_enabled :: fieldDesc where
  "fd_Params_mint_enabled = \<lparr>FullName = ''bluechipchain.fixedmint.Params.mint_enabled'', IsExtension = False\<rparr>"

text \<open>The message type: an invalid \<open>Zero\<close> and a \<open>New\<close> empty message.\<close>

definition apiParams_Zero :: "apiParams option" where
  "apiParams_Zero = None"

definition apiParams_New :: "apiParams option" where
  "apiParams_New = Some apiParams_zero"

definition apiParams_Reset :: "apiParams option \<Rightarrow> apiParams res" where
  "apiParams_Reset x = bindR (recv x) (\<lambda>_. Inr apiParams_zero)"

fun apiParams_GetMintDenom :: "apiParams option \<Rightarrow> string" where
  "apiParams_GetMintDenom (Some x) = apiMintDenom x"
| "apiParams_GetMintDenom None = ''''"

fun apiParams_GetMintAmount :: "apiParams option \<Rightarrow> string" where
  "apiParams_GetMintAmount (Some x) = apiMintAmount x"
| "apiParams_GetMintAmount None = ''''"

fun apiParams_GetMintEnabled :: "apiParams option \<Rightarrow> bool" where
  "apiParams_GetMintEnabled (Some x) = apiMintEnabled x"
| "apiParams_GetMintEnabled None = False"

section \<open>Fields of Params by descriptor\<close>

definition apiParams_Range ::
  "(fieldDesc \<Rightarrow> protoValue \<Rightarrow> ('s, bool) act) \<Rightarrow> apiParams option \<Rightarrow> ('s, unit) act" where
  "apiParams_Range f x =
     bindS (lift (recv x)) (\<lambda>m.
     visit (apiMintDenom m \<noteq> '''') fd_Params_mint_denom (VString (apiMintDenom m)) f (
     visit (apiMintAmount m \<noteq> '''') fd_Params_mint_amount (VString (apiMintAmount m)) f (
     visit (apiMintEnabled m \<noteq> False) fd_Params_mint_enabled (VBool (apiMintEnabled m)) f (lift (Inr ())))))"

definition apiParams_Has :: "fieldDesc \<Rightarrow> apiParams option \<Rightarrow> bool res" where
  "apiParams_Has fd x =
     (if FullName fd = ''bluechipchain.fixedmint.Params.mint_denom''
      then bindR (recv x) (\<lambda>m. Inr (apiMintDenom m \<noteq> ''''))
      else if FullName fd = ''bluechipchain.fixedmint.Params.mint_amount''
      then bindR (recv x) (\<lambda>m. Inr (apiMintAmount m \<noteq> ''''))
      else if FullName fd = ''bluechipchain.fixedmint.Params.mint_enabled''
      then bindR (recv x) (\<lambda>m. Inr (apiMintEnabled m \<noteq> False))
      else noField ''bluechipchain.fixedmint.Params'' fd)"

definition apiParams_Clear :: "fieldDesc \<Rightarrow> apiParams option \<Rightarrow> apiParams res" where
  "apiParams_Clear fd x =
     (if FullName fd = ''bluechipchain.fixedmint.Params.mint_denom''
      then bindR (recv x) (\<lambda>m. Inr (m\<lparr>apiMintDenom := ''''\<rparr>))
      else if FullName fd = ''bluechipchain.fixedmint.Params.mint_amount''
      then bindR (recv x) (\<lambda>m. Inr (m\<lparr>apiMintAmount := ''''\<rparr>))
      else if FullName fd = ''bluechipchain.fixedmint.Params.mint_enabled''
      then bindR (recv x) (\<lambda>m. Inr (m\<lparr>apiMintEnabled := False\<rparr>))
      else noField ''bluechipchain.fixedmint.Params'' fd)"

definition apiParams_Get :: "fieldDesc \<Rightarrow> apiParams option \<Rightarrow> protoValue res" where
  "apiParams_Get fd x =
     (if FullName fd = ''bluechipchain.fixedmint.Params.mint_denom''
      then bindR (recv x) (\<lambda>m. Inr (VString (apiMintDenom m)))
      else if FullName fd = ''bluechipchain.fixedmint.Params.mint_amount''
      then bindR (recv x) (\<lambda>m. Inr (VString (apiMintAmount m)))
      else if FullName fd = ''bluechipchain.fixedmint.Params.mint_enabled''
      then bindR (recv x) (\<lambda>m. Inr (VBool (apiMintEnabled m)))
      else noField ''bluechipchain.fixedmint.Params'' fd)"

definition apiParams_Set :: "fieldDesc \<Rightarrow> protoValue \<Rightarrow> apiParams option \<Rightarrow> apiParams res" where
  "apiParams_Set fd v x =
     (if FullName fd = ''bluechipchain.fixedmint.Params.mint_denom''
      then bindR (valueString v) (\<lambda>v. bindR (recv x) (\<lambda>m. Inr (m\<lparr>apiMintDenom := v\<rparr>)))
      else if FullName fd = ''bluechipchain.fixedmint.Params.mint_amount''
      then bindR (valueString v) (\<lambda>v. bindR (recv x) (\<lambda>m. Inr (m\<lparr>apiMintAmount := v\<rparr>)))
      else if FullName fd = ''bluechipchain.fixedmint.Params.mint_enabled''
      then bindR (valueBool v) (\<lambda>v. bindR (recv x) (\<lambda>m. Inr (m\<lparr>apiMintEnabled := v\<rparr>)))
      else noField ''bluechipchain.fixedmint.Params'' fd)"

definition apiParams_Mutable :: "fieldDesc \<Rightarrow> apiParams option \<Rightarrow> (apiParams \<times> protoValue) res" where
  "apiParams_Mutable fd x =
     (if FullName fd = ''bluechipchain.fixedmint.Params.mint_denom''
      then notMutable ''mint_denom'' ''bluechipchain.fixedmint.Params''
      else if FullName fd = ''bluechipchain.fixedmint.Params.mint_amount''
      then notMutable ''mint_amount'' ''bluechipchain.fixedmint.Params''
      else if FullName fd = ''bluechipchain.fixedmint.Params.mint_enabled''
      then notMutable ''mint_enabled'' ''bluechipchain.fixedmint.Params''
      else noField ''bluechipchain.fixedmint.Params'' fd)"

definition apiParams_NewField :: "fieldDesc \<Rightarrow> protoValue res" where
  "apiParams_NewField fd =
     (if FullName fd = ''bluechipchain.fixedmint.Params.mint_denom''
      then Inr (VString '''')
      else if FullName fd = ''bluechipchain.fixedmint.Params.mint_amount''
      then Inr (VString '''')
      else if FullName fd = ''bluechipchain.fixedmint.Params.mint_enabled''
      then Inr (VBool False)
      else noField ''bluechipchain.fixedmint.Params'' fd)"

definition apiParams_WhichOneof :: "string \<Rightarrow> fieldDesc option res" where
  "apiParams_WhichOneof d = notOneof ''bluechipchain.fixedmint.Params'' d"

definition apiParams_GetUnknown :: "apiParams option \<Rightarrow> bytes res" where
  "apiParams_GetUnknown x = bindR (recv x) (\<lambda>m. Inr (paramsUnknown m))"

definition apiParams_SetUnknown :: "bytes \<Rightarrow> apiParams option \<Rightarrow> apiParams res" where
  "apiParams_SetUnknown u x = bindR (recv x) (\<lambda>m. Inr (m\<lparr>paramsUnknown := u\<rparr>))"

definition apiParams_IsValid :: "apiParams option \<Rightarrow> bool" where
  "apiParams_IsValid x = (x \<noteq> None)"

section \<open>The methods of Params\<close>

definition apiParams_size ::
  "cosmos_runtime \<Rightarrow> apiParams option \<Rightarrow> nat" where
  "apiParams_size R x = apiSize (\<lambda>m.
     sizeString R (apiMintDenom m) +
     sizeString R (apiMintAmount m) +
     (if apiMintEnabled m then 2 else 0) +
     (if paramsUnknown m \<noteq> [] then length (paramsUnknown m) else 0)) x"

definition apiParams_fields ::
  "cosmos_runtime \<Rightarrow> apiParams \<Rightarrow> wbuf \<Rightarrow> wbuf res" where
  "apiParams_fields R m b =
     bindR (apiUnknown (paramsUnknown m) b) (\<lambda>b.
     bindR ((if apiMintEnabled m
      then (\<lambda>b. bindR (putByte (if apiMintEnabled m then 1 else 0) b) (putByte 0x18)) else Inr) b) (\<lambda>b.
     bindR (apiString R 0x12 (apiMintAmount m) b) (\<lambda>b.
     (apiString R 0x0A (apiMintDenom m) b))))"

definition apiParams_marshal ::
  "cosmos_runtime \<Rightarrow> apiParams proto_lib \<Rightarrow> apiParams option \<Rightarrow>
   bytes option \<Rightarrow> bytes option res" where
  "apiParams_marshal R L x buf = apiMarshal (optSize L) (apiParams_fields R) x buf"

definition apiParams_field :: "bool \<Rightarrow> apiParams field" where
  "apiParams_field disc m fieldNum wireType d iNdEx =
     (if fieldNum = 1 then
        fieldLen ''runtime'' wireType ''MintDenom'' d iNdEx (\<lambda>bs. Inr (m\<lparr>apiMintDenom := string_of bs\<rparr>))
      else if fieldNum = 2 then
        fieldLen ''runtime'' wireType ''MintAmount'' d iNdEx (\<lambda>bs. Inr (m\<lparr>apiMintAmount := string_of bs\<rparr>))
      else if fieldNum = 3 then
        fieldVarint ''runtime'' wireType ''MintEnabled'' d iNdEx (\<lambda>v. m\<lparr>apiMintEnabled := (v \<noteq> 0)\<rparr>)
      else None)"

definition apiParams_keep :: "apiParams \<Rightarrow> bytes \<Rightarrow> apiParams" where
  "apiParams_keep m u = m\<lparr>paramsUnknown := paramsUnknown m @ u\<rparr>"

definition apiParams_unmarshal ::
  "cosmos_runtime \<Rightarrow> u8 \<Rightarrow> bytes \<Rightarrow>
   apiParams option \<Rightarrow> apiParams option res" where
  "apiParams_unmarshal R flags buf x =
     apiUnmarshal R ''Params'' apiParams_field apiParams_keep flags buf x"

definition apiParams_ProtoMethods ::
  "cosmos_runtime \<Rightarrow> apiParams proto_lib \<Rightarrow> apiParams methods" where
  "apiParams_ProtoMethods R L = \<lparr>mSize = apiParams_size R,
     mMarshal = apiParams_marshal R L, mUnmarshal = apiParams_unmarshal R\<rparr>"

section \<open>The decoder\<close>

lemma apiParams_decoder:
  assumes "runtime_ok R"
  shows "api_decoder R apiParams_field apiParams_keep {1, 2, 3}"
proof (unfold_locales, rule assms)
  fix d p e :: bytes and i j :: nat and n wt :: int and m m' :: apiParams and disc and r and u v :: bytes
  show "i \<le> j \<and> j \<le> length d"
    if "go_slice d" "i \<le> length d" "apiParams_field disc m n wt d i = Some (Inr (m', j))"
    using that by (auto simp: apiParams_field_def split: if_splits dest: fieldLen_progress fieldVarint_progress)
  show "clean r" if "go_slice d" "i \<le> length d" "apiParams_field disc m n wt d i = Some r"
    using that by (auto simp: apiParams_field_def split: if_splits intro: fieldVarint_clean
        elim: fieldLen_clean [rotated 2])
  show "apiParams_field disc m n wt d i = None \<longleftrightarrow> n \<notin> {1, 2, 3}"
    by (auto simp: apiParams_field_def)
  show "apiParams_field disc m n wt (p @ d @ e) (length p + i) = Some (Inr (m', length p + j))"
    if "go_slice (p @ d @ e)" "i \<le> length d" "apiParams_field disc m n wt d i = Some (Inr (m', j))"
    using that by (auto simp: apiParams_field_def split: if_splits intro: fieldLen_local fieldVarint_local)
  show "apiParams_keep (apiParams_keep m u) v = apiParams_keep m (u @ v)" "apiParams_keep m [] = m"
    by (simp_all add: apiParams_keep_def)
qed

interpretation own_params_dec: api_decoder own_runtime "''Params''" apiParams_field apiParams_keep "{1, 2, 3}"
  by (rule apiParams_decoder [OF own_runtime_ok])

section \<open>The wire form and the contract\<close>

text \<open>The fields that are not empty, then the unknown ones; \<open>strip\<close> drops the latter. Decoding into a
  message that is not empty merges field by field.\<close>

definition apiParams_wire :: "apiParams \<Rightarrow> bytes" where
  "apiParams_wire m =
     optField 0x0A (bytes_of (apiMintDenom m)) @ optField 0x12 (bytes_of (apiMintAmount m)) @
     (if apiMintEnabled m then [0x18, 1] else []) @ paramsUnknown m"

definition apiParams_ok :: "apiParams \<Rightarrow> bool" where
  "apiParams_ok m \<longleftrightarrow> unknownFields {1, 2, 3} (paramsUnknown m) \<and> go_slice (apiParams_wire m)"

definition apiParams_merge :: "apiParams \<Rightarrow> apiParams \<Rightarrow> apiParams" where
  "apiParams_merge x m =
     \<lparr>apiMintDenom = (if apiMintDenom m = [] then apiMintDenom x else apiMintDenom m),
      apiMintAmount = (if apiMintAmount m = [] then apiMintAmount x else apiMintAmount m),
      apiMintEnabled = (apiMintEnabled x \<or> apiMintEnabled m),
      paramsUnknown = paramsUnknown x @ paramsUnknown m\<rparr>"

lemma apiParams_merge_zero: "apiParams_merge apiParams_zero m = m"
  by (simp add: apiParams_merge_def apiParams_zero_def)

definition apiParams_strip :: "apiParams \<Rightarrow> apiParams" where
  "apiParams_strip m = m\<lparr>paramsUnknown := []\<rparr>"

context cosmos
begin

lemma apiParams_size_wire: "apiParams_size R (Some m) = length (apiParams_wire m)"
  by (simp add: apiParams_size_def apiSize_def apiParams_wire_def sizeString_length length_optField)

lemma apiParams_fields_writes: "writes (apiParams_wire m) (apiParams_fields R m)"
proof -
  let ?e = "if apiMintEnabled m then [0x18] @ [if apiMintEnabled m then 1 else 0] else []"
  have e: "writes ?e (if apiMintEnabled m
      then (\<lambda>b. bindR (putByte (if apiMintEnabled m then 1 else 0) b) (putByte 0x18)) else Inr)"
    by (intro writes_intros)
  have "apiParams_wire m = ((optField 0x0A (bytes_of (apiMintDenom m)) @
      optField 0x12 (bytes_of (apiMintAmount m))) @ ?e) @ paramsUnknown m"
    by (cases "apiMintEnabled m") (simp_all add: apiParams_wire_def)
  then show ?thesis
    unfolding apiParams_fields_def by (simp only:) (intro writes_seq apiUnknown_writes e apiString_writes)
qed

lemma apiParams_marshal_wire:
  "optSize L (Some m) = apiParams_size R (Some m) \<Longrightarrow>
   apiParams_marshal R L (Some m) buf = Inr (Some (raw buf @ apiParams_wire m))"
  unfolding apiParams_marshal_def
  by (intro apiMarshal_writes apiParams_fields_writes) (simp add: apiParams_size_wire)

end

context cosmos
begin

interpretation P: api_decoder R "''Params''" apiParams_field apiParams_keep "{1, 2, 3}"
  by (rule apiParams_decoder [OF runtime])

lemma apiParams_unmarshal_clean: "go_slice d \<Longrightarrow> clean (apiParams_unmarshal R fl d x)"
  unfolding apiParams_unmarshal_def by (rule P.unm_clean)

lemma apiParams_unmarshal_append:
  "go_slice (d1 @ d2) \<Longrightarrow> apiParams_unmarshal R fl d1 (Some m) = Inr (Some m1) \<Longrightarrow>
   apiParams_unmarshal R fl d2 (Some m1) = Inr y \<Longrightarrow>
   apiParams_unmarshal R fl (d1 @ d2) (Some m) = Inr y"
  unfolding apiParams_unmarshal_def by (rule P.unm_append)

lemma apiParams_unmarshal_into:
  assumes "apiParams_ok m"
  shows "apiParams_unmarshal R fl (apiParams_wire m) (Some x) =
    Inr (Some (apiParams_merge x (if rtDiscard R fl then apiParams_strip m else m)))"
proof -
  let ?d = "optField 0x0A (bytes_of (apiMintDenom m))" and ?a = "optField 0x12 (bytes_of (apiMintAmount m))"
    and ?e = "if apiMintEnabled m then [0x18, 1] else []" and ?u = "paramsUnknown m"
  let ?m1 = "x\<lparr>apiMintDenom := if apiMintDenom m = [] then apiMintDenom x else apiMintDenom m\<rparr>"
  let ?m2 = "?m1\<lparr>apiMintAmount := if apiMintAmount m = [] then apiMintAmount x else apiMintAmount m\<rparr>"
  let ?m3 = "?m2\<lparr>apiMintEnabled := apiMintEnabled x \<or> apiMintEnabled m\<rparr>"
  have u: "unknownFields {1, 2, 3} ?u" and g: "go_slice (?d @ ?a @ ?e @ ?u)"
    using assms by (simp_all only: apiParams_ok_def apiParams_wire_def)
  then have gs: "go_slice ?d" "go_slice (?a @ ?e @ ?u)" "go_slice ?a" "go_slice (?e @ ?u)" "go_slice ?u"
    by blast+
  have d: "apiParams_unmarshal R fl ?d (Some x) = Inr (Some ?m1)"
    unfolding apiParams_unmarshal_def
    by (rule P.unm_stringField [OF gs(1), where s = "''MintDenom''" and
          f = "\<lambda>s. x\<lparr>apiMintDenom := s\<rparr>"]) (auto simp: apiParams_field_def)
  have a: "apiParams_unmarshal R fl ?a (Some ?m1) = Inr (Some ?m2)"
    unfolding apiParams_unmarshal_def
    by (rule P.unm_stringField [OF gs(3), where s = "''MintAmount''" and
          f = "\<lambda>s. ?m1\<lparr>apiMintAmount := s\<rparr>"]) (auto simp: apiParams_field_def)
  have e: "apiParams_unmarshal R fl ?e (Some ?m2) = Inr (Some ?m3)"
    using P.unm_boolField [where t = "0x18" and fl = fl and m = ?m2 and s = "''MintEnabled''" and
        upd = "\<lambda>v. ?m2\<lparr>apiMintEnabled := (v \<noteq> 0)\<rparr>"]
    by (auto simp: apiParams_unmarshal_def apiParams_field_def)
  have "apiParams_unmarshal R fl ?u (Some ?m3) =
      Inr (Some (apiParams_merge x (if rtDiscard R fl then apiParams_strip m else m)))"
    unfolding apiParams_unmarshal_def P.unm_unknown [OF u gs(5)]
    by (simp add: apiParams_keep_def apiParams_strip_def apiParams_merge_def)
  then show ?thesis
    unfolding apiParams_wire_def using g gs d a e by (blast intro: apiParams_unmarshal_append)
qed

lemma apiParams_unmarshal_wire:
  "apiParams_ok m \<Longrightarrow> apiParams_unmarshal R fl (apiParams_wire m) (Some apiParams_zero) =
    Inr (Some (if rtDiscard R fl then apiParams_strip m else m))"
  by (simp add: apiParams_unmarshal_into apiParams_merge_zero)

lemma apiParams_message:
  assumes "\<And>m. optSize L (Some m) = apiParams_size R (Some m)"
  shows "api_message R (apiParams_ProtoMethods R L) apiParams_wire apiParams_zero apiParams_ok apiParams_strip"
  using assms
  by unfold_locales
    (auto simp: apiParams_ProtoMethods_def apiParams_size_wire apiParams_marshal_wire apiParams_unmarshal_wire)

end

text \<open>
  A library that dispatches to the message's own methods: what \<open>google.golang.org/protobuf\<close> is to
  \<open>Params\<close>.
\<close>

definition own_lib :: "'m methods \<Rightarrow> 'm \<Rightarrow> 'm proto_lib" where
  "own_lib M zero = \<lparr>optSize = mSize M,
     optMarshal = (\<lambda>x. bindR (mMarshal M x None) (\<lambda>b. Inr (raw b))),
     optUnmarshal = (\<lambda>disc b x. mUnmarshal M (if disc then 1 else 0) b (map_option (\<lambda>_. zero) x))\<rparr>"

definition size_lib :: "('m option \<Rightarrow> nat) \<Rightarrow> 'm proto_lib" where
  "size_lib sz = \<lparr>optSize = sz, optMarshal = (\<lambda>_. Inr []), optUnmarshal = (\<lambda>_ _ x. Inr x)\<rparr>"

definition own_Params :: "apiParams methods" where
  "own_Params = apiParams_ProtoMethods own_runtime (size_lib (apiParams_size own_runtime))"

definition own_LP :: "apiParams proto_lib" where
  "own_LP = own_lib own_Params apiParams_zero"

interpretation own_params: api_message own_runtime own_Params apiParams_wire apiParams_zero apiParams_ok apiParams_strip
  unfolding own_Params_def by (rule own.apiParams_message) (simp add: size_lib_def)

lemma own_lib_dispatches: "\<not> rtMerge R \<Longrightarrow> dispatches R (own_lib M zero) M zero"
  by (simp add: dispatches_def own_lib_def)

section \<open>Reflection\<close>

text \<open>
  The kinds of fields, the values each accepts and the value of an unpopulated field; a message is
  described by its field descriptors with their kinds, in the order of the code.
\<close>

datatype kind = KString | KBool | KParams

fun hasKind :: "kind \<Rightarrow> protoValue \<Rightarrow> bool" where
  "hasKind KString v = (\<exists>s. v = VString s)"
| "hasKind KBool v = (\<exists>b. v = VBool b)"
| "hasKind KParams v = (\<exists>p. v = VMessage p)"

fun unpopulated :: "kind \<Rightarrow> protoValue" where
  "unpopulated KString = VString ''''"
| "unpopulated KBool = VBool False"
| "unpopulated KParams = VMessage None"

definition typedBy :: "(fieldDesc \<times> kind) list \<Rightarrow> fieldDesc \<Rightarrow> protoValue \<Rightarrow> bool" where
  "typedBy fds fd v = (case map_of fds fd of Some k \<Rightarrow> hasKind k v | None \<Rightarrow> False)"

definition dfltBy :: "(fieldDesc \<times> kind) list \<Rightarrow> fieldDesc \<Rightarrow> protoValue" where
  "dfltBy fds fd = (case map_of fds fd of Some k \<Rightarrow> unpopulated k | None \<Rightarrow> VScalar)"

definition valBy :: "(fieldDesc \<Rightarrow> 'm option \<Rightarrow> protoValue res) \<Rightarrow> fieldDesc \<Rightarrow> 'm \<Rightarrow> protoValue" where
  "valBy get fd m = (case get fd (Some m) of Inr v \<Rightarrow> v | Inl _ \<Rightarrow> VScalar)"

lemmas reflect_defs = typedBy_def dfltBy_def valBy_def

definition apiParams_fds :: "(fieldDesc \<times> kind) list" where
  "apiParams_fds = [(fd_Params_mint_denom, KString), (fd_Params_mint_amount, KString),
     (fd_Params_mint_enabled, KBool)]"

lemmas Params_fd = fd_Params_mint_denom_def fd_Params_mint_amount_def fd_Params_mint_enabled_def

lemma Params_fd_neq [simp]:
  "fd_Params_mint_denom \<noteq> fd_Params_mint_amount" "fd_Params_mint_amount \<noteq> fd_Params_mint_denom"
  "fd_Params_mint_denom \<noteq> fd_Params_mint_enabled" "fd_Params_mint_enabled \<noteq> fd_Params_mint_denom"
  "fd_Params_mint_amount \<noteq> fd_Params_mint_enabled" "fd_Params_mint_enabled \<noteq> fd_Params_mint_amount"
  by (simp_all add: Params_fd)

lemma Params_Get_simps [simp]:
  "apiParams_Get fd_Params_mint_denom (Some m) = Inr (VString (apiMintDenom m))"
  "apiParams_Get fd_Params_mint_amount (Some m) = Inr (VString (apiMintAmount m))"
  "apiParams_Get fd_Params_mint_enabled (Some m) = Inr (VBool (apiMintEnabled m))"
  by (simp_all add: Params_fd apiParams_Get_def)

lemma Params_Has_simps [simp]:
  "apiParams_Has fd_Params_mint_denom (Some m) = Inr (apiMintDenom m \<noteq> '''')"
  "apiParams_Has fd_Params_mint_amount (Some m) = Inr (apiMintAmount m \<noteq> '''')"
  "apiParams_Has fd_Params_mint_enabled (Some m) = Inr (apiMintEnabled m)"
  by (simp_all add: Params_fd apiParams_Has_def)

lemma Params_Set_simps [simp]:
  "apiParams_Set fd_Params_mint_denom v (Some m) = bindR (valueString v) (\<lambda>s. Inr (m\<lparr>apiMintDenom := s\<rparr>))"
  "apiParams_Set fd_Params_mint_amount v (Some m) = bindR (valueString v) (\<lambda>s. Inr (m\<lparr>apiMintAmount := s\<rparr>))"
  "apiParams_Set fd_Params_mint_enabled v (Some m) = bindR (valueBool v) (\<lambda>b. Inr (m\<lparr>apiMintEnabled := b\<rparr>))"
  by (simp_all add: Params_fd apiParams_Set_def)

lemma Params_Clear_simps [simp]:
  "apiParams_Clear fd_Params_mint_denom (Some m) = Inr (m\<lparr>apiMintDenom := ''''\<rparr>)"
  "apiParams_Clear fd_Params_mint_amount (Some m) = Inr (m\<lparr>apiMintAmount := ''''\<rparr>)"
  "apiParams_Clear fd_Params_mint_enabled (Some m) = Inr (m\<lparr>apiMintEnabled := False\<rparr>)"
  by (simp_all add: Params_fd apiParams_Clear_def)

interpretation params_reflect: reflected_message "map fst apiParams_fds" "typedBy apiParams_fds"
    "dfltBy apiParams_fds" "valBy apiParams_Get" paramsUnknown apiParams_Has apiParams_Get
    apiParams_Set apiParams_Clear
  by unfold_locales (auto simp: apiParams_fds_def reflect_defs bindR_Inr_conv)

lemma apiParams_Range_over:
  "apiParams_Range f (Some m) =
     rangeOver (valBy apiParams_Get) (dfltBy apiParams_fds) f m (map fst apiParams_fds)"
  by (rule ext) (simp add: apiParams_Range_def apiParams_fds_def reflect_defs)

section \<open>Params inside another message\<close>

text \<open>
  The messages that embed \<open>Params\<close> reach its methods through the library. Absent is nil; an empty
  but present \<open>Params\<close> is a field of length zero.
\<close>

definition nestedWire :: "u8 \<Rightarrow> apiParams option \<Rightarrow> bytes" where
  "nestedWire t x = (case x of None \<Rightarrow> [] | Some p \<Rightarrow> lenField t (apiParams_wire p))"

definition nestedOk :: "apiParams option \<Rightarrow> bool" where
  "nestedOk x = (case x of None \<Rightarrow> True | Some p \<Rightarrow> apiParams_ok p)"

lemma nested_simps [simp]:
  "nestedWire t None = []" "nestedWire t (Some p) = lenField t (apiParams_wire p)"
  "nestedOk None" "nestedOk (Some p) = apiParams_ok p"
  by (simp_all add: nestedWire_def nestedOk_def)

locale cosmos_params = cosmos +
  fixes LP :: "apiParams proto_lib"
  assumes lib: "dispatches R LP (apiParams_ProtoMethods R LP) apiParams_zero"
begin

sublocale params: api_message R "apiParams_ProtoMethods R LP" apiParams_wire apiParams_zero
    apiParams_ok apiParams_strip
  using lib by (intro apiParams_message) (simp add: dispatches_def apiParams_ProtoMethods_def)

lemma nested_size: "nestedOk x \<Longrightarrow> sizeNested R LP x = length (nestedWire t x)"
  by (cases x) (simp_all add: sizeNested_None sizeNested_length params.lib_size [OF lib])

lemma nested_writes: "nestedOk x \<Longrightarrow> writes (nestedWire t x) (apiNested R LP t x)"
  by (cases x) (simp_all add: apiNested_None apiNested_Some params.lib_marshal [OF lib])

lemma nested_clean: "go_slice bs \<Longrightarrow> clean (optUnmarshal LP disc bs (Some p))"
  using lib by (simp add: dispatches_def apiParams_ProtoMethods_def apiParams_unmarshal_clean)

lemma nested_some: "optUnmarshal LP disc bs (Some p) = Inr y \<Longrightarrow> y \<noteq> None"
  using lib by (auto simp: dispatches_def apiParams_ProtoMethods_def apiParams_unmarshal_def
      apiUnmarshal_def bindR_Inr_conv)

lemma nested_unmarshal:
  "apiParams_ok p \<Longrightarrow> optUnmarshal LP disc (apiParams_wire p) (Some x) =
    Inr (Some (apiParams_merge (if rtMerge R then x else apiParams_zero)
      (if disc then apiParams_strip p else p)))"
  using lib apiParams_unmarshal_into [of p "if disc then 1 else 0" "if rtMerge R then x else apiParams_zero"]
  by (simp add: dispatches_def apiParams_ProtoMethods_def)

lemma nested_field_clean:
  "go_slice bs \<Longrightarrow> clean (bindR (optUnmarshal LP disc bs (Some p)) (\<lambda>p. Inr (f p)))"
  by (auto intro!: clean_bindR nested_clean)

end

lemma own_lib_params: "apiParams_ProtoMethods own_runtime own_LP = own_Params"
  by (simp add: own_Params_def apiParams_ProtoMethods_def apiParams_marshal_def own_LP_def own_lib_def
      size_lib_def fun_eq_iff)

interpretation own_lib: cosmos_params own_runtime own_LP
proof
  show "dispatches own_runtime own_LP (apiParams_ProtoMethods own_runtime own_LP) apiParams_zero"
    unfolding own_lib_params unfolding own_LP_def
    by (rule own_lib_dispatches) (simp add: own_runtime_def)
qed

end
