(* ===== verification/ApiGenesis.thy ===== *)
theory ApiGenesis
  imports ApiParams
begin

text \<open>
  \<open>api/bluechipchain/fixedmint/genesis.pulsar.go\<close>: \<open>GenesisState\<close>, which holds a pointer to \<open>Params\<close>.
\<close>

section \<open>GenesisState\<close>

record apiGenesisState =
  genesisParams :: "apiParams option"
  genesisUnknown :: bytes

definition apiGenesisState_zero :: apiGenesisState where
  "apiGenesisState_zero = \<lparr>genesisParams = None, genesisUnknown = []\<rparr>"

text \<open>The field descriptors that \<open>init\<close> looks up by name.\<close>

definition fd_GenesisState_params :: fieldDesc where
  "fd_GenesisState_params = \<lparr>FullName = ''bluechipchain.fixedmint.GenesisState.params'',
   IsExtension = False\<rparr>"

text \<open>The message type: an invalid \<open>Zero\<close> and a \<open>New\<close> empty message.\<close>

definition apiGenesisState_Zero :: "apiGenesisState option" where
  "apiGenesisState_Zero = None"

definition apiGenesisState_New :: "apiGenesisState option" where
  "apiGenesisState_New = Some apiGenesisState_zero"

definition apiGenesisState_Reset :: "apiGenesisState option \<Rightarrow> apiGenesisState res" where
  "apiGenesisState_Reset x = bindR (recv x) (\<lambda>_. Inr apiGenesisState_zero)"

fun apiGenesisState_GetParams :: "apiGenesisState option \<Rightarrow> apiParams option" where
  "apiGenesisState_GetParams (Some x) = genesisParams x"
| "apiGenesisState_GetParams None = None"

section \<open>Fields of GenesisState by descriptor\<close>

definition apiGenesisState_Range ::
  "(fieldDesc \<Rightarrow> protoValue \<Rightarrow> ('s, bool) act) \<Rightarrow> apiGenesisState option \<Rightarrow>
   ('s, unit) act" where
  "apiGenesisState_Range f x =
     bindS (lift (recv x)) (\<lambda>m.
     visit (genesisParams m \<noteq> None) fd_GenesisState_params (VMessage (genesisParams m)) f (lift (Inr ())))"

definition apiGenesisState_Has :: "fieldDesc \<Rightarrow> apiGenesisState option \<Rightarrow> bool res" where
  "apiGenesisState_Has fd x =
     (if FullName fd = ''bluechipchain.fixedmint.GenesisState.params''
      then bindR (recv x) (\<lambda>m. Inr (genesisParams m \<noteq> None))
      else noField ''bluechipchain.fixedmint.GenesisState'' fd)"

definition apiGenesisState_Clear :: "fieldDesc \<Rightarrow> apiGenesisState option \<Rightarrow>
  apiGenesisState res" where
  "apiGenesisState_Clear fd x =
     (if FullName fd = ''bluechipchain.fixedmint.GenesisState.params''
      then bindR (recv x) (\<lambda>m. Inr (m\<lparr>genesisParams := None\<rparr>))
      else noField ''bluechipchain.fixedmint.GenesisState'' fd)"

definition apiGenesisState_Get :: "fieldDesc \<Rightarrow> apiGenesisState option \<Rightarrow> protoValue res" where
  "apiGenesisState_Get fd x =
     (if FullName fd = ''bluechipchain.fixedmint.GenesisState.params''
      then bindR (recv x) (\<lambda>m. Inr (VMessage (genesisParams m)))
      else noField ''bluechipchain.fixedmint.GenesisState'' fd)"

definition apiGenesisState_Set :: "fieldDesc \<Rightarrow> protoValue \<Rightarrow> apiGenesisState option \<Rightarrow>
  apiGenesisState res" where
  "apiGenesisState_Set fd v x =
     (if FullName fd = ''bluechipchain.fixedmint.GenesisState.params''
      then bindR (valueParams v) (\<lambda>v. bindR (recv x) (\<lambda>m. Inr (m\<lparr>genesisParams := v\<rparr>)))
      else noField ''bluechipchain.fixedmint.GenesisState'' fd)"

text \<open>
  The value \<open>Mutable\<close> returns shares the nested message with the receiver: what is written through
  it is written to the field. The model returns both.
\<close>

definition apiGenesisState_Mutable :: "fieldDesc \<Rightarrow> apiGenesisState option \<Rightarrow>
  (apiGenesisState \<times> protoValue) res" where
  "apiGenesisState_Mutable fd x =
     (if FullName fd = ''bluechipchain.fixedmint.GenesisState.params''
      then bindR (recv x) (\<lambda>m.
          let m' = (if genesisParams m = None then m\<lparr>genesisParams := Some apiParams_zero\<rparr> else m)
          in Inr (m', VMessage (genesisParams m')))
      else noField ''bluechipchain.fixedmint.GenesisState'' fd)"

definition apiGenesisState_NewField :: "fieldDesc \<Rightarrow> protoValue res" where
  "apiGenesisState_NewField fd =
     (if FullName fd = ''bluechipchain.fixedmint.GenesisState.params''
      then Inr (VMessage (Some apiParams_zero))
      else noField ''bluechipchain.fixedmint.GenesisState'' fd)"

definition apiGenesisState_WhichOneof :: "string \<Rightarrow> fieldDesc option res" where
  "apiGenesisState_WhichOneof d = notOneof ''bluechipchain.fixedmint.GenesisState'' d"

definition apiGenesisState_GetUnknown :: "apiGenesisState option \<Rightarrow> bytes res" where
  "apiGenesisState_GetUnknown x = bindR (recv x) (\<lambda>m. Inr (genesisUnknown m))"

definition apiGenesisState_SetUnknown :: "bytes \<Rightarrow> apiGenesisState option \<Rightarrow>
  apiGenesisState res" where
  "apiGenesisState_SetUnknown u x = bindR (recv x) (\<lambda>m. Inr (m\<lparr>genesisUnknown := u\<rparr>))"

definition apiGenesisState_IsValid :: "apiGenesisState option \<Rightarrow> bool" where
  "apiGenesisState_IsValid x = (x \<noteq> None)"

section \<open>The methods of GenesisState\<close>

definition apiGenesisState_size ::
  "cosmos_runtime \<Rightarrow> apiParams proto_lib \<Rightarrow> apiGenesisState option \<Rightarrow> nat" where
  "apiGenesisState_size R LP x = apiSize (\<lambda>m.
     sizeNested R LP (genesisParams m) +
     (if genesisUnknown m \<noteq> [] then length (genesisUnknown m) else 0)) x"

definition apiGenesisState_fields ::
  "cosmos_runtime \<Rightarrow> apiParams proto_lib \<Rightarrow> apiGenesisState \<Rightarrow> wbuf \<Rightarrow>
   wbuf res" where
  "apiGenesisState_fields R LP m b =
     bindR (apiUnknown (genesisUnknown m) b) (\<lambda>b.
     (apiNested R LP 0x0A (genesisParams m) b))"

definition apiGenesisState_marshal ::
  "cosmos_runtime \<Rightarrow> apiParams proto_lib \<Rightarrow> apiGenesisState proto_lib \<Rightarrow>
   apiGenesisState option \<Rightarrow>
   bytes option \<Rightarrow> bytes option res" where
  "apiGenesisState_marshal R LP L x buf = apiMarshal (optSize L) (apiGenesisState_fields R LP) x buf"

definition apiGenesisState_field :: "apiParams proto_lib \<Rightarrow> bool \<Rightarrow> apiGenesisState field" where
  "apiGenesisState_field LP disc m fieldNum wireType d iNdEx =
     (if fieldNum = 1 then
        fieldLen ''runtime'' wireType ''Params'' d iNdEx (\<lambda>bs.
          let p = (if genesisParams m = None then Some apiParams_zero else genesisParams m)
          in bindR (optUnmarshal LP disc bs p) (\<lambda>p. Inr (m\<lparr>genesisParams := p\<rparr>)))
      else None)"

definition apiGenesisState_keep :: "apiGenesisState \<Rightarrow> bytes \<Rightarrow> apiGenesisState" where
  "apiGenesisState_keep m u = m\<lparr>genesisUnknown := genesisUnknown m @ u\<rparr>"

definition apiGenesisState_unmarshal ::
  "cosmos_runtime \<Rightarrow> apiParams proto_lib \<Rightarrow> u8 \<Rightarrow> bytes \<Rightarrow>
   apiGenesisState option \<Rightarrow> apiGenesisState option res" where
  "apiGenesisState_unmarshal R LP flags buf x =
     apiUnmarshal R ''GenesisState'' (apiGenesisState_field LP) apiGenesisState_keep flags buf x"

definition apiGenesisState_ProtoMethods ::
  "cosmos_runtime \<Rightarrow> apiParams proto_lib \<Rightarrow> apiGenesisState proto_lib \<Rightarrow>
   apiGenesisState methods" where
  "apiGenesisState_ProtoMethods R LP L = \<lparr>mSize = apiGenesisState_size R LP,
     mMarshal = apiGenesisState_marshal R LP L, mUnmarshal = apiGenesisState_unmarshal R LP\<rparr>"

section \<open>The decoder and the contract of GenesisState\<close>

definition apiGenesisState_wire :: "apiGenesisState \<Rightarrow> bytes" where
  "apiGenesisState_wire m = nestedWire 0x0A (genesisParams m) @ genesisUnknown m"

definition apiGenesisState_ok :: "apiGenesisState \<Rightarrow> bool" where
  "apiGenesisState_ok m \<longleftrightarrow>
     nestedOk (genesisParams m) \<and> unknownFields {1} (genesisUnknown m) \<and> go_slice (apiGenesisState_wire m)"

definition apiGenesisState_strip :: "apiGenesisState \<Rightarrow> apiGenesisState" where
  "apiGenesisState_strip m =
     m\<lparr>genesisParams := map_option apiParams_strip (genesisParams m), genesisUnknown := []\<rparr>"

context cosmos_params
begin

lemma apiGenesisState_decoder: "api_decoder R (apiGenesisState_field LP) apiGenesisState_keep {1}"
proof
  fix d p e :: bytes and i j :: nat and n wt :: int and m m' :: apiGenesisState and disc and r and u v :: bytes
  show "i \<le> j \<and> j \<le> length d"
    if "go_slice d" "i \<le> length d" "apiGenesisState_field LP disc m n wt d i = Some (Inr (m', j))"
    using that by (auto simp: apiGenesisState_field_def split: if_split_asm dest: fieldLen_progress)
  show "clean r" if "go_slice d" "i \<le> length d" "apiGenesisState_field LP disc m n wt d i = Some r"
    using that by (auto simp: apiGenesisState_field_def Let_def split: if_split_asm intro: nested_field_clean
        elim!: fieldLen_clean [rotated 2])
  show "apiGenesisState_field LP disc m n wt d i = None \<longleftrightarrow> n \<notin> {1}"
    by (auto simp: apiGenesisState_field_def)
  show "apiGenesisState_field LP disc m n wt (p @ d @ e) (length p + i) = Some (Inr (m', length p + j))"
    if "go_slice (p @ d @ e)" "i \<le> length d" "apiGenesisState_field LP disc m n wt d i = Some (Inr (m', j))"
    using that by (auto simp: apiGenesisState_field_def split: if_split_asm intro: fieldLen_local)
  show "apiGenesisState_keep (apiGenesisState_keep m u) v = apiGenesisState_keep m (u @ v)"
    "apiGenesisState_keep m [] = m"
    by (simp_all add: apiGenesisState_keep_def)
qed

interpretation D: api_decoder R "''GenesisState''" "apiGenesisState_field LP" apiGenesisState_keep "{1}"
  by (rule apiGenesisState_decoder)

lemma apiGenesisState_unmarshal_clean: "go_slice d \<Longrightarrow> clean (apiGenesisState_unmarshal R LP fl d x)"
  unfolding apiGenesisState_unmarshal_def by (rule D.unm_clean)

lemma apiGenesisState_unmarshal_append:
  "go_slice (d1 @ d2) \<Longrightarrow> apiGenesisState_unmarshal R LP fl d1 (Some m)
   = Inr (Some m1) \<Longrightarrow>
   apiGenesisState_unmarshal R LP fl d2 (Some m1) = Inr y \<Longrightarrow>
     apiGenesisState_unmarshal R LP fl (d1 @ d2) (Some m) = Inr y"
  unfolding apiGenesisState_unmarshal_def by (rule D.unm_append)

lemma apiGenesisState_size_wire:
  "nestedOk (genesisParams m) \<Longrightarrow>
   apiGenesisState_size R LP (Some m) = length (apiGenesisState_wire m)"
  by (simp add: apiGenesisState_size_def apiSize_def apiGenesisState_wire_def nested_size [where t = "0x0A"])

lemma apiGenesisState_fields_writes:
  assumes "nestedOk (genesisParams m)"
  shows "writes (apiGenesisState_wire m) (apiGenesisState_fields R LP m)"
proof -
  have "apiGenesisState_wire m = nestedWire 0x0A (genesisParams m) @ genesisUnknown m"
    by (simp add: apiGenesisState_wire_def)
  then show ?thesis
    unfolding apiGenesisState_fields_def
    by (simp only:) (intro writes_seq apiUnknown_writes nested_writes [OF assms] apiString_writes)
qed

lemma apiGenesisState_marshal_wire:
  "nestedOk (genesisParams m) \<Longrightarrow>
   optSize L (Some m) = apiGenesisState_size R LP (Some m) \<Longrightarrow>
   apiGenesisState_marshal R LP L (Some m) buf = Inr (Some (raw buf @ apiGenesisState_wire m))"
  unfolding apiGenesisState_marshal_def
  by (intro apiMarshal_writes apiGenesisState_fields_writes) (simp_all add: apiGenesisState_size_wire)

lemma apiGenesisState_unmarshal_wire:
  assumes "apiGenesisState_ok m"
  shows "apiGenesisState_unmarshal R LP fl (apiGenesisState_wire m) (Some apiGenesisState_zero) =
    Inr (Some (if rtDiscard R fl then apiGenesisState_strip m else m))"
proof -
  let ?f0 = "nestedWire 0x0A (genesisParams m)"
  let ?u = "genesisUnknown m"
  let ?m1 = "apiGenesisState_zero\<lparr>genesisParams := if rtDiscard R fl then map_option apiParams_strip (genesisParams m) else genesisParams m\<rparr>"
  have u: "unknownFields {1} ?u" and n: "nestedOk (genesisParams m)" and g: "go_slice (?f0 @ ?u)"
    using assms by (simp_all only: apiGenesisState_ok_def apiGenesisState_wire_def)
  then have gs: "go_slice ?f0" "go_slice (?u)"
    by blast+
  have s0: "apiGenesisState_unmarshal R LP fl ?f0 (Some apiGenesisState_zero) = Inr (Some (?m1))"
  proof (cases "genesisParams m")
    case None
    then show ?thesis by (simp add: apiGenesisState_unmarshal_def apiGenesisState_zero_def)
  next
    case (Some p)
    then have "apiParams_ok p" "go_slice (lenField 0x0A (apiParams_wire p))" using n gs(1) by simp_all
    then show ?thesis
      unfolding apiGenesisState_unmarshal_def Some nested_simps
      by (intro D.unm_lenField [where s = "''Params''" and f = "\<lambda>bs.
          bindR (optUnmarshal LP (rtDiscard R fl) bs (Some apiParams_zero))
            (\<lambda>p. Inr (apiGenesisState_zero\<lparr>genesisParams := p\<rparr>))"])
         (auto simp: apiGenesisState_field_def apiGenesisState_zero_def params.lib_unmarshal [OF lib])
  qed
  have "apiGenesisState_unmarshal R LP fl ?u (Some (?m1))
    = Inr (Some (if rtDiscard R fl then apiGenesisState_strip m else m))"
    unfolding apiGenesisState_unmarshal_def D.unm_unknown [OF u gs(2)]
    by (simp add: apiGenesisState_keep_def apiGenesisState_strip_def apiGenesisState_zero_def)
  then show ?thesis
    unfolding apiGenesisState_wire_def using g gs s0 by (blast intro: apiGenesisState_unmarshal_append)
qed

lemma apiGenesisState_message:
  assumes "\<And>m. optSize L (Some m) = apiGenesisState_size R LP (Some m)"
  shows "api_message R (apiGenesisState_ProtoMethods R LP L) apiGenesisState_wire apiGenesisState_zero
    apiGenesisState_ok apiGenesisState_strip"
  using assms
  by unfold_locales
    (auto simp: apiGenesisState_ok_def apiGenesisState_ProtoMethods_def apiGenesisState_size_wire
      apiGenesisState_marshal_wire apiGenesisState_unmarshal_wire)

end

interpretation api_genesis_dec: api_decoder own_runtime "''GenesisState''"
  "apiGenesisState_field own_LP" apiGenesisState_keep "{1}"
  by (rule own_lib.apiGenesisState_decoder)

interpretation api_genesis: api_message own_runtime
    "apiGenesisState_ProtoMethods own_runtime own_LP (size_lib (apiGenesisState_size own_runtime own_LP))"
    apiGenesisState_wire apiGenesisState_zero apiGenesisState_ok apiGenesisState_strip
  by (rule own_lib.apiGenesisState_message) (simp add: size_lib_def)

definition apiGenesisState_fds :: "(fieldDesc \<times> kind) list" where
  "apiGenesisState_fds = [(fd_GenesisState_params, KParams)]"

lemmas GenesisState_fd = fd_GenesisState_params_def

lemma GenesisState_Get_simps [simp]:
  "apiGenesisState_Get fd_GenesisState_params (Some m) = Inr (VMessage (genesisParams m))"
  by (simp_all add: GenesisState_fd apiGenesisState_Get_def)

lemma GenesisState_Has_simps [simp]:
  "apiGenesisState_Has fd_GenesisState_params (Some m) = Inr (genesisParams m \<noteq> None)"
  by (simp_all add: GenesisState_fd apiGenesisState_Has_def)

lemma GenesisState_Set_simps [simp]:
  "apiGenesisState_Set fd_GenesisState_params v (Some m) = bindR (valueParams v)
   (\<lambda>p. Inr (m\<lparr>genesisParams := p\<rparr>))"
  by (simp_all add: GenesisState_fd apiGenesisState_Set_def)

lemma GenesisState_Clear_simps [simp]:
  "apiGenesisState_Clear fd_GenesisState_params (Some m) = Inr (m\<lparr>genesisParams := None\<rparr>)"
  by (simp_all add: GenesisState_fd apiGenesisState_Clear_def)

interpretation api_genesis_reflect: reflected_message "map fst apiGenesisState_fds"
  "typedBy apiGenesisState_fds"
    "dfltBy apiGenesisState_fds"
      "valBy apiGenesisState_Get" genesisUnknown apiGenesisState_Has apiGenesisState_Get
    apiGenesisState_Set apiGenesisState_Clear
  by unfold_locales (auto simp: apiGenesisState_fds_def reflect_defs bindR_Inr_conv)

lemma apiGenesisState_Range_over:
  "apiGenesisState_Range f (Some m) =
     rangeOver (valBy apiGenesisState_Get) (dfltBy apiGenesisState_fds) f m (map fst apiGenesisState_fds)"
  by (rule ext) (simp add: apiGenesisState_Range_def apiGenesisState_fds_def reflect_defs)

end
