(* ===== verification/ApiQuery.thy ===== *)
theory ApiQuery
  imports ApiParams
begin

text \<open>
  \<open>api/bluechipchain/fixedmint/query.pulsar.go\<close>: the request without fields and the response that
  holds a pointer to \<open>Params\<close>.
\<close>

section \<open>QueryParamsRequest\<close>

record apiQueryParamsRequest =
  requestUnknown :: bytes

definition apiQueryParamsRequest_zero :: apiQueryParamsRequest where
  "apiQueryParamsRequest_zero = \<lparr>requestUnknown = []\<rparr>"

text \<open>The message type: an invalid \<open>Zero\<close> and a \<open>New\<close> empty message.\<close>

definition apiQueryParamsRequest_Zero :: "apiQueryParamsRequest option" where
  "apiQueryParamsRequest_Zero = None"

definition apiQueryParamsRequest_New :: "apiQueryParamsRequest option" where
  "apiQueryParamsRequest_New = Some apiQueryParamsRequest_zero"

definition apiQueryParamsRequest_Reset :: "apiQueryParamsRequest option \<Rightarrow>
  apiQueryParamsRequest res" where
  "apiQueryParamsRequest_Reset x = bindR (recv x) (\<lambda>_. Inr apiQueryParamsRequest_zero)"

section \<open>Fields of QueryParamsRequest by descriptor\<close>

definition apiQueryParamsRequest_Range ::
  "(fieldDesc \<Rightarrow> protoValue \<Rightarrow> ('s, bool) act) \<Rightarrow>
   apiQueryParamsRequest option \<Rightarrow> ('s, unit) act" where
  "apiQueryParamsRequest_Range f x = lift (Inr ())"

definition apiQueryParamsRequest_Has :: "fieldDesc \<Rightarrow> apiQueryParamsRequest option \<Rightarrow>
  bool res" where
  "apiQueryParamsRequest_Has fd x = noField ''bluechipchain.fixedmint.QueryParamsRequest'' fd"

definition apiQueryParamsRequest_Clear :: "fieldDesc \<Rightarrow> apiQueryParamsRequest option \<Rightarrow>
  apiQueryParamsRequest res" where
  "apiQueryParamsRequest_Clear fd x = noField ''bluechipchain.fixedmint.QueryParamsRequest'' fd"

definition apiQueryParamsRequest_Get :: "fieldDesc \<Rightarrow> apiQueryParamsRequest option \<Rightarrow>
  protoValue res" where
  "apiQueryParamsRequest_Get fd x = noField ''bluechipchain.fixedmint.QueryParamsRequest'' fd"

definition apiQueryParamsRequest_Set :: "fieldDesc \<Rightarrow> protoValue \<Rightarrow>
  apiQueryParamsRequest option \<Rightarrow> apiQueryParamsRequest res" where
  "apiQueryParamsRequest_Set fd v x = noField ''bluechipchain.fixedmint.QueryParamsRequest'' fd"

definition apiQueryParamsRequest_Mutable :: "fieldDesc \<Rightarrow> apiQueryParamsRequest option \<Rightarrow>
  (apiQueryParamsRequest \<times> protoValue) res" where
  "apiQueryParamsRequest_Mutable fd x = noField ''bluechipchain.fixedmint.QueryParamsRequest'' fd"

definition apiQueryParamsRequest_NewField :: "fieldDesc \<Rightarrow> protoValue res" where
  "apiQueryParamsRequest_NewField fd = noField ''bluechipchain.fixedmint.QueryParamsRequest'' fd"

definition apiQueryParamsRequest_WhichOneof :: "string \<Rightarrow> fieldDesc option res" where
  "apiQueryParamsRequest_WhichOneof d = notOneof ''bluechipchain.fixedmint.QueryParamsRequest'' d"

definition apiQueryParamsRequest_GetUnknown :: "apiQueryParamsRequest option \<Rightarrow> bytes res" where
  "apiQueryParamsRequest_GetUnknown x = bindR (recv x) (\<lambda>m. Inr (requestUnknown m))"

definition apiQueryParamsRequest_SetUnknown :: "bytes \<Rightarrow> apiQueryParamsRequest option \<Rightarrow>
  apiQueryParamsRequest res" where
  "apiQueryParamsRequest_SetUnknown u x = bindR (recv x) (\<lambda>m. Inr (m\<lparr>requestUnknown := u\<rparr>))"

definition apiQueryParamsRequest_IsValid :: "apiQueryParamsRequest option \<Rightarrow> bool" where
  "apiQueryParamsRequest_IsValid x = (x \<noteq> None)"

section \<open>The methods of QueryParamsRequest\<close>

definition apiQueryParamsRequest_size ::
  "cosmos_runtime \<Rightarrow> apiQueryParamsRequest option \<Rightarrow> nat" where
  "apiQueryParamsRequest_size R x = apiSize (\<lambda>m.
     (if requestUnknown m \<noteq> [] then length (requestUnknown m) else 0)) x"

definition apiQueryParamsRequest_fields ::
  "cosmos_runtime \<Rightarrow> apiQueryParamsRequest \<Rightarrow> wbuf \<Rightarrow> wbuf res" where
  "apiQueryParamsRequest_fields R m b =
     apiUnknown (requestUnknown m) b"

definition apiQueryParamsRequest_marshal ::
  "cosmos_runtime \<Rightarrow> apiQueryParamsRequest proto_lib \<Rightarrow> apiQueryParamsRequest option \<Rightarrow>
   bytes option \<Rightarrow> bytes option res" where
  "apiQueryParamsRequest_marshal R L x buf = apiMarshal (optSize L) (apiQueryParamsRequest_fields R) x buf"

definition apiQueryParamsRequest_field :: "bool \<Rightarrow> apiQueryParamsRequest field" where
  "apiQueryParamsRequest_field disc m fieldNum wireType d iNdEx =
     (None)"

definition apiQueryParamsRequest_keep :: "apiQueryParamsRequest \<Rightarrow> bytes \<Rightarrow>
  apiQueryParamsRequest" where
  "apiQueryParamsRequest_keep m u = m\<lparr>requestUnknown := requestUnknown m @ u\<rparr>"

definition apiQueryParamsRequest_unmarshal ::
  "cosmos_runtime \<Rightarrow> u8 \<Rightarrow> bytes \<Rightarrow>
   apiQueryParamsRequest option \<Rightarrow> apiQueryParamsRequest option res" where
  "apiQueryParamsRequest_unmarshal R flags buf x =
     apiUnmarshal R ''QueryParamsRequest'' apiQueryParamsRequest_field apiQueryParamsRequest_keep flags buf x"

definition apiQueryParamsRequest_ProtoMethods ::
  "cosmos_runtime \<Rightarrow> apiQueryParamsRequest proto_lib \<Rightarrow> apiQueryParamsRequest methods" where
  "apiQueryParamsRequest_ProtoMethods R L = \<lparr>mSize = apiQueryParamsRequest_size R,
     mMarshal = apiQueryParamsRequest_marshal R L, mUnmarshal = apiQueryParamsRequest_unmarshal R\<rparr>"

section \<open>The decoder and the contract of QueryParamsRequest\<close>

definition apiQueryParamsRequest_wire :: "apiQueryParamsRequest \<Rightarrow> bytes" where
  "apiQueryParamsRequest_wire m = requestUnknown m"

definition apiQueryParamsRequest_ok :: "apiQueryParamsRequest \<Rightarrow> bool" where
  "apiQueryParamsRequest_ok m \<longleftrightarrow>
     unknownFields {} (requestUnknown m) \<and> go_slice (apiQueryParamsRequest_wire m)"

definition apiQueryParamsRequest_strip :: "apiQueryParamsRequest \<Rightarrow> apiQueryParamsRequest" where
  "apiQueryParamsRequest_strip m = m\<lparr>requestUnknown := []\<rparr>"

context cosmos
begin

lemma apiQueryParamsRequest_decoder: "api_decoder R apiQueryParamsRequest_field apiQueryParamsRequest_keep {}"
  by unfold_locales (simp_all add: apiQueryParamsRequest_field_def apiQueryParamsRequest_keep_def)

interpretation D: api_decoder R "''QueryParamsRequest''"
  "apiQueryParamsRequest_field" apiQueryParamsRequest_keep "{}"
  by (rule apiQueryParamsRequest_decoder)

lemma apiQueryParamsRequest_unmarshal_clean:
  "go_slice d \<Longrightarrow> clean (apiQueryParamsRequest_unmarshal R fl d x)"
  unfolding apiQueryParamsRequest_unmarshal_def by (rule D.unm_clean)

lemma apiQueryParamsRequest_unmarshal_append:
  "go_slice (d1 @ d2) \<Longrightarrow> apiQueryParamsRequest_unmarshal R fl d1 (Some m)
   = Inr (Some m1) \<Longrightarrow>
   apiQueryParamsRequest_unmarshal R fl d2 (Some m1) = Inr y \<Longrightarrow>
     apiQueryParamsRequest_unmarshal R fl (d1 @ d2) (Some m) = Inr y"
  unfolding apiQueryParamsRequest_unmarshal_def by (rule D.unm_append)

lemma apiQueryParamsRequest_size_wire:
  "apiQueryParamsRequest_size R (Some m) = length (apiQueryParamsRequest_wire m)"
  by (simp add: apiQueryParamsRequest_size_def apiSize_def apiQueryParamsRequest_wire_def)

lemma apiQueryParamsRequest_fields_writes:
  "writes (apiQueryParamsRequest_wire m) (apiQueryParamsRequest_fields R m)"
  using apiUnknown_writes by (simp add: apiQueryParamsRequest_wire_def
    apiQueryParamsRequest_fields_def [abs_def])

lemma apiQueryParamsRequest_marshal_wire:
  "optSize L (Some m) = apiQueryParamsRequest_size R (Some m) \<Longrightarrow>
   apiQueryParamsRequest_marshal R L (Some m) buf = Inr (Some (raw buf @ apiQueryParamsRequest_wire m))"
  unfolding apiQueryParamsRequest_marshal_def
  by (intro apiMarshal_writes apiQueryParamsRequest_fields_writes) (simp_all add:
    apiQueryParamsRequest_size_wire)

lemma apiQueryParamsRequest_unmarshal_wire:
  assumes "apiQueryParamsRequest_ok m"
  shows "apiQueryParamsRequest_unmarshal R fl (apiQueryParamsRequest_wire m) (Some apiQueryParamsRequest_zero) =
    Inr (Some (if rtDiscard R fl then apiQueryParamsRequest_strip m else m))"
proof -
  let ?u = "requestUnknown m"
  have u: "unknownFields {} ?u" and g: "go_slice (?u)"
    using assms by (simp_all only: apiQueryParamsRequest_ok_def apiQueryParamsRequest_wire_def)
  have "apiQueryParamsRequest_unmarshal R fl ?u (Some apiQueryParamsRequest_zero)
    = Inr (Some (if rtDiscard R fl then apiQueryParamsRequest_strip m else m))"
    unfolding apiQueryParamsRequest_unmarshal_def D.unm_unknown [OF u g]
    by (simp add: apiQueryParamsRequest_keep_def apiQueryParamsRequest_strip_def apiQueryParamsRequest_zero_def)
  then show ?thesis by (simp add: apiQueryParamsRequest_wire_def)
qed

lemma apiQueryParamsRequest_message:
  assumes "\<And>m. optSize L (Some m) = apiQueryParamsRequest_size R (Some m)"
  shows "api_message R (apiQueryParamsRequest_ProtoMethods R L) apiQueryParamsRequest_wire
    apiQueryParamsRequest_zero apiQueryParamsRequest_ok apiQueryParamsRequest_strip"
  using assms
  by unfold_locales
    (auto simp: apiQueryParamsRequest_ProtoMethods_def apiQueryParamsRequest_size_wire
      apiQueryParamsRequest_marshal_wire apiQueryParamsRequest_unmarshal_wire)

end

interpretation api_request_dec: api_decoder own_runtime "''QueryParamsRequest''"
  apiQueryParamsRequest_field apiQueryParamsRequest_keep "{}"
  by (rule own.apiQueryParamsRequest_decoder)

interpretation api_request: api_message own_runtime
    "apiQueryParamsRequest_ProtoMethods own_runtime (size_lib (apiQueryParamsRequest_size own_runtime))"
    apiQueryParamsRequest_wire apiQueryParamsRequest_zero apiQueryParamsRequest_ok apiQueryParamsRequest_strip
  by (rule own.apiQueryParamsRequest_message) (simp add: size_lib_def)

section \<open>QueryParamsResponse\<close>

record apiQueryParamsResponse =
  responseParams :: "apiParams option"
  responseUnknown :: bytes

definition apiQueryParamsResponse_zero :: apiQueryParamsResponse where
  "apiQueryParamsResponse_zero = \<lparr>responseParams = None, responseUnknown = []\<rparr>"

text \<open>The field descriptors that \<open>init\<close> looks up by name.\<close>

definition fd_QueryParamsResponse_params :: fieldDesc where
  "fd_QueryParamsResponse_params = \<lparr>FullName = ''bluechipchain.fixedmint.QueryParamsResponse.params'', IsExtension = False\<rparr>"

text \<open>The message type: an invalid \<open>Zero\<close> and a \<open>New\<close> empty message.\<close>

definition apiQueryParamsResponse_Zero :: "apiQueryParamsResponse option" where
  "apiQueryParamsResponse_Zero = None"

definition apiQueryParamsResponse_New :: "apiQueryParamsResponse option" where
  "apiQueryParamsResponse_New = Some apiQueryParamsResponse_zero"

definition apiQueryParamsResponse_Reset :: "apiQueryParamsResponse option \<Rightarrow>
  apiQueryParamsResponse res" where
  "apiQueryParamsResponse_Reset x = bindR (recv x) (\<lambda>_. Inr apiQueryParamsResponse_zero)"

fun apiQueryParamsResponse_GetParams :: "apiQueryParamsResponse option \<Rightarrow> apiParams option" where
  "apiQueryParamsResponse_GetParams (Some x) = responseParams x"
| "apiQueryParamsResponse_GetParams None = None"

section \<open>Fields of QueryParamsResponse by descriptor\<close>

definition apiQueryParamsResponse_Range ::
  "(fieldDesc \<Rightarrow> protoValue \<Rightarrow> ('s, bool) act) \<Rightarrow>
   apiQueryParamsResponse option \<Rightarrow> ('s, unit) act" where
  "apiQueryParamsResponse_Range f x =
     bindS (lift (recv x)) (\<lambda>m.
     visit (responseParams m \<noteq> None) fd_QueryParamsResponse_params (VMessage (responseParams m)) f (lift (Inr ())))"

definition apiQueryParamsResponse_Has :: "fieldDesc \<Rightarrow> apiQueryParamsResponse option \<Rightarrow>
  bool res" where
  "apiQueryParamsResponse_Has fd x =
     (if FullName fd = ''bluechipchain.fixedmint.QueryParamsResponse.params''
      then bindR (recv x) (\<lambda>m. Inr (responseParams m \<noteq> None))
      else noField ''bluechipchain.fixedmint.QueryParamsResponse'' fd)"

definition apiQueryParamsResponse_Clear :: "fieldDesc \<Rightarrow> apiQueryParamsResponse option \<Rightarrow>
  apiQueryParamsResponse res" where
  "apiQueryParamsResponse_Clear fd x =
     (if FullName fd = ''bluechipchain.fixedmint.QueryParamsResponse.params''
      then bindR (recv x) (\<lambda>m. Inr (m\<lparr>responseParams := None\<rparr>))
      else noField ''bluechipchain.fixedmint.QueryParamsResponse'' fd)"

definition apiQueryParamsResponse_Get :: "fieldDesc \<Rightarrow> apiQueryParamsResponse option \<Rightarrow>
  protoValue res" where
  "apiQueryParamsResponse_Get fd x =
     (if FullName fd = ''bluechipchain.fixedmint.QueryParamsResponse.params''
      then bindR (recv x) (\<lambda>m. Inr (VMessage (responseParams m)))
      else noField ''bluechipchain.fixedmint.QueryParamsResponse'' fd)"

definition apiQueryParamsResponse_Set :: "fieldDesc \<Rightarrow> protoValue \<Rightarrow>
  apiQueryParamsResponse option \<Rightarrow> apiQueryParamsResponse res" where
  "apiQueryParamsResponse_Set fd v x =
     (if FullName fd = ''bluechipchain.fixedmint.QueryParamsResponse.params''
      then bindR (valueParams v) (\<lambda>v. bindR (recv x) (\<lambda>m. Inr (m\<lparr>responseParams := v\<rparr>)))
      else noField ''bluechipchain.fixedmint.QueryParamsResponse'' fd)"

text \<open>
  The value \<open>Mutable\<close> returns shares the nested message with the receiver: what is written through
  it is written to the field. The model returns both.
\<close>

definition apiQueryParamsResponse_Mutable :: "fieldDesc \<Rightarrow> apiQueryParamsResponse option \<Rightarrow>
  (apiQueryParamsResponse \<times> protoValue) res" where
  "apiQueryParamsResponse_Mutable fd x =
     (if FullName fd = ''bluechipchain.fixedmint.QueryParamsResponse.params''
      then bindR (recv x) (\<lambda>m.
          let m' = (if responseParams m = None then m\<lparr>responseParams := Some apiParams_zero\<rparr> else m)
          in Inr (m', VMessage (responseParams m')))
      else noField ''bluechipchain.fixedmint.QueryParamsResponse'' fd)"

definition apiQueryParamsResponse_NewField :: "fieldDesc \<Rightarrow> protoValue res" where
  "apiQueryParamsResponse_NewField fd =
     (if FullName fd = ''bluechipchain.fixedmint.QueryParamsResponse.params''
      then Inr (VMessage (Some apiParams_zero))
      else noField ''bluechipchain.fixedmint.QueryParamsResponse'' fd)"

definition apiQueryParamsResponse_WhichOneof :: "string \<Rightarrow> fieldDesc option res" where
  "apiQueryParamsResponse_WhichOneof d = notOneof ''bluechipchain.fixedmint.QueryParamsResponse'' d"

definition apiQueryParamsResponse_GetUnknown :: "apiQueryParamsResponse option \<Rightarrow> bytes res" where
  "apiQueryParamsResponse_GetUnknown x = bindR (recv x) (\<lambda>m. Inr (responseUnknown m))"

definition apiQueryParamsResponse_SetUnknown :: "bytes \<Rightarrow> apiQueryParamsResponse option \<Rightarrow>
  apiQueryParamsResponse res" where
  "apiQueryParamsResponse_SetUnknown u x = bindR (recv x) (\<lambda>m. Inr (m\<lparr>responseUnknown := u\<rparr>))"

definition apiQueryParamsResponse_IsValid :: "apiQueryParamsResponse option \<Rightarrow> bool" where
  "apiQueryParamsResponse_IsValid x = (x \<noteq> None)"

section \<open>The methods of QueryParamsResponse\<close>

definition apiQueryParamsResponse_size ::
  "cosmos_runtime \<Rightarrow> apiParams proto_lib \<Rightarrow> apiQueryParamsResponse option \<Rightarrow> nat" where
  "apiQueryParamsResponse_size R LP x = apiSize (\<lambda>m.
     sizeNested R LP (responseParams m) +
     (if responseUnknown m \<noteq> [] then length (responseUnknown m) else 0)) x"

definition apiQueryParamsResponse_fields ::
  "cosmos_runtime \<Rightarrow> apiParams proto_lib \<Rightarrow> apiQueryParamsResponse \<Rightarrow> wbuf \<Rightarrow>
   wbuf res" where
  "apiQueryParamsResponse_fields R LP m b =
     bindR (apiUnknown (responseUnknown m) b) (\<lambda>b.
     (apiNested R LP 0x0A (responseParams m) b))"

definition apiQueryParamsResponse_marshal ::
  "cosmos_runtime \<Rightarrow> apiParams proto_lib \<Rightarrow> apiQueryParamsResponse proto_lib \<Rightarrow>
   apiQueryParamsResponse option \<Rightarrow>
   bytes option \<Rightarrow> bytes option res" where
  "apiQueryParamsResponse_marshal R LP L x buf = apiMarshal (optSize L) (apiQueryParamsResponse_fields R LP) x buf"

definition apiQueryParamsResponse_field :: "apiParams proto_lib \<Rightarrow> bool \<Rightarrow>
  apiQueryParamsResponse field" where
  "apiQueryParamsResponse_field LP disc m fieldNum wireType d iNdEx =
     (if fieldNum = 1 then
        fieldLen ''runtime'' wireType ''Params'' d iNdEx (\<lambda>bs.
          let p = (if responseParams m = None then Some apiParams_zero else responseParams m)
          in bindR (optUnmarshal LP disc bs p) (\<lambda>p. Inr (m\<lparr>responseParams := p\<rparr>)))
      else None)"

definition apiQueryParamsResponse_keep :: "apiQueryParamsResponse \<Rightarrow> bytes \<Rightarrow>
  apiQueryParamsResponse" where
  "apiQueryParamsResponse_keep m u = m\<lparr>responseUnknown := responseUnknown m @ u\<rparr>"

definition apiQueryParamsResponse_unmarshal ::
  "cosmos_runtime \<Rightarrow> apiParams proto_lib \<Rightarrow> u8 \<Rightarrow> bytes \<Rightarrow>
   apiQueryParamsResponse option \<Rightarrow> apiQueryParamsResponse option res" where
  "apiQueryParamsResponse_unmarshal R LP flags buf x =
     apiUnmarshal R ''QueryParamsResponse'' (apiQueryParamsResponse_field LP)
       apiQueryParamsResponse_keep flags buf x"

definition apiQueryParamsResponse_ProtoMethods ::
  "cosmos_runtime \<Rightarrow> apiParams proto_lib \<Rightarrow> apiQueryParamsResponse proto_lib \<Rightarrow>
   apiQueryParamsResponse methods" where
  "apiQueryParamsResponse_ProtoMethods R LP L = \<lparr>mSize = apiQueryParamsResponse_size R LP,
     mMarshal = apiQueryParamsResponse_marshal R LP L, mUnmarshal = apiQueryParamsResponse_unmarshal R LP\<rparr>"

section \<open>The decoder and the contract of QueryParamsResponse\<close>

definition apiQueryParamsResponse_wire :: "apiQueryParamsResponse \<Rightarrow> bytes" where
  "apiQueryParamsResponse_wire m = nestedWire 0x0A (responseParams m) @ responseUnknown m"

definition apiQueryParamsResponse_ok :: "apiQueryParamsResponse \<Rightarrow> bool" where
  "apiQueryParamsResponse_ok m \<longleftrightarrow>
     nestedOk (responseParams m) \<and> unknownFields {1} (responseUnknown m) \<and>
       go_slice (apiQueryParamsResponse_wire m)"

definition apiQueryParamsResponse_strip :: "apiQueryParamsResponse \<Rightarrow> apiQueryParamsResponse" where
  "apiQueryParamsResponse_strip m =
     m\<lparr>responseParams := map_option apiParams_strip (responseParams m), responseUnknown := []\<rparr>"

context cosmos_params
begin

lemma apiQueryParamsResponse_decoder:
  "api_decoder R (apiQueryParamsResponse_field LP) apiQueryParamsResponse_keep {1}"
proof
  fix d p e :: bytes and i j :: nat and n wt :: int and m m' :: apiQueryParamsResponse and disc and r
    and u v :: bytes
  show "i \<le> j \<and> j \<le> length d"
    if "go_slice d" "i \<le> length d" "apiQueryParamsResponse_field LP disc m n wt d i = Some (Inr (m', j))"
    using that by (auto simp: apiQueryParamsResponse_field_def split: if_split_asm dest: fieldLen_progress)
  show "clean r" if "go_slice d" "i \<le> length d" "apiQueryParamsResponse_field LP disc m n wt d i = Some r"
    using that by (auto simp:
      apiQueryParamsResponse_field_def Let_def split: if_split_asm intro: nested_field_clean
        elim!: fieldLen_clean [rotated 2])
  show "apiQueryParamsResponse_field LP disc m n wt d i = None \<longleftrightarrow> n \<notin> {1}"
    by (auto simp: apiQueryParamsResponse_field_def)
  show "apiQueryParamsResponse_field LP disc m n wt (p @ d @ e) (length p + i) = Some (Inr (m', length p + j))"
    if "go_slice (p @ d @ e)" "i \<le> length d"
      "apiQueryParamsResponse_field LP disc m n wt d i = Some (Inr (m', j))"
    using that by (auto simp: apiQueryParamsResponse_field_def split: if_split_asm intro: fieldLen_local)
  show "apiQueryParamsResponse_keep (apiQueryParamsResponse_keep m u) v = apiQueryParamsResponse_keep m (u @
    v)" "apiQueryParamsResponse_keep m [] = m"
    by (simp_all add: apiQueryParamsResponse_keep_def)
qed

interpretation D: api_decoder R "''QueryParamsResponse''"
  "apiQueryParamsResponse_field LP" apiQueryParamsResponse_keep "{1}"
  by (rule apiQueryParamsResponse_decoder)

lemma apiQueryParamsResponse_unmarshal_clean:
  "go_slice d \<Longrightarrow> clean (apiQueryParamsResponse_unmarshal R LP fl d x)"
  unfolding apiQueryParamsResponse_unmarshal_def by (rule D.unm_clean)

lemma apiQueryParamsResponse_unmarshal_append:
  "go_slice (d1 @ d2) \<Longrightarrow> apiQueryParamsResponse_unmarshal R LP fl d1 (Some m)
   = Inr (Some m1) \<Longrightarrow>
   apiQueryParamsResponse_unmarshal R LP fl d2 (Some m1) = Inr y \<Longrightarrow>
     apiQueryParamsResponse_unmarshal R LP fl (d1 @ d2) (Some m) = Inr y"
  unfolding apiQueryParamsResponse_unmarshal_def by (rule D.unm_append)

lemma apiQueryParamsResponse_size_wire:
  "nestedOk (responseParams m) \<Longrightarrow>
   apiQueryParamsResponse_size R LP (Some m) = length (apiQueryParamsResponse_wire m)"
  by (simp add: apiQueryParamsResponse_size_def apiSize_def
    apiQueryParamsResponse_wire_def nested_size [where t = "0x0A"])

lemma apiQueryParamsResponse_fields_writes:
  assumes "nestedOk (responseParams m)"
  shows "writes (apiQueryParamsResponse_wire m) (apiQueryParamsResponse_fields R LP m)"
proof -
  have "apiQueryParamsResponse_wire m = nestedWire 0x0A (responseParams m) @ responseUnknown m"
    by (simp add: apiQueryParamsResponse_wire_def)
  then show ?thesis
    unfolding apiQueryParamsResponse_fields_def
    by (simp only:) (intro writes_seq apiUnknown_writes nested_writes [OF assms] apiString_writes)
qed

lemma apiQueryParamsResponse_marshal_wire:
  "nestedOk (responseParams m) \<Longrightarrow>
   optSize L (Some m) = apiQueryParamsResponse_size R LP (Some m) \<Longrightarrow>
   apiQueryParamsResponse_marshal R LP L (Some m) buf = Inr (Some (raw buf @ apiQueryParamsResponse_wire m))"
  unfolding apiQueryParamsResponse_marshal_def
  by (intro apiMarshal_writes apiQueryParamsResponse_fields_writes) (simp_all add:
    apiQueryParamsResponse_size_wire)

lemma apiQueryParamsResponse_unmarshal_wire:
  assumes "apiQueryParamsResponse_ok m"
  shows "apiQueryParamsResponse_unmarshal R LP fl (apiQueryParamsResponse_wire m) (Some
    apiQueryParamsResponse_zero) =
    Inr (Some (if rtDiscard R fl then apiQueryParamsResponse_strip m else m))"
proof -
  let ?f0 = "nestedWire 0x0A (responseParams m)"
  let ?u = "responseUnknown m"
  let ?m1 = "apiQueryParamsResponse_zero\<lparr>responseParams := if rtDiscard R fl then map_option apiParams_strip (responseParams m) else responseParams m\<rparr>"
  have u: "unknownFields {1} ?u" and n: "nestedOk (responseParams m)" and g: "go_slice (?f0 @ ?u)"
    using assms by (simp_all only: apiQueryParamsResponse_ok_def apiQueryParamsResponse_wire_def)
  then have gs: "go_slice ?f0" "go_slice (?u)"
    by blast+
  have s0: "apiQueryParamsResponse_unmarshal R LP fl ?f0 (Some apiQueryParamsResponse_zero) = Inr (Some (?m1))"
  proof (cases "responseParams m")
    case None
    then show ?thesis by (simp add: apiQueryParamsResponse_unmarshal_def apiQueryParamsResponse_zero_def)
  next
    case (Some p)
    then have "apiParams_ok p" "go_slice (lenField 0x0A (apiParams_wire p))" using n gs(1) by simp_all
    then show ?thesis
      unfolding apiQueryParamsResponse_unmarshal_def Some nested_simps
      by (intro D.unm_lenField [where s = "''Params''" and f = "\<lambda>bs.
          bindR (optUnmarshal LP (rtDiscard R fl) bs (Some apiParams_zero))
            (\<lambda>p. Inr (apiQueryParamsResponse_zero\<lparr>responseParams := p\<rparr>))"])
         (auto simp: apiQueryParamsResponse_field_def
           apiQueryParamsResponse_zero_def params.lib_unmarshal [OF lib])
  qed
  have "apiQueryParamsResponse_unmarshal R LP fl ?u (Some (?m1))
    = Inr (Some (if rtDiscard R fl then apiQueryParamsResponse_strip m else m))"
    unfolding apiQueryParamsResponse_unmarshal_def D.unm_unknown [OF u gs(2)]
    by (simp add: apiQueryParamsResponse_keep_def apiQueryParamsResponse_strip_def
      apiQueryParamsResponse_zero_def)
  then show ?thesis
    unfolding apiQueryParamsResponse_wire_def using g gs s0 by (blast intro:
      apiQueryParamsResponse_unmarshal_append)
qed

lemma apiQueryParamsResponse_message:
  assumes "\<And>m. optSize L (Some m) = apiQueryParamsResponse_size R LP (Some m)"
  shows "api_message R (apiQueryParamsResponse_ProtoMethods R LP L) apiQueryParamsResponse_wire
    apiQueryParamsResponse_zero apiQueryParamsResponse_ok apiQueryParamsResponse_strip"
  using assms
  by unfold_locales
    (auto simp: apiQueryParamsResponse_ok_def apiQueryParamsResponse_ProtoMethods_def
      apiQueryParamsResponse_size_wire apiQueryParamsResponse_marshal_wire
        apiQueryParamsResponse_unmarshal_wire)

end

interpretation api_response_dec: api_decoder own_runtime "''QueryParamsResponse''"
  "apiQueryParamsResponse_field own_LP" apiQueryParamsResponse_keep "{1}"
  by (rule own_lib.apiQueryParamsResponse_decoder)

interpretation api_response: api_message own_runtime
    "apiQueryParamsResponse_ProtoMethods own_runtime own_LP (size_lib (apiQueryParamsResponse_size own_runtime own_LP))"
    apiQueryParamsResponse_wire apiQueryParamsResponse_zero apiQueryParamsResponse_ok
      apiQueryParamsResponse_strip
  by (rule own_lib.apiQueryParamsResponse_message) (simp add: size_lib_def)

definition apiQueryParamsResponse_fds :: "(fieldDesc \<times> kind) list" where
  "apiQueryParamsResponse_fds = [(fd_QueryParamsResponse_params, KParams)]"

lemmas QueryParamsResponse_fd = fd_QueryParamsResponse_params_def

lemma QueryParamsResponse_Get_simps [simp]:
  "apiQueryParamsResponse_Get fd_QueryParamsResponse_params (Some m) = Inr (VMessage (responseParams m))"
  by (simp_all add: QueryParamsResponse_fd apiQueryParamsResponse_Get_def)

lemma QueryParamsResponse_Has_simps [simp]:
  "apiQueryParamsResponse_Has fd_QueryParamsResponse_params (Some m) = Inr (responseParams m \<noteq> None)"
  by (simp_all add: QueryParamsResponse_fd apiQueryParamsResponse_Has_def)

lemma QueryParamsResponse_Set_simps [simp]:
  "apiQueryParamsResponse_Set fd_QueryParamsResponse_params v (Some m) = bindR (valueParams v)
   (\<lambda>p. Inr (m\<lparr>responseParams := p\<rparr>))"
  by (simp_all add: QueryParamsResponse_fd apiQueryParamsResponse_Set_def)

lemma QueryParamsResponse_Clear_simps [simp]:
  "apiQueryParamsResponse_Clear fd_QueryParamsResponse_params (Some m)
   = Inr (m\<lparr>responseParams := None\<rparr>)"
  by (simp_all add: QueryParamsResponse_fd apiQueryParamsResponse_Clear_def)

interpretation api_response_reflect: reflected_message "map fst apiQueryParamsResponse_fds"
  "typedBy apiQueryParamsResponse_fds"
    "dfltBy apiQueryParamsResponse_fds"
      "valBy apiQueryParamsResponse_Get" responseUnknown apiQueryParamsResponse_Has apiQueryParamsResponse_Get
    apiQueryParamsResponse_Set apiQueryParamsResponse_Clear
  by unfold_locales (auto simp: apiQueryParamsResponse_fds_def reflect_defs bindR_Inr_conv)

lemma apiQueryParamsResponse_Range_over:
  "apiQueryParamsResponse_Range f (Some m) =
     rangeOver (valBy apiQueryParamsResponse_Get) (dfltBy apiQueryParamsResponse_fds) f m (map fst
       apiQueryParamsResponse_fds)"
  by (rule ext) (simp add: apiQueryParamsResponse_Range_def apiQueryParamsResponse_fds_def reflect_defs)

end
