(* ===== verification/ApiTx.thy ===== *)
theory ApiTx
  imports ApiParams
begin

text \<open>
  \<open>api/bluechipchain/fixedmint/tx.pulsar.go\<close>: \<open>MsgUpdateParams\<close>, an authority and a pointer to
  \<open>Params\<close>, and its empty response.
\<close>

section \<open>MsgUpdateParams\<close>

record apiMsgUpdateParams =
  updateAuthority :: string
  updateParams :: "apiParams option"
  updateUnknown :: bytes

definition apiMsgUpdateParams_zero :: apiMsgUpdateParams where
  "apiMsgUpdateParams_zero = \<lparr>updateAuthority = '''', updateParams = None, updateUnknown = []\<rparr>"

text \<open>The field descriptors that \<open>init\<close> looks up by name.\<close>

definition fd_MsgUpdateParams_authority :: fieldDesc where
  "fd_MsgUpdateParams_authority = \<lparr>FullName = ''bluechipchain.fixedmint.MsgUpdateParams.authority'',
   IsExtension = False\<rparr>"

definition fd_MsgUpdateParams_params :: fieldDesc where
  "fd_MsgUpdateParams_params = \<lparr>FullName = ''bluechipchain.fixedmint.MsgUpdateParams.params'',
   IsExtension = False\<rparr>"

text \<open>The message type: an invalid \<open>Zero\<close> and a \<open>New\<close> empty message.\<close>

definition apiMsgUpdateParams_Zero :: "apiMsgUpdateParams option" where
  "apiMsgUpdateParams_Zero = None"

definition apiMsgUpdateParams_New :: "apiMsgUpdateParams option" where
  "apiMsgUpdateParams_New = Some apiMsgUpdateParams_zero"

definition apiMsgUpdateParams_Reset :: "apiMsgUpdateParams option \<Rightarrow> apiMsgUpdateParams res" where
  "apiMsgUpdateParams_Reset x = bindR (recv x) (\<lambda>_. Inr apiMsgUpdateParams_zero)"

fun apiMsgUpdateParams_GetAuthority :: "apiMsgUpdateParams option \<Rightarrow> string" where
  "apiMsgUpdateParams_GetAuthority (Some x) = updateAuthority x"
| "apiMsgUpdateParams_GetAuthority None = ''''"

fun apiMsgUpdateParams_GetParams :: "apiMsgUpdateParams option \<Rightarrow> apiParams option" where
  "apiMsgUpdateParams_GetParams (Some x) = updateParams x"
| "apiMsgUpdateParams_GetParams None = None"

section \<open>Fields of MsgUpdateParams by descriptor\<close>

definition apiMsgUpdateParams_Range ::
  "(fieldDesc \<Rightarrow> protoValue \<Rightarrow> ('s, bool) act) \<Rightarrow>
   apiMsgUpdateParams option \<Rightarrow> ('s, unit) act" where
  "apiMsgUpdateParams_Range f x =
     bindS (lift (recv x)) (\<lambda>m.
     visit (updateAuthority m \<noteq> '''') fd_MsgUpdateParams_authority (VString (updateAuthority m)) f (
     visit (updateParams m \<noteq> None) fd_MsgUpdateParams_params (VMessage (updateParams m)) f (lift (Inr ()))))"

definition apiMsgUpdateParams_Has :: "fieldDesc \<Rightarrow> apiMsgUpdateParams option \<Rightarrow> bool res" where
  "apiMsgUpdateParams_Has fd x =
     (if FullName fd = ''bluechipchain.fixedmint.MsgUpdateParams.authority''
      then bindR (recv x) (\<lambda>m. Inr (updateAuthority m \<noteq> ''''))
      else if FullName fd = ''bluechipchain.fixedmint.MsgUpdateParams.params''
      then bindR (recv x) (\<lambda>m. Inr (updateParams m \<noteq> None))
      else noField ''bluechipchain.fixedmint.MsgUpdateParams'' fd)"

definition apiMsgUpdateParams_Clear :: "fieldDesc \<Rightarrow> apiMsgUpdateParams option \<Rightarrow>
  apiMsgUpdateParams res" where
  "apiMsgUpdateParams_Clear fd x =
     (if FullName fd = ''bluechipchain.fixedmint.MsgUpdateParams.authority''
      then bindR (recv x) (\<lambda>m. Inr (m\<lparr>updateAuthority := ''''\<rparr>))
      else if FullName fd = ''bluechipchain.fixedmint.MsgUpdateParams.params''
      then bindR (recv x) (\<lambda>m. Inr (m\<lparr>updateParams := None\<rparr>))
      else noField ''bluechipchain.fixedmint.MsgUpdateParams'' fd)"

definition apiMsgUpdateParams_Get :: "fieldDesc \<Rightarrow> apiMsgUpdateParams option \<Rightarrow>
  protoValue res" where
  "apiMsgUpdateParams_Get fd x =
     (if FullName fd = ''bluechipchain.fixedmint.MsgUpdateParams.authority''
      then bindR (recv x) (\<lambda>m. Inr (VString (updateAuthority m)))
      else if FullName fd = ''bluechipchain.fixedmint.MsgUpdateParams.params''
      then bindR (recv x) (\<lambda>m. Inr (VMessage (updateParams m)))
      else noField ''bluechipchain.fixedmint.MsgUpdateParams'' fd)"

definition apiMsgUpdateParams_Set :: "fieldDesc \<Rightarrow> protoValue \<Rightarrow>
  apiMsgUpdateParams option \<Rightarrow> apiMsgUpdateParams res" where
  "apiMsgUpdateParams_Set fd v x =
     (if FullName fd = ''bluechipchain.fixedmint.MsgUpdateParams.authority''
      then bindR (valueString v) (\<lambda>v. bindR (recv x) (\<lambda>m. Inr (m\<lparr>updateAuthority := v\<rparr>)))
      else if FullName fd = ''bluechipchain.fixedmint.MsgUpdateParams.params''
      then bindR (valueParams v) (\<lambda>v. bindR (recv x) (\<lambda>m. Inr (m\<lparr>updateParams := v\<rparr>)))
      else noField ''bluechipchain.fixedmint.MsgUpdateParams'' fd)"

text \<open>
  The value \<open>Mutable\<close> returns shares the nested message with the receiver: what is written through
  it is written to the field. The model returns both.
\<close>

definition apiMsgUpdateParams_Mutable :: "fieldDesc \<Rightarrow> apiMsgUpdateParams option \<Rightarrow>
  (apiMsgUpdateParams \<times> protoValue) res" where
  "apiMsgUpdateParams_Mutable fd x =
     (if FullName fd = ''bluechipchain.fixedmint.MsgUpdateParams.authority''
      then notMutable ''authority'' ''bluechipchain.fixedmint.MsgUpdateParams''
      else if FullName fd = ''bluechipchain.fixedmint.MsgUpdateParams.params''
      then bindR (recv x) (\<lambda>m.
          let m' = (if updateParams m = None then m\<lparr>updateParams := Some apiParams_zero\<rparr> else m)
          in Inr (m', VMessage (updateParams m')))
      else noField ''bluechipchain.fixedmint.MsgUpdateParams'' fd)"

definition apiMsgUpdateParams_NewField :: "fieldDesc \<Rightarrow> protoValue res" where
  "apiMsgUpdateParams_NewField fd =
     (if FullName fd = ''bluechipchain.fixedmint.MsgUpdateParams.authority''
      then Inr (VString '''')
      else if FullName fd = ''bluechipchain.fixedmint.MsgUpdateParams.params''
      then Inr (VMessage (Some apiParams_zero))
      else noField ''bluechipchain.fixedmint.MsgUpdateParams'' fd)"

definition apiMsgUpdateParams_WhichOneof :: "string \<Rightarrow> fieldDesc option res" where
  "apiMsgUpdateParams_WhichOneof d = notOneof ''bluechipchain.fixedmint.MsgUpdateParams'' d"

definition apiMsgUpdateParams_GetUnknown :: "apiMsgUpdateParams option \<Rightarrow> bytes res" where
  "apiMsgUpdateParams_GetUnknown x = bindR (recv x) (\<lambda>m. Inr (updateUnknown m))"

definition apiMsgUpdateParams_SetUnknown :: "bytes \<Rightarrow> apiMsgUpdateParams option \<Rightarrow>
  apiMsgUpdateParams res" where
  "apiMsgUpdateParams_SetUnknown u x = bindR (recv x) (\<lambda>m. Inr (m\<lparr>updateUnknown := u\<rparr>))"

definition apiMsgUpdateParams_IsValid :: "apiMsgUpdateParams option \<Rightarrow> bool" where
  "apiMsgUpdateParams_IsValid x = (x \<noteq> None)"

section \<open>The methods of MsgUpdateParams\<close>

definition apiMsgUpdateParams_size ::
  "cosmos_runtime \<Rightarrow> apiParams proto_lib \<Rightarrow> apiMsgUpdateParams option \<Rightarrow> nat" where
  "apiMsgUpdateParams_size R LP x = apiSize (\<lambda>m.
     sizeString R (updateAuthority m) +
     sizeNested R LP (updateParams m) +
     (if updateUnknown m \<noteq> [] then length (updateUnknown m) else 0)) x"

definition apiMsgUpdateParams_fields ::
  "cosmos_runtime \<Rightarrow> apiParams proto_lib \<Rightarrow> apiMsgUpdateParams \<Rightarrow> wbuf \<Rightarrow>
   wbuf res" where
  "apiMsgUpdateParams_fields R LP m b =
     bindR (apiUnknown (updateUnknown m) b) (\<lambda>b.
     bindR (apiNested R LP 0x12 (updateParams m) b) (\<lambda>b.
     (apiString R 0x0A (updateAuthority m) b)))"

definition apiMsgUpdateParams_marshal ::
  "cosmos_runtime \<Rightarrow> apiParams proto_lib \<Rightarrow> apiMsgUpdateParams proto_lib \<Rightarrow>
   apiMsgUpdateParams option \<Rightarrow>
   bytes option \<Rightarrow> bytes option res" where
  "apiMsgUpdateParams_marshal R LP L x buf = apiMarshal (optSize L) (apiMsgUpdateParams_fields R LP) x buf"

definition apiMsgUpdateParams_field :: "apiParams proto_lib \<Rightarrow> bool \<Rightarrow>
  apiMsgUpdateParams field" where
  "apiMsgUpdateParams_field LP disc m fieldNum wireType d iNdEx =
     (if fieldNum = 1 then
        fieldLen ''runtime'' wireType ''Authority'' d iNdEx (\<lambda>bs. Inr (m\<lparr>updateAuthority := string_of bs\<rparr>))
      else if fieldNum = 2 then
        fieldLen ''runtime'' wireType ''Params'' d iNdEx (\<lambda>bs.
          let p = (if updateParams m = None then Some apiParams_zero else updateParams m)
          in bindR (optUnmarshal LP disc bs p) (\<lambda>p. Inr (m\<lparr>updateParams := p\<rparr>)))
      else None)"

definition apiMsgUpdateParams_keep :: "apiMsgUpdateParams \<Rightarrow> bytes \<Rightarrow> apiMsgUpdateParams" where
  "apiMsgUpdateParams_keep m u = m\<lparr>updateUnknown := updateUnknown m @ u\<rparr>"

definition apiMsgUpdateParams_unmarshal ::
  "cosmos_runtime \<Rightarrow> apiParams proto_lib \<Rightarrow> u8 \<Rightarrow> bytes \<Rightarrow>
   apiMsgUpdateParams option \<Rightarrow> apiMsgUpdateParams option res" where
  "apiMsgUpdateParams_unmarshal R LP flags buf x =
     apiUnmarshal R ''MsgUpdateParams'' (apiMsgUpdateParams_field LP) apiMsgUpdateParams_keep flags buf x"

definition apiMsgUpdateParams_ProtoMethods ::
  "cosmos_runtime \<Rightarrow> apiParams proto_lib \<Rightarrow> apiMsgUpdateParams proto_lib \<Rightarrow>
   apiMsgUpdateParams methods" where
  "apiMsgUpdateParams_ProtoMethods R LP L = \<lparr>mSize = apiMsgUpdateParams_size R LP,
     mMarshal = apiMsgUpdateParams_marshal R LP L, mUnmarshal = apiMsgUpdateParams_unmarshal R LP\<rparr>"

section \<open>The decoder and the contract of MsgUpdateParams\<close>

definition apiMsgUpdateParams_wire :: "apiMsgUpdateParams \<Rightarrow> bytes" where
  "apiMsgUpdateParams_wire m =
     optField 0x0A (bytes_of (updateAuthority m)) @ nestedWire 0x12 (updateParams m) @ updateUnknown m"

definition apiMsgUpdateParams_ok :: "apiMsgUpdateParams \<Rightarrow> bool" where
  "apiMsgUpdateParams_ok m \<longleftrightarrow>
     nestedOk (updateParams m) \<and> unknownFields {1, 2} (updateUnknown m) \<and>
       go_slice (apiMsgUpdateParams_wire m)"

definition apiMsgUpdateParams_strip :: "apiMsgUpdateParams \<Rightarrow> apiMsgUpdateParams" where
  "apiMsgUpdateParams_strip m =
     m\<lparr>updateParams := map_option apiParams_strip (updateParams m), updateUnknown := []\<rparr>"

context cosmos_params
begin

lemma apiMsgUpdateParams_decoder: "api_decoder R (apiMsgUpdateParams_field LP) apiMsgUpdateParams_keep {1, 2}"
proof
  fix d p e :: bytes and i j :: nat and n wt :: int and m m' :: apiMsgUpdateParams and disc and r
    and u v :: bytes
  show "i \<le> j \<and> j \<le> length d"
    if "go_slice d" "i \<le> length d" "apiMsgUpdateParams_field LP disc m n wt d i = Some (Inr (m', j))"
    using that by (auto simp: apiMsgUpdateParams_field_def split: if_split_asm dest: fieldLen_progress)
  show "clean r" if "go_slice d" "i \<le> length d" "apiMsgUpdateParams_field LP disc m n wt d i = Some r"
    using that by (auto simp: apiMsgUpdateParams_field_def Let_def split: if_split_asm intro: nested_field_clean
        elim!: fieldLen_clean [rotated 2])
  show "apiMsgUpdateParams_field LP disc m n wt d i = None \<longleftrightarrow> n \<notin> {1, 2}"
    by (auto simp: apiMsgUpdateParams_field_def)
  show "apiMsgUpdateParams_field LP disc m n wt (p @ d @ e) (length p + i) = Some (Inr (m', length p + j))"
    if "go_slice (p @ d @ e)" "i \<le> length d" "apiMsgUpdateParams_field LP disc m n wt d i = Some (Inr (m', j))"
    using that by (auto simp: apiMsgUpdateParams_field_def split: if_split_asm intro: fieldLen_local)
  show "apiMsgUpdateParams_keep (apiMsgUpdateParams_keep m u) v = apiMsgUpdateParams_keep m (u @ v)"
    "apiMsgUpdateParams_keep m [] = m"
    by (simp_all add: apiMsgUpdateParams_keep_def)
qed

interpretation D: api_decoder R "''MsgUpdateParams''"
  "apiMsgUpdateParams_field LP" apiMsgUpdateParams_keep "{1, 2}"
  by (rule apiMsgUpdateParams_decoder)

lemma apiMsgUpdateParams_unmarshal_clean:
  "go_slice d \<Longrightarrow> clean (apiMsgUpdateParams_unmarshal R LP fl d x)"
  unfolding apiMsgUpdateParams_unmarshal_def by (rule D.unm_clean)

lemma apiMsgUpdateParams_unmarshal_append:
  "go_slice (d1 @ d2) \<Longrightarrow> apiMsgUpdateParams_unmarshal R LP fl d1 (Some m)
   = Inr (Some m1) \<Longrightarrow>
   apiMsgUpdateParams_unmarshal R LP fl d2 (Some m1) = Inr y \<Longrightarrow>
     apiMsgUpdateParams_unmarshal R LP fl (d1 @ d2) (Some m) = Inr y"
  unfolding apiMsgUpdateParams_unmarshal_def by (rule D.unm_append)

lemma apiMsgUpdateParams_size_wire:
  "nestedOk (updateParams m) \<Longrightarrow>
   apiMsgUpdateParams_size R LP (Some m) = length (apiMsgUpdateParams_wire m)"
  by (simp add: apiMsgUpdateParams_size_def apiSize_def
    apiMsgUpdateParams_wire_def sizeString_length length_optField nested_size [where t = "0x12"])

lemma apiMsgUpdateParams_fields_writes:
  assumes "nestedOk (updateParams m)"
  shows "writes (apiMsgUpdateParams_wire m) (apiMsgUpdateParams_fields R LP m)"
proof -
  have "apiMsgUpdateParams_wire m = (optField 0x0A (bytes_of (updateAuthority m)) @
    nestedWire 0x12 (updateParams m)) @ updateUnknown m"
    by (simp add: apiMsgUpdateParams_wire_def)
  then show ?thesis
    unfolding apiMsgUpdateParams_fields_def
    by (simp only:) (intro writes_seq apiUnknown_writes nested_writes [OF assms] apiString_writes)
qed

lemma apiMsgUpdateParams_marshal_wire:
  "nestedOk (updateParams m) \<Longrightarrow>
   optSize L (Some m) = apiMsgUpdateParams_size R LP (Some m) \<Longrightarrow>
   apiMsgUpdateParams_marshal R LP L (Some m) buf = Inr (Some (raw buf @ apiMsgUpdateParams_wire m))"
  unfolding apiMsgUpdateParams_marshal_def
  by (intro apiMarshal_writes apiMsgUpdateParams_fields_writes) (simp_all add: apiMsgUpdateParams_size_wire)

lemma apiMsgUpdateParams_unmarshal_wire:
  assumes "apiMsgUpdateParams_ok m"
  shows "apiMsgUpdateParams_unmarshal R LP fl (apiMsgUpdateParams_wire m) (Some apiMsgUpdateParams_zero) =
    Inr (Some (if rtDiscard R fl then apiMsgUpdateParams_strip m else m))"
proof -
  let ?f0 = "optField 0x0A (bytes_of (updateAuthority m))"
  let ?f1 = "nestedWire 0x12 (updateParams m)"
  let ?u = "updateUnknown m"
  let ?m1 = "apiMsgUpdateParams_zero\<lparr>updateAuthority := updateAuthority m\<rparr>"
  let ?m2 = "?m1\<lparr>updateParams := if rtDiscard R fl then map_option apiParams_strip (updateParams m)
    else updateParams m\<rparr>"
  have u: "unknownFields {1, 2} ?u" and n: "nestedOk (updateParams m)" and g: "go_slice (?f0 @ ?f1 @ ?u)"
    using assms by (simp_all only: apiMsgUpdateParams_ok_def apiMsgUpdateParams_wire_def)
  then have gs: "go_slice ?f0" "go_slice (?f1 @ ?u)" "go_slice ?f1" "go_slice (?u)"
    by blast+
  have s0: "apiMsgUpdateParams_unmarshal R LP fl ?f0 (Some apiMsgUpdateParams_zero) = Inr (Some (?m1))"
    unfolding apiMsgUpdateParams_unmarshal_def
    by (rule D.unm_stringField [OF gs(1), where s = "''Authority''" and
          f = "\<lambda>s. apiMsgUpdateParams_zero\<lparr>updateAuthority := s\<rparr>"])
            (auto simp: apiMsgUpdateParams_field_def apiMsgUpdateParams_zero_def)
  have s1: "apiMsgUpdateParams_unmarshal R LP fl ?f1 (Some (?m1)) = Inr (Some (?m2))"
  proof (cases "updateParams m")
    case None
    then show ?thesis by (simp add: apiMsgUpdateParams_unmarshal_def apiMsgUpdateParams_zero_def)
  next
    case (Some p)
    then have "apiParams_ok p" "go_slice (lenField 0x12 (apiParams_wire p))" using n gs(3) by simp_all
    then show ?thesis
      unfolding apiMsgUpdateParams_unmarshal_def Some nested_simps
      by (intro D.unm_lenField [where s = "''Params''" and f = "\<lambda>bs.
          bindR (optUnmarshal LP (rtDiscard R fl) bs (Some apiParams_zero))
            (\<lambda>p. Inr (?m1\<lparr>updateParams := p\<rparr>))"])
         (auto simp: apiMsgUpdateParams_field_def apiMsgUpdateParams_zero_def params.lib_unmarshal [OF lib])
  qed
  have "apiMsgUpdateParams_unmarshal R LP fl ?u (Some (?m2))
    = Inr (Some (if rtDiscard R fl then apiMsgUpdateParams_strip m else m))"
    unfolding apiMsgUpdateParams_unmarshal_def D.unm_unknown [OF u gs(4)]
    by (simp add: apiMsgUpdateParams_keep_def apiMsgUpdateParams_strip_def apiMsgUpdateParams_zero_def)
  then show ?thesis
    unfolding apiMsgUpdateParams_wire_def using g gs s0 s1 by (blast intro: apiMsgUpdateParams_unmarshal_append)
qed

lemma apiMsgUpdateParams_message:
  assumes "\<And>m. optSize L (Some m) = apiMsgUpdateParams_size R LP (Some m)"
  shows "api_message R (apiMsgUpdateParams_ProtoMethods R LP L) apiMsgUpdateParams_wire
    apiMsgUpdateParams_zero apiMsgUpdateParams_ok apiMsgUpdateParams_strip"
  using assms
  by unfold_locales
    (auto simp: apiMsgUpdateParams_ok_def apiMsgUpdateParams_ProtoMethods_def apiMsgUpdateParams_size_wire
      apiMsgUpdateParams_marshal_wire apiMsgUpdateParams_unmarshal_wire)

end

interpretation api_update_dec: api_decoder own_runtime "''MsgUpdateParams''"
  "apiMsgUpdateParams_field own_LP" apiMsgUpdateParams_keep "{1, 2}"
  by (rule own_lib.apiMsgUpdateParams_decoder)

interpretation api_update: api_message own_runtime
    "apiMsgUpdateParams_ProtoMethods own_runtime own_LP (size_lib (apiMsgUpdateParams_size own_runtime own_LP))"
    apiMsgUpdateParams_wire apiMsgUpdateParams_zero apiMsgUpdateParams_ok apiMsgUpdateParams_strip
  by (rule own_lib.apiMsgUpdateParams_message) (simp add: size_lib_def)

definition apiMsgUpdateParams_fds :: "(fieldDesc \<times> kind) list" where
  "apiMsgUpdateParams_fds = [(fd_MsgUpdateParams_authority, KString), (fd_MsgUpdateParams_params, KParams)]"

lemmas MsgUpdateParams_fd = fd_MsgUpdateParams_authority_def fd_MsgUpdateParams_params_def

lemma MsgUpdateParams_fd_neq [simp]:
  "fd_MsgUpdateParams_authority \<noteq> fd_MsgUpdateParams_params"
    "fd_MsgUpdateParams_params \<noteq> fd_MsgUpdateParams_authority"
  by (simp_all add: MsgUpdateParams_fd)

lemma MsgUpdateParams_Get_simps [simp]:
  "apiMsgUpdateParams_Get fd_MsgUpdateParams_authority (Some m) = Inr (VString (updateAuthority m))"
  "apiMsgUpdateParams_Get fd_MsgUpdateParams_params (Some m) = Inr (VMessage (updateParams m))"
  by (simp_all add: MsgUpdateParams_fd apiMsgUpdateParams_Get_def)

lemma MsgUpdateParams_Has_simps [simp]:
  "apiMsgUpdateParams_Has fd_MsgUpdateParams_authority (Some m) = Inr (updateAuthority m \<noteq> '''')"
  "apiMsgUpdateParams_Has fd_MsgUpdateParams_params (Some m) = Inr (updateParams m \<noteq> None)"
  by (simp_all add: MsgUpdateParams_fd apiMsgUpdateParams_Has_def)

lemma MsgUpdateParams_Set_simps [simp]:
  "apiMsgUpdateParams_Set fd_MsgUpdateParams_authority v (Some m) = bindR (valueString v) (\<lambda>s. Inr (m\<lparr>updateAuthority := s\<rparr>))"
  "apiMsgUpdateParams_Set fd_MsgUpdateParams_params v (Some m) = bindR (valueParams v)
   (\<lambda>p. Inr (m\<lparr>updateParams := p\<rparr>))"
  by (simp_all add: MsgUpdateParams_fd apiMsgUpdateParams_Set_def)

lemma MsgUpdateParams_Clear_simps [simp]:
  "apiMsgUpdateParams_Clear fd_MsgUpdateParams_authority (Some m) = Inr (m\<lparr>updateAuthority := ''''\<rparr>)"
  "apiMsgUpdateParams_Clear fd_MsgUpdateParams_params (Some m) = Inr (m\<lparr>updateParams := None\<rparr>)"
  by (simp_all add: MsgUpdateParams_fd apiMsgUpdateParams_Clear_def)

interpretation api_update_reflect: reflected_message "map fst apiMsgUpdateParams_fds"
  "typedBy apiMsgUpdateParams_fds"
    "dfltBy apiMsgUpdateParams_fds"
      "valBy apiMsgUpdateParams_Get" updateUnknown apiMsgUpdateParams_Has apiMsgUpdateParams_Get
    apiMsgUpdateParams_Set apiMsgUpdateParams_Clear
  by unfold_locales (auto simp: apiMsgUpdateParams_fds_def reflect_defs bindR_Inr_conv)

lemma apiMsgUpdateParams_Range_over:
  "apiMsgUpdateParams_Range f (Some m) =
     rangeOver (valBy apiMsgUpdateParams_Get) (dfltBy apiMsgUpdateParams_fds) f m (map fst
       apiMsgUpdateParams_fds)"
  by (rule ext) (simp add: apiMsgUpdateParams_Range_def apiMsgUpdateParams_fds_def reflect_defs)

section \<open>MsgUpdateParamsResponse\<close>

record apiMsgUpdateParamsResponse =
  updatedUnknown :: bytes

definition apiMsgUpdateParamsResponse_zero :: apiMsgUpdateParamsResponse where
  "apiMsgUpdateParamsResponse_zero = \<lparr>updatedUnknown = []\<rparr>"

text \<open>The message type: an invalid \<open>Zero\<close> and a \<open>New\<close> empty message.\<close>

definition apiMsgUpdateParamsResponse_Zero :: "apiMsgUpdateParamsResponse option" where
  "apiMsgUpdateParamsResponse_Zero = None"

definition apiMsgUpdateParamsResponse_New :: "apiMsgUpdateParamsResponse option" where
  "apiMsgUpdateParamsResponse_New = Some apiMsgUpdateParamsResponse_zero"

definition apiMsgUpdateParamsResponse_Reset :: "apiMsgUpdateParamsResponse option \<Rightarrow>
  apiMsgUpdateParamsResponse res" where
  "apiMsgUpdateParamsResponse_Reset x = bindR (recv x) (\<lambda>_. Inr apiMsgUpdateParamsResponse_zero)"

section \<open>Fields of MsgUpdateParamsResponse by descriptor\<close>

definition apiMsgUpdateParamsResponse_Range ::
  "(fieldDesc \<Rightarrow> protoValue \<Rightarrow> ('s, bool) act) \<Rightarrow>
   apiMsgUpdateParamsResponse option \<Rightarrow> ('s, unit) act" where
  "apiMsgUpdateParamsResponse_Range f x = lift (Inr ())"

definition apiMsgUpdateParamsResponse_Has :: "fieldDesc \<Rightarrow> apiMsgUpdateParamsResponse option \<Rightarrow>
  bool res" where
  "apiMsgUpdateParamsResponse_Has fd x = noField ''bluechipchain.fixedmint.MsgUpdateParamsResponse'' fd"

definition apiMsgUpdateParamsResponse_Clear :: "fieldDesc \<Rightarrow> apiMsgUpdateParamsResponse option \<Rightarrow>
  apiMsgUpdateParamsResponse res" where
  "apiMsgUpdateParamsResponse_Clear fd x = noField ''bluechipchain.fixedmint.MsgUpdateParamsResponse'' fd"

definition apiMsgUpdateParamsResponse_Get :: "fieldDesc \<Rightarrow> apiMsgUpdateParamsResponse option \<Rightarrow>
  protoValue res" where
  "apiMsgUpdateParamsResponse_Get fd x = noField ''bluechipchain.fixedmint.MsgUpdateParamsResponse'' fd"

definition apiMsgUpdateParamsResponse_Set :: "fieldDesc \<Rightarrow> protoValue \<Rightarrow>
  apiMsgUpdateParamsResponse option \<Rightarrow> apiMsgUpdateParamsResponse res" where
  "apiMsgUpdateParamsResponse_Set fd v x = noField ''bluechipchain.fixedmint.MsgUpdateParamsResponse'' fd"

definition apiMsgUpdateParamsResponse_Mutable :: "fieldDesc \<Rightarrow> apiMsgUpdateParamsResponse option \<Rightarrow>
  (apiMsgUpdateParamsResponse \<times> protoValue) res" where
  "apiMsgUpdateParamsResponse_Mutable fd x = noField ''bluechipchain.fixedmint.MsgUpdateParamsResponse'' fd"

definition apiMsgUpdateParamsResponse_NewField :: "fieldDesc \<Rightarrow> protoValue res" where
  "apiMsgUpdateParamsResponse_NewField fd = noField ''bluechipchain.fixedmint.MsgUpdateParamsResponse'' fd"

definition apiMsgUpdateParamsResponse_WhichOneof :: "string \<Rightarrow> fieldDesc option res" where
  "apiMsgUpdateParamsResponse_WhichOneof d = notOneof ''bluechipchain.fixedmint.MsgUpdateParamsResponse'' d"

definition apiMsgUpdateParamsResponse_GetUnknown :: "apiMsgUpdateParamsResponse option \<Rightarrow>
  bytes res" where
  "apiMsgUpdateParamsResponse_GetUnknown x = bindR (recv x) (\<lambda>m. Inr (updatedUnknown m))"

definition apiMsgUpdateParamsResponse_SetUnknown :: "bytes \<Rightarrow> apiMsgUpdateParamsResponse option \<Rightarrow>
  apiMsgUpdateParamsResponse res" where
  "apiMsgUpdateParamsResponse_SetUnknown u x = bindR (recv x) (\<lambda>m. Inr (m\<lparr>updatedUnknown := u\<rparr>))"

definition apiMsgUpdateParamsResponse_IsValid :: "apiMsgUpdateParamsResponse option \<Rightarrow> bool" where
  "apiMsgUpdateParamsResponse_IsValid x = (x \<noteq> None)"

section \<open>The methods of MsgUpdateParamsResponse\<close>

definition apiMsgUpdateParamsResponse_size ::
  "cosmos_runtime \<Rightarrow> apiMsgUpdateParamsResponse option \<Rightarrow> nat" where
  "apiMsgUpdateParamsResponse_size R x = apiSize (\<lambda>m.
     (if updatedUnknown m \<noteq> [] then length (updatedUnknown m) else 0)) x"

definition apiMsgUpdateParamsResponse_fields ::
  "cosmos_runtime \<Rightarrow> apiMsgUpdateParamsResponse \<Rightarrow> wbuf \<Rightarrow> wbuf res" where
  "apiMsgUpdateParamsResponse_fields R m b =
     apiUnknown (updatedUnknown m) b"

definition apiMsgUpdateParamsResponse_marshal ::
  "cosmos_runtime \<Rightarrow> apiMsgUpdateParamsResponse proto_lib \<Rightarrow>
   apiMsgUpdateParamsResponse option \<Rightarrow>
   bytes option \<Rightarrow> bytes option res" where
  "apiMsgUpdateParamsResponse_marshal R L x buf = apiMarshal (optSize L) (apiMsgUpdateParamsResponse_fields R) x buf"

definition apiMsgUpdateParamsResponse_field :: "bool \<Rightarrow> apiMsgUpdateParamsResponse field" where
  "apiMsgUpdateParamsResponse_field disc m fieldNum wireType d iNdEx =
     (None)"

definition apiMsgUpdateParamsResponse_keep :: "apiMsgUpdateParamsResponse \<Rightarrow> bytes \<Rightarrow>
  apiMsgUpdateParamsResponse" where
  "apiMsgUpdateParamsResponse_keep m u = m\<lparr>updatedUnknown := updatedUnknown m @ u\<rparr>"

definition apiMsgUpdateParamsResponse_unmarshal ::
  "cosmos_runtime \<Rightarrow> u8 \<Rightarrow> bytes \<Rightarrow>
   apiMsgUpdateParamsResponse option \<Rightarrow> apiMsgUpdateParamsResponse option res" where
  "apiMsgUpdateParamsResponse_unmarshal R flags buf x =
     apiUnmarshal R ''MsgUpdateParamsResponse'' apiMsgUpdateParamsResponse_field
       apiMsgUpdateParamsResponse_keep flags buf x"

definition apiMsgUpdateParamsResponse_ProtoMethods ::
  "cosmos_runtime \<Rightarrow> apiMsgUpdateParamsResponse proto_lib \<Rightarrow>
   apiMsgUpdateParamsResponse methods" where
  "apiMsgUpdateParamsResponse_ProtoMethods R L = \<lparr>mSize = apiMsgUpdateParamsResponse_size R,
     mMarshal = apiMsgUpdateParamsResponse_marshal R L, mUnmarshal =
       apiMsgUpdateParamsResponse_unmarshal R\<rparr>"

section \<open>The decoder and the contract of MsgUpdateParamsResponse\<close>

definition apiMsgUpdateParamsResponse_wire :: "apiMsgUpdateParamsResponse \<Rightarrow> bytes" where
  "apiMsgUpdateParamsResponse_wire m = updatedUnknown m"

definition apiMsgUpdateParamsResponse_ok :: "apiMsgUpdateParamsResponse \<Rightarrow> bool" where
  "apiMsgUpdateParamsResponse_ok m \<longleftrightarrow>
     unknownFields {} (updatedUnknown m) \<and> go_slice (apiMsgUpdateParamsResponse_wire m)"

definition apiMsgUpdateParamsResponse_strip :: "apiMsgUpdateParamsResponse \<Rightarrow>
  apiMsgUpdateParamsResponse" where
  "apiMsgUpdateParamsResponse_strip m = m\<lparr>updatedUnknown := []\<rparr>"

context cosmos
begin

lemma apiMsgUpdateParamsResponse_decoder:
  "api_decoder R apiMsgUpdateParamsResponse_field apiMsgUpdateParamsResponse_keep {}"
  by unfold_locales (simp_all add: apiMsgUpdateParamsResponse_field_def apiMsgUpdateParamsResponse_keep_def)

interpretation D: api_decoder R "''MsgUpdateParamsResponse''"
  "apiMsgUpdateParamsResponse_field" apiMsgUpdateParamsResponse_keep "{}"
  by (rule apiMsgUpdateParamsResponse_decoder)

lemma apiMsgUpdateParamsResponse_unmarshal_clean:
  "go_slice d \<Longrightarrow> clean (apiMsgUpdateParamsResponse_unmarshal R fl d x)"
  unfolding apiMsgUpdateParamsResponse_unmarshal_def by (rule D.unm_clean)

lemma apiMsgUpdateParamsResponse_unmarshal_append:
  "go_slice (d1 @ d2) \<Longrightarrow> apiMsgUpdateParamsResponse_unmarshal R fl d1 (Some m)
   = Inr (Some m1) \<Longrightarrow>
   apiMsgUpdateParamsResponse_unmarshal R fl d2 (Some m1) = Inr y \<Longrightarrow>
     apiMsgUpdateParamsResponse_unmarshal R fl (d1 @ d2) (Some m) = Inr y"
  unfolding apiMsgUpdateParamsResponse_unmarshal_def by (rule D.unm_append)

lemma apiMsgUpdateParamsResponse_size_wire:
  "apiMsgUpdateParamsResponse_size R (Some m) = length (apiMsgUpdateParamsResponse_wire m)"
  by (simp add: apiMsgUpdateParamsResponse_size_def apiSize_def apiMsgUpdateParamsResponse_wire_def)

lemma apiMsgUpdateParamsResponse_fields_writes:
  "writes (apiMsgUpdateParamsResponse_wire m) (apiMsgUpdateParamsResponse_fields R m)"
  using apiUnknown_writes by (simp add: apiMsgUpdateParamsResponse_wire_def
    apiMsgUpdateParamsResponse_fields_def [abs_def])

lemma apiMsgUpdateParamsResponse_marshal_wire:
  "optSize L (Some m) = apiMsgUpdateParamsResponse_size R (Some m) \<Longrightarrow>
   apiMsgUpdateParamsResponse_marshal R L (Some m) buf
     = Inr (Some (raw buf @ apiMsgUpdateParamsResponse_wire m))"
  unfolding apiMsgUpdateParamsResponse_marshal_def
  by (intro apiMarshal_writes apiMsgUpdateParamsResponse_fields_writes) (simp_all add:
    apiMsgUpdateParamsResponse_size_wire)

lemma apiMsgUpdateParamsResponse_unmarshal_wire:
  assumes "apiMsgUpdateParamsResponse_ok m"
  shows "apiMsgUpdateParamsResponse_unmarshal R fl (apiMsgUpdateParamsResponse_wire m) (Some
    apiMsgUpdateParamsResponse_zero) =
    Inr (Some (if rtDiscard R fl then apiMsgUpdateParamsResponse_strip m else m))"
proof -
  let ?u = "updatedUnknown m"
  have u: "unknownFields {} ?u" and g: "go_slice (?u)"
    using assms by (simp_all only: apiMsgUpdateParamsResponse_ok_def apiMsgUpdateParamsResponse_wire_def)
  have "apiMsgUpdateParamsResponse_unmarshal R fl ?u (Some apiMsgUpdateParamsResponse_zero)
    = Inr (Some (if rtDiscard R fl then apiMsgUpdateParamsResponse_strip m else m))"
    unfolding apiMsgUpdateParamsResponse_unmarshal_def D.unm_unknown [OF u g]
    by (simp add: apiMsgUpdateParamsResponse_keep_def apiMsgUpdateParamsResponse_strip_def
      apiMsgUpdateParamsResponse_zero_def)
  then show ?thesis by (simp add: apiMsgUpdateParamsResponse_wire_def)
qed

lemma apiMsgUpdateParamsResponse_message:
  assumes "\<And>m. optSize L (Some m) = apiMsgUpdateParamsResponse_size R (Some m)"
  shows "api_message R (apiMsgUpdateParamsResponse_ProtoMethods R L) apiMsgUpdateParamsResponse_wire
    apiMsgUpdateParamsResponse_zero apiMsgUpdateParamsResponse_ok apiMsgUpdateParamsResponse_strip"
  using assms
  by unfold_locales
    (auto simp: apiMsgUpdateParamsResponse_ProtoMethods_def apiMsgUpdateParamsResponse_size_wire
      apiMsgUpdateParamsResponse_marshal_wire apiMsgUpdateParamsResponse_unmarshal_wire)

end

interpretation api_updated_dec: api_decoder own_runtime "''MsgUpdateParamsResponse''"
  apiMsgUpdateParamsResponse_field apiMsgUpdateParamsResponse_keep "{}"
  by (rule own.apiMsgUpdateParamsResponse_decoder)

interpretation api_updated: api_message own_runtime
    "apiMsgUpdateParamsResponse_ProtoMethods own_runtime (size_lib (apiMsgUpdateParamsResponse_size own_runtime))"
    apiMsgUpdateParamsResponse_wire apiMsgUpdateParamsResponse_zero apiMsgUpdateParamsResponse_ok
      apiMsgUpdateParamsResponse_strip
  by (rule own.apiMsgUpdateParamsResponse_message) (simp add: size_lib_def)

end
