(* ===== verification/ApiModule.thy ===== *)
theory ApiModule
  imports ApiParams
begin

text \<open>
  \<open>api/bluechipchain/fixedmint/module/module.pulsar.go\<close>: the module's configuration object, an
  authority.
\<close>

section \<open>Module\<close>

record apiModule =
  moduleAuthority :: string
  moduleUnknown :: bytes

definition apiModule_zero :: apiModule where
  "apiModule_zero = \<lparr>moduleAuthority = '''', moduleUnknown = []\<rparr>"

text \<open>The field descriptors that \<open>init\<close> looks up by name.\<close>

definition fd_Module_authority :: fieldDesc where
  "fd_Module_authority = \<lparr>FullName = ''bluechipchain.fixedmint.module.Module.authority'',
   IsExtension = False\<rparr>"

text \<open>The message type: an invalid \<open>Zero\<close> and a \<open>New\<close> empty message.\<close>

definition apiModule_Zero :: "apiModule option" where
  "apiModule_Zero = None"

definition apiModule_New :: "apiModule option" where
  "apiModule_New = Some apiModule_zero"

definition apiModule_Reset :: "apiModule option \<Rightarrow> apiModule res" where
  "apiModule_Reset x = bindR (recv x) (\<lambda>_. Inr apiModule_zero)"

fun apiModule_GetAuthority :: "apiModule option \<Rightarrow> string" where
  "apiModule_GetAuthority (Some x) = moduleAuthority x"
| "apiModule_GetAuthority None = ''''"

section \<open>Fields of Module by descriptor\<close>

definition apiModule_Range ::
  "(fieldDesc \<Rightarrow> protoValue \<Rightarrow> ('s, bool) act) \<Rightarrow> apiModule option \<Rightarrow>
   ('s, unit) act" where
  "apiModule_Range f x =
     bindS (lift (recv x)) (\<lambda>m.
     visit (moduleAuthority m \<noteq> '''') fd_Module_authority (VString (moduleAuthority m)) f (lift (Inr ())))"

definition apiModule_Has :: "fieldDesc \<Rightarrow> apiModule option \<Rightarrow> bool res" where
  "apiModule_Has fd x =
     (if FullName fd = ''bluechipchain.fixedmint.module.Module.authority''
      then bindR (recv x) (\<lambda>m. Inr (moduleAuthority m \<noteq> ''''))
      else noField ''bluechipchain.fixedmint.module.Module'' fd)"

definition apiModule_Clear :: "fieldDesc \<Rightarrow> apiModule option \<Rightarrow> apiModule res" where
  "apiModule_Clear fd x =
     (if FullName fd = ''bluechipchain.fixedmint.module.Module.authority''
      then bindR (recv x) (\<lambda>m. Inr (m\<lparr>moduleAuthority := ''''\<rparr>))
      else noField ''bluechipchain.fixedmint.module.Module'' fd)"

definition apiModule_Get :: "fieldDesc \<Rightarrow> apiModule option \<Rightarrow> protoValue res" where
  "apiModule_Get fd x =
     (if FullName fd = ''bluechipchain.fixedmint.module.Module.authority''
      then bindR (recv x) (\<lambda>m. Inr (VString (moduleAuthority m)))
      else noField ''bluechipchain.fixedmint.module.Module'' fd)"

definition apiModule_Set :: "fieldDesc \<Rightarrow> protoValue \<Rightarrow> apiModule option \<Rightarrow>
  apiModule res" where
  "apiModule_Set fd v x =
     (if FullName fd = ''bluechipchain.fixedmint.module.Module.authority''
      then bindR (valueString v) (\<lambda>v. bindR (recv x) (\<lambda>m. Inr (m\<lparr>moduleAuthority := v\<rparr>)))
      else noField ''bluechipchain.fixedmint.module.Module'' fd)"

definition apiModule_Mutable :: "fieldDesc \<Rightarrow> apiModule option \<Rightarrow>
  (apiModule \<times> protoValue) res" where
  "apiModule_Mutable fd x =
     (if FullName fd = ''bluechipchain.fixedmint.module.Module.authority''
      then notMutable ''authority'' ''bluechipchain.fixedmint.module.Module''
      else noField ''bluechipchain.fixedmint.module.Module'' fd)"

definition apiModule_NewField :: "fieldDesc \<Rightarrow> protoValue res" where
  "apiModule_NewField fd =
     (if FullName fd = ''bluechipchain.fixedmint.module.Module.authority''
      then Inr (VString '''')
      else noField ''bluechipchain.fixedmint.module.Module'' fd)"

definition apiModule_WhichOneof :: "string \<Rightarrow> fieldDesc option res" where
  "apiModule_WhichOneof d = notOneof ''bluechipchain.fixedmint.module.Module'' d"

definition apiModule_GetUnknown :: "apiModule option \<Rightarrow> bytes res" where
  "apiModule_GetUnknown x = bindR (recv x) (\<lambda>m. Inr (moduleUnknown m))"

definition apiModule_SetUnknown :: "bytes \<Rightarrow> apiModule option \<Rightarrow> apiModule res" where
  "apiModule_SetUnknown u x = bindR (recv x) (\<lambda>m. Inr (m\<lparr>moduleUnknown := u\<rparr>))"

definition apiModule_IsValid :: "apiModule option \<Rightarrow> bool" where
  "apiModule_IsValid x = (x \<noteq> None)"

section \<open>The methods of Module\<close>

definition apiModule_size ::
  "cosmos_runtime \<Rightarrow> apiModule option \<Rightarrow> nat" where
  "apiModule_size R x = apiSize (\<lambda>m.
     sizeString R (moduleAuthority m) +
     (if moduleUnknown m \<noteq> [] then length (moduleUnknown m) else 0)) x"

definition apiModule_fields ::
  "cosmos_runtime \<Rightarrow> apiModule \<Rightarrow> wbuf \<Rightarrow> wbuf res" where
  "apiModule_fields R m b =
     bindR (apiUnknown (moduleUnknown m) b) (\<lambda>b.
     (apiString R 0x0A (moduleAuthority m) b))"

definition apiModule_marshal ::
  "cosmos_runtime \<Rightarrow> apiModule proto_lib \<Rightarrow> apiModule option \<Rightarrow>
   bytes option \<Rightarrow> bytes option res" where
  "apiModule_marshal R L x buf = apiMarshal (optSize L) (apiModule_fields R) x buf"

definition apiModule_field :: "bool \<Rightarrow> apiModule field" where
  "apiModule_field disc m fieldNum wireType d iNdEx =
     (if fieldNum = 1 then
        fieldLen ''runtime'' wireType ''Authority'' d iNdEx (\<lambda>bs. Inr (m\<lparr>moduleAuthority := string_of bs\<rparr>))
      else None)"

definition apiModule_keep :: "apiModule \<Rightarrow> bytes \<Rightarrow> apiModule" where
  "apiModule_keep m u = m\<lparr>moduleUnknown := moduleUnknown m @ u\<rparr>"

definition apiModule_unmarshal ::
  "cosmos_runtime \<Rightarrow> u8 \<Rightarrow> bytes \<Rightarrow>
   apiModule option \<Rightarrow> apiModule option res" where
  "apiModule_unmarshal R flags buf x =
     apiUnmarshal R ''Module'' apiModule_field apiModule_keep flags buf x"

definition apiModule_ProtoMethods ::
  "cosmos_runtime \<Rightarrow> apiModule proto_lib \<Rightarrow> apiModule methods" where
  "apiModule_ProtoMethods R L = \<lparr>mSize = apiModule_size R,
     mMarshal = apiModule_marshal R L, mUnmarshal = apiModule_unmarshal R\<rparr>"

section \<open>The decoder and the contract of Module\<close>

definition apiModule_wire :: "apiModule \<Rightarrow> bytes" where
  "apiModule_wire m = optField 0x0A (bytes_of (moduleAuthority m)) @ moduleUnknown m"

definition apiModule_ok :: "apiModule \<Rightarrow> bool" where
  "apiModule_ok m \<longleftrightarrow> unknownFields {1} (moduleUnknown m) \<and> go_slice (apiModule_wire m)"

definition apiModule_strip :: "apiModule \<Rightarrow> apiModule" where
  "apiModule_strip m = m\<lparr>moduleUnknown := []\<rparr>"

context cosmos
begin

lemma apiModule_decoder: "api_decoder R apiModule_field apiModule_keep {1}"
proof
  fix d p e :: bytes and i j :: nat and n wt :: int and m m' :: apiModule and disc and r and u v :: bytes
  show "i \<le> j \<and> j \<le> length d"
    if "go_slice d" "i \<le> length d" "apiModule_field disc m n wt d i = Some (Inr (m', j))"
    using that by (auto simp: apiModule_field_def split: if_split_asm dest: fieldLen_progress)
  show "clean r" if "go_slice d" "i \<le> length d" "apiModule_field disc m n wt d i = Some r"
    using that by (auto simp: apiModule_field_def split: if_split_asm
        elim!: fieldLen_clean [rotated 2])
  show "apiModule_field disc m n wt d i = None \<longleftrightarrow> n \<notin> {1}"
    by (auto simp: apiModule_field_def)
  show "apiModule_field disc m n wt (p @ d @ e) (length p + i) = Some (Inr (m', length p + j))"
    if "go_slice (p @ d @ e)" "i \<le> length d" "apiModule_field disc m n wt d i = Some (Inr (m', j))"
    using that by (auto simp: apiModule_field_def split: if_split_asm intro: fieldLen_local)
  show "apiModule_keep (apiModule_keep m u) v = apiModule_keep m (u @ v)" "apiModule_keep m [] = m"
    by (simp_all add: apiModule_keep_def)
qed

interpretation D: api_decoder R "''Module''" "apiModule_field" apiModule_keep "{1}"
  by (rule apiModule_decoder)

lemma apiModule_unmarshal_clean: "go_slice d \<Longrightarrow> clean (apiModule_unmarshal R fl d x)"
  unfolding apiModule_unmarshal_def by (rule D.unm_clean)

lemma apiModule_unmarshal_append:
  "go_slice (d1 @ d2) \<Longrightarrow> apiModule_unmarshal R fl d1 (Some m) = Inr (Some m1) \<Longrightarrow>
   apiModule_unmarshal R fl d2 (Some m1) = Inr y \<Longrightarrow>
     apiModule_unmarshal R fl (d1 @ d2) (Some m) = Inr y"
  unfolding apiModule_unmarshal_def by (rule D.unm_append)

lemma apiModule_size_wire: "apiModule_size R (Some m) = length (apiModule_wire m)"
  by (simp add: apiModule_size_def apiSize_def apiModule_wire_def sizeString_length length_optField)

lemma apiModule_fields_writes:
  "writes (apiModule_wire m) (apiModule_fields R m)"
proof -
  have "apiModule_wire m = optField 0x0A (bytes_of (moduleAuthority m)) @ moduleUnknown m"
    by (simp add: apiModule_wire_def)
  then show ?thesis
    unfolding apiModule_fields_def
    by (simp only:) (intro writes_seq apiUnknown_writes apiString_writes)
qed

lemma apiModule_marshal_wire:
  "optSize L (Some m) = apiModule_size R (Some m) \<Longrightarrow>
   apiModule_marshal R L (Some m) buf = Inr (Some (raw buf @ apiModule_wire m))"
  unfolding apiModule_marshal_def
  by (intro apiMarshal_writes apiModule_fields_writes) (simp_all add: apiModule_size_wire)

lemma apiModule_unmarshal_wire:
  assumes "apiModule_ok m"
  shows "apiModule_unmarshal R fl (apiModule_wire m) (Some apiModule_zero) =
    Inr (Some (if rtDiscard R fl then apiModule_strip m else m))"
proof -
  let ?f0 = "optField 0x0A (bytes_of (moduleAuthority m))"
  let ?u = "moduleUnknown m"
  let ?m1 = "apiModule_zero\<lparr>moduleAuthority := moduleAuthority m\<rparr>"
  have u: "unknownFields {1} ?u" and g: "go_slice (?f0 @ ?u)"
    using assms by (simp_all only: apiModule_ok_def apiModule_wire_def)
  then have gs: "go_slice ?f0" "go_slice (?u)"
    by blast+
  have s0: "apiModule_unmarshal R fl ?f0 (Some apiModule_zero) = Inr (Some (?m1))"
    unfolding apiModule_unmarshal_def
    by (rule D.unm_stringField [OF gs(1), where s = "''Authority''" and
          f = "\<lambda>s. apiModule_zero\<lparr>moduleAuthority := s\<rparr>"])
            (auto simp: apiModule_field_def apiModule_zero_def)
  have "apiModule_unmarshal R fl ?u (Some (?m1)) = Inr (Some (if rtDiscard R fl then apiModule_strip m else m))"
    unfolding apiModule_unmarshal_def D.unm_unknown [OF u gs(2)]
    by (simp add: apiModule_keep_def apiModule_strip_def apiModule_zero_def)
  then show ?thesis
    unfolding apiModule_wire_def using g gs s0 by (blast intro: apiModule_unmarshal_append)
qed

lemma apiModule_message:
  assumes "\<And>m. optSize L (Some m) = apiModule_size R (Some m)"
  shows "api_message R (apiModule_ProtoMethods R L) apiModule_wire apiModule_zero apiModule_ok apiModule_strip"
  using assms
  by unfold_locales
    (auto simp: apiModule_ProtoMethods_def apiModule_size_wire apiModule_marshal_wire apiModule_unmarshal_wire)

end

interpretation api_module_dec: api_decoder own_runtime "''Module''" apiModule_field apiModule_keep "{1}"
  by (rule own.apiModule_decoder)

interpretation api_module: api_message own_runtime
    "apiModule_ProtoMethods own_runtime (size_lib (apiModule_size own_runtime))"
    apiModule_wire apiModule_zero apiModule_ok apiModule_strip
  by (rule own.apiModule_message) (simp add: size_lib_def)

definition apiModule_fds :: "(fieldDesc \<times> kind) list" where
  "apiModule_fds = [(fd_Module_authority, KString)]"

lemmas Module_fd = fd_Module_authority_def

lemma Module_Get_simps [simp]:
  "apiModule_Get fd_Module_authority (Some m) = Inr (VString (moduleAuthority m))"
  by (simp_all add: Module_fd apiModule_Get_def)

lemma Module_Has_simps [simp]:
  "apiModule_Has fd_Module_authority (Some m) = Inr (moduleAuthority m \<noteq> '''')"
  by (simp_all add: Module_fd apiModule_Has_def)

lemma Module_Set_simps [simp]:
  "apiModule_Set fd_Module_authority v (Some m) = bindR (valueString v) (\<lambda>s. Inr (m\<lparr>moduleAuthority := s\<rparr>))"
  by (simp_all add: Module_fd apiModule_Set_def)

lemma Module_Clear_simps [simp]:
  "apiModule_Clear fd_Module_authority (Some m) = Inr (m\<lparr>moduleAuthority := ''''\<rparr>)"
  by (simp_all add: Module_fd apiModule_Clear_def)

interpretation api_module_reflect: reflected_message "map fst apiModule_fds" "typedBy apiModule_fds"
    "dfltBy apiModule_fds" "valBy apiModule_Get" moduleUnknown apiModule_Has apiModule_Get
    apiModule_Set apiModule_Clear
  by unfold_locales (auto simp: apiModule_fds_def reflect_defs bindR_Inr_conv)

lemma apiModule_Range_over:
  "apiModule_Range f (Some m) =
     rangeOver (valBy apiModule_Get) (dfltBy apiModule_fds) f m (map fst apiModule_fds)"
  by (rule ext) (simp add: apiModule_Range_def apiModule_fds_def reflect_defs)

end
