(* ===== verification/ParamsPb.thy ===== *)
theory ParamsPb
  imports Wire
begin

text \<open>
  \<open>x/fixedmint/types/params.pb.go\<close>: the \<open>Params\<close> message, its equality and its codec. The amount
  is a \<open>cosmossdk.io/math.Int\<close>, which is not part of the repository: its operations are the record
  \<open>math_Int\<close>, an argument of everything that touches an amount. Operations that read a nil
  \<open>Int\<close> may panic, so they return results.
\<close>

section \<open>cosmossdk.io/math.Int, a parameter\<close>

record 'i math_Int =
  Int_zero :: "'i"
  NewInt :: "int \<Rightarrow> 'i"
  Int_Size :: "'i \<Rightarrow> nat"
  Int_MarshalTo :: "'i \<Rightarrow> bytes \<Rightarrow> (bytes \<times> nat) ext"
  Int_Unmarshal :: "'i \<Rightarrow> bytes \<Rightarrow> 'i ext"
  Int_Equal :: "'i \<Rightarrow> 'i \<Rightarrow> bool ext"
  Int_IsNegative :: "'i \<Rightarrow> bool ext"
  Int_IsZero :: "'i \<Rightarrow> bool ext"

text \<open>
  The documented behaviour of the codec of one value: \<open>MarshalTo\<close> writes its text \<open>t\<close> at the
  front of the buffer and \<open>Size\<close> is the length of that text; \<open>Unmarshal\<close> of the text gives the
  value back.
\<close>

definition int_writes :: "('i, 'z) math_Int_scheme \<Rightarrow> 'i \<Rightarrow> bytes \<Rightarrow> bool" where
  "int_writes I x t \<longleftrightarrow> Int_Size I x = length t \<and>
     (\<forall>d. length t \<le> length d \<longrightarrow> Int_MarshalTo I x d = Inr (t @ drop (length t) d, length t))"

definition int_reads :: "('i, 'z) math_Int_scheme \<Rightarrow> 'i \<Rightarrow> bytes \<Rightarrow> bool" where
  "int_reads I x t \<longleftrightarrow> (\<forall>y. Int_Unmarshal I y t = Inr x)"

section \<open>The message\<close>

record 'i Params =
  MintDenom :: string
  MintAmount :: 'i
  MintEnabled :: bool

text \<open>\<open>Params{}\<close>, which \<open>Reset\<close> assigns.\<close>

definition Params_zero :: "('i, 'z) math_Int_scheme \<Rightarrow> 'i Params" where
  "Params_zero I = \<lparr>MintDenom = '''', MintAmount = Int_zero I, MintEnabled = False\<rparr>"

definition Params_Reset :: "('i, 'z) math_Int_scheme \<Rightarrow> 'i Params \<Rightarrow> 'i Params" where
  "Params_Reset I m = Params_zero I"

text \<open>The getters accept a nil receiver.\<close>

fun GetMintDenom :: "'i Params option \<Rightarrow> string" where
  "GetMintDenom (Some m) = MintDenom m"
| "GetMintDenom None = ''''"

fun GetMintEnabled :: "'i Params option \<Rightarrow> bool" where
  "GetMintEnabled (Some m) = MintEnabled m"
| "GetMintEnabled None = False"

text \<open>
  \<open>Equal(that interface{})\<close>: \<open>that\<close> is an untyped nil, a pointer, a value or something else.
\<close>

datatype 'i that = ThatNil | ThatPtr "'i Params option" | ThatValue "'i Params" | ThatOther

definition eqFields :: "('i, 'z) math_Int_scheme \<Rightarrow> 'i Params option \<Rightarrow> 'i Params option \<Rightarrow> bool res" where
  "eqFields I this that1 =
     (case that1 of
        None \<Rightarrow> Inr (this = None)
      | Some q \<Rightarrow>
          (case this of
             None \<Rightarrow> Inr False
           | Some p \<Rightarrow>
               if MintDenom p \<noteq> MintDenom q then Inr False
               else bindR (ext (Int_Equal I (MintAmount p) (MintAmount q))) (\<lambda>eq.
                 if \<not> eq then Inr False
                 else if MintEnabled p \<noteq> MintEnabled q then Inr False
                 else Inr True)))"

fun Params_Equal :: "('i, 'z) math_Int_scheme \<Rightarrow> 'i Params option \<Rightarrow> 'i that \<Rightarrow> bool res" where
  "Params_Equal I this ThatNil = Inr (this = None)"
| "Params_Equal I this (ThatPtr that1) = eqFields I this that1"
| "Params_Equal I this (ThatValue that2) = eqFields I this (Some that2)"
| "Params_Equal I this ThatOther = Inr False"

section \<open>Marshalling\<close>

abbreviation (input) paramsFile :: string where
  "paramsFile \<equiv> ''Params''"

definition sovParams :: "u64 \<Rightarrow> nat" where
  "sovParams x = sov x"

definition sozParams :: "u64 \<Rightarrow> nat" where
  "sozParams x = soz x"

definition encodeVarintParams :: "u64 \<Rightarrow> wbuf \<Rightarrow> wbuf res" where
  "encodeVarintParams v b = encodeVarint v b"

definition skipParams :: "bytes \<Rightarrow> int res" where
  "skipParams d = skip paramsFile d"

definition Params_Size :: "('i, 'z) math_Int_scheme \<Rightarrow> 'i Params \<Rightarrow> nat" where
  "Params_Size I m =
     (let l = length (MintDenom m);
          n = (if l > 0 then 1 + l + sovParams (word_of_nat l) else 0);
          l2 = Int_Size I (MintAmount m);
          n2 = n + (1 + l2 + sovParams (word_of_nat l2))
      in if MintEnabled m then n2 + 2 else n2)"

fun putInt :: "('i, 'z) math_Int_scheme \<Rightarrow> 'i \<Rightarrow> wbuf \<Rightarrow> wbuf res" where
  "putInt I x (d, i) =
     (let sz = Int_Size I x in
      if sz \<le> i \<and> i - sz \<le> length d then
        bindR (ext (Int_MarshalTo I x (drop (i - sz) d))) (\<lambda>(d', _).
          encodeVarintParams (word_of_nat sz) (take (i - sz) d @ d', i - sz))
      else Inl (Panic ''slice bounds out of range''))"

definition Params_fields :: "('i, 'z) math_Int_scheme \<Rightarrow> 'i Params \<Rightarrow> wbuf \<Rightarrow> wbuf res" where
  "Params_fields I m b =
     bindR ((if MintEnabled m
             then (\<lambda>b. bindR (putByte (if MintEnabled m then 1 else 0) b) (putByte 0x18))
             else Inr) b) (\<lambda>b.
     bindR (putInt I (MintAmount m) b) (\<lambda>b.
     bindR (putByte 0x12 b)
       (if length (MintDenom m) > 0
        then (\<lambda>b. bindR (putBytes (bytes_of (MintDenom m)) b) (\<lambda>b.
                  bindR (encodeVarintParams (word_of_nat (length (MintDenom m))) b)
                    (putByte 0x0A)))
        else Inr)))"

definition Params_MarshalToSizedBuffer ::
  "('i, 'z) math_Int_scheme \<Rightarrow> 'i Params \<Rightarrow> bytes \<Rightarrow> (bytes \<times> nat) res" where
  "Params_MarshalToSizedBuffer I m d = sized (Params_fields I m) d"

definition Params_MarshalTo ::
  "('i, 'z) math_Int_scheme \<Rightarrow> 'i Params \<Rightarrow> bytes \<Rightarrow> (bytes \<times> nat) res" where
  "Params_MarshalTo I m d = marshalTo (Params_Size I m) (Params_MarshalToSizedBuffer I m) d"

definition Params_Marshal :: "('i, 'z) math_Int_scheme \<Rightarrow> 'i Params \<Rightarrow> bytes res" where
  "Params_Marshal I m = marshal (Params_Size I m) (Params_MarshalToSizedBuffer I m)"

definition Params_XXX_Marshal ::
  "('i, 'z) math_Int_scheme \<Rightarrow> bytes ext \<Rightarrow> 'i Params \<Rightarrow> bytes \<Rightarrow> bool \<Rightarrow> bytes res" where
  "Params_XXX_Marshal I info m b deterministic =
     xxxMarshal deterministic info (Params_MarshalToSizedBuffer I m) b"

section \<open>Unmarshalling\<close>

definition Params_field :: "('i, 'z) math_Int_scheme \<Rightarrow> 'i Params field" where
  "Params_field I m fieldNum wireType d iNdEx =
     (if fieldNum = 1 then
        fieldLen paramsFile wireType ''MintDenom'' d iNdEx (\<lambda>bs. Inr (m\<lparr>MintDenom := string_of bs\<rparr>))
      else if fieldNum = 2 then
        fieldLen paramsFile wireType ''MintAmount'' d iNdEx (\<lambda>bs.
          bindR (ext (Int_Unmarshal I (MintAmount m) bs)) (\<lambda>x. Inr (m\<lparr>MintAmount := x\<rparr>)))
      else if fieldNum = 3 then
        fieldVarint paramsFile wireType ''MintEnabled'' d iNdEx (\<lambda>v. m\<lparr>MintEnabled := (v \<noteq> 0)\<rparr>)
      else None)"

definition Params_Unmarshal :: "('i, 'z) math_Int_scheme \<Rightarrow> 'i Params \<Rightarrow> bytes \<Rightarrow> 'i Params res" where
  "Params_Unmarshal I m d =
     unmarshal paramsFile ''Params'' skipParams (Params_field I) (\<lambda>m _. m) m d"

section \<open>The decoder\<close>

lemmas wire_names [simp] = sovParams_def encodeVarintParams_def

lemma skipParams_laws:
  "go_slice d \<Longrightarrow> skipParams d = Inr n \<Longrightarrow> 0 < n"
  "go_slice d \<Longrightarrow> skipParams d = Inr n \<Longrightarrow> n < 2 ^ 63"
  "go_slice d \<Longrightarrow> skipParams d \<noteq> Inl OutOfFuel"
  "skipParams d = Inr n \<Longrightarrow> skipParams (d @ e) = Inr n"
  unfolding skipParams_def
  by (rule skip_progress, assumption+) (rule skip_int, assumption+, rule clean_fuel, simp, rule skip_append)

interpretation params_dec: field_decoder paramsFile "''Params''" skipParams "Params_field I" "\<lambda>m _. m"
  for I :: "('i, 'z) math_Int_scheme"
proof
  fix d p e :: bytes and i j n wt wt' d' i' and m m' m'' :: "'i Params" and k :: int
  show "i \<le> j \<and> j \<le> length d"
    if "go_slice d" "i \<le> length d" "Params_field I m n wt d i = Some (Inr (m', j))"
    using that by (auto simp: Params_field_def split: if_splits dest: fieldLen_progress fieldVarint_progress)
  show "Params_field I m n wt d i \<noteq> Some (Inl OutOfFuel)" if "go_slice d"
    using that by (auto simp: Params_field_def bindR_Inl_conv fieldLen_fuel fieldVarint_fuel)
  show "Params_field I m' n wt' d' i' = None" if "Params_field I m n wt d i = None"
    using that by (auto simp: Params_field_def split: if_splits)
  show "Params_field I m n wt (p @ d @ e) (length p + i) = Some (Inr (m', length p + j))"
    if "go_slice (p @ d @ e)" "Params_field I m n wt d i = Some (Inr (m', j))"
    using that by (auto simp: Params_field_def split: if_splits intro: fieldLen_local fieldVarint_local)
  show "0 < k" if "go_slice d" "skipParams d = Inr k" using that by (rule skipParams_laws)
  show "k < 2 ^ 63" if "go_slice d" "skipParams d = Inr k" using that by (rule skipParams_laws)
  show "skipParams d \<noteq> Inl OutOfFuel" if "go_slice d" using that by (rule skipParams_laws)
  show "skipParams (d @ e) = Inr k" if "skipParams d = Inr k" using that by (rule skipParams_laws)
qed

section \<open>The wire form and the codec contract\<close>

text \<open>
  The bytes of a \<open>Params\<close>: the denomination if it is not empty, the amount (always written, the
  field is not nullable) and the flag if it is set. \<open>t\<close> gives the text of an amount.
\<close>

definition Params_wire :: "('i \<Rightarrow> bytes) \<Rightarrow> 'i Params \<Rightarrow> bytes" where
  "Params_wire t m =
     (if length (MintDenom m) > 0
      then 0x0A # varint (word_of_nat (length (MintDenom m))) @ bytes_of (MintDenom m) else [])
     @ (0x12 # varint (word_of_nat (length (t (MintAmount m)))) @ t (MintAmount m))
     @ (if MintEnabled m then [0x18, 1] else [])"

text \<open>Messages the codec promises to handle: their amount can be encoded and they fit a slice.\<close>

definition Params_ok :: "('i, 'z) math_Int_scheme \<Rightarrow> ('i \<Rightarrow> bytes) \<Rightarrow> 'i Params \<Rightarrow> bool" where
  "Params_ok I t m \<longleftrightarrow> int_writes I (MintAmount m) (t (MintAmount m)) \<and>
     int_reads I (MintAmount m) (t (MintAmount m)) \<and> go_slice (Params_wire t m)"

lemma Params_Size_wire:
  "int_writes I (MintAmount m) (t (MintAmount m)) \<Longrightarrow> Params_Size I m = length (Params_wire t m)"
  by (simp add: Params_Size_def Params_wire_def Let_def int_writes_def sov_varint)

lemma writes_putInt:
  assumes "int_writes I x t"
  shows "writes (varint (word_of_nat (length t)) @ t) (putInt I x)"
  unfolding writes_def
proof (intro allI impI)
  fix p hole s :: bytes
  let ?v = "varint (word_of_nat (length t))"
  assume h: "length hole = length (?v @ t)"
  define h1 h2 where "h1 = take (length ?v) hole" and "h2 = drop (length ?v) hole"
  have hh: "hole = h1 @ h2" "length h1 = length ?v" "length h2 = length t"
    using h by (auto simp: h1_def h2_def)
  have e: "encodeVarint (word_of_nat (length t)) (p @ h1 @ t @ s, length p + length ?v) =
      Inr (p @ ?v @ t @ s, length p)"
    by (rule writesD [OF writes_varint hh(2)])
  have "Int_MarshalTo I x (h2 @ s) = Inr (t @ s, length t)" "Int_Size I x = length t"
    using assms hh(3) by (simp_all add: int_writes_def)
  then show "putInt I x (p @ hole @ s, length p + length (?v @ t)) = Inr (p @ (?v @ t) @ s, length p)"
    using e hh by (simp add: Let_def del: encodeVarint.simps)
qed

lemma Params_fields_writes:
  assumes "int_writes I (MintAmount m) (t (MintAmount m))"
  shows "writes (Params_wire t m) (Params_fields I m)"
proof -
  let ?e = "if MintEnabled m then [0x18] @ [if MintEnabled m then 1 else 0] else []"
  let ?d = "if length (MintDenom m) > 0
    then ([0x0A] @ varint (word_of_nat (length (MintDenom m)))) @ bytes_of (MintDenom m) else []"
  let ?a = "varint (word_of_nat (length (t (MintAmount m)))) @ t (MintAmount m)"
  have e: "writes ?e (if MintEnabled m
       then (\<lambda>b. bindR (putByte (if MintEnabled m then 1 else 0) b) (putByte 0x18)) else Inr)"
    by (intro writes_intros)
  have d: "writes ?d (if length (MintDenom m) > 0
        then (\<lambda>b. bindR (putBytes (bytes_of (MintDenom m)) b) (\<lambda>b.
                  bindR (encodeVarint (word_of_nat (length (MintDenom m))) b) (putByte 0x0A)))
        else Inr)"
    by (intro writes_intros)
  have "writes (((?d @ [0x12]) @ ?a) @ ?e) (Params_fields I m)"
    unfolding Params_fields_def wire_names
    by (rule writes_seq [OF e], rule writes_seq [OF writes_putInt [OF assms]],
        rule writes_seq [OF writes_byte d])
  moreover have "((?d @ [0x12]) @ ?a) @ ?e = Params_wire t m"
    by (simp add: Params_wire_def)
  ultimately show ?thesis by simp
qed

lemma Params_MarshalToSizedBuffer_wire:
  assumes "int_writes I (MintAmount m) (t (MintAmount m))" "length (Params_wire t m) \<le> length d"
  shows "Params_MarshalToSizedBuffer I m d =
    Inr (take (length d - length (Params_wire t m)) d @ Params_wire t m, length (Params_wire t m))"
  unfolding Params_MarshalToSizedBuffer_def
  by (rule sized_writes [OF Params_fields_writes [where t = t, OF assms(1)] assms(2)])

text \<open>Each field alone, then the message by the merge rule.\<close>

lemma decode_denom:
  assumes "go_slice (0x0A # varint (word_of_nat (length s)) @ bytes_of s)"
  shows "Params_Unmarshal I m (0x0A # varint (word_of_nat (length s)) @ bytes_of s) =
    Inr (m\<lparr>MintDenom := s\<rparr>)"
  unfolding Params_Unmarshal_def using assms
  by (intro params_dec.decode_field)
     (simp_all add: Params_field_def fieldLen_read [where x = "bytes_of s", simplified])

lemma decode_amount:
  assumes "go_slice (0x12 # varint (word_of_nat (length t)) @ t)" "int_reads I x t"
  shows "Params_Unmarshal I m (0x12 # varint (word_of_nat (length t)) @ t) = Inr (m\<lparr>MintAmount := x\<rparr>)"
  unfolding Params_Unmarshal_def using assms
  by (intro params_dec.decode_field) (simp_all add: Params_field_def int_reads_def fieldLen_read)

lemma decode_enabled: "Params_Unmarshal I m [0x18, 1] = Inr (m\<lparr>MintEnabled := True\<rparr>)"
proof -
  have "varint 1 = [1]" by (subst varint.simps) simp
  then have "fieldVarint fl 0 s [0x18, 1] (Suc 0) upd = Some (Inr (upd 1, Suc (Suc 0)))"
    for fl s and upd :: "u64 \<Rightarrow> 'a Params"
    using fieldVarint_read [where t = "0x18" and v = 1] by simp
  then show ?thesis
    unfolding Params_Unmarshal_def
    by (intro params_dec.decode_field) (simp_all add: Params_field_def go_slice_def)
qed

lemma Params_Unmarshal_append:
  "go_slice (d1 @ d2) \<Longrightarrow> Params_Unmarshal I m d1 = Inr m1 \<Longrightarrow> Params_Unmarshal I m1 d2 = Inr m2 \<Longrightarrow>
   Params_Unmarshal I m (d1 @ d2) = Inr m2"
  unfolding Params_Unmarshal_def by (rule params_dec.decode_append)

lemma Params_Unmarshal_Nil [simp]: "Params_Unmarshal I m [] = Inr m"
  by (simp add: Params_Unmarshal_def)

text \<open>
  Decoding into a message that is not empty merges: a field that the encoding leaves out keeps its
  value.
\<close>

definition Params_merge :: "'i Params \<Rightarrow> 'i Params \<Rightarrow> 'i Params" where
  "Params_merge x m =
     \<lparr>MintDenom = (if MintDenom m = [] then MintDenom x else MintDenom m), MintAmount = MintAmount m,
      MintEnabled = (MintEnabled x \<or> MintEnabled m)\<rparr>"

lemma Params_Unmarshal_into:
  assumes "Params_ok I t m"
  shows "Params_Unmarshal I x (Params_wire t m) = Inr (Params_merge x m)"
proof -
  let ?d = "if length (MintDenom m) > 0
      then 0x0A # varint (word_of_nat (length (MintDenom m))) @ bytes_of (MintDenom m) else []"
  let ?a = "0x12 # varint (word_of_nat (length (t (MintAmount m)))) @ t (MintAmount m)"
  let ?e = "if MintEnabled m then [0x18, 1] else []"
  let ?m1 = "x\<lparr>MintDenom := if MintDenom m = [] then MintDenom x else MintDenom m\<rparr>"
  let ?m2 = "?m1\<lparr>MintAmount := MintAmount m\<rparr>"
  have g: "go_slice (?d @ ?a @ ?e)" and r: "int_reads I (MintAmount m) (t (MintAmount m))"
    using assms by (simp_all only: Params_ok_def Params_wire_def)
  then have gs: "go_slice ?d" "go_slice (?a @ ?e)" "go_slice ?a" by blast+
  have "Params_Unmarshal I x ?d = Inr ?m1"
    using gs(1) decode_denom [of "MintDenom m" I x] by auto
  moreover have "Params_Unmarshal I ?m1 ?a = Inr ?m2"
    by (rule decode_amount [OF gs(3) r])
  moreover have "Params_Unmarshal I ?m2 ?e = Inr (Params_merge x m)"
    using decode_enabled [of I ?m2] by (auto simp: Params_merge_def)
  ultimately show ?thesis
    unfolding Params_wire_def using g gs(2) by (blast intro: Params_Unmarshal_append)
qed

lemma Params_Unmarshal_wire:
  "Params_ok I t m \<Longrightarrow> Params_Unmarshal I (Params_zero I) (Params_wire t m) = Inr m"
  by (simp add: Params_Unmarshal_into) (simp add: Params_merge_def Params_zero_def)

interpretation params: wire_message "Params_Size I" "Params_MarshalToSizedBuffer I"
    "Params_Unmarshal I" "Params_wire t" "Params_zero I" "Params_ok I t"
  for I :: "('i, 'z) math_Int_scheme" and t :: "'i \<Rightarrow> bytes"
  by unfold_locales
    (auto simp: Params_ok_def Params_Size_wire Params_MarshalToSizedBuffer_wire Params_Unmarshal_wire)

end
