(* ===== verification/GenesisPb.thy ===== *)
theory GenesisPb
  imports ParamsPb
begin

text \<open>
  \<open>x/fixedmint/types/genesis.pb.go\<close>: the \<open>GenesisState\<close> message, which embeds \<open>Params\<close>. Its codec
  relies on that of \<open>Params\<close> through the \<open>wire_message\<close> contract only.
\<close>

record 'i GenesisState =
  gsParams :: "'i Params"

definition GenesisState_zero :: "('i, 'z) math_Int_scheme \<Rightarrow> 'i GenesisState" where
  "GenesisState_zero I = \<lparr>gsParams = Params_zero I\<rparr>"

definition GenesisState_Reset :: "('i, 'z) math_Int_scheme \<Rightarrow> 'i GenesisState \<Rightarrow> 'i GenesisState" where
  "GenesisState_Reset I m = GenesisState_zero I"

fun GenesisState_GetParams :: "('i, 'z) math_Int_scheme \<Rightarrow> 'i GenesisState option \<Rightarrow> 'i Params" where
  "GenesisState_GetParams I (Some m) = gsParams m"
| "GenesisState_GetParams I None = Params_zero I"

definition sovGenesis :: "u64 \<Rightarrow> nat" where
  "sovGenesis x = sov x"

definition sozGenesis :: "u64 \<Rightarrow> nat" where
  "sozGenesis x = soz x"

definition encodeVarintGenesis :: "u64 \<Rightarrow> wbuf \<Rightarrow> wbuf res" where
  "encodeVarintGenesis v b = encodeVarint v b"

definition skipGenesis :: "bytes \<Rightarrow> int res" where
  "skipGenesis d = skip ''Genesis'' d"

definition GenesisState_Size :: "('i, 'z) math_Int_scheme \<Rightarrow> 'i GenesisState \<Rightarrow> nat" where
  "GenesisState_Size I m =
     (let l = Params_Size I (gsParams m) in 1 + l + sovGenesis (word_of_nat l))"

definition GenesisState_fields :: "('i, 'z) math_Int_scheme \<Rightarrow> 'i GenesisState \<Rightarrow> wbuf \<Rightarrow> wbuf res" where
  "GenesisState_fields I m b =
     bindR (putNested (Params_MarshalToSizedBuffer I (gsParams m)) b) (putByte 0x0A)"

definition GenesisState_MarshalToSizedBuffer ::
  "('i, 'z) math_Int_scheme \<Rightarrow> 'i GenesisState \<Rightarrow> bytes \<Rightarrow> (bytes \<times> nat) res" where
  "GenesisState_MarshalToSizedBuffer I m d = sized (GenesisState_fields I m) d"

definition GenesisState_MarshalTo ::
  "('i, 'z) math_Int_scheme \<Rightarrow> 'i GenesisState \<Rightarrow> bytes \<Rightarrow> (bytes \<times> nat) res" where
  "GenesisState_MarshalTo I m d =
     marshalTo (GenesisState_Size I m) (GenesisState_MarshalToSizedBuffer I m) d"

definition GenesisState_Marshal :: "('i, 'z) math_Int_scheme \<Rightarrow> 'i GenesisState \<Rightarrow> bytes res" where
  "GenesisState_Marshal I m = marshal (GenesisState_Size I m) (GenesisState_MarshalToSizedBuffer I m)"

definition GenesisState_XXX_Marshal ::
  "('i, 'z) math_Int_scheme \<Rightarrow> bytes ext \<Rightarrow> 'i GenesisState \<Rightarrow> bytes \<Rightarrow> bool \<Rightarrow> bytes res" where
  "GenesisState_XXX_Marshal I info m b deterministic =
     xxxMarshal deterministic info (GenesisState_MarshalToSizedBuffer I m) b"

definition GenesisState_field :: "('i, 'z) math_Int_scheme \<Rightarrow> 'i GenesisState field" where
  "GenesisState_field I m fieldNum wireType d iNdEx =
     (if fieldNum = 1 then
        fieldLen ''Genesis'' wireType ''Params'' d iNdEx (\<lambda>bs.
          bindR (Params_Unmarshal I (gsParams m) bs) (\<lambda>p. Inr (m\<lparr>gsParams := p\<rparr>)))
      else None)"

definition GenesisState_Unmarshal ::
  "('i, 'z) math_Int_scheme \<Rightarrow> 'i GenesisState \<Rightarrow> bytes \<Rightarrow> 'i GenesisState res" where
  "GenesisState_Unmarshal I m d =
     unmarshal ''Genesis'' ''GenesisState'' skipGenesis (GenesisState_field I) (\<lambda>m _. m) m d"

lemmas genesis_names [simp] = sovGenesis_def

lemma skipGenesis_laws:
  "go_slice d \<Longrightarrow> skipGenesis d = Inr n \<Longrightarrow> 0 < n"
  "go_slice d \<Longrightarrow> skipGenesis d = Inr n \<Longrightarrow> n < 2 ^ 63"
  "go_slice d \<Longrightarrow> skipGenesis d \<noteq> Inl OutOfFuel"
  "skipGenesis d = Inr n \<Longrightarrow> skipGenesis (d @ e) = Inr n"
  unfolding skipGenesis_def
  by (rule skip_progress, assumption+) (rule skip_int, assumption+, rule clean_fuel, simp, rule skip_append)

lemma Params_Unmarshal_fuel: "go_slice d \<Longrightarrow> Params_Unmarshal I m d \<noteq> Inl OutOfFuel"
  unfolding Params_Unmarshal_def by (rule params_dec.unmarshal_returns)

interpretation genesis_dec: field_decoder "''Genesis''" "''GenesisState''" skipGenesis
    "GenesisState_field I" "\<lambda>m _. m"
  for I :: "('i, 'z) math_Int_scheme"
  by unfold_locales
    (auto simp: GenesisState_field_def bindR_Inl_conv fieldLen_fuel Params_Unmarshal_fuel skipGenesis_laws [simplified]
        split: if_splits dest: fieldLen_progress intro: fieldLen_local skipGenesis_laws)

definition GenesisState_wire :: "('i \<Rightarrow> bytes) \<Rightarrow> 'i GenesisState \<Rightarrow> bytes" where
  "GenesisState_wire t m =
     0x0A # varint (word_of_nat (length (Params_wire t (gsParams m)))) @ Params_wire t (gsParams m)"

definition GenesisState_ok :: "('i, 'z) math_Int_scheme \<Rightarrow> ('i \<Rightarrow> bytes) \<Rightarrow> 'i GenesisState \<Rightarrow> bool" where
  "GenesisState_ok I t m \<longleftrightarrow> Params_ok I t (gsParams m) \<and> go_slice (GenesisState_wire t m)"

lemma GenesisState_fields_writes:
  "Params_ok I t (gsParams m) \<Longrightarrow> writes (GenesisState_wire t m) (GenesisState_fields I m)"
  unfolding GenesisState_fields_def GenesisState_wire_def
  using writes_seq [OF params.nested_writes writes_byte] by fastforce

lemma GenesisState_Unmarshal_wire:
  assumes "GenesisState_ok I t m"
  shows "GenesisState_Unmarshal I (GenesisState_zero I) (GenesisState_wire t m) = Inr m"
  using assms unfolding GenesisState_Unmarshal_def GenesisState_wire_def GenesisState_ok_def
  by (intro genesis_dec.decode_field)
     (simp_all add: GenesisState_field_def fieldLen_read GenesisState_zero_def params.unm_wire)

interpretation genesis: wire_message "GenesisState_Size I" "GenesisState_MarshalToSizedBuffer I"
    "GenesisState_Unmarshal I" "GenesisState_wire t" "GenesisState_zero I" "GenesisState_ok I t"
  for I :: "('i, 'z) math_Int_scheme" and t :: "'i \<Rightarrow> bytes"
proof
  fix m :: "'i GenesisState" and d :: bytes
  assume ok: "GenesisState_ok I t m"
  show "GenesisState_Size I m = length (GenesisState_wire t m)"
    using ok params.size_wire [of I t "gsParams m"]
    by (simp add: GenesisState_ok_def GenesisState_Size_def GenesisState_wire_def sov_varint Let_def)
  show "GenesisState_MarshalToSizedBuffer I m d =
      Inr (take (length d - length (GenesisState_wire t m)) d @ GenesisState_wire t m,
           length (GenesisState_wire t m))" if "length (GenesisState_wire t m) \<le> length d"
    unfolding GenesisState_MarshalToSizedBuffer_def
    using ok that by (intro sized_writes GenesisState_fields_writes) (auto simp: GenesisState_ok_def)
  show "GenesisState_Unmarshal I (GenesisState_zero I) (GenesisState_wire t m) = Inr m"
    using ok by (rule GenesisState_Unmarshal_wire)
  show "go_slice (GenesisState_wire t m)" using ok by (simp add: GenesisState_ok_def)
qed

end
