(* ===== verification/TxPb.thy ===== *)
theory TxPb
  imports GenesisPb
begin

text \<open>
  \<open>x/fixedmint/types/tx.pb.go\<close>: \<open>MsgUpdateParams\<close>, an authority and the new parameters, and its
  empty response.
\<close>

section \<open>MsgUpdateParams\<close>

record 'i MsgUpdateParams =
  Authority :: string
  msgParams :: "'i Params"

definition MsgUpdateParams_zero :: "('i, 'z) math_Int_scheme \<Rightarrow> 'i MsgUpdateParams" where
  "MsgUpdateParams_zero I = \<lparr>Authority = '''', msgParams = Params_zero I\<rparr>"

definition MsgUpdateParams_Reset ::
  "('i, 'z) math_Int_scheme \<Rightarrow> 'i MsgUpdateParams \<Rightarrow> 'i MsgUpdateParams" where
  "MsgUpdateParams_Reset I m = MsgUpdateParams_zero I"

fun GetAuthorityField :: "'i MsgUpdateParams option \<Rightarrow> string" where
  "GetAuthorityField (Some m) = Authority m"
| "GetAuthorityField None = ''''"

fun MsgUpdateParams_GetParams :: "('i, 'z) math_Int_scheme \<Rightarrow> 'i MsgUpdateParams option \<Rightarrow> 'i Params" where
  "MsgUpdateParams_GetParams I (Some m) = msgParams m"
| "MsgUpdateParams_GetParams I None = Params_zero I"

definition sovTx :: "u64 \<Rightarrow> nat" where
  "sovTx x = sov x"

definition sozTx :: "u64 \<Rightarrow> nat" where
  "sozTx x = soz x"

definition encodeVarintTx :: "u64 \<Rightarrow> wbuf \<Rightarrow> wbuf res" where
  "encodeVarintTx v b = encodeVarint v b"

definition skipTx :: "bytes \<Rightarrow> int res" where
  "skipTx d = skip ''Tx'' d"

lemmas tx_names [simp] = sovTx_def encodeVarintTx_def

definition MsgUpdateParams_Size :: "('i, 'z) math_Int_scheme \<Rightarrow> 'i MsgUpdateParams \<Rightarrow> nat" where
  "MsgUpdateParams_Size I m =
     (let l = length (Authority m);
          n = (if l > 0 then 1 + l + sovTx (word_of_nat l) else 0);
          l2 = Params_Size I (msgParams m)
      in n + (1 + l2 + sovTx (word_of_nat l2)))"

definition MsgUpdateParams_fields :: "('i, 'z) math_Int_scheme \<Rightarrow> 'i MsgUpdateParams \<Rightarrow> wbuf \<Rightarrow> wbuf res" where
  "MsgUpdateParams_fields I m b =
     bindR (putNested (Params_MarshalToSizedBuffer I (msgParams m)) b) (\<lambda>b.
     bindR (putByte 0x12 b)
       (if length (Authority m) > 0
        then (\<lambda>b. bindR (putBytes (bytes_of (Authority m)) b) (\<lambda>b.
                  bindR (encodeVarintTx (word_of_nat (length (Authority m))) b)
                    (putByte 0x0A)))
        else Inr))"

definition MsgUpdateParams_MarshalToSizedBuffer ::
  "('i, 'z) math_Int_scheme \<Rightarrow> 'i MsgUpdateParams \<Rightarrow> bytes \<Rightarrow> (bytes \<times> nat) res" where
  "MsgUpdateParams_MarshalToSizedBuffer I m d = sized (MsgUpdateParams_fields I m) d"

definition MsgUpdateParams_MarshalTo ::
  "('i, 'z) math_Int_scheme \<Rightarrow> 'i MsgUpdateParams \<Rightarrow> bytes \<Rightarrow> (bytes \<times> nat) res" where
  "MsgUpdateParams_MarshalTo I m d =
     marshalTo (MsgUpdateParams_Size I m) (MsgUpdateParams_MarshalToSizedBuffer I m) d"

definition MsgUpdateParams_Marshal :: "('i, 'z) math_Int_scheme \<Rightarrow> 'i MsgUpdateParams \<Rightarrow> bytes res" where
  "MsgUpdateParams_Marshal I m =
     marshal (MsgUpdateParams_Size I m) (MsgUpdateParams_MarshalToSizedBuffer I m)"

definition MsgUpdateParams_XXX_Marshal ::
  "('i, 'z) math_Int_scheme \<Rightarrow> bytes ext \<Rightarrow> 'i MsgUpdateParams \<Rightarrow> bytes \<Rightarrow> bool \<Rightarrow> bytes res" where
  "MsgUpdateParams_XXX_Marshal I info m b deterministic =
     xxxMarshal deterministic info (MsgUpdateParams_MarshalToSizedBuffer I m) b"

definition MsgUpdateParams_field :: "('i, 'z) math_Int_scheme \<Rightarrow> 'i MsgUpdateParams field" where
  "MsgUpdateParams_field I m fieldNum wireType d iNdEx =
     (if fieldNum = 1 then
        fieldLen ''Tx'' wireType ''Authority'' d iNdEx (\<lambda>bs. Inr (m\<lparr>Authority := string_of bs\<rparr>))
      else if fieldNum = 2 then
        fieldLen ''Tx'' wireType ''Params'' d iNdEx (\<lambda>bs.
          bindR (Params_Unmarshal I (msgParams m) bs) (\<lambda>p. Inr (m\<lparr>msgParams := p\<rparr>)))
      else None)"

definition MsgUpdateParams_Unmarshal ::
  "('i, 'z) math_Int_scheme \<Rightarrow> 'i MsgUpdateParams \<Rightarrow> bytes \<Rightarrow> 'i MsgUpdateParams res" where
  "MsgUpdateParams_Unmarshal I m d =
     unmarshal ''Tx'' ''MsgUpdateParams'' skipTx (MsgUpdateParams_field I) (\<lambda>m _. m) m d"

lemma skipTx_laws:
  "go_slice d \<Longrightarrow> skipTx d = Inr n \<Longrightarrow> 0 < n"
  "go_slice d \<Longrightarrow> skipTx d = Inr n \<Longrightarrow> n < 2 ^ 63"
  "go_slice d \<Longrightarrow> skipTx d \<noteq> Inl OutOfFuel"
  "skipTx d = Inr n \<Longrightarrow> skipTx (d @ e) = Inr n"
  unfolding skipTx_def
  by (rule skip_progress, assumption+) (rule skip_int, assumption+, rule clean_fuel, simp, rule skip_append)

interpretation updateParams_dec: field_decoder "''Tx''" "''MsgUpdateParams''" skipTx
    "MsgUpdateParams_field I" "\<lambda>m _. m"
  for I :: "('i, 'z) math_Int_scheme"
  by unfold_locales
    (auto simp: MsgUpdateParams_field_def bindR_Inl_conv fieldLen_fuel Params_Unmarshal_fuel
        skipTx_laws [simplified]
        split: if_splits dest: fieldLen_progress intro: fieldLen_local skipTx_laws)

definition MsgUpdateParams_wire :: "('i \<Rightarrow> bytes) \<Rightarrow> 'i MsgUpdateParams \<Rightarrow> bytes" where
  "MsgUpdateParams_wire t m =
     (if length (Authority m) > 0
      then 0x0A # varint (word_of_nat (length (Authority m))) @ bytes_of (Authority m) else [])
     @ 0x12 # varint (word_of_nat (length (Params_wire t (msgParams m)))) @ Params_wire t (msgParams m)"

definition MsgUpdateParams_ok :: "('i, 'z) math_Int_scheme \<Rightarrow> ('i \<Rightarrow> bytes) \<Rightarrow> 'i MsgUpdateParams \<Rightarrow> bool" where
  "MsgUpdateParams_ok I t m \<longleftrightarrow> Params_ok I t (msgParams m) \<and> go_slice (MsgUpdateParams_wire t m)"

lemma MsgUpdateParams_fields_writes:
  assumes "Params_ok I t (msgParams m)"
  shows "writes (MsgUpdateParams_wire t m) (MsgUpdateParams_fields I m)"
proof -
  let ?d = "if length (Authority m) > 0
    then ([0x0A] @ varint (word_of_nat (length (Authority m)))) @ bytes_of (Authority m) else []"
  let ?p = "varint (word_of_nat (length (Params_wire t (msgParams m)))) @ Params_wire t (msgParams m)"
  have d: "writes ?d (if length (Authority m) > 0
        then (\<lambda>b. bindR (putBytes (bytes_of (Authority m)) b) (\<lambda>b.
                  bindR (encodeVarint (word_of_nat (length (Authority m))) b) (putByte 0x0A)))
        else Inr)"
    by (intro writes_intros)
  have "writes ((?d @ [0x12]) @ ?p) (MsgUpdateParams_fields I m)"
    unfolding MsgUpdateParams_fields_def tx_names
    by (rule writes_seq [OF params.nested_writes [OF assms]], rule writes_seq [OF writes_byte d])
  moreover have "(?d @ [0x12]) @ ?p = MsgUpdateParams_wire t m"
    by (simp add: MsgUpdateParams_wire_def)
  ultimately show ?thesis by simp
qed

lemma MsgUpdateParams_Unmarshal_append:
  "go_slice (d1 @ d2) \<Longrightarrow> MsgUpdateParams_Unmarshal I m d1 = Inr m1 \<Longrightarrow>
   MsgUpdateParams_Unmarshal I m1 d2 = Inr m2 \<Longrightarrow> MsgUpdateParams_Unmarshal I m (d1 @ d2) = Inr m2"
  unfolding MsgUpdateParams_Unmarshal_def by (rule updateParams_dec.decode_append)

lemma decode_authority:
  assumes "go_slice (0x0A # varint (word_of_nat (length s)) @ bytes_of s)"
  shows "MsgUpdateParams_Unmarshal I m (0x0A # varint (word_of_nat (length s)) @ bytes_of s) =
    Inr (m\<lparr>Authority := s\<rparr>)"
  unfolding MsgUpdateParams_Unmarshal_def using assms
  by (intro updateParams_dec.decode_field)
     (simp_all add: MsgUpdateParams_field_def fieldLen_read [where x = "bytes_of s", simplified])

lemma decode_msgParams:
  assumes "go_slice (0x12 # varint (word_of_nat (length x)) @ x)"
    and "Params_Unmarshal I (msgParams m) x = Inr p"
  shows "MsgUpdateParams_Unmarshal I m (0x12 # varint (word_of_nat (length x)) @ x) =
    Inr (m\<lparr>msgParams := p\<rparr>)"
  unfolding MsgUpdateParams_Unmarshal_def using assms
  by (intro updateParams_dec.decode_field) (simp_all add: MsgUpdateParams_field_def fieldLen_read)

lemma MsgUpdateParams_Unmarshal_wire:
  assumes "MsgUpdateParams_ok I t m"
  shows "MsgUpdateParams_Unmarshal I (MsgUpdateParams_zero I) (MsgUpdateParams_wire t m) = Inr m"
proof -
  let ?d = "if length (Authority m) > 0
      then 0x0A # varint (word_of_nat (length (Authority m))) @ bytes_of (Authority m) else []"
  let ?x = "Params_wire t (msgParams m)"
  let ?p = "0x12 # varint (word_of_nat (length ?x)) @ ?x"
  let ?m1 = "(MsgUpdateParams_zero I)\<lparr>Authority := Authority m\<rparr>"
  have g: "go_slice (?d @ ?p)" and ok: "Params_ok I t (msgParams m)"
    using assms by (simp_all only: MsgUpdateParams_ok_def MsgUpdateParams_wire_def)
  then have gs: "go_slice ?d" "go_slice ?p" by blast+
  have a: "MsgUpdateParams_Unmarshal I (MsgUpdateParams_zero I) ?d = Inr ?m1"
    using gs(1) decode_authority [of "Authority m" I "MsgUpdateParams_zero I"]
    by (auto simp: MsgUpdateParams_zero_def MsgUpdateParams_Unmarshal_def)
  have "Params_Unmarshal I (msgParams ?m1) ?x = Inr (msgParams m)"
    using params.unm_wire [OF ok] by (simp add: MsgUpdateParams_zero_def)
  then have "MsgUpdateParams_Unmarshal I ?m1 ?p = Inr (?m1\<lparr>msgParams := msgParams m\<rparr>)"
    by (rule decode_msgParams [OF gs(2)])
  then have "MsgUpdateParams_Unmarshal I (MsgUpdateParams_zero I) (?d @ ?p) =
      Inr (?m1\<lparr>msgParams := msgParams m\<rparr>)"
    by (rule MsgUpdateParams_Unmarshal_append [OF g a])
  moreover have "?m1\<lparr>msgParams := msgParams m\<rparr> = m" by (simp add: MsgUpdateParams_zero_def)
  ultimately show ?thesis unfolding MsgUpdateParams_wire_def by metis
qed

interpretation updateParams: wire_message "MsgUpdateParams_Size I"
    "MsgUpdateParams_MarshalToSizedBuffer I" "MsgUpdateParams_Unmarshal I" "MsgUpdateParams_wire t"
    "MsgUpdateParams_zero I" "MsgUpdateParams_ok I t"
  for I :: "('i, 'z) math_Int_scheme" and t :: "'i \<Rightarrow> bytes"
proof
  fix m :: "'i MsgUpdateParams" and d :: bytes
  assume ok: "MsgUpdateParams_ok I t m"
  show "MsgUpdateParams_Size I m = length (MsgUpdateParams_wire t m)"
    using ok params.size_wire [of I t "msgParams m"]
    by (simp add: MsgUpdateParams_ok_def MsgUpdateParams_Size_def MsgUpdateParams_wire_def sov_varint Let_def)
  show "MsgUpdateParams_MarshalToSizedBuffer I m d =
      Inr (take (length d - length (MsgUpdateParams_wire t m)) d @ MsgUpdateParams_wire t m,
           length (MsgUpdateParams_wire t m))" if "length (MsgUpdateParams_wire t m) \<le> length d"
    unfolding MsgUpdateParams_MarshalToSizedBuffer_def
    using ok that by (intro sized_writes MsgUpdateParams_fields_writes) (auto simp: MsgUpdateParams_ok_def)
  show "MsgUpdateParams_Unmarshal I (MsgUpdateParams_zero I) (MsgUpdateParams_wire t m) = Inr m"
    using ok by (rule MsgUpdateParams_Unmarshal_wire)
  show "go_slice (MsgUpdateParams_wire t m)" using ok by (simp add: MsgUpdateParams_ok_def)
qed

section \<open>MsgUpdateParamsResponse\<close>

datatype MsgUpdateParamsResponse = MsgUpdateParamsResponse

lemma MsgUpdateParamsResponse_all: "(m :: MsgUpdateParamsResponse) = MsgUpdateParamsResponse"
  by (cases m)

definition MsgUpdateParamsResponse_Reset :: "MsgUpdateParamsResponse \<Rightarrow> MsgUpdateParamsResponse" where
  "MsgUpdateParamsResponse_Reset m = MsgUpdateParamsResponse"

definition MsgUpdateParamsResponse_Size :: "MsgUpdateParamsResponse \<Rightarrow> nat" where
  "MsgUpdateParamsResponse_Size m = 0"

definition MsgUpdateParamsResponse_MarshalToSizedBuffer :: "MsgUpdateParamsResponse \<Rightarrow> bytes \<Rightarrow> (bytes \<times> nat) res" where
  "MsgUpdateParamsResponse_MarshalToSizedBuffer m d = sized Inr d"

definition MsgUpdateParamsResponse_MarshalTo :: "MsgUpdateParamsResponse \<Rightarrow> bytes \<Rightarrow> (bytes \<times> nat) res" where
  "MsgUpdateParamsResponse_MarshalTo m d =
     marshalTo (MsgUpdateParamsResponse_Size m) (MsgUpdateParamsResponse_MarshalToSizedBuffer m) d"

definition MsgUpdateParamsResponse_Marshal :: "MsgUpdateParamsResponse \<Rightarrow> bytes res" where
  "MsgUpdateParamsResponse_Marshal m =
     marshal (MsgUpdateParamsResponse_Size m) (MsgUpdateParamsResponse_MarshalToSizedBuffer m)"

definition MsgUpdateParamsResponse_XXX_Marshal :: "bytes ext \<Rightarrow> MsgUpdateParamsResponse \<Rightarrow> bytes \<Rightarrow> bool \<Rightarrow> bytes res" where
  "MsgUpdateParamsResponse_XXX_Marshal info m b deterministic =
     xxxMarshal deterministic info (MsgUpdateParamsResponse_MarshalToSizedBuffer m) b"

definition MsgUpdateParamsResponse_field :: "MsgUpdateParamsResponse field" where
  "MsgUpdateParamsResponse_field m fieldNum wireType d iNdEx = None"

definition MsgUpdateParamsResponse_Unmarshal :: "MsgUpdateParamsResponse \<Rightarrow> bytes \<Rightarrow> MsgUpdateParamsResponse res" where
  "MsgUpdateParamsResponse_Unmarshal m d =
     unmarshal ''Tx'' ''MsgUpdateParamsResponse'' skipTx MsgUpdateParamsResponse_field (\<lambda>m _. m) m d"

interpretation updateParamsResponse_dec: field_decoder "''Tx''" "''MsgUpdateParamsResponse''" skipTx MsgUpdateParamsResponse_field "\<lambda>m _. m"
  by unfold_locales
    (auto simp: MsgUpdateParamsResponse_field_def skipTx_laws [simplified] intro: skipTx_laws)

interpretation updateParamsResponse: wire_message MsgUpdateParamsResponse_Size MsgUpdateParamsResponse_MarshalToSizedBuffer
    MsgUpdateParamsResponse_Unmarshal "\<lambda>_. []" MsgUpdateParamsResponse "\<lambda>_. True"
  by unfold_locales
    (auto simp: MsgUpdateParamsResponse_Size_def MsgUpdateParamsResponse_MarshalToSizedBuffer_def sized_def
        MsgUpdateParamsResponse_Unmarshal_def go_slice_def intro: MsgUpdateParamsResponse_all [symmetric])

end
