(* ===== verification/QueryPb.thy ===== *)
theory QueryPb
  imports TxPb
begin

text \<open>
  \<open>x/fixedmint/types/query.pb.go\<close>: the empty \<open>QueryParamsRequest\<close> and the \<open>QueryParamsResponse\<close>
  that carries the parameters.
\<close>

definition sovQuery :: "u64 \<Rightarrow> nat" where
  "sovQuery x = sov x"

definition sozQuery :: "u64 \<Rightarrow> nat" where
  "sozQuery x = soz x"

definition encodeVarintQuery :: "u64 \<Rightarrow> wbuf \<Rightarrow> wbuf res" where
  "encodeVarintQuery v b = encodeVarint v b"

definition skipQuery :: "bytes \<Rightarrow> int res" where
  "skipQuery d = skip ''Query'' d"

lemmas query_names [simp] = sovQuery_def

lemma skipQuery_laws:
  "go_slice d \<Longrightarrow> skipQuery d = Inr n \<Longrightarrow> 0 < n"
  "go_slice d \<Longrightarrow> skipQuery d = Inr n \<Longrightarrow> n < 2 ^ 63"
  "go_slice d \<Longrightarrow> skipQuery d \<noteq> Inl OutOfFuel"
  "skipQuery d = Inr n \<Longrightarrow> skipQuery (d @ e) = Inr n"
  unfolding skipQuery_def
  by (rule skip_progress, assumption+) (rule skip_int, assumption+, rule clean_fuel, simp, rule skip_append)

section \<open>QueryParamsRequest\<close>

datatype QueryParamsRequest = QueryParamsRequest

lemma QueryParamsRequest_all: "(m :: QueryParamsRequest) = QueryParamsRequest"
  by (cases m)

definition QueryParamsRequest_Reset :: "QueryParamsRequest \<Rightarrow> QueryParamsRequest" where
  "QueryParamsRequest_Reset m = QueryParamsRequest"

definition QueryParamsRequest_Size :: "QueryParamsRequest \<Rightarrow> nat" where
  "QueryParamsRequest_Size m = 0"

definition QueryParamsRequest_MarshalToSizedBuffer :: "QueryParamsRequest \<Rightarrow> bytes \<Rightarrow> (bytes \<times> nat) res" where
  "QueryParamsRequest_MarshalToSizedBuffer m d = sized Inr d"

definition QueryParamsRequest_MarshalTo :: "QueryParamsRequest \<Rightarrow> bytes \<Rightarrow> (bytes \<times> nat) res" where
  "QueryParamsRequest_MarshalTo m d =
     marshalTo (QueryParamsRequest_Size m) (QueryParamsRequest_MarshalToSizedBuffer m) d"

definition QueryParamsRequest_Marshal :: "QueryParamsRequest \<Rightarrow> bytes res" where
  "QueryParamsRequest_Marshal m =
     marshal (QueryParamsRequest_Size m) (QueryParamsRequest_MarshalToSizedBuffer m)"

definition QueryParamsRequest_XXX_Marshal :: "bytes ext \<Rightarrow> QueryParamsRequest \<Rightarrow> bytes \<Rightarrow> bool \<Rightarrow> bytes res" where
  "QueryParamsRequest_XXX_Marshal info m b deterministic =
     xxxMarshal deterministic info (QueryParamsRequest_MarshalToSizedBuffer m) b"

definition QueryParamsRequest_field :: "QueryParamsRequest field" where
  "QueryParamsRequest_field m fieldNum wireType d iNdEx = None"

definition QueryParamsRequest_Unmarshal :: "QueryParamsRequest \<Rightarrow> bytes \<Rightarrow> QueryParamsRequest res" where
  "QueryParamsRequest_Unmarshal m d =
     unmarshal ''Query'' ''QueryParamsRequest'' skipQuery QueryParamsRequest_field (\<lambda>m _. m) m d"

interpretation queryRequest_dec: field_decoder "''Query''" "''QueryParamsRequest''" skipQuery QueryParamsRequest_field "\<lambda>m _. m"
  by unfold_locales
    (auto simp: QueryParamsRequest_field_def skipQuery_laws [simplified] intro: skipQuery_laws)

interpretation queryRequest: wire_message QueryParamsRequest_Size QueryParamsRequest_MarshalToSizedBuffer
    QueryParamsRequest_Unmarshal "\<lambda>_. []" QueryParamsRequest "\<lambda>_. True"
  by unfold_locales
    (auto simp: QueryParamsRequest_Size_def QueryParamsRequest_MarshalToSizedBuffer_def sized_def
        QueryParamsRequest_Unmarshal_def go_slice_def intro: QueryParamsRequest_all [symmetric])

section \<open>QueryParamsResponse\<close>

record 'i QueryParamsResponse =
  respParams :: "'i Params"

definition QueryParamsResponse_zero :: "('i, 'z) math_Int_scheme \<Rightarrow> 'i QueryParamsResponse" where
  "QueryParamsResponse_zero I = \<lparr>respParams = Params_zero I\<rparr>"

definition QueryParamsResponse_Reset :: "('i, 'z) math_Int_scheme \<Rightarrow> 'i QueryParamsResponse \<Rightarrow> 'i QueryParamsResponse" where
  "QueryParamsResponse_Reset I m = QueryParamsResponse_zero I"

fun QueryParamsResponse_GetParams :: "('i, 'z) math_Int_scheme \<Rightarrow> 'i QueryParamsResponse option \<Rightarrow> 'i Params" where
  "QueryParamsResponse_GetParams I (Some m) = respParams m"
| "QueryParamsResponse_GetParams I None = Params_zero I"

definition QueryParamsResponse_Size :: "('i, 'z) math_Int_scheme \<Rightarrow> 'i QueryParamsResponse \<Rightarrow> nat" where
  "QueryParamsResponse_Size I m =
     (let l = Params_Size I (respParams m) in 1 + l + sovQuery (word_of_nat l))"

definition QueryParamsResponse_fields :: "('i, 'z) math_Int_scheme \<Rightarrow> 'i QueryParamsResponse \<Rightarrow> wbuf \<Rightarrow> wbuf res" where
  "QueryParamsResponse_fields I m b =
     bindR (putNested (Params_MarshalToSizedBuffer I (respParams m)) b) (putByte 0x0A)"

definition QueryParamsResponse_MarshalToSizedBuffer ::
  "('i, 'z) math_Int_scheme \<Rightarrow> 'i QueryParamsResponse \<Rightarrow> bytes \<Rightarrow> (bytes \<times> nat) res" where
  "QueryParamsResponse_MarshalToSizedBuffer I m d = sized (QueryParamsResponse_fields I m) d"

definition QueryParamsResponse_MarshalTo ::
  "('i, 'z) math_Int_scheme \<Rightarrow> 'i QueryParamsResponse \<Rightarrow> bytes \<Rightarrow> (bytes \<times> nat) res" where
  "QueryParamsResponse_MarshalTo I m d =
     marshalTo (QueryParamsResponse_Size I m) (QueryParamsResponse_MarshalToSizedBuffer I m) d"

definition QueryParamsResponse_Marshal :: "('i, 'z) math_Int_scheme \<Rightarrow> 'i QueryParamsResponse \<Rightarrow> bytes res" where
  "QueryParamsResponse_Marshal I m = marshal (QueryParamsResponse_Size I m) (QueryParamsResponse_MarshalToSizedBuffer I m)"

definition QueryParamsResponse_XXX_Marshal ::
  "('i, 'z) math_Int_scheme \<Rightarrow> bytes ext \<Rightarrow> 'i QueryParamsResponse \<Rightarrow> bytes \<Rightarrow> bool \<Rightarrow> bytes res" where
  "QueryParamsResponse_XXX_Marshal I info m b deterministic =
     xxxMarshal deterministic info (QueryParamsResponse_MarshalToSizedBuffer I m) b"

definition QueryParamsResponse_field :: "('i, 'z) math_Int_scheme \<Rightarrow> 'i QueryParamsResponse field" where
  "QueryParamsResponse_field I m fieldNum wireType d iNdEx =
     (if fieldNum = 1 then
        fieldLen ''Query'' wireType ''Params'' d iNdEx (\<lambda>bs.
          bindR (Params_Unmarshal I (respParams m) bs) (\<lambda>p. Inr (m\<lparr>respParams := p\<rparr>)))
      else None)"

definition QueryParamsResponse_Unmarshal ::
  "('i, 'z) math_Int_scheme \<Rightarrow> 'i QueryParamsResponse \<Rightarrow> bytes \<Rightarrow> 'i QueryParamsResponse res" where
  "QueryParamsResponse_Unmarshal I m d =
     unmarshal ''Query'' ''QueryParamsResponse'' skipQuery (QueryParamsResponse_field I) (\<lambda>m _. m) m d"

interpretation queryResponse_dec: field_decoder "''Query''" "''QueryParamsResponse''" skipQuery
    "QueryParamsResponse_field I" "\<lambda>m _. m"
  for I :: "('i, 'z) math_Int_scheme"
  by unfold_locales
    (auto simp: QueryParamsResponse_field_def bindR_Inl_conv fieldLen_fuel Params_Unmarshal_fuel skipQuery_laws [simplified]
        split: if_splits dest: fieldLen_progress intro: fieldLen_local skipQuery_laws)

definition QueryParamsResponse_wire :: "('i \<Rightarrow> bytes) \<Rightarrow> 'i QueryParamsResponse \<Rightarrow> bytes" where
  "QueryParamsResponse_wire t m =
     0x0A # varint (word_of_nat (length (Params_wire t (respParams m)))) @ Params_wire t (respParams m)"

definition QueryParamsResponse_ok :: "('i, 'z) math_Int_scheme \<Rightarrow> ('i \<Rightarrow> bytes) \<Rightarrow> 'i QueryParamsResponse \<Rightarrow> bool" where
  "QueryParamsResponse_ok I t m \<longleftrightarrow> Params_ok I t (respParams m) \<and> go_slice (QueryParamsResponse_wire t m)"

lemma QueryParamsResponse_fields_writes:
  "Params_ok I t (respParams m) \<Longrightarrow> writes (QueryParamsResponse_wire t m) (QueryParamsResponse_fields I m)"
  unfolding QueryParamsResponse_fields_def QueryParamsResponse_wire_def
  using writes_seq [OF params.nested_writes writes_byte] by fastforce

lemma QueryParamsResponse_Unmarshal_wire:
  assumes "QueryParamsResponse_ok I t m"
  shows "QueryParamsResponse_Unmarshal I (QueryParamsResponse_zero I) (QueryParamsResponse_wire t m) = Inr m"
  using assms unfolding QueryParamsResponse_Unmarshal_def QueryParamsResponse_wire_def QueryParamsResponse_ok_def
  by (intro queryResponse_dec.decode_field)
     (simp_all add: QueryParamsResponse_field_def fieldLen_read QueryParamsResponse_zero_def params.unm_wire)

interpretation queryResponse: wire_message "QueryParamsResponse_Size I" "QueryParamsResponse_MarshalToSizedBuffer I"
    "QueryParamsResponse_Unmarshal I" "QueryParamsResponse_wire t" "QueryParamsResponse_zero I" "QueryParamsResponse_ok I t"
  for I :: "('i, 'z) math_Int_scheme" and t :: "'i \<Rightarrow> bytes"
proof
  fix m :: "'i QueryParamsResponse" and d :: bytes
  assume ok: "QueryParamsResponse_ok I t m"
  show "QueryParamsResponse_Size I m = length (QueryParamsResponse_wire t m)"
    using ok params.size_wire [of I t "respParams m"]
    by (simp add: QueryParamsResponse_ok_def QueryParamsResponse_Size_def QueryParamsResponse_wire_def sov_varint Let_def)
  show "QueryParamsResponse_MarshalToSizedBuffer I m d =
      Inr (take (length d - length (QueryParamsResponse_wire t m)) d @ QueryParamsResponse_wire t m,
           length (QueryParamsResponse_wire t m))" if "length (QueryParamsResponse_wire t m) \<le> length d"
    unfolding QueryParamsResponse_MarshalToSizedBuffer_def
    using ok that by (intro sized_writes QueryParamsResponse_fields_writes) (auto simp: QueryParamsResponse_ok_def)
  show "QueryParamsResponse_Unmarshal I (QueryParamsResponse_zero I) (QueryParamsResponse_wire t m) = Inr m"
    using ok by (rule QueryParamsResponse_Unmarshal_wire)
  show "go_slice (QueryParamsResponse_wire t m)" using ok by (simp add: QueryParamsResponse_ok_def)
qed

end
