(* ===== verification/Types.thy ===== *)
theory Types
  imports QueryPb
begin

text \<open>
  The hand-written part of \<open>x/fixedmint/types\<close>: names and keys, the default parameters, and the
  validation of parameters, of the genesis state and of the update message.
\<close>

section \<open>keys.go\<close>

definition ModuleName :: string where
  "ModuleName = ''fixedmint''"

definition StoreKey :: string where
  "StoreKey = ModuleName"

definition MemStoreKey :: string where
  "MemStoreKey = ''mem_fixedmint''"

definition KeyPrefix :: "string \<Rightarrow> bytes" where
  "KeyPrefix p = bytes_of p"

definition ParamsKey :: bytes where
  "ParamsKey = bytes_of ''p_fixedmint''"

section \<open>params.go\<close>

definition DefaultMintDenom :: string where
  "DefaultMintDenom = ''ubluechip''"

definition DefaultMintAmount :: "('i, 'z) math_Int_scheme \<Rightarrow> 'i" where
  "DefaultMintAmount I = NewInt I 1000000"

definition DefaultMintEnabled :: bool where
  "DefaultMintEnabled = True"

definition NewParams :: "string \<Rightarrow> 'i \<Rightarrow> bool \<Rightarrow> 'i Params" where
  "NewParams mintDenom mintAmount mintEnabled =
     \<lparr>MintDenom = mintDenom, MintAmount = mintAmount, MintEnabled = mintEnabled\<rparr>"

definition DefaultParams :: "('i, 'z) math_Int_scheme \<Rightarrow> 'i Params" where
  "DefaultParams I = NewParams DefaultMintDenom (DefaultMintAmount I) DefaultMintEnabled"

definition validateMintDenom :: "string \<Rightarrow> unit res" where
  "validateMintDenom denom = (if denom = '''' then Inl EmptyMintDenom else Inr ())"

definition validateMintAmount :: "('i, 'z) math_Int_scheme \<Rightarrow> 'i \<Rightarrow> unit res" where
  "validateMintAmount I amount =
     bindR (ext (Int_IsNegative I amount)) (\<lambda>neg. if neg then Inl NegativeMintAmount else Inr ())"

definition Params_Validate :: "('i, 'z) math_Int_scheme \<Rightarrow> 'i Params \<Rightarrow> unit res" where
  "Params_Validate I p =
     bindR (validateMintDenom (MintDenom p)) (\<lambda>_.
     bindR (validateMintAmount I (MintAmount p)) (\<lambda>_. Inr ()))"

section \<open>genesis.go\<close>

definition DefaultIndex :: u64 where
  "DefaultIndex = 1"

definition DefaultGenesis :: "('i, 'z) math_Int_scheme \<Rightarrow> 'i GenesisState" where
  "DefaultGenesis I = \<lparr>gsParams = DefaultParams I\<rparr>"

definition GenesisState_Validate :: "('i, 'z) math_Int_scheme \<Rightarrow> 'i GenesisState \<Rightarrow> unit res" where
  "GenesisState_Validate I gs = Params_Validate I (gsParams gs)"

section \<open>msg_update_params.go\<close>

text \<open>\<open>sdk.AccAddressFromBech32\<close> is a parameter: the address bytes or an error.\<close>

definition ValidateBasic ::
  "('i, 'z) math_Int_scheme \<Rightarrow> (string \<Rightarrow> 'a ext) \<Rightarrow> 'i MsgUpdateParams \<Rightarrow> unit res" where
  "ValidateBasic I AccAddressFromBech32 m =
     (case ext (AccAddressFromBech32 (Authority m)) of
        Inl e \<Rightarrow> Inl (if is_panic e then e else Wrapped ''invalid authority address'' e)
      | Inr _ \<Rightarrow> bindR (Params_Validate I (msgParams m)) (\<lambda>_. Inr ()))"

section \<open>What validation decides\<close>

text \<open>The first failing check decides the error; a valid set passes both.\<close>

lemma validateMintDenom_iff: "validateMintDenom s = Inr u \<longleftrightarrow> s \<noteq> ''''"
  by (simp add: validateMintDenom_def)

lemma validateMintAmount_iff:
  "validateMintAmount I x = Inr u \<longleftrightarrow> Int_IsNegative I x = Inr False"
  by (auto simp: validateMintAmount_def bindR_Inr_conv split: if_splits)

lemma Params_Validate_iff:
  "Params_Validate I p = Inr u \<longleftrightarrow> MintDenom p \<noteq> '''' \<and> Int_IsNegative I (MintAmount p) = Inr False"
  by (auto simp: Params_Validate_def bindR_Inr_conv validateMintDenom_iff validateMintAmount_iff)

lemma Params_Validate_empty_denom: "MintDenom p = '''' \<Longrightarrow> Params_Validate I p = Inl EmptyMintDenom"
  by (simp add: Params_Validate_def validateMintDenom_def)

lemma Params_Validate_negative:
  "MintDenom p \<noteq> '''' \<Longrightarrow> Int_IsNegative I (MintAmount p) = Inr True \<Longrightarrow>
   Params_Validate I p = Inl NegativeMintAmount"
  by (simp add: Params_Validate_def validateMintDenom_def validateMintAmount_def)

lemma ValidateBasic_iff:
  "ValidateBasic I acc m = Inr u \<longleftrightarrow>
     (\<exists>a. acc (Authority m) = Inr a) \<and> Params_Validate I (msgParams m) = Inr ()"
  by (cases "acc (Authority m)"; cases "Params_Validate I (msgParams m)")
     (auto simp: ValidateBasic_def split: sum.splits elim: ext.elims)

end
