(* ===== verification/MintKeeper.thy ===== *)
theory MintKeeper
  imports Types
begin

text \<open>
  \<open>x/fixedmint/keeper\<close>: the keeper, its parameters in the module's store, the fixed block reward,
  the message and query servers and the module account invariant. The key-value store, the binary
  codec, the bank, coins and addresses are not part of the repository: each is a record of
  operations the definitions take as an argument, on a chain state \<open>'s\<close> they know nothing about.
  What the code relies on is stated once, as predicates over a view of the state.
\<close>

section \<open>The SDK, parameters\<close>

text \<open>\<open>runtime.KVStoreAdapter\<close>: a read of an absent key is nil; store errors panic.\<close>

record 's KVStore =
  Get :: "'s \<Rightarrow> bytes \<Rightarrow> bytes option ext"
  Set :: "bytes \<Rightarrow> bytes \<Rightarrow> 's \<Rightarrow> 's \<times> unit ext"

text \<open>\<open>codec.BinaryCodec\<close> at \<open>Params\<close>; \<open>MustUnmarshal\<close> decodes into the message it is given.\<close>

record 'i BinaryCodec =
  Marshal :: "'i Params \<Rightarrow> bytes ext"
  MustUnmarshal :: "'i Params \<Rightarrow> bytes \<Rightarrow> 'i Params ext"

text \<open>\<open>sdk.Coin\<close> and \<open>sdk.Coins\<close>: constructors panic on an invalid denomination or amount.\<close>

record ('i, 'c, 'k) Coins =
  NewCoin :: "string \<Rightarrow> 'i \<Rightarrow> 'c ext"
  NewCoins :: "'c list \<Rightarrow> 'k ext"
  Coins_IsZero :: "'k \<Rightarrow> bool"
  Coins_String :: "'k \<Rightarrow> string"

text \<open>\<open>types.BankKeeper\<close> of \<open>expected_keepers.go\<close>.\<close>

record ('s, 'k) BankKeeper =
  SpendableCoins :: "'s \<Rightarrow> bytes \<Rightarrow> 'k"
  MintCoins :: "string \<Rightarrow> 'k \<Rightarrow> 's \<Rightarrow> 's \<times> unit ext"
  SendCoinsFromModuleToModule :: "string \<Rightarrow> string \<Rightarrow> 'k \<Rightarrow> 's \<Rightarrow> 's \<times> unit ext"

text \<open>Addresses, the names of the fee collector and gov modules, and invariant messages.\<close>

record Addresses =
  AccAddressFromBech32 :: "string \<Rightarrow> bytes ext"
  AccAddress_String :: "bytes \<Rightarrow> string"
  NewModuleAddress :: "string \<Rightarrow> bytes"
  NewModuleAddressOrBech32Address :: "string \<Rightarrow> bytes"
  FeeCollectorName :: string
  govModuleName :: string
  FormatInvariant :: "string \<Rightarrow> string \<Rightarrow> string \<Rightarrow> string"

section \<open>keeper.go\<close>

text \<open>The keeper; its logger only reports.\<close>

record ('s, 'i, 'k) Keeper =
  cdc :: "'i BinaryCodec"
  storeService :: "'s KVStore"
  authority :: string
  bankKeeper :: "('s, 'k) BankKeeper"

definition NewKeeper ::
  "Addresses \<Rightarrow> 'i BinaryCodec \<Rightarrow> 's KVStore \<Rightarrow> string \<Rightarrow> ('s, 'k) BankKeeper \<Rightarrow>
   ('s, 'i, 'k) Keeper res" where
  "NewKeeper A cdcArg storeServiceArg authorityArg bankKeeperArg =
     (case ext (AccAddressFromBech32 A authorityArg) of
        Inl e \<Rightarrow> Inl (if is_panic e then e
                      else Panic (''invalid authority address: '' @ authorityArg))
      | Inr _ \<Rightarrow> Inr \<lparr>cdc = cdcArg, storeService = storeServiceArg, authority = authorityArg,
                      bankKeeper = bankKeeperArg\<rparr>)"

definition GetAuthority :: "('s, 'i, 'k) Keeper \<Rightarrow> string" where
  "GetAuthority k = authority k"

section \<open>params.go\<close>

definition GetParams ::
  "('i, 'z) math_Int_scheme \<Rightarrow> ('s, 'i, 'k) Keeper \<Rightarrow> 's \<Rightarrow> 'i Params res" where
  "GetParams I k s =
     bindR (ext (Get (storeService k) s ParamsKey)) (\<lambda>bz.
       case bz of
         None \<Rightarrow> Inr (Params_zero I)
       | Some b \<Rightarrow> ext (MustUnmarshal (cdc k) (Params_zero I) b))"

definition SetParams :: "('s, 'i, 'k) Keeper \<Rightarrow> 'i Params \<Rightarrow> ('s, unit) act" where
  "SetParams k params =
     bindS (lift (ext (Marshal (cdc k) params))) (\<lambda>bz.
       call (Set (storeService k) ParamsKey bz))"

section \<open>MintFixedBlockReward\<close>

definition MintFixedBlockReward ::
  "('i, 'z) math_Int_scheme \<Rightarrow> ('i, 'c, 'k) Coins \<Rightarrow> Addresses \<Rightarrow> ('s, 'i, 'k) Keeper \<Rightarrow> ('s, unit) act"
where
  "MintFixedBlockReward I C A k =
     bindS (readS (GetParams I k)) (\<lambda>params.
     bindS (lift (if \<not> MintEnabled params then Inr True else ext (Int_IsZero I (MintAmount params))))
       (\<lambda>skipMint.
        if skipMint then lift (Inr ())
        else
          bindS (lift (bindR (ext (NewCoin C (MintDenom params) (MintAmount params))) (\<lambda>coin.
                       ext (NewCoins C [coin])))) (\<lambda>amount.
          bindS (call (MintCoins (bankKeeper k) ModuleName amount)) (\<lambda>_.
          bindS (call (SendCoinsFromModuleToModule (bankKeeper k) ModuleName (FeeCollectorName A) amount))
            (\<lambda>_. lift (Inr ()))))))"

section \<open>msg_server.go, msg_update_params.go and query_params.go\<close>

text \<open>\<open>msgServer\<close> embeds the keeper.\<close>

record ('s, 'i, 'k) msgServer =
  msKeeper :: "('s, 'i, 'k) Keeper"

definition NewMsgServerImpl :: "('s, 'i, 'k) Keeper \<Rightarrow> ('s, 'i, 'k) msgServer" where
  "NewMsgServerImpl k = \<lparr>msKeeper = k\<rparr>"

definition UpdateParams ::
  "('s, 'i, 'k) msgServer \<Rightarrow> 'i MsgUpdateParams \<Rightarrow> ('s, MsgUpdateParamsResponse) act" where
  "UpdateParams ms req =
     (if GetAuthority (msKeeper ms) \<noteq> Authority req
      then lift (Inl (InvalidSigner (GetAuthority (msKeeper ms)) (Authority req)))
      else bindS (SetParams (msKeeper ms) (msgParams req)) (\<lambda>_.
             lift (Inr MsgUpdateParamsResponse)))"

text \<open>The request is a pointer, which may be nil.\<close>

definition Query_Params ::
  "('i, 'z) math_Int_scheme \<Rightarrow> ('s, 'i, 'k) Keeper \<Rightarrow> QueryParamsRequest option \<Rightarrow> 's \<Rightarrow>
   'i QueryParamsResponse res" where
  "Query_Params I k req s =
     (if req = None then Inl (InvalidArgument ''invalid request'')
      else bindR (GetParams I k s) (\<lambda>p. Inr \<lparr>respParams = p\<rparr>))"

section \<open>invariants.go\<close>

definition ModuleAccountInvariant ::
  "('i, 'c, 'k) Coins \<Rightarrow> Addresses \<Rightarrow> ('s, 'i, 'k) Keeper \<Rightarrow> 's \<Rightarrow> string \<times> bool" where
  "ModuleAccountInvariant C A k s =
     (let moduleAddr = NewModuleAddress A ModuleName;
          coins = SpendableCoins (bankKeeper k) s moduleAddr;
          broken = (\<not> Coins_IsZero C coins)
      in (FormatInvariant A ModuleName ''module-account''
            (''fixedmint module account should have zero balance, has: '' @ Coins_String C coins),
          broken))"

text \<open>An invariant registry is the list of its routes, in the order they were registered.\<close>

type_synonym 's route = "string \<times> string \<times> ('s \<Rightarrow> string \<times> bool)"

definition RegisterInvariants ::
  "('i, 'c, 'k) Coins \<Rightarrow> Addresses \<Rightarrow> 's route list \<Rightarrow> ('s, 'i, 'k) Keeper \<Rightarrow> 's route list" where
  "RegisterInvariants C A ir k =
     ir @ [(ModuleName, ''module-account'', ModuleAccountInvariant C A k)]"

section \<open>What the code relies on\<close>

text \<open>
  The view of a chain state the contracts speak about: the module's key-value store, the balance of
  each module account in each denomination, and the supply of each denomination.
\<close>

record world =
  kv :: "bytes \<Rightarrow> bytes option"
  bal :: "string \<Rightarrow> string \<Rightarrow> int"
  supplyOf :: "string \<Rightarrow> int"

text \<open>The binary codec calls the generated methods of the message.\<close>

definition codec_ok :: "('i, 'z) math_Int_scheme \<Rightarrow> 'i BinaryCodec \<Rightarrow> bool" where
  "codec_ok I c \<longleftrightarrow>
     (\<forall>p b. Params_Marshal I p = Inr b \<longrightarrow> Marshal c p = Inr b) \<and>
     (\<forall>m b p. Params_Unmarshal I m b = Inr p \<longrightarrow> MustUnmarshal c m b = Inr p)"

text \<open>A store remembers what was set, and nothing else of the view changes.\<close>

definition store_ok :: "'s KVStore \<Rightarrow> ('s \<Rightarrow> world) \<Rightarrow> bool" where
  "store_ok S W \<longleftrightarrow>
     (\<forall>s key. Get S s key = Inr (kv (W s) key)) \<and>
     (\<forall>key v s. \<exists>s'. Set S key v s = (s', Inr ()) \<and> W s' = (W s)\<lparr>kv := (kv (W s))(key \<mapsto> v)\<rparr>)"

text \<open>The ledger: coins come into being in a module account, or move between two of them.\<close>

definition mint :: "string \<Rightarrow> (string \<Rightarrow> int) \<Rightarrow> world \<Rightarrow> world" where
  "mint m a w = w\<lparr>bal := (bal w)(m := \<lambda>d. bal w m d + a d), supplyOf := \<lambda>d. supplyOf w d + a d\<rparr>"

definition move :: "string \<Rightarrow> string \<Rightarrow> (string \<Rightarrow> int) \<Rightarrow> world \<Rightarrow> world" where
  "move from to a w =
     (let b = (bal w)(from := \<lambda>d. bal w from d - a d)
      in w\<lparr>bal := b(to := \<lambda>d. b to d + a d)\<rparr>)"

text \<open>
  The bank mints for a module account with minter permission and moves coins the sender has; the
  spendable coins of a module account are its balance. \<open>amt\<close> reads coins.
\<close>

definition bank_ok ::
  "('s, 'k) BankKeeper \<Rightarrow> ('i, 'c, 'k) Coins \<Rightarrow> Addresses \<Rightarrow> ('s \<Rightarrow> world) \<Rightarrow> ('k \<Rightarrow> string \<Rightarrow> int) \<Rightarrow> bool"
where
  "bank_ok B C A W amt \<longleftrightarrow>
     (\<forall>c s. (\<forall>d. 0 \<le> amt c d) \<longrightarrow>
        (\<exists>s'. MintCoins B ModuleName c s = (s', Inr ()) \<and> W s' = mint ModuleName (amt c) (W s))) \<and>
     (\<forall>c s. (\<forall>d. amt c d \<le> bal (W s) ModuleName d) \<longrightarrow>
        (\<exists>s'. SendCoinsFromModuleToModule B ModuleName (FeeCollectorName A) c s = (s', Inr ()) \<and>
              W s' = move ModuleName (FeeCollectorName A) (amt c) (W s))) \<and>
     (\<forall>s. Coins_IsZero C (SpendableCoins B s (NewModuleAddress A ModuleName)) \<longleftrightarrow>
          (\<forall>d. bal (W s) ModuleName d = 0))"

text \<open>Coins of one denomination; \<open>valid\<close> is the SDK's test of a denomination.\<close>

definition coins_ok ::
  "('i, 'c, 'k) Coins \<Rightarrow> (string \<Rightarrow> bool) \<Rightarrow> ('i \<Rightarrow> int) \<Rightarrow> ('k \<Rightarrow> string \<Rightarrow> int) \<Rightarrow> bool" where
  "coins_ok C valid val amt \<longleftrightarrow>
     (\<forall>d x. valid d \<longrightarrow> 0 \<le> val x \<longrightarrow>
        (\<exists>c cs. NewCoin C d x = Inr c \<and> NewCoins C [c] = Inr cs \<and>
                amt cs = (\<lambda>d'. if d' = d then val x else 0))) \<and>
     (\<forall>d x. \<not> (valid d \<and> 0 \<le> val x) \<longrightarrow> (\<exists>msg. NewCoin C d x = Inl (Panicked msg)))"

text \<open>The two sign tests of an amount whose value is \<open>val\<close>.\<close>

definition int_signs :: "('i, 'z) math_Int_scheme \<Rightarrow> ('i \<Rightarrow> int) \<Rightarrow> 'i \<Rightarrow> bool" where
  "int_signs I val x \<longleftrightarrow>
     Int_IsZero I x = Inr (val x = 0) \<and> Int_IsNegative I x = Inr (val x < 0)"

definition keeper_ok ::
  "('i, 'z) math_Int_scheme \<Rightarrow> ('i, 'c, 'k) Coins \<Rightarrow> Addresses \<Rightarrow> ('s, 'i, 'k) Keeper \<Rightarrow>
   ('s \<Rightarrow> world) \<Rightarrow> (string \<Rightarrow> bool) \<Rightarrow> ('i \<Rightarrow> int) \<Rightarrow> ('k \<Rightarrow> string \<Rightarrow> int) \<Rightarrow> bool" where
  "keeper_ok I C A k W valid val amt \<longleftrightarrow>
     codec_ok I (cdc k) \<and> store_ok (storeService k) W \<and> bank_ok (bankKeeper k) C A W amt \<and>
     coins_ok C valid val amt \<and> FeeCollectorName A \<noteq> ModuleName"

section \<open>The parameter store\<close>

text \<open>
  The contract between the parameters and their users: on a view of the state, a set succeeds and
  is what the next get returns, and only the last of several sets matters.
\<close>

locale params_store =
  fixes get :: "'k \<Rightarrow> 's \<Rightarrow> 'p res"
    and set :: "'k \<Rightarrow> 'p \<Rightarrow> ('s, unit) act"
    and ok :: "'k \<Rightarrow> ('s \<Rightarrow> 'w) \<Rightarrow> bool"
    and good :: "'p \<Rightarrow> bool"
    and put :: "'p \<Rightarrow> 'w \<Rightarrow> 'w"
    and look :: "'w \<Rightarrow> 'p option"
  assumes set_view: "ok k W \<Longrightarrow> good p \<Longrightarrow> \<exists>s'. set k p s = (s', Inr ()) \<and> W s' = put p (W s)"
    and get_view: "ok k W \<Longrightarrow> look (W s) = Some p \<Longrightarrow> get k s = Inr p"
    and look_put: "good p \<Longrightarrow> look (put p w) = Some p"
    and put_put: "put q (put p w) = put q w"
begin

lemma set_returns: "ok k W \<Longrightarrow> good p \<Longrightarrow> snd (set k p s) = Inr ()"
  by (metis set_view snd_conv)

lemma set_state: "ok k W \<Longrightarrow> good p \<Longrightarrow> W (fst (set k p s)) = put p (W s)"
  by (metis set_view fst_conv)

lemma get_set: "ok k W \<Longrightarrow> good p \<Longrightarrow> get k (fst (set k p s)) = Inr p"
  by (rule get_view [of k W]) (auto simp: set_state look_put)

text \<open>An operation that leaves the parameters' part of the view alone does not disturb them.\<close>

lemma get_frame:
  "ok k W \<Longrightarrow> look (W s) = Some p \<Longrightarrow> look (W s') = look (W s) \<Longrightarrow> get k s' = Inr p"
  by (rule get_view [of k W]) auto

lemma sets_state:
  assumes "ok k W" "\<forall>p \<in> List.set ps. good p" "ps \<noteq> []"
  shows "W (foldl (\<lambda>s p. fst (set k p s)) s ps) = put (last ps) (W s)"
  using assms(2,3)
proof (induction ps arbitrary: s)
  case (Cons p ps)
  then show ?case using set_state [OF assms(1)] by (cases "ps = []") (auto simp: put_put)
qed simp

lemma get_sets:
  assumes "ok k W" "\<forall>p \<in> List.set ps. good p" "ps \<noteq> []"
  shows "get k (foldl (\<lambda>s p. fst (set k p s)) s ps) = Inr (last ps)"
  using assms by (intro get_view [of k W]) (auto simp: sets_state look_put)

end

definition putParams :: "('i \<Rightarrow> bytes) \<Rightarrow> 'i Params \<Rightarrow> world \<Rightarrow> world" where
  "putParams t p w = w\<lparr>kv := (kv w)(ParamsKey \<mapsto> Params_wire t p)\<rparr>"

text \<open>The parameters a view holds: nothing stored reads as the zero message.\<close>

definition lookParams :: "('i, 'z) math_Int_scheme \<Rightarrow> world \<Rightarrow> 'i Params option" where
  "lookParams I w =
     (case kv w ParamsKey of
        None \<Rightarrow> Some (Params_zero I)
      | Some b \<Rightarrow> (case Params_Unmarshal I (Params_zero I) b of Inr p \<Rightarrow> Some p | Inl _ \<Rightarrow> None))"

interpretation param_store: params_store "GetParams I" SetParams
  "\<lambda>k W. codec_ok I (cdc k) \<and> store_ok (storeService k) W" "Params_ok I t" "putParams t" "lookParams I"
  for I :: "('i, 'z) math_Int_scheme" and t
proof
  fix k :: "('s, 'i, 'k) Keeper" and W s and p q :: "'i Params" and w
  assume k: "codec_ok I (cdc k) \<and> store_ok (storeService k) W"
  show "\<exists>s'. SetParams k p s = (s', Inr ()) \<and> W s' = putParams t p (W s)" if p: "Params_ok I t p"
  proof -
    have "Params_Marshal I p = Inr (Params_wire t p)"
      unfolding Params_Marshal_def using p by (rule params.marshal_wire)
    then have "Marshal (cdc k) p = Inr (Params_wire t p)" using k by (simp add: codec_ok_def)
    moreover obtain s' where "Set (storeService k) ParamsKey (Params_wire t p) s = (s', Inr ())"
        "W s' = putParams t p (W s)"
      using k unfolding store_ok_def putParams_def by blast
    ultimately show ?thesis by (auto simp: SetParams_def)
  qed
  show "GetParams I k s = Inr p" if "lookParams I (W s) = Some p"
    using that k
    by (auto simp: GetParams_def lookParams_def store_ok_def codec_ok_def split: option.splits sum.splits)
next
  fix p q :: "'i Params" and w
  show "lookParams I (putParams t p w) = Some p" if "Params_ok I t p"
    using params.unm_wire [OF that] by (simp add: lookParams_def putParams_def)
  show "putParams t q (putParams t p w) = putParams t q w" by (simp add: putParams_def)
qed

section \<open>The block reward against its specification\<close>

text \<open>
  What a block is meant to do to the ledger: create the amount in the given denomination and leave it
  with the fee collector, when minting is enabled.
\<close>

definition reward :: "Addresses \<Rightarrow> string \<Rightarrow> int \<Rightarrow> world \<Rightarrow> world" where
  "reward A d x w =
     (let fc = FeeCollectorName A
      in w\<lparr>bal := (bal w)(fc := (bal w fc)(d := bal w fc d + x)),
           supplyOf := (supplyOf w)(d := supplyOf w d + x)\<rparr>)"

definition specBlock :: "Addresses \<Rightarrow> ('i \<Rightarrow> int) \<Rightarrow> 'i Params \<Rightarrow> world \<Rightarrow> world" where
  "specBlock A val p w =
     (if MintEnabled p then reward A (MintDenom p) (val (MintAmount p)) w else w)"

text \<open>Parameters a block can act on: if minting is enabled the amount has a non-negative value and,
  unless that is zero, the denomination is one the SDK accepts.\<close>

definition mintable ::
  "('i, 'z) math_Int_scheme \<Rightarrow> (string \<Rightarrow> bool) \<Rightarrow> ('i \<Rightarrow> int) \<Rightarrow> 'i Params \<Rightarrow> bool" where
  "mintable I valid val p \<longleftrightarrow>
     (MintEnabled p \<longrightarrow> int_signs I val (MintAmount p) \<and> 0 \<le> val (MintAmount p) \<and>
        (val (MintAmount p) \<noteq> 0 \<longrightarrow> valid (MintDenom p)))"

lemma kv_reward [simp]: "kv (reward A d x w) = kv w"
  by (simp add: reward_def Let_def)

lemma kv_specBlock [simp]: "kv (specBlock A val p w) = kv w"
  by (simp add: specBlock_def)

lemma lookParams_kv: "kv w' = kv w \<Longrightarrow> lookParams I w' = lookParams I w"
  by (simp add: lookParams_def)

lemma reward_zero [simp]: "reward A d 0 w = w"
  by (simp add: reward_def Let_def)

lemma reward_add: "reward A d x (reward A d y w) = reward A d (x + y) w"
  by (simp add: reward_def Let_def ac_simps)

text \<open>Minting into the module account and moving everything on is the reward.\<close>

lemma move_mint:
  assumes "FeeCollectorName A \<noteq> m" "a = (\<lambda>d'. if d' = d then x else 0)"
  shows "move m (FeeCollectorName A) a (mint m a w) = reward A d x w"
  using assms by (auto simp: move_def mint_def reward_def Let_def fun_eq_iff intro!: world.equality)

lemma keeper_okD:
  assumes "keeper_ok I C A k W valid val amt"
  shows "codec_ok I (cdc k) \<and> store_ok (storeService k) W" "bank_ok (bankKeeper k) C A W amt"
    "coins_ok C valid val amt" "FeeCollectorName A \<noteq> ModuleName"
  using assms by (simp_all add: keeper_ok_def)

lemma coins_okE:
  assumes "coins_ok C valid val amt" "valid d" "0 \<le> val x"
  obtains c cs where "NewCoin C d x = Inr c" "NewCoins C [c] = Inr cs"
    "amt cs = (\<lambda>d'. if d' = d then val x else 0)"
  using assms unfolding coins_ok_def by blast

lemma bank_ok_mint:
  "bank_ok B C A W amt \<Longrightarrow> (\<And>d. 0 \<le> amt c d) \<Longrightarrow>
   \<exists>s'. MintCoins B ModuleName c s = (s', Inr ()) \<and> W s' = mint ModuleName (amt c) (W s)"
  by (simp add: bank_ok_def)

lemma bank_ok_send:
  "bank_ok B C A W amt \<Longrightarrow> (\<And>d. amt c d \<le> bal (W s) ModuleName d) \<Longrightarrow>
   \<exists>s'. SendCoinsFromModuleToModule B ModuleName (FeeCollectorName A) c s = (s', Inr ()) \<and>
        W s' = move ModuleName (FeeCollectorName A) (amt c) (W s)"
  by (simp add: bank_ok_def)

lemma Mint_refines:
  assumes k: "keeper_ok I C A k W valid val amt"
    and p: "lookParams I (W s) = Some p" "mintable I valid val p"
    and b: "\<And>d. 0 \<le> bal (W s) ModuleName d"
  shows "\<exists>s'. MintFixedBlockReward I C A k s = (s', Inr ()) \<and> W s' = specBlock A val p (W s)"
proof -
  have g: "GetParams I k s = Inr p"
    by (rule param_store.get_view [where k = k and W = W, OF keeper_okD(1) [OF k] p(1)])
  show ?thesis
  proof (cases "MintEnabled p \<and> val (MintAmount p) \<noteq> 0")
    case False
    with g p(2) show ?thesis
      by (auto simp: MintFixedBlockReward_def specBlock_def mintable_def int_signs_def lift_def)
  next
    case True
    with p(2) have a: "0 \<le> val (MintAmount p)" "valid (MintDenom p)"
        "Int_IsZero I (MintAmount p) = Inr False"
      by (auto simp: mintable_def int_signs_def)
    obtain c cs where c: "NewCoin C (MintDenom p) (MintAmount p) = Inr c" "NewCoins C [c] = Inr cs"
        and amt: "amt cs = (\<lambda>d'. if d' = MintDenom p then val (MintAmount p) else 0)"
      by (rule coins_okE [OF keeper_okD(3) [OF k] a(2,1)])
    have "0 \<le> amt cs d" for d using a(1) by (simp add: amt)
    then obtain s1 where s1: "MintCoins (bankKeeper k) ModuleName cs s = (s1, Inr ())"
        "W s1 = mint ModuleName (amt cs) (W s)"
      using bank_ok_mint [OF keeper_okD(2) [OF k], of cs s] by blast
    have "amt cs d \<le> bal (W s1) ModuleName d" for d
      using b [of d] s1(2) by (simp add: mint_def)
    then obtain s2 where s2:
        "SendCoinsFromModuleToModule (bankKeeper k) ModuleName (FeeCollectorName A) cs s1 = (s2, Inr ())"
        "W s2 = move ModuleName (FeeCollectorName A) (amt cs) (W s1)"
      using bank_ok_send [OF keeper_okD(2) [OF k], of cs s1] by blast
    have "W s2 = specBlock A val p (W s)"
      using s1(2) s2(2) True move_mint [OF keeper_okD(4) [OF k] amt] by (simp add: specBlock_def)
    with True a(3) c s1(1) s2(1) g show ?thesis
      by (auto simp: MintFixedBlockReward_def bindS_def lift_def readS_def)
  qed
qed

text \<open>An unacceptable denomination or a negative amount makes an enabled, non-zero reward panic.\<close>

lemma Mint_panics:
  assumes k: "keeper_ok I C A k W valid val amt"
    and p: "lookParams I (W s) = Some p" "MintEnabled p" "Int_IsZero I (MintAmount p) = Inr False"
      "\<not> (valid (MintDenom p) \<and> 0 \<le> val (MintAmount p))"
  shows "\<exists>msg. MintFixedBlockReward I C A k s = (s, Inl (Panic msg))"
proof -
  have "GetParams I k s = Inr p"
    by (rule param_store.get_view [where k = k and W = W, OF keeper_okD(1) [OF k] p(1)])
  moreover obtain msg where "NewCoin C (MintDenom p) (MintAmount p) = Inl (Panicked msg)"
    using keeper_okD(3) [OF k] p(4) unfolding coins_ok_def by blast
  ultimately show ?thesis using p(2,3) by (simp add: MintFixedBlockReward_def)
qed

text \<open>A block that returned acted on parameters it could act on, and did what is specified.\<close>

lemma Mint_success:
  assumes k: "keeper_ok I C A k W valid val amt"
    and p: "lookParams I (W s) = Some p" "MintEnabled p \<longrightarrow> int_signs I val (MintAmount p)"
    and b: "\<And>d. 0 \<le> bal (W s) ModuleName d"
    and r: "MintFixedBlockReward I C A k s = (s', Inr ())"
  shows "mintable I valid val p \<and> W s' = specBlock A val p (W s)"
proof (cases "mintable I valid val p")
  case True
  with Mint_refines [OF k p(1) True b] r show ?thesis by auto
next
  case False
  with p(2) have e: "MintEnabled p" "Int_IsZero I (MintAmount p) = Inr False"
      "\<not> (valid (MintDenom p) \<and> 0 \<le> val (MintAmount p))"
    by (auto simp: mintable_def int_signs_def)
  from Mint_panics [where W = W, OF k p(1) e] r show ?thesis by auto
qed

text \<open>Disabled: nothing is read but the parameters, whatever the amount.\<close>

lemma Mint_disabled:
  "GetParams I k s = Inr p \<Longrightarrow> \<not> MintEnabled p \<Longrightarrow> MintFixedBlockReward I C A k s = (s, Inr ())"
  by (simp add: MintFixedBlockReward_def lift_def)

text \<open>An error of either bank call is the block's error, and the first one stops the second.\<close>

lemma Mint_mint_error:
  assumes "GetParams I k s = Inr p" "MintEnabled p" "Int_IsZero I (MintAmount p) = Inr False"
    "NewCoin C (MintDenom p) (MintAmount p) = Inr c" "NewCoins C [c] = Inr cs"
    "MintCoins (bankKeeper k) ModuleName cs s = (s', Inl (Failed e))"
  shows "MintFixedBlockReward I C A k s = (s', Inl (External e))"
  using assms by (simp add: MintFixedBlockReward_def res_simps)

lemma Mint_send_error:
  assumes "GetParams I k s = Inr p" "MintEnabled p" "Int_IsZero I (MintAmount p) = Inr False"
    "NewCoin C (MintDenom p) (MintAmount p) = Inr c" "NewCoins C [c] = Inr cs"
    "MintCoins (bankKeeper k) ModuleName cs s = (s1, Inr ())"
    "SendCoinsFromModuleToModule (bankKeeper k) ModuleName (FeeCollectorName A) cs s1 = (s2, Inl (Failed e))"
  shows "MintFixedBlockReward I C A k s = (s2, Inl (External e))"
  using assms by (simp add: MintFixedBlockReward_def bindS_def lift_def readS_def call_def)

text \<open>The message server: the authority and nobody else, and whatever parameters it sends.\<close>

lemma UpdateParams_rejects:
  "Authority req \<noteq> authority (msKeeper ms) \<Longrightarrow>
   UpdateParams ms req s = (s, Inl (InvalidSigner (authority (msKeeper ms)) (Authority req)))"
  by (auto simp: UpdateParams_def GetAuthority_def lift_def)

lemma UpdateParams_accepts:
  assumes "codec_ok I (cdc (msKeeper ms))" "store_ok (storeService (msKeeper ms)) W"
    "Authority req = authority (msKeeper ms)" "Params_ok I t (msgParams req)"
  shows "\<exists>s'. UpdateParams ms req s = (s', Inr MsgUpdateParamsResponse) \<and>
    W s' = putParams t (msgParams req) (W s)"
  using param_store.set_view [where I = I and k = "msKeeper ms" and W = W and t = t and p = "msgParams req" and s = s] assms
  by (auto simp: UpdateParams_def GetAuthority_def bindS_def lift_def)

lemma UpdateParams_Inr_authority:
  "UpdateParams ms req s = (s', Inr r) \<Longrightarrow> Authority req = authority (msKeeper ms)"
  by (auto simp: UpdateParams_def GetAuthority_def lift_def split: if_splits)

text \<open>The invariant watches the module account's balance.\<close>

lemma invariant_iff:
  "keeper_ok I C A k W valid val amt \<Longrightarrow>
   snd (ModuleAccountInvariant C A k s) \<longleftrightarrow> (\<exists>d. bal (W s) ModuleName d \<noteq> 0)"
  by (simp add: ModuleAccountInvariant_def Let_def keeper_ok_def bank_ok_def)

end
