(* ===== verification/Services.thy ===== *)
theory Services
  imports MintKeeper
begin

text \<open>
  The gRPC side of \<open>tx.pb.go\<close> and \<open>query.pb.go\<close> and the HTTP gateway of \<open>query.pb.gw.go\<close>: handlers
  that decode a request and call the server directly or through an interceptor, the service
  descriptions and their registration, the client stubs and the two gateway closures. Connections,
  interceptors and the mux are parameters.
\<close>

section \<open>Handlers\<close>

record UnaryServerInfo =
  FullMethod :: string

text \<open>
  \<open>dec\<close> fills the request it is given; an interceptor gets the request, the method's name and the
  handler it may call.
\<close>

type_synonym ('s, 'm, 'r) handler = "'m \<Rightarrow> ('s, 'r) act"
type_synonym ('s, 'm, 'r) interceptor = "'m \<Rightarrow> UnaryServerInfo \<Rightarrow> ('s, 'm, 'r) handler \<Rightarrow> ('s, 'r) act"

definition Msg_UpdateParams_Handler ::
  "('i, 'z) math_Int_scheme \<Rightarrow> ('s, 'i MsgUpdateParams, 'r) handler \<Rightarrow>
   ('i MsgUpdateParams \<Rightarrow> 'i MsgUpdateParams res) \<Rightarrow>
   ('s, 'i MsgUpdateParams, 'r) interceptor option \<Rightarrow> ('s, 'r) act" where
  "Msg_UpdateParams_Handler I srv dec interceptor =
     bindS (lift (dec (MsgUpdateParams_zero I))) (\<lambda>req.
       case interceptor of
         None \<Rightarrow> srv req
       | Some icp \<Rightarrow>
           icp req \<lparr>FullMethod = ''/bluechipchain.fixedmint.Msg/UpdateParams''\<rparr> (\<lambda>req. srv req))"

definition Query_Params_Handler ::
  "('s, QueryParamsRequest, 'r) handler \<Rightarrow> (QueryParamsRequest \<Rightarrow> QueryParamsRequest res) \<Rightarrow>
   ('s, QueryParamsRequest, 'r) interceptor option \<Rightarrow> ('s, 'r) act" where
  "Query_Params_Handler srv dec interceptor =
     bindS (lift (dec QueryParamsRequest)) (\<lambda>req.
       case interceptor of
         None \<Rightarrow> srv req
       | Some icp \<Rightarrow>
           icp req \<lparr>FullMethod = ''/bluechipchain.fixedmint.Query/Params''\<rparr> (\<lambda>req. srv req))"

section \<open>Service descriptions\<close>

text \<open>A description names its methods, each with the name of the handler it is served by.\<close>

datatype handler_name = UpdateParamsHandler | ParamsHandler

record ServiceDesc =
  ServiceName :: string
  Methods :: "(string \<times> handler_name) list"
  Metadata :: string

definition Msg_serviceDesc :: ServiceDesc where
  "Msg_serviceDesc = \<lparr>ServiceName = ''bluechipchain.fixedmint.Msg'',
     Methods = [(''UpdateParams'', UpdateParamsHandler)],
     Metadata = ''bluechipchain/fixedmint/tx.proto''\<rparr>"

definition Query_serviceDesc :: ServiceDesc where
  "Query_serviceDesc = \<lparr>ServiceName = ''bluechipchain.fixedmint.Query'',
     Methods = [(''Params'', ParamsHandler)],
     Metadata = ''bluechipchain/fixedmint/query.proto''\<rparr>"

text \<open>A gRPC server is the list of the services registered with it and their implementations.\<close>

definition RegisterMsgServer :: "(ServiceDesc \<times> 'srv) list \<Rightarrow> 'srv \<Rightarrow> (ServiceDesc \<times> 'srv) list" where
  "RegisterMsgServer s srv = s @ [(Msg_serviceDesc, srv)]"

definition RegisterQueryServer :: "(ServiceDesc \<times> 'srv) list \<Rightarrow> 'srv \<Rightarrow> (ServiceDesc \<times> 'srv) list" where
  "RegisterQueryServer s srv = s @ [(Query_serviceDesc, srv)]"

text \<open>The routes a description serves, and the handler of a full method name.\<close>

definition routes :: "ServiceDesc \<Rightarrow> (string \<times> handler_name) list" where
  "routes sd = map (\<lambda>(m, h). (''/'' @ ServiceName sd @ ''/'' @ m, h)) (Methods sd)"

definition route :: "(ServiceDesc \<times> 'srv) list \<Rightarrow> string \<Rightarrow> (handler_name \<times> 'srv) option" where
  "route s name =
     map_of (concat (map (\<lambda>(sd, srv). map (\<lambda>(n, h). (n, (h, srv))) (routes sd)) s)) name"

definition Unimplemented_UpdateParams :: "'i MsgUpdateParams \<Rightarrow> ('s, MsgUpdateParamsResponse) act" where
  "Unimplemented_UpdateParams req = lift (Inl (Unimplemented ''method UpdateParams not implemented''))"

definition Unimplemented_Params :: "QueryParamsRequest \<Rightarrow> ('s, 'i QueryParamsResponse) act" where
  "Unimplemented_Params req = lift (Inl (Unimplemented ''method Params not implemented''))"

section \<open>Client stubs\<close>

text \<open>\<open>cc.Invoke\<close> calls a method by name and fills the reply it is given.\<close>

type_synonym ('s, 'm, 'r) invoke = "string \<Rightarrow> 'm \<Rightarrow> 'r \<Rightarrow> ('s, 'r) act"

definition msgClient_UpdateParams ::
  "('s, 'i MsgUpdateParams, MsgUpdateParamsResponse) invoke \<Rightarrow> 'i MsgUpdateParams \<Rightarrow>
   ('s, MsgUpdateParamsResponse) act" where
  "msgClient_UpdateParams invoke req =
     bindS (invoke ''/bluechipchain.fixedmint.Msg/UpdateParams'' req MsgUpdateParamsResponse) (\<lambda>out.
       lift (Inr out))"

definition queryClient_Params ::
  "('i, 'z) math_Int_scheme \<Rightarrow> ('s, QueryParamsRequest, 'i QueryParamsResponse) invoke \<Rightarrow>
   QueryParamsRequest \<Rightarrow> ('s, 'i QueryParamsResponse) act" where
  "queryClient_Params I invoke req =
     bindS (invoke ''/bluechipchain.fixedmint.Query/Params'' req (QueryParamsResponse_zero I)) (\<lambda>out.
       lift (Inr out))"

section \<open>The gateway\<close>

text \<open>Header and trailer metadata, of a type the gateway only passes on.\<close>

record 'md ServerMetadata =
  HeaderMD :: 'md
  TrailerMD :: 'md

definition request_Query_Params_0 ::
  "('ctx \<Rightarrow> QueryParamsRequest \<Rightarrow> 'r res \<times> 'md \<times> 'md) \<Rightarrow> 'ctx \<Rightarrow> 'r res \<times> 'md ServerMetadata" where
  "request_Query_Params_0 client ctx =
     (let protoReq = QueryParamsRequest;
          (r, hd, tl) = client ctx protoReq
      in (r, \<lparr>HeaderMD = hd, TrailerMD = tl\<rparr>))"

definition local_request_Query_Params_0 ::
  "'md \<Rightarrow> ('ctx \<Rightarrow> QueryParamsRequest \<Rightarrow> 'r res) \<Rightarrow> 'ctx \<Rightarrow> 'r res \<times> 'md ServerMetadata" where
  "local_request_Query_Params_0 noMD server ctx =
     (let protoReq = QueryParamsRequest
      in (server ctx protoReq, \<lparr>HeaderMD = noMD, TrailerMD = noMD\<rparr>))"

text \<open>What a gateway closure does with the response writer, with the metadata its context carries.\<close>

datatype ('r, 'md) reply =
    HTTPError err "'md ServerMetadata option"
  | ForwardResponse 'r "'md ServerMetadata"

definition gateway_server ::
  "'md \<Rightarrow> ('md \<Rightarrow> 'md \<Rightarrow> 'md) \<Rightarrow> ('req \<Rightarrow> 'ctx ext) \<Rightarrow> ('ctx \<Rightarrow> QueryParamsRequest \<Rightarrow> 'r res) \<Rightarrow>
   'md ServerMetadata \<Rightarrow> 'req \<Rightarrow> ('r, 'md) reply" where
  "gateway_server noMD join AnnotateIncomingContext server stream req =
     (case ext (AnnotateIncomingContext req) of
        Inl e \<Rightarrow> HTTPError e None
      | Inr rctx \<Rightarrow>
          let (resp, md) = local_request_Query_Params_0 noMD server rctx;
              md = \<lparr>HeaderMD = join (HeaderMD md) (HeaderMD stream),
                    TrailerMD = join (TrailerMD md) (TrailerMD stream)\<rparr>
          in (case resp of
                Inl e \<Rightarrow> HTTPError e (Some md)
              | Inr r \<Rightarrow> ForwardResponse r md))"

definition gateway_client ::
  "('req \<Rightarrow> 'ctx ext) \<Rightarrow> ('ctx \<Rightarrow> QueryParamsRequest \<Rightarrow> 'r res \<times> 'md \<times> 'md) \<Rightarrow>
   'req \<Rightarrow> ('r, 'md) reply" where
  "gateway_client AnnotateContext client req =
     (case ext (AnnotateContext req) of
        Inl e \<Rightarrow> HTTPError e None
      | Inr rctx \<Rightarrow>
          let (resp, md) = request_Query_Params_0 client rctx
          in (case resp of
                Inl e \<Rightarrow> HTTPError e (Some md)
              | Inr r \<Rightarrow> ForwardResponse r md))"

text \<open>A mux is the list of its handlers: method, path and closure.\<close>

definition pattern_Query_Params_0 :: "string list" where
  "pattern_Query_Params_0 = [''bluechipChain'', ''fixedmint'', ''params'']"

definition RegisterQueryHandlerServer ::
  "'md \<Rightarrow> ('md \<Rightarrow> 'md \<Rightarrow> 'md) \<Rightarrow> ('req \<Rightarrow> 'ctx ext) \<Rightarrow> 'md ServerMetadata \<Rightarrow>
   (string \<times> string list \<times> ('req \<Rightarrow> ('r, 'md) reply)) list \<Rightarrow>
   ('ctx \<Rightarrow> QueryParamsRequest \<Rightarrow> 'r res) \<Rightarrow>
   (string \<times> string list \<times> ('req \<Rightarrow> ('r, 'md) reply)) list \<times> unit res" where
  "RegisterQueryHandlerServer noMD join annotate stream mux server =
     (mux @ [(''GET'', pattern_Query_Params_0, gateway_server noMD join annotate server stream)], Inr ())"

definition RegisterQueryHandlerClient ::
  "('req \<Rightarrow> 'ctx ext) \<Rightarrow> (string \<times> string list \<times> ('req \<Rightarrow> ('r, 'md) reply)) list \<Rightarrow>
   ('ctx \<Rightarrow> QueryParamsRequest \<Rightarrow> 'r res \<times> 'md \<times> 'md) \<Rightarrow>
   (string \<times> string list \<times> ('req \<Rightarrow> ('r, 'md) reply)) list \<times> unit res" where
  "RegisterQueryHandlerClient annotate mux client =
     (mux @ [(''GET'', pattern_Query_Params_0, gateway_client annotate client)], Inr ())"

definition RegisterQueryHandler ::
  "('req \<Rightarrow> 'ctx ext) \<Rightarrow> (string \<times> string list \<times> ('req \<Rightarrow> ('r, 'md) reply)) list \<Rightarrow> 'conn \<Rightarrow>
   ('conn \<Rightarrow> 'ctx \<Rightarrow> QueryParamsRequest \<Rightarrow> 'r res \<times> 'md \<times> 'md) \<Rightarrow>
   (string \<times> string list \<times> ('req \<Rightarrow> ('r, 'md) reply)) list \<times> unit res" where
  "RegisterQueryHandler annotate mux conn NewQueryClient =
     RegisterQueryHandlerClient annotate mux (NewQueryClient conn)"

text \<open>
  The deferred function of \<open>RegisterQueryHandlerFromEndpoint\<close> closes the connection at once on an
  error, else when the context is done.
\<close>

datatype 'conn closing = CloseNow 'conn | CloseWhenDone 'conn

definition RegisterQueryHandlerFromEndpoint ::
  "('mux \<Rightarrow> 'conn \<Rightarrow> 'mux \<times> unit res) \<Rightarrow> 'conn ext \<Rightarrow> 'mux \<Rightarrow> 'mux \<times> 'conn closing list \<times> unit res"
where
  "RegisterQueryHandlerFromEndpoint registerHandler dialled mux =
     (case ext dialled of
        Inl e \<Rightarrow> (mux, [], Inl e)
      | Inr conn \<Rightarrow>
          let (mux', r) = registerHandler mux conn
          in (mux', (case r of Inl _ \<Rightarrow> [CloseNow conn] | Inr _ \<Rightarrow> [CloseWhenDone conn]), r))"

section \<open>Laws\<close>

text \<open>A handler without interceptor is decoding followed by the server; one that only calls on is too.\<close>

lemma Msg_handler_direct:
  "dec (MsgUpdateParams_zero I) = Inr req \<Longrightarrow> Msg_UpdateParams_Handler I srv dec None s = srv req s"
  by (simp add: Msg_UpdateParams_Handler_def)

lemma Query_handler_direct:
  "dec QueryParamsRequest = Inr req \<Longrightarrow> Query_Params_Handler srv dec None s = srv req s"
  by (simp add: Query_Params_Handler_def)

lemma Msg_handler_decode_error:
  "dec (MsgUpdateParams_zero I) = Inl e \<Longrightarrow> Msg_UpdateParams_Handler I srv dec icp s = (s, Inl e)"
  by (simp add: Msg_UpdateParams_Handler_def)

text \<open>A server with both services routes each client stub's method to that method's handler.\<close>

lemma route_registered:
  "route (RegisterQueryServer (RegisterMsgServer [] m) q) ''/bluechipchain.fixedmint.Msg/UpdateParams'' =
     Some (UpdateParamsHandler, m)"
  "route (RegisterQueryServer (RegisterMsgServer [] m) q) ''/bluechipchain.fixedmint.Query/Params'' =
     Some (ParamsHandler, q)"
  by (simp_all add: route_def routes_def RegisterQueryServer_def RegisterMsgServer_def
      Msg_serviceDesc_def Query_serviceDesc_def)

text \<open>
  The bytes a client marshalled are handled like the message itself: the handler, given the message's
  own decoder, calls the server with it.
\<close>

lemma Msg_handler_wire:
  assumes "MsgUpdateParams_ok I t req" "MsgUpdateParams_Marshal I req = Inr b"
  shows "Msg_UpdateParams_Handler I srv (\<lambda>m. MsgUpdateParams_Unmarshal I m b) None s = srv req s"
proof -
  have "b = MsgUpdateParams_wire t req"
    using assms updateParams.marshal_wire [OF assms(1)] by (simp add: MsgUpdateParams_Marshal_def)
  then show ?thesis
    by (intro Msg_handler_direct) (simp add: updateParams.unm_wire [OF assms(1)])
qed

text \<open>The gateway forwards exactly the responses the server gives.\<close>

lemma gateway_server_forwards:
  "gateway_server noMD join ann server stream req = ForwardResponse r md \<Longrightarrow>
   \<exists>ctx. ann req = Inr ctx \<and> server ctx QueryParamsRequest = Inr r"
  by (auto simp: gateway_server_def local_request_Query_Params_0_def Let_def split: sum.splits)

lemma gateway_client_forwards:
  "gateway_client ann client req = ForwardResponse r md \<Longrightarrow>
   \<exists>ctx. ann req = Inr ctx \<and> client ctx QueryParamsRequest = (Inr r, HeaderMD md, TrailerMD md)"
  by (auto simp: gateway_client_def request_Query_Params_0_def Let_def split: sum.splits prod.splits)

text \<open>Every dialled connection is closed once: at once on an error, else with the context.\<close>

lemma endpoint_closes:
  "RegisterQueryHandlerFromEndpoint reg (Inr conn) mux = (mux', cl, r) \<Longrightarrow>
   length cl = 1 \<and> (cl = [CloseNow conn] \<longleftrightarrow> (\<exists>e. r = Inl e))"
  by (auto simp: RegisterQueryHandlerFromEndpoint_def Let_def split: prod.splits sum.splits)

end
