(* ===== verification/ApiGrpc.thy ===== *)
theory ApiGrpc
  imports ApiGenesis ApiQuery ApiTx ApiModule Services
begin

text \<open>
  The second gRPC API, \<open>api/bluechipchain/fixedmint/tx_grpc.pb.go\<close> and \<open>query_grpc.pb.go\<close>: method
  names, client stubs, servers without implementation, handlers and service descriptions, over the
  pulsar messages. Connections, decoders and interceptors are parameters as in \<^theory_text>\<open>Services\<close>.
\<close>

section \<open>Msg\<close>

definition Msg_UpdateParams_FullMethodName :: string where
  "Msg_UpdateParams_FullMethodName = ''/bluechipchain.fixedmint.Msg/UpdateParams''"

text \<open>\<open>out := new(...)\<close> is filled by the connection's \<open>Invoke\<close>.\<close>

definition apiMsgClient_UpdateParams ::
  "('s, apiMsgUpdateParams option, apiMsgUpdateParamsResponse) invoke \<Rightarrow> apiMsgUpdateParams option \<Rightarrow>
   ('s, apiMsgUpdateParamsResponse) act" where
  "apiMsgClient_UpdateParams invoke req =
     bindS (invoke Msg_UpdateParams_FullMethodName req apiMsgUpdateParamsResponse_zero) (\<lambda>out.
       lift (Inr out))"

definition apiUnimplemented_UpdateParams ::
  "apiMsgUpdateParams \<Rightarrow> ('s, apiMsgUpdateParamsResponse) act" where
  "apiUnimplemented_UpdateParams req =
     lift (Inl (Unimplemented ''method UpdateParams not implemented''))"

definition apiMsg_UpdateParams_Handler ::
  "('s, apiMsgUpdateParams, 'r) handler \<Rightarrow> (apiMsgUpdateParams \<Rightarrow> apiMsgUpdateParams res) \<Rightarrow>
   ('s, apiMsgUpdateParams, 'r) interceptor option \<Rightarrow> ('s, 'r) act" where
  "apiMsg_UpdateParams_Handler srv dec interceptor =
     bindS (lift (dec apiMsgUpdateParams_zero)) (\<lambda>req.
       case interceptor of
         None \<Rightarrow> srv req
       | Some icp \<Rightarrow> icp req \<lparr>FullMethod = Msg_UpdateParams_FullMethodName\<rparr> (\<lambda>req. srv req))"

definition apiMsg_ServiceDesc :: ServiceDesc where
  "apiMsg_ServiceDesc = \<lparr>ServiceName = ''bluechipchain.fixedmint.Msg'',
     Methods = [(''UpdateParams'', UpdateParamsHandler)],
     Metadata = ''bluechipchain/fixedmint/tx.proto''\<rparr>"

definition apiRegisterMsgServer :: "(ServiceDesc \<times> 'srv) list \<Rightarrow> 'srv \<Rightarrow> (ServiceDesc \<times> 'srv) list" where
  "apiRegisterMsgServer s srv = s @ [(apiMsg_ServiceDesc, srv)]"

section \<open>Query\<close>

definition Query_Params_FullMethodName :: string where
  "Query_Params_FullMethodName = ''/bluechipchain.fixedmint.Query/Params''"

definition apiQueryClient_Params ::
  "('s, apiQueryParamsRequest option, apiQueryParamsResponse) invoke \<Rightarrow> apiQueryParamsRequest option \<Rightarrow>
   ('s, apiQueryParamsResponse) act" where
  "apiQueryClient_Params invoke req =
     bindS (invoke Query_Params_FullMethodName req apiQueryParamsResponse_zero) (\<lambda>out. lift (Inr out))"

definition apiUnimplemented_Params :: "apiQueryParamsRequest \<Rightarrow> ('s, apiQueryParamsResponse) act" where
  "apiUnimplemented_Params req = lift (Inl (Unimplemented ''method Params not implemented''))"

definition apiQuery_Params_Handler ::
  "('s, apiQueryParamsRequest, 'r) handler \<Rightarrow> (apiQueryParamsRequest \<Rightarrow> apiQueryParamsRequest res) \<Rightarrow>
   ('s, apiQueryParamsRequest, 'r) interceptor option \<Rightarrow> ('s, 'r) act" where
  "apiQuery_Params_Handler srv dec interceptor =
     bindS (lift (dec apiQueryParamsRequest_zero)) (\<lambda>req.
       case interceptor of
         None \<Rightarrow> srv req
       | Some icp \<Rightarrow> icp req \<lparr>FullMethod = Query_Params_FullMethodName\<rparr> (\<lambda>req. srv req))"

definition apiQuery_ServiceDesc :: ServiceDesc where
  "apiQuery_ServiceDesc = \<lparr>ServiceName = ''bluechipchain.fixedmint.Query'',
     Methods = [(''Params'', ParamsHandler)],
     Metadata = ''bluechipchain/fixedmint/query.proto''\<rparr>"

definition apiRegisterQueryServer :: "(ServiceDesc \<times> 'srv) list \<Rightarrow> 'srv \<Rightarrow> (ServiceDesc \<times> 'srv) list" where
  "apiRegisterQueryServer s srv = s @ [(apiQuery_ServiceDesc, srv)]"

section \<open>One service, two packages\<close>

text \<open>
  The two packages describe the same services, so it does not matter through which of them a server
  was registered: the methods the API's clients call are routed.
\<close>

lemma api_registration:
  "apiRegisterMsgServer s srv = RegisterMsgServer s srv"
  "apiRegisterQueryServer s srv = RegisterQueryServer s srv"
  by (simp_all add: apiRegisterMsgServer_def RegisterMsgServer_def apiRegisterQueryServer_def
      RegisterQueryServer_def apiMsg_ServiceDesc_def Msg_serviceDesc_def apiQuery_ServiceDesc_def
      Query_serviceDesc_def)

lemma api_routes:
  "route (RegisterQueryServer (RegisterMsgServer [] m) q) Msg_UpdateParams_FullMethodName =
     Some (UpdateParamsHandler, m)"
  "route (RegisterQueryServer (RegisterMsgServer [] m) q) Query_Params_FullMethodName =
     Some (ParamsHandler, q)"
  unfolding Msg_UpdateParams_FullMethodName_def Query_Params_FullMethodName_def
  by (rule route_registered)+

text \<open>A handler serves the bytes of a message like the message itself.\<close>

context cosmos_params
begin

lemma api_handler_wire:
  assumes "apiMsgUpdateParams_ok m" "\<not> rtDiscard R fl"
  shows "apiMsg_UpdateParams_Handler srv
    (\<lambda>x. bindR (apiMsgUpdateParams_unmarshal R LP fl (apiMsgUpdateParams_wire m) (Some x)) recv) None s =
    srv m s"
  using assms by (simp add: apiMsg_UpdateParams_Handler_def apiMsgUpdateParams_unmarshal_wire)

end

end
