(* ===== verification/ApiDescriptors.thy ===== *)
theory ApiDescriptors
  imports ApiTables ApiGrpc ApiModule
begin

text \<open>
  How the five \<open>*.pulsar.go\<close> files start: the package variables, the \<open>init\<close> functions that build the file
  descriptors from the embedded tables and look the message and field descriptors up in them, and the
  compressed descriptors that \<open>Descriptor\<close> returns. \<open>protoimpl\<close> and \<open>protoreflect\<close> are a record.
\<close>

section \<open>Package variables\<close>

datatype desc_file = DParams | DGenesis | DQuery | DTx | DModule

text \<open>What an \<open>Exporter\<close> hands out of a message: pointers to three of its fields.\<close>

datatype exported = ExpState | ExpSizeCache | ExpUnknownFields

record 'file file_vars =
  vFile :: "'file option"
  vRawDesc :: bytes
  vOnce :: bool
  vRawDescData :: bytes
  vMsgTypes :: "(int \<Rightarrow> exported option) option list"
  vGoTypes :: "string list"
  vDepIdxs :: "int list"

record ('file, 'md, 'fd) api_vars =
  fileVars :: "desc_file \<Rightarrow> 'file file_vars"
  mdVars :: "string \<Rightarrow> 'md option"
  fdVars :: "string \<times> string \<Rightarrow> 'fd option"
  registered :: "string list"

text \<open>
  \<open>registered\<close> is the state of the library that the files share: the messages in its global registry.
  Go types are written as the messages they implement. \<open>make([]protoimpl.MessageInfo, n)\<close> has no exporters yet.
\<close>

definition newFileVars :: "bytes \<Rightarrow> nat \<Rightarrow> string list \<Rightarrow> int list \<Rightarrow> 'file file_vars" where
  "newFileVars rawDesc n goTypes depIdxs =
     \<lparr>vFile = None, vRawDesc = rawDesc, vOnce = False, vRawDescData = rawDesc,
      vMsgTypes = replicate n None, vGoTypes = goTypes, vDepIdxs = depIdxs\<rparr>"

definition params_goTypes :: "string list" where
  "params_goTypes = [''bluechipchain.fixedmint.Params'']"

definition genesis_goTypes :: "string list" where
  "genesis_goTypes = [''bluechipchain.fixedmint.GenesisState'', ''bluechipchain.fixedmint.Params'']"

definition query_goTypes :: "string list" where
  "query_goTypes = [''bluechipchain.fixedmint.QueryParamsRequest'', ''bluechipchain.fixedmint.QueryParamsResponse'',
     ''bluechipchain.fixedmint.Params'']"

definition tx_goTypes :: "string list" where
  "tx_goTypes = [''bluechipchain.fixedmint.MsgUpdateParams'', ''bluechipchain.fixedmint.MsgUpdateParamsResponse'',
     ''bluechipchain.fixedmint.Params'']"

definition module_goTypes :: "string list" where
  "module_goTypes = [''bluechipchain.fixedmint.module.Module'']"

definition params_depIdxs :: "int list" where "params_depIdxs = [0, 0, 0, 0, 0]"
definition genesis_depIdxs :: "int list" where "genesis_depIdxs = [1, 1, 1, 1, 1, 0]"
definition query_depIdxs :: "int list" where "query_depIdxs = [2, 0, 1, 2, 1, 1, 1, 0]"
definition tx_depIdxs :: "int list" where "tx_depIdxs = [2, 0, 1, 2, 1, 1, 1, 0]"
definition module_depIdxs :: "int list" where "module_depIdxs = [0, 0, 0, 0, 0]"

fun initialFile :: "desc_file \<Rightarrow> 'file file_vars" where
  "initialFile DParams = newFileVars params_rawDesc 1 params_goTypes params_depIdxs"
| "initialFile DGenesis = newFileVars genesis_rawDesc 1 genesis_goTypes genesis_depIdxs"
| "initialFile DQuery = newFileVars query_rawDesc 2 query_goTypes query_depIdxs"
| "initialFile DTx = newFileVars tx_rawDesc 2 tx_goTypes tx_depIdxs"
| "initialFile DModule = newFileVars module_rawDesc 1 module_goTypes module_depIdxs"

definition initialVars :: "('file, 'md, 'fd) api_vars" where
  "initialVars = \<lparr>fileVars = initialFile, mdVars = Map.empty, fdVars = Map.empty, registered = []\<rparr>"

section \<open>The library\<close>

record type_builder =
  GoPackagePath :: string
  RawDescriptor :: bytes
  NumEnums :: nat
  NumMessages :: nat
  NumExtensions :: nat
  NumServices :: nat
  GoTypes :: "string list"
  DependencyIndexes :: "int list"
  MessageInfos :: "(int \<Rightarrow> exported option) option list"

record ('file, 'md, 'fd) protoimpl =
  UnsafeEnabled :: bool
  Build :: "string list \<Rightarrow> type_builder \<Rightarrow> 'file ext"
  MessagesByName :: "'file \<Rightarrow> string \<Rightarrow> 'md option"
  FieldsByName :: "'md \<Rightarrow> string \<Rightarrow> 'fd option"
  CompressGZIP :: "bytes \<Rightarrow> bytes"

type_synonym ('file, 'md, 'fd) init_act = "(('file, 'md, 'fd) api_vars, unit) act"

section \<open>Building the files\<close>

definition setFile ::
  "desc_file \<Rightarrow> 'file file_vars \<Rightarrow> ('file, 'md, 'fd) api_vars \<Rightarrow> ('file, 'md, 'fd) api_vars" where
  "setFile f v st = st\<lparr>fileVars := (fileVars st)(f := v)\<rparr>"

definition messageExporter :: "int \<Rightarrow> exported option" where
  "messageExporter i =
     (if i = 0 then Some ExpState else if i = 1 then Some ExpSizeCache
      else if i = 2 then Some ExpUnknownFields else None)"

text \<open>\<open>msgTypes[i].Exporter = ...\<close>, for every message of the file, without unsafe pointers only.\<close>

definition setExporter :: "desc_file \<Rightarrow> nat \<Rightarrow> ('file, 'md, 'fd) init_act" where
  "setExporter f i st =
     (let v = fileVars st f in
      if i < length (vMsgTypes v)
      then (setFile f (v\<lparr>vMsgTypes := (vMsgTypes v)[i := Some messageExporter]\<rparr>) st, Inr ())
      else (st, Inl (Panic ''index out of range'')))"

definition setExporters ::
  "('file, 'md, 'fd) protoimpl \<Rightarrow> desc_file \<Rightarrow> nat list \<Rightarrow> ('file, 'md, 'fd) init_act" where
  "setExporters L f is = (if UnsafeEnabled L then lift (Inr ()) else forS (setExporter f) is)"

text \<open>\<open>reflect.TypeOf(x{}).PkgPath()\<close>: the import path of the package a file is in.\<close>

fun pkgPath :: "desc_file \<Rightarrow> string" where
  "pkgPath DModule = ''bluechipChain/api/bluechipchain/fixedmint/module''"
| "pkgPath _ = ''bluechipChain/api/bluechipchain/fixedmint''"

text \<open>The builder registers the messages of the file; then the tables are released.\<close>

definition buildFile ::
  "('file, 'md, 'fd) protoimpl \<Rightarrow> desc_file \<Rightarrow> nat \<Rightarrow> nat \<Rightarrow> ('file, 'md, 'fd) init_act" where
  "buildFile L f messages services st =
     (let v = fileVars st f in
      case ext (Build L (registered st) \<lparr>GoPackagePath = pkgPath f, RawDescriptor = vRawDesc v, NumEnums = 0, NumMessages = messages, NumExtensions = 0,
          NumServices = services, GoTypes = vGoTypes v, DependencyIndexes = vDepIdxs v,
          MessageInfos = vMsgTypes v\<rparr>) of
        Inl e \<Rightarrow> (st, Inl e)
      | Inr out \<Rightarrow> ((setFile f (v\<lparr>vFile := Some out, vRawDesc := [], vGoTypes := [], vDepIdxs := []\<rparr>) st)
          \<lparr>registered := registered st @ take messages (vGoTypes v)\<rparr>, Inr ()))"

definition params_proto_init :: "('file, 'md, 'fd) protoimpl \<Rightarrow> ('file, 'md, 'fd) init_act" where
  "params_proto_init L st =
     (if vFile (fileVars st DParams) \<noteq> None then (st, Inr ())
      else bindS (setExporters L DParams [0]) (\<lambda>_. buildFile L DParams 1 0) st)"

definition genesis_proto_init :: "('file, 'md, 'fd) protoimpl \<Rightarrow> ('file, 'md, 'fd) init_act" where
  "genesis_proto_init L st =
     (if vFile (fileVars st DGenesis) \<noteq> None then (st, Inr ())
      else bindS (params_proto_init L) (\<lambda>_.
           bindS (setExporters L DGenesis [0]) (\<lambda>_. buildFile L DGenesis 1 0)) st)"

definition query_proto_init :: "('file, 'md, 'fd) protoimpl \<Rightarrow> ('file, 'md, 'fd) init_act" where
  "query_proto_init L st =
     (if vFile (fileVars st DQuery) \<noteq> None then (st, Inr ())
      else bindS (params_proto_init L) (\<lambda>_.
           bindS (setExporters L DQuery [0, 1]) (\<lambda>_. buildFile L DQuery 2 1)) st)"

definition tx_proto_init :: "('file, 'md, 'fd) protoimpl \<Rightarrow> ('file, 'md, 'fd) init_act" where
  "tx_proto_init L st =
     (if vFile (fileVars st DTx) \<noteq> None then (st, Inr ())
      else bindS (params_proto_init L) (\<lambda>_.
           bindS (setExporters L DTx [0, 1]) (\<lambda>_. buildFile L DTx 2 1)) st)"

definition module_proto_init :: "('file, 'md, 'fd) protoimpl \<Rightarrow> ('file, 'md, 'fd) init_act" where
  "module_proto_init L st =
     (if vFile (fileVars st DModule) \<noteq> None then (st, Inr ())
      else bindS (setExporters L DModule [0]) (\<lambda>_. buildFile L DModule 1 0) st)"

section \<open>Looking descriptors up\<close>

text \<open>
  \<open>md = File.Messages().ByName(name)\<close>; a field is looked up in it, and calling \<open>Fields\<close> on a message
  descriptor that was not found panics.
\<close>

definition lookupMessage ::
  "('file, 'md, 'fd) protoimpl \<Rightarrow> desc_file \<Rightarrow> string \<Rightarrow> ('file, 'md, 'fd) init_act" where
  "lookupMessage L f msg st =
     (case vFile (fileVars st f) of
        None \<Rightarrow> (st, Inl (Panic ''nil pointer dereference''))
      | Some out \<Rightarrow> (st\<lparr>mdVars := (mdVars st)(msg := MessagesByName L out msg)\<rparr>, Inr ()))"

definition lookupField ::
  "('file, 'md, 'fd) protoimpl \<Rightarrow> string \<Rightarrow> string \<Rightarrow> ('file, 'md, 'fd) init_act" where
  "lookupField L msg fld st =
     (case mdVars st msg of
        None \<Rightarrow> (st, Inl (Panic ''nil pointer dereference''))
      | Some md \<Rightarrow> (st\<lparr>fdVars := (fdVars st)((msg, fld) := FieldsByName L md fld)\<rparr>, Inr ()))"

text \<open>The \<open>init\<close> functions: one per message, and one per file at its end.\<close>

datatype init_fn =
    InitParams | InitGenesisState | InitQueryParamsRequest | InitQueryParamsResponse
  | InitMsgUpdateParams | InitMsgUpdateParamsResponse | InitModule | InitFile desc_file

fun fileInit :: "('file, 'md, 'fd) protoimpl \<Rightarrow> desc_file \<Rightarrow> ('file, 'md, 'fd) init_act" where
  "fileInit L DParams = params_proto_init L"
| "fileInit L DGenesis = genesis_proto_init L"
| "fileInit L DQuery = query_proto_init L"
| "fileInit L DTx = tx_proto_init L"
| "fileInit L DModule = module_proto_init L"

definition init_Params :: "('file, 'md, 'fd) protoimpl \<Rightarrow> ('file, 'md, 'fd) init_act" where
  "init_Params L =
     bindS (params_proto_init L) (\<lambda>_.
     bindS (lookupMessage L DParams ''Params'') (\<lambda>_.
     bindS (lookupField L ''Params'' ''mint_denom'') (\<lambda>_.
     bindS (lookupField L ''Params'' ''mint_amount'') (\<lambda>_.
       lookupField L ''Params'' ''mint_enabled''))))"

definition init_GenesisState :: "('file, 'md, 'fd) protoimpl \<Rightarrow> ('file, 'md, 'fd) init_act" where
  "init_GenesisState L =
     bindS (genesis_proto_init L) (\<lambda>_.
     bindS (lookupMessage L DGenesis ''GenesisState'') (\<lambda>_. lookupField L ''GenesisState'' ''params''))"

definition init_QueryParamsRequest :: "('file, 'md, 'fd) protoimpl \<Rightarrow> ('file, 'md, 'fd) init_act" where
  "init_QueryParamsRequest L =
     bindS (query_proto_init L) (\<lambda>_. lookupMessage L DQuery ''QueryParamsRequest'')"

definition init_QueryParamsResponse :: "('file, 'md, 'fd) protoimpl \<Rightarrow> ('file, 'md, 'fd) init_act" where
  "init_QueryParamsResponse L =
     bindS (query_proto_init L) (\<lambda>_.
     bindS (lookupMessage L DQuery ''QueryParamsResponse'') (\<lambda>_.
       lookupField L ''QueryParamsResponse'' ''params''))"

definition init_MsgUpdateParams :: "('file, 'md, 'fd) protoimpl \<Rightarrow> ('file, 'md, 'fd) init_act" where
  "init_MsgUpdateParams L =
     bindS (tx_proto_init L) (\<lambda>_.
     bindS (lookupMessage L DTx ''MsgUpdateParams'') (\<lambda>_.
     bindS (lookupField L ''MsgUpdateParams'' ''authority'') (\<lambda>_.
       lookupField L ''MsgUpdateParams'' ''params'')))"

definition init_MsgUpdateParamsResponse :: "('file, 'md, 'fd) protoimpl \<Rightarrow> ('file, 'md, 'fd) init_act" where
  "init_MsgUpdateParamsResponse L =
     bindS (tx_proto_init L) (\<lambda>_. lookupMessage L DTx ''MsgUpdateParamsResponse'')"

definition init_Module :: "('file, 'md, 'fd) protoimpl \<Rightarrow> ('file, 'md, 'fd) init_act" where
  "init_Module L =
     bindS (module_proto_init L) (\<lambda>_.
     bindS (lookupMessage L DModule ''Module'') (\<lambda>_. lookupField L ''Module'' ''authority''))"

fun runInit :: "('file, 'md, 'fd) protoimpl \<Rightarrow> init_fn \<Rightarrow> ('file, 'md, 'fd) init_act" where
  "runInit L InitParams = init_Params L"
| "runInit L InitGenesisState = init_GenesisState L"
| "runInit L InitQueryParamsRequest = init_QueryParamsRequest L"
| "runInit L InitQueryParamsResponse = init_QueryParamsResponse L"
| "runInit L InitMsgUpdateParams = init_MsgUpdateParams L"
| "runInit L InitMsgUpdateParamsResponse = init_MsgUpdateParamsResponse L"
| "runInit L InitModule = init_Module L"
| "runInit L (InitFile f) = fileInit L f"

section \<open>Compressed descriptors\<close>

text \<open>\<open>sync.Once\<close>: the table is compressed in place at the first call.\<close>

definition rawDescGZIP ::
  "('file, 'md, 'fd) protoimpl \<Rightarrow> desc_file \<Rightarrow> (('file, 'md, 'fd) api_vars, bytes) act" where
  "rawDescGZIP L f st =
     (let v = fileVars st f;
          st = (if vOnce v then st
                else setFile f (v\<lparr>vOnce := True, vRawDescData := CompressGZIP L (vRawDescData v)\<rparr>) st)
      in (st, Inr (vRawDescData (fileVars st f))))"

definition apiParams_Descriptor where
  "apiParams_Descriptor L = bindS (rawDescGZIP L DParams) (\<lambda>d. lift (Inr (d, [0 :: nat])))"
definition apiGenesisState_Descriptor where
  "apiGenesisState_Descriptor L = bindS (rawDescGZIP L DGenesis) (\<lambda>d. lift (Inr (d, [0 :: nat])))"
definition apiQueryParamsRequest_Descriptor where
  "apiQueryParamsRequest_Descriptor L = bindS (rawDescGZIP L DQuery) (\<lambda>d. lift (Inr (d, [0 :: nat])))"
definition apiQueryParamsResponse_Descriptor where
  "apiQueryParamsResponse_Descriptor L = bindS (rawDescGZIP L DQuery) (\<lambda>d. lift (Inr (d, [1 :: nat])))"
definition apiMsgUpdateParams_Descriptor where
  "apiMsgUpdateParams_Descriptor L = bindS (rawDescGZIP L DTx) (\<lambda>d. lift (Inr (d, [0 :: nat])))"
definition apiMsgUpdateParamsResponse_Descriptor where
  "apiMsgUpdateParamsResponse_Descriptor L = bindS (rawDescGZIP L DTx) (\<lambda>d. lift (Inr (d, [1 :: nat])))"
definition apiModule_Descriptor where
  "apiModule_Descriptor L = bindS (rawDescGZIP L DModule) (\<lambda>d. lift (Inr (d, [0 :: nat])))"

lemmas descriptor_defs = apiParams_Descriptor_def apiGenesisState_Descriptor_def apiQueryParamsRequest_Descriptor_def
  apiQueryParamsResponse_Descriptor_def apiMsgUpdateParams_Descriptor_def apiMsgUpdateParamsResponse_Descriptor_def
  apiModule_Descriptor_def

section \<open>What the library promises\<close>

text \<open>
  The documented layout of \<open>DependencyIndexes\<close>: indices of Go types for the types that fields name, for
  extensions (none here), and for the inputs and outputs of methods; then where these
  parts start, last first. \<open>GoTypes\<close> begins with the messages of the file.
\<close>

definition fieldTypes :: "file_schema \<Rightarrow> string list" where
  "fieldTypes sch = filter (\<lambda>t. t \<noteq> []) (map fsTypeName (concat (map msFields (flMessages sch))))"

definition methodInputs :: "file_schema \<Rightarrow> string list" where
  "methodInputs sch = map mtInput (concat (map svMethods (flServices sch)))"

definition methodOutputs :: "file_schema \<Rightarrow> string list" where
  "methodOutputs sch = map mtOutput (concat (map svMethods (flServices sch)))"

definition depsResolve :: "file_schema \<Rightarrow> string list \<Rightarrow> int list \<Rightarrow> bool" where
  "depsResolve sch G D \<longleftrightarrow>
     (let types = fieldTypes sch @ methodInputs sch @ methodOutputs sch;
          n = length types; nf = length (fieldTypes sch); ni = length (methodInputs sch) in
      list_all (\<lambda>d. 0 \<le> d \<and> d < int (length G)) (take n D) \<and>
      map (\<lambda>d. ''.'' @ G ! nat d) (take n D) = types \<and>
      drop n D = map int [nf + ni, nf, nf, nf, 0] \<and>
      take (length (flMessages sch)) G = map (\<lambda>m. flPackage sch @ ''.'' @ msName m) (flMessages sch))"

definition wellNamed :: "file_schema \<Rightarrow> bool" where
  "wellNamed sch \<longleftrightarrow> distinct (map msName (flMessages sch)) \<and>
     list_all (\<lambda>ms. distinct (map fsName (msFields ms))) (flMessages sch)"

text \<open>
  A builder whose numbers and dependencies fit its table, whose messages are not registered
  yet and whose other Go types are, builds a file; in it the messages and fields that the table
  declares are found under their names.
\<close>

definition protoimpl_ok :: "('file, 'md, 'fd) protoimpl \<Rightarrow> ('fd \<Rightarrow> string) \<Rightarrow> bool" where
  "protoimpl_ok L fdName \<longleftrightarrow> (\<forall>reg b sch.
     readFile (RawDescriptor b) = Some sch \<longrightarrow> getText 11 (flOptions sch) = GoPackagePath b \<longrightarrow>
     NumEnums b = 0 \<longrightarrow> NumExtensions b = 0 \<longrightarrow>
     NumMessages b = length (flMessages sch) \<longrightarrow> NumServices b = length (flServices sch) \<longrightarrow>
     length (MessageInfos b) = NumMessages b \<longrightarrow> depsResolve sch (GoTypes b) (DependencyIndexes b) \<longrightarrow>
     wellNamed sch \<longrightarrow> set (take (NumMessages b) (GoTypes b)) \<inter> set reg = {} \<longrightarrow>
     set (drop (NumMessages b) (GoTypes b)) \<subseteq> set reg \<longrightarrow>
     (\<exists>out. Build L reg b = Inr out \<and>
       (\<forall>ms \<in> set (flMessages sch). \<exists>md. MessagesByName L out (msName ms) = Some md \<and>
          (\<forall>fs \<in> set (msFields ms). \<exists>fd. FieldsByName L md (fsName fs) = Some fd \<and>
             fdName fd = flPackage sch @ ''.'' @ msName ms @ ''.'' @ fsName fs))))"

section \<open>The tables fit their builders\<close>

fun schemaOf :: "desc_file \<Rightarrow> file_schema" where
  "schemaOf DParams = params_schema"
| "schemaOf DGenesis = genesis_schema"
| "schemaOf DQuery = query_schema"
| "schemaOf DTx = tx_schema"
| "schemaOf DModule = module_schema"

lemmas schema_defs = params_schema_def genesis_schema_def query_schema_def tx_schema_def module_schema_def

lemma initialFile_simps [simp]:
  "vFile (initialFile f) = None" "vOnce (initialFile f) = False"
  "vRawDescData (initialFile f) = vRawDesc (initialFile f)"
  "length (vMsgTypes (initialFile f)) = length (flMessages (schemaOf f))"
  by (cases f; simp add: newFileVars_def schema_defs)+

text \<open>The table a file was generated with.\<close>

fun rawDescOf :: "desc_file \<Rightarrow> bytes" where
  "rawDescOf DParams = params_rawDesc"
| "rawDescOf DGenesis = genesis_rawDesc"
| "rawDescOf DQuery = query_rawDesc"
| "rawDescOf DTx = tx_rawDesc"
| "rawDescOf DModule = module_rawDesc"

lemma rawDescOf_table: "rawDescOf f = encodeFile (schemaOf f)"
  by (cases f) (simp_all add: params_table genesis_table query_table tx_table module_table)

lemma initialFile_rawDesc: "vRawDesc (initialFile f) = encodeFile (schemaOf f)"
  by (cases f) (simp_all add: newFileVars_def params_table genesis_table query_table tx_table module_table)

lemma initialFile_reads: "readFile (vRawDesc (initialFile f)) = Some (schemaOf f)"
  by (simp add: initialFile_rawDesc readFile_encodeFile)

lemma initialFile_deps: "depsResolve (schemaOf f) (vGoTypes (initialFile f)) (vDepIdxs (initialFile f))"
  by (cases f) (simp_all add: newFileVars_def depsResolve_def fieldTypes_def methodInputs_def methodOutputs_def
      schema_defs params_goTypes_def genesis_goTypes_def query_goTypes_def tx_goTypes_def module_goTypes_def
      params_depIdxs_def genesis_depIdxs_def query_depIdxs_def tx_depIdxs_def module_depIdxs_def Let_def)

lemma schemaOf_wellNamed: "wellNamed (schemaOf f)"
  by (cases f) (simp_all add: wellNamed_def schema_defs)

lemma schemaOf_package: "getText 11 (flOptions (schemaOf f)) = pkgPath f"
  by (cases f) (simp_all add: schema_defs getText_def getBytes_def textE_def)

text \<open>The messages of a file, and the file that the others depend on.\<close>

definition ownNames :: "desc_file \<Rightarrow> string list" where
  "ownNames f = map (\<lambda>m. flPackage (schemaOf f) @ ''.'' @ msName m) (flMessages (schemaOf f))"

lemma ownNames_simps:
  "ownNames DParams = [''bluechipchain.fixedmint.Params'']"
  "ownNames DGenesis = [''bluechipchain.fixedmint.GenesisState'']"
  "ownNames DQuery = [''bluechipchain.fixedmint.QueryParamsRequest'', ''bluechipchain.fixedmint.QueryParamsResponse'']"
  "ownNames DTx = [''bluechipchain.fixedmint.MsgUpdateParams'', ''bluechipchain.fixedmint.MsgUpdateParamsResponse'']"
  "ownNames DModule = [''bluechipchain.fixedmint.module.Module'']"
  by (simp_all add: ownNames_def schema_defs)

lemma ownNames_disjoint: "f \<noteq> g \<Longrightarrow> set (ownNames f) \<inter> set (ownNames g) = {}"
  by (cases f; cases g) (simp_all add: ownNames_simps)

lemma initialFile_goTypes:
  "take (length (flMessages (schemaOf f))) (vGoTypes (initialFile f)) = ownNames f"
  "drop (length (flMessages (schemaOf f))) (vGoTypes (initialFile f)) =
    (if f \<in> {DGenesis, DQuery, DTx} then ownNames DParams else [])"
  by (cases f; simp add: newFileVars_def ownNames_simps schema_defs params_goTypes_def genesis_goTypes_def
      query_goTypes_def tx_goTypes_def module_goTypes_def)+

text \<open>What building a file from its own table gives.\<close>

definition declares :: "('file, 'md, 'fd) protoimpl \<Rightarrow> ('fd \<Rightarrow> string) \<Rightarrow> desc_file \<Rightarrow> 'file \<Rightarrow> bool" where
  "declares L fdName f out \<longleftrightarrow>
     (\<forall>ms \<in> set (flMessages (schemaOf f)). \<exists>md. MessagesByName L out (msName ms) = Some md \<and>
        (\<forall>fs \<in> set (msFields ms). \<exists>fd. FieldsByName L md (fsName fs) = Some fd \<and>
           fdName fd = flPackage (schemaOf f) @ ''.'' @ msName ms @ ''.'' @ fsName fs))"

text \<open>A file that is not built still has its table; one that is built declares what its table declared.\<close>

definition file_inv ::
  "('file, 'md, 'fd) protoimpl \<Rightarrow> ('fd \<Rightarrow> string) \<Rightarrow> desc_file \<Rightarrow> 'file file_vars \<Rightarrow> bool" where
  "file_inv L fdName f v \<longleftrightarrow>
     vRawDescData v = (if vOnce v then CompressGZIP L (vRawDesc (initialFile f :: 'file file_vars))
                       else vRawDesc (initialFile f :: 'file file_vars)) \<and>
     (case vFile v of
        None \<Rightarrow> vRawDesc v = vRawDesc (initialFile f :: 'file file_vars) \<and>
          vGoTypes v = vGoTypes (initialFile f :: 'file file_vars) \<and>
          vDepIdxs v = vDepIdxs (initialFile f :: 'file file_vars) \<and>
          length (vMsgTypes v) = length (flMessages (schemaOf f))
      | Some out \<Rightarrow> declares L fdName f out)"

text \<open>The other variables hold what was found in the files that are built.\<close>

definition messageFile :: "string \<Rightarrow> desc_file" where
  "messageFile m =
     (if m = ''Params'' then DParams else if m = ''GenesisState'' then DGenesis
      else if m = ''QueryParamsRequest'' \<or> m = ''QueryParamsResponse'' then DQuery
      else if m = ''Module'' then DModule else DTx)"

definition api_inv ::
  "('file, 'md, 'fd) protoimpl \<Rightarrow> ('fd \<Rightarrow> string) \<Rightarrow> ('file, 'md, 'fd) api_vars \<Rightarrow> bool" where
  "api_inv L fdName st \<longleftrightarrow>
     (\<forall>f. file_inv L fdName f (fileVars st f)) \<and>
     (\<forall>m md. mdVars st m = Some md \<longrightarrow> (\<exists>out. vFile (fileVars st (messageFile m)) = Some out \<and>
        MessagesByName L out m = Some md)) \<and>
     (\<forall>m n fd. fdVars st (m, n) = Some fd \<longrightarrow> (\<exists>md. mdVars st m = Some md \<and> FieldsByName L md n = Some fd)) \<and>
     (\<forall>f. \<forall>t \<in> set (ownNames f). t \<in> set (registered st) \<longleftrightarrow> vFile (fileVars st f) \<noteq> None)"

lemma api_inv_initial: "api_inv L fdName initialVars"
  by (simp add: api_inv_def initialVars_def file_inv_def)

text \<open>What never goes back: a file that is built stays, and so do descriptors that were found.\<close>

definition api_le :: "('file, 'md, 'fd) api_vars \<Rightarrow> ('file, 'md, 'fd) api_vars \<Rightarrow> bool" where
  "api_le st st' \<longleftrightarrow>
     (\<forall>f out. vFile (fileVars st f) = Some out \<longrightarrow> vFile (fileVars st' f) = Some out) \<and>
     (\<forall>m md. mdVars st m = Some md \<longrightarrow> mdVars st' m = Some md) \<and>
     (\<forall>k fd. fdVars st k = Some fd \<longrightarrow> fdVars st' k = Some fd)"

lemma api_le_refl [simp]: "api_le st st"
  by (simp add: api_le_def)

lemma api_le_trans [trans]: "api_le st st' \<Longrightarrow> api_le st' st'' \<Longrightarrow> api_le st st''"
  by (simp add: api_le_def)

section \<open>Every initialisation succeeds\<close>

lemma fileVars_setFile [simp]:
  "fileVars (setFile f v st) = (fileVars st)(f := v)" "mdVars (setFile f v st) = mdVars st"
  "fdVars (setFile f v st) = fdVars st" "registered (setFile f v st) = registered st"
  by (simp_all add: setFile_def)

lemma setExporters_ok:
  assumes "\<forall>i \<in> set is. i < length (vMsgTypes (fileVars st f))"
  shows "\<exists>ts. setExporters L f is st = (setFile f (fileVars st f\<lparr>vMsgTypes := ts\<rparr>) st, Inr ()) \<and>
    length ts = length (vMsgTypes (fileVars st f))"
proof -
  have "\<exists>ts. forS (setExporter f) is st = (setFile f (fileVars st f\<lparr>vMsgTypes := ts\<rparr>) st, Inr ()) \<and>
      length ts = length (vMsgTypes (fileVars st f))"
    using assms
  proof (induction "is" arbitrary: st)
    case Nil
    show ?case by (intro exI [of _ "vMsgTypes (fileVars st f)"]) (simp add: lift_def setFile_def)
  next
    case (Cons i "is")
    let ?st = "setFile f (fileVars st f\<lparr>vMsgTypes := (vMsgTypes (fileVars st f))[i := Some messageExporter]\<rparr>) st"
    have i: "setExporter f i st = (?st, Inr ())" using Cons.prems by (simp add: setExporter_def Let_def)
    from Cons.IH [of ?st] Cons.prems obtain ts where
      "forS (setExporter f) is ?st = (setFile f (fileVars ?st f\<lparr>vMsgTypes := ts\<rparr>) ?st, Inr ())"
      "length ts = length (vMsgTypes (fileVars ?st f))" by auto
    with i show ?case by (intro exI [of _ ts]) (simp add: bindS_def setFile_def)
  qed
  moreover have "lift (Inr ()) st = (setFile f (fileVars st f\<lparr>vMsgTypes := vMsgTypes (fileVars st f)\<rparr>) st, Inr ())"
    by (simp add: lift_def setFile_def)
  ultimately show ?thesis by (cases "UnsafeEnabled L") (force simp: setExporters_def)+
qed

lemma api_inv_setFile_registered:
  assumes inv: "api_inv L fdName st" and v: "file_inv L fdName f v"
    and keeps: "vFile (fileVars st f) = None \<or> vFile v = vFile (fileVars st f)"
    and reg: "\<forall>g. \<forall>t \<in> set (ownNames g). t \<in> set R \<longleftrightarrow> vFile (fileVars (setFile f v st) g) \<noteq> None"
  shows "api_inv L fdName ((setFile f v st)\<lparr>registered := R\<rparr>)"
proof -
  have stays: "vFile (fileVars (setFile f v st) g) = Some out"
    if "vFile (fileVars st g) = Some out" for g out
    using that keeps by auto
  have "file_inv L fdName g (fileVars (setFile f v st) g)" for g
    using inv v by (simp add: api_inv_def)
  moreover have "\<exists>out. vFile (fileVars (setFile f v st) (messageFile m)) = Some out \<and> MessagesByName L out m = Some md"
    if "mdVars st m = Some md" for m md
    using inv that stays unfolding api_inv_def by blast
  moreover have "\<exists>md. mdVars st m = Some md \<and> FieldsByName L md n = Some fd"
    if "fdVars st (m, n) = Some fd" for m n fd
    using inv that unfolding api_inv_def by blast
  moreover have "fileVars ((setFile f v st)\<lparr>registered := R\<rparr>) = fileVars (setFile f v st)"
    "mdVars ((setFile f v st)\<lparr>registered := R\<rparr>) = mdVars st" "fdVars ((setFile f v st)\<lparr>registered := R\<rparr>) = fdVars st"
    "registered ((setFile f v st)\<lparr>registered := R\<rparr>) = R" by (simp_all add: setFile_def)
  ultimately show ?thesis using reg unfolding api_inv_def by presburger
qed

lemma api_inv_setFile:
  assumes inv: "api_inv L fdName st" and v: "file_inv L fdName f v" and keeps: "vFile v = vFile (fileVars st f)"
  shows "api_inv L fdName (setFile f v st)"
proof -
  have "\<forall>g. \<forall>t \<in> set (ownNames g). t \<in> set (registered st) \<longleftrightarrow> vFile (fileVars (setFile f v st) g) \<noteq> None"
    using inv keeps by (simp add: api_inv_def)
  from api_inv_setFile_registered [OF inv v _ this] keeps show ?thesis by (simp add: setFile_def)
qed

text \<open>A result of an initialisation that keeps the invariant and loses nothing.\<close>

definition good_step ::
  "('file, 'md, 'fd) protoimpl \<Rightarrow> ('fd \<Rightarrow> string) \<Rightarrow> ('file, 'md, 'fd) init_act \<Rightarrow>
   ('file, 'md, 'fd) api_vars \<Rightarrow> ('file, 'md, 'fd) api_vars \<Rightarrow> bool" where
  "good_step L fdName act st st' \<longleftrightarrow> act st = (st', Inr ()) \<and> api_inv L fdName st' \<and> api_le st st'"

lemma good_step_bindS:
  "good_step L fdName a st st1 \<Longrightarrow> good_step L fdName b st1 st2 \<Longrightarrow> good_step L fdName (bindS a (\<lambda>_. b)) st st2"
  unfolding good_step_def using api_le_trans by (auto simp: bindS_def)

lemma build_step:
  assumes ok: "protoimpl_ok L fdName" and inv: "api_inv L fdName st" and None: "vFile (fileVars st f) = None"
    and n: "nm = length (flMessages (schemaOf f))" "ns = length (flServices (schemaOf f))" "\<forall>i \<in> set is. i < nm"
    and deps: "f \<in> {DGenesis, DQuery, DTx} \<longrightarrow> vFile (fileVars st DParams) \<noteq> None"
  shows "\<exists>st'. good_step L fdName (bindS (setExporters L f is) (\<lambda>_. buildFile L f nm ns)) st st' \<and>
    vFile (fileVars st' f) \<noteq> None"
proof -
  let ?v = "fileVars st f"
  have v: "file_inv L fdName f ?v" using inv by (simp add: api_inv_def)
  have tables: "vRawDesc ?v = vRawDesc (initialFile f :: 'a file_vars)"
      "vGoTypes ?v = vGoTypes (initialFile f :: 'a file_vars)"
      "vDepIdxs ?v = vDepIdxs (initialFile f :: 'a file_vars)" "length (vMsgTypes ?v) = nm"
    using v None n(1) by (simp_all add: file_inv_def)
  obtain ts where ts: "setExporters L f is st = (setFile f (?v\<lparr>vMsgTypes := ts\<rparr>) st, Inr ())" "length ts = nm"
    using setExporters_ok [of "is" st f L] n(3) tables(4) by auto
  let ?b = "\<lparr>GoPackagePath = pkgPath f, RawDescriptor = vRawDesc ?v, NumEnums = 0, NumMessages = nm, NumExtensions = 0,
      NumServices = ns, GoTypes = vGoTypes ?v, DependencyIndexes = vDepIdxs ?v, MessageInfos = ts\<rparr>"
  have "readFile (RawDescriptor ?b) = Some (schemaOf f)"
    using initialFile_reads [of f, where 'a='a] by (simp only: tables type_builder.simps)
  moreover have "getText 11 (flOptions (schemaOf f)) = GoPackagePath ?b" by (simp only: schemaOf_package type_builder.simps)
  moreover have "depsResolve (schemaOf f) (GoTypes ?b) (DependencyIndexes ?b)"
    using initialFile_deps [of f, where 'a='a] by (simp only: tables type_builder.simps)
  moreover have "set (take nm (GoTypes ?b)) \<inter> set (registered st) = {}"
    using inv None n(1) initialFile_goTypes(1) [of f, where 'a='a] unfolding api_inv_def by (auto simp: tables)
  moreover have "set (drop nm (GoTypes ?b)) \<subseteq> set (registered st)"
    using inv deps n(1) initialFile_goTypes(2) [of f, where 'b='a] unfolding api_inv_def
    by (auto simp: tables split: if_splits)
  ultimately have "\<exists>out. Build L (registered st) ?b = Inr out \<and> declares L fdName f out"
    using ok [unfolded protoimpl_ok_def, rule_format, of ?b "schemaOf f" "registered st"] n(1,2) ts(2)
      schemaOf_wellNamed unfolding declares_def type_builder.simps by blast
  then obtain out where out: "Build L (registered st) ?b = Inr out" "declares L fdName f out" by blast
  let ?v' = "?v\<lparr>vMsgTypes := ts, vFile := Some out, vRawDesc := [], vGoTypes := [], vDepIdxs := []\<rparr>"
  let ?st = "(setFile f ?v' st)\<lparr>registered := registered st @ ownNames f\<rparr>"
  have own: "take nm (vGoTypes ?v) = ownNames f"
    using initialFile_goTypes(1) [of f, where 'a='a] n(1) tables(2) by simp
  have step: "bindS (setExporters L f is) (\<lambda>_. buildFile L f nm ns) st = (?st, Inr ())"
    using ts out(1) own by (simp add: bindS_def buildFile_def Let_def setFile_def)
  have "api_le st ?st" using None by (auto simp: api_le_def)
  moreover have "t \<in> set (registered st @ ownNames f) \<longleftrightarrow> vFile (fileVars (setFile f ?v' st) g) \<noteq> None"
    if "t \<in> set (ownNames g)" for g t
    using inv that ownNames_disjoint [of f g] unfolding api_inv_def by (cases "g = f") auto
  then have "api_inv L fdName ?st"
    using v None out(2) by (intro api_inv_setFile_registered [OF inv]) (simp_all add: file_inv_def)
  ultimately show ?thesis using step by (intro exI [of _ ?st]) (simp add: good_step_def)
qed

lemma fileInit_built: "vFile (fileVars st f) \<noteq> None \<Longrightarrow> fileInit L f st = (st, Inr ())"
  by (cases f) (simp_all add: params_proto_init_def genesis_proto_init_def query_proto_init_def
      tx_proto_init_def module_proto_init_def)

lemma params_step:
  assumes "protoimpl_ok L fdName" "api_inv L fdName st"
  shows "\<exists>st'. good_step L fdName (params_proto_init L) st st' \<and> vFile (fileVars st' DParams) \<noteq> None"
proof (cases "vFile (fileVars st DParams)")
  case None
  with build_step [OF assms None, of 1 0 "[0]"] show ?thesis
    by (auto simp: good_step_def params_proto_init_def schema_defs)
next
  case (Some out)
  with assms(2) show ?thesis by (intro exI [of _ st]) (simp add: good_step_def params_proto_init_def)
qed

text \<open>A file that depends on the parameters builds them first; that leaves the file itself alone.\<close>

lemma setFile_other [simp]: "f \<noteq> g \<Longrightarrow> fileVars (setFile g v st) f = fileVars st f"
  by simp

lemma setExporters_other: "f \<noteq> g \<Longrightarrow> fileVars (fst (setExporters L g is st)) f = fileVars st f"
proof -
  assume "f \<noteq> g"
  then have "fileVars (fst (forS (setExporter g) is st)) f = fileVars st f"
    by (induction "is" arbitrary: st) (auto simp: lift_def bindS_def setExporter_def Let_def)
  then show ?thesis by (simp add: setExporters_def lift_def)
qed

lemma params_step_other:
  assumes "params_proto_init L st = (st', Inr ())" "f \<noteq> DParams"
  shows "fileVars st' f = fileVars st f"
proof -
  obtain st1 r where st1: "setExporters L DParams [0] st = (st1, r)" by fastforce
  have "fileVars st1 f = fileVars st f" using setExporters_other [OF assms(2), of L "[0]" st] st1 by simp
  moreover have "fileVars (fst (buildFile L DParams 1 0 st1)) f = fileVars st1 f"
    using assms(2) by (simp add: buildFile_def Let_def split: sum.splits)
  ultimately show ?thesis
    using assms(1) st1 by (auto simp: params_proto_init_def bindS_def split: if_splits sum.splits)
qed

lemma dependent_step:
  assumes ok: "protoimpl_ok L fdName" and inv: "api_inv L fdName st"
    and f: "f \<noteq> DParams" "nm = length (flMessages (schemaOf f))" "ns = length (flServices (schemaOf f))"
      "\<forall>i \<in> set is. i < nm" "vFile (fileVars st f) = None"
  shows "\<exists>st'. good_step L fdName (bindS (params_proto_init L) (\<lambda>_.
      bindS (setExporters L f is) (\<lambda>_. buildFile L f nm ns))) st st' \<and> vFile (fileVars st' f) \<noteq> None"
proof -
  obtain st1 where st1: "good_step L fdName (params_proto_init L) st st1" "vFile (fileVars st1 DParams) \<noteq> None" using params_step [OF ok inv] by blast
  then have "api_inv L fdName st1" "vFile (fileVars st1 f) = None"
    using params_step_other [of L st st1 f] f(1,5) by (auto simp: good_step_def)
  from build_step [OF ok this f(2-4)] st1(2) obtain st2 where
    "good_step L fdName (bindS (setExporters L f is) (\<lambda>_. buildFile L f nm ns)) st1 st2"
    "vFile (fileVars st2 f) \<noteq> None" by blast
  with good_step_bindS [OF st1(1)] show ?thesis by blast
qed

lemma fileInit_step:
  assumes ok: "protoimpl_ok L fdName" and inv: "api_inv L fdName st"
  shows "\<exists>st'. good_step L fdName (fileInit L f) st st' \<and> vFile (fileVars st' f) \<noteq> None"
proof (cases "vFile (fileVars st f)")
  case (Some out)
  with inv fileInit_built [of st f L] show ?thesis by (intro exI [of _ st]) (simp add: good_step_def)
next
  case None
  note [simp] = good_step_def schema_defs
  show ?thesis
  proof (cases f)
    case DParams
    with params_step [OF ok inv] show ?thesis by simp
  next
    case DGenesis
    with dependent_step [OF ok inv, of DGenesis 1 0 "[0]"] None show ?thesis by (auto simp: genesis_proto_init_def)
  next
    case DQuery
    with dependent_step [OF ok inv, of DQuery 2 1 "[0, 1]"] None show ?thesis by (auto simp: query_proto_init_def)
  next
    case DTx
    with dependent_step [OF ok inv, of DTx 2 1 "[0, 1]"] None show ?thesis by (auto simp: tx_proto_init_def)
  next
    case DModule
    with build_step [OF ok inv, of DModule 1 0 "[0]"] None show ?thesis by (auto simp: module_proto_init_def)
  qed
qed

text \<open>Looking up what the table of a built file declares succeeds, and finds again what was found before.\<close>

definition declaresMessage :: "string \<Rightarrow> string list \<Rightarrow> bool" where
  "declaresMessage m ns \<longleftrightarrow>
     (\<exists>ms \<in> set (flMessages (schemaOf (messageFile m))). msName ms = m \<and> set ns \<subseteq> fsName ` set (msFields ms))"

definition fullName :: "string \<Rightarrow> string \<Rightarrow> string" where
  "fullName m n = flPackage (schemaOf (messageFile m)) @ ''.'' @ m @ ''.'' @ n"

lemma api_inv_built:
  assumes "api_inv L fdName st" "vFile (fileVars st f) = Some out"
  shows "declares L fdName f out"
proof -
  have "file_inv L fdName f (fileVars st f)" using assms(1) by (simp add: api_inv_def)
  with assms(2) show ?thesis by (simp add: file_inv_def)
qed

lemma message_found:
  assumes inv: "api_inv L fdName st" and md: "mdVars st m = Some md" and decl: "declaresMessage m ns"
    and n: "n \<in> set ns"
  shows "\<exists>fd. FieldsByName L md n = Some fd \<and> fdName fd = fullName m n"
proof -
  obtain out where out: "vFile (fileVars st (messageFile m)) = Some out" "MessagesByName L out m = Some md"
    using inv md unfolding api_inv_def by blast
  from decl n obtain ms fs where "ms \<in> set (flMessages (schemaOf (messageFile m)))" "msName ms = m"
    "fs \<in> set (msFields ms)" "fsName fs = n" unfolding declaresMessage_def by blast
  with api_inv_built [OF inv out(1)] out(2) show ?thesis unfolding declares_def fullName_def by fastforce
qed

lemma lookupMessage_step:
  assumes inv: "api_inv L fdName st" and built: "vFile (fileVars st (messageFile m)) \<noteq> None"
    and decl: "declaresMessage m ns"
  shows "\<exists>st'. good_step L fdName (lookupMessage L (messageFile m) m) st st' \<and> mdVars st' m \<noteq> None"
proof -
  obtain out where out: "vFile (fileVars st (messageFile m)) = Some out" using built by blast
  from decl api_inv_built [OF inv out] obtain md where md: "MessagesByName L out m = Some md"
    unfolding declaresMessage_def declares_def by blast
  let ?st = "st\<lparr>mdVars := (mdVars st)(m := Some md)\<rparr>"
  have same: "mdVars st m = None \<or> mdVars st m = Some md"
    using inv out md unfolding api_inv_def by (cases "mdVars st m") fastforce+
  then have "api_le st ?st" by (auto simp: api_le_def)
  moreover have "FieldsByName L md n = Some fd" if "fdVars st (m, n) = Some fd" for n fd
    using that inv same unfolding api_inv_def by fastforce
  then have "api_inv L fdName ?st" using inv out md unfolding api_inv_def by (auto split: if_splits)
  ultimately show ?thesis using out md
    by (intro exI [of _ ?st]) (simp add: good_step_def lookupMessage_def)
qed

lemma lookupField_step:
  assumes inv: "api_inv L fdName st" and md: "mdVars st m \<noteq> None" and decl: "declaresMessage m ns"
    and n: "n \<in> set ns"
  shows "\<exists>st'. good_step L fdName (lookupField L m n) st st' \<and> fdVars st' (m, n) \<noteq> None"
proof -
  obtain md' where md': "mdVars st m = Some md'" using md by blast
  from message_found [OF inv md' decl n] obtain fd where fd: "FieldsByName L md' n = Some fd" by blast
  let ?st = "st\<lparr>fdVars := (fdVars st)((m, n) := Some fd)\<rparr>"
  have same: "fdVars st (m, n) = None \<or> fdVars st (m, n) = Some fd"
    using inv fd md' unfolding api_inv_def by (cases "fdVars st (m, n)") fastforce+
  then have "api_le st ?st" by (auto simp: api_le_def)
  moreover have "api_inv L fdName ?st" using inv fd md' unfolding api_inv_def by (auto split: if_splits)
  ultimately show ?thesis using fd md'
    by (intro exI [of _ ?st]) (simp add: good_step_def lookupField_def)
qed

lemma lookupFields_step:
  assumes "api_inv L fdName st" "mdVars st m \<noteq> None" "declaresMessage m ns" "set xs \<subseteq> set ns"
  shows "\<exists>st'. good_step L fdName (forS (lookupField L m) xs) st st' \<and> (\<forall>n \<in> set xs. fdVars st' (m, n) \<noteq> None)"
  using assms
proof (induction xs arbitrary: st)
  case Nil
  then show ?case by (intro exI [of _ st]) (simp add: good_step_def lift_def)
next
  case (Cons n xs)
  then obtain st1 where st1: "good_step L fdName (lookupField L m n) st st1" "fdVars st1 (m, n) \<noteq> None"
    using lookupField_step [of L fdName st m ns n] by auto
  then have inv: "api_inv L fdName st1" "mdVars st1 m \<noteq> None"
    using Cons.prems(2) by (auto simp: good_step_def api_le_def)
  from Cons.IH [OF inv Cons.prems(3)] Cons.prems(4) obtain st2 where
    st2: "good_step L fdName (forS (lookupField L m) xs) st1 st2" "\<forall>n \<in> set xs. fdVars st2 (m, n) \<noteq> None" by auto
  have "good_step L fdName (forS (lookupField L m) (n # xs)) st st2"
    using good_step_bindS [OF st1(1) st2(1)] by simp
  moreover have "fdVars st2 (m, n) \<noteq> None" using st1(2) st2(1) by (auto simp: good_step_def api_le_def)
  ultimately show ?case using st2(2) by auto
qed

text \<open>All seven message initialisations are one scheme.\<close>

fun initOf :: "init_fn \<Rightarrow> (string \<times> string list) option" where
  "initOf InitParams = Some (''Params'', [''mint_denom'', ''mint_amount'', ''mint_enabled''])"
| "initOf InitGenesisState = Some (''GenesisState'', [''params''])"
| "initOf InitQueryParamsRequest = Some (''QueryParamsRequest'', [])"
| "initOf InitQueryParamsResponse = Some (''QueryParamsResponse'', [''params''])"
| "initOf InitMsgUpdateParams = Some (''MsgUpdateParams'', [''authority'', ''params''])"
| "initOf InitMsgUpdateParamsResponse = Some (''MsgUpdateParamsResponse'', [])"
| "initOf InitModule = Some (''Module'', [''authority''])"
| "initOf (InitFile f) = None"

lemma bindS_lift_unit [simp]: "bindS a (\<lambda>u. lift (Inr ())) = a"
  by (auto simp: bindS_def lift_def split: prod.splits sum.splits)

lemma runInit_initMessage:
  assumes "initOf i = Some (m, ns)"
  shows "runInit L i = bindS (fileInit L (messageFile m)) (\<lambda>_.
    bindS (lookupMessage L (messageFile m) m) (\<lambda>_. forS (lookupField L m) ns))"
  using assms by (cases i) (clarsimp simp: messageFile_def init_Params_def init_GenesisState_def
      init_QueryParamsRequest_def init_QueryParamsResponse_def init_MsgUpdateParams_def
      init_MsgUpdateParamsResponse_def init_Module_def)+

definition messageNames :: "file_schema \<Rightarrow> (string \<times> string list) list" where
  "messageNames sch = map (\<lambda>ms. (msName ms, map fsName (msFields ms))) (flMessages sch)"

lemma messageNames_schemaOf [simp]:
  "messageNames (schemaOf DParams) = [(''Params'', [''mint_denom'', ''mint_amount'', ''mint_enabled''])]"
  "messageNames (schemaOf DGenesis) = [(''GenesisState'', [''params''])]"
  "messageNames (schemaOf DQuery) = [(''QueryParamsRequest'', []), (''QueryParamsResponse'', [''params''])]"
  "messageNames (schemaOf DTx) =
     [(''MsgUpdateParams'', [''authority'', ''params'']), (''MsgUpdateParamsResponse'', [])]"
  "messageNames (schemaOf DModule) = [(''Module'', [''authority''])]"
  by (simp_all add: messageNames_def schema_defs)

lemma declaresMessageI:
  assumes "(m, ns) \<in> set (messageNames (schemaOf (messageFile m)))"
  shows "declaresMessage m ns"
  using assms by (force simp: messageNames_def declaresMessage_def)

lemma initOf_declares: "initOf i = Some (m, ns) \<Longrightarrow> declaresMessage m ns"
  by (cases i) (clarsimp simp: messageFile_def simp del: schemaOf.simps intro!: declaresMessageI)+

text \<open>What an initialisation leaves behind, and that running it again finds it there.\<close>

definition initialised :: "('file, 'md, 'fd) api_vars \<Rightarrow> init_fn \<Rightarrow> bool" where
  "initialised st i \<longleftrightarrow>
     (case initOf i of
        None \<Rightarrow> (\<forall>f. i = InitFile f \<longrightarrow> vFile (fileVars st f) \<noteq> None)
      | Some (m, ns) \<Rightarrow> mdVars st m \<noteq> None \<and> (\<forall>n \<in> set ns. fdVars st (m, n) \<noteq> None))"

lemma api_le_found:
  assumes "api_le st st'"
  shows "vFile (fileVars st f) \<noteq> None \<Longrightarrow> vFile (fileVars st' f) \<noteq> None"
    "mdVars st m \<noteq> None \<Longrightarrow> mdVars st' m \<noteq> None" "fdVars st k \<noteq> None \<Longrightarrow> fdVars st' k \<noteq> None"
  using assms unfolding api_le_def by blast+

lemma initialised_mono: "initialised st i \<Longrightarrow> api_le st st' \<Longrightarrow> initialised st' i"
  unfolding initialised_def using api_le_found [of st st'] by (auto split: option.splits)

lemma runInit_step:
  assumes ok: "protoimpl_ok L fdName" and inv: "api_inv L fdName st"
  shows "\<exists>st'. good_step L fdName (runInit L i) st st' \<and> initialised st' i"
proof (cases "initOf i")
  case None
  then obtain f where "i = InitFile f" by (cases i) simp_all
  with fileInit_step [OF ok inv, of f] show ?thesis by (simp add: initialised_def)
next
  case (Some mn)
  then obtain m ns where i: "initOf i = Some (m, ns)" by (cases mn) simp
  note decl = initOf_declares [OF i]
  obtain st1 where st1: "good_step L fdName (fileInit L (messageFile m)) st st1"
    "vFile (fileVars st1 (messageFile m)) \<noteq> None" using fileInit_step [OF ok inv] by blast
  then obtain st2 where st2: "good_step L fdName (lookupMessage L (messageFile m) m) st1 st2" "mdVars st2 m \<noteq> None"
    using lookupMessage_step [of L fdName st1 m ns] decl unfolding good_step_def by blast
  then obtain st3 where st3: "good_step L fdName (forS (lookupField L m) ns) st2 st3"
    "\<forall>n \<in> set ns. fdVars st3 (m, n) \<noteq> None"
    using lookupFields_step [of L fdName st2 m ns ns] decl unfolding good_step_def by blast
  have "good_step L fdName (runInit L i) st st3"
    unfolding runInit_initMessage [OF i] by (intro good_step_bindS [OF st1(1) good_step_bindS [OF st2(1) st3(1)]])
  moreover have "mdVars st3 m \<noteq> None" using st2(2) st3(1) by (auto simp: good_step_def api_le_def)
  ultimately show ?thesis using i st3(2) by (auto simp: initialised_def)
qed

lemma runInits_step:
  assumes ok: "protoimpl_ok L fdName" and inv: "api_inv L fdName st"
  shows "\<exists>st'. good_step L fdName (forS (runInit L) is) st st' \<and> (\<forall>i \<in> set is. initialised st' i)"
  using inv
proof (induction "is" arbitrary: st)
  case Nil
  then show ?case by (intro exI [of _ st]) (simp add: good_step_def lift_def)
next
  case (Cons i "is")
  obtain st1 where st1: "good_step L fdName (runInit L i) st st1" "initialised st1 i"
    using runInit_step [OF ok Cons.prems] by blast
  then obtain st2 where st2: "good_step L fdName (forS (runInit L) is) st1 st2" "\<forall>i \<in> set is. initialised st2 i"
    using Cons.IH unfolding good_step_def by blast
  have "good_step L fdName (forS (runInit L) (i # is)) st st2" using good_step_bindS [OF st1(1) st2(1)] by simp
  with st1(2) st2 initialised_mono [of st1 i st2] show ?case unfolding good_step_def by auto
qed

lemma lookupFields_again:
  assumes "mdVars st m = Some md" "\<forall>n \<in> set ns. fdVars st (m, n) = FieldsByName L md n"
  shows "forS (lookupField L m) ns st = (st, Inr ())"
proof -
  have "lookupField L m n st = (st, Inr ())" if "n \<in> set ns" for n
    using that assms fun_upd_triv [of "fdVars st" "(m, n)"] by (simp add: lookupField_def)
  then show ?thesis by (induction ns) (simp_all add: lift_def bindS_def)
qed

lemma runInit_again:
  assumes inv: "api_inv L fdName st" and i: "initialised st i"
  shows "runInit L i st = (st, Inr ())"
proof (cases "initOf i")
  case None
  then obtain f where "i = InitFile f" by (cases i) simp_all
  with i fileInit_built [of st f L] show ?thesis by (simp add: initialised_def)
next
  case (Some mn)
  then obtain m ns where mn: "initOf i = Some (m, ns)" by (cases mn) simp
  with i obtain md where md: "mdVars st m = Some md" "\<forall>n \<in> set ns. fdVars st (m, n) \<noteq> None"
    by (auto simp: initialised_def)
  then obtain out where out: "vFile (fileVars st (messageFile m)) = Some out" "MessagesByName L out m = Some md"
    using inv unfolding api_inv_def by blast
  have "fdVars st (m, n) = FieldsByName L md n" if "n \<in> set ns" for n
    using inv md that unfolding api_inv_def by fastforce
  with md(1) have fields: "forS (lookupField L m) ns st = (st, Inr ())" by (intro lookupFields_again) blast+
  have msg: "lookupMessage L (messageFile m) m st = (st, Inr ())"
    using out md(1) fun_upd_triv [of "mdVars st" m] by (simp add: lookupMessage_def)
  have "fileInit L (messageFile m) st = (st, Inr ())" using out(1) by (intro fileInit_built) simp
  with msg fields show ?thesis unfolding runInit_initMessage [OF mn] by (simp add: bindS_def)
qed

lemma initialised_fields:
  assumes inv: "api_inv L fdName st" and i: "initialised st i" "initOf i = Some (m, ns)"
  shows "mdVars st m \<noteq> None \<and> (\<forall>n \<in> set ns. \<exists>fd. fdVars st (m, n) = Some fd \<and> fdName fd = fullName m n)"
proof -
  from i obtain md where md: "mdVars st m = Some md" "\<forall>n \<in> set ns. fdVars st (m, n) \<noteq> None"
    by (auto simp: initialised_def)
  have "\<exists>fd. fdVars st (m, n) = Some fd \<and> fdName fd = fullName m n" if n: "n \<in> set ns" for n
  proof -
    obtain fd where fd: "fdVars st (m, n) = Some fd" using md(2) n by blast
    then have "FieldsByName L md n = Some fd" using inv md(1) unfolding api_inv_def by fastforce
    with message_found [OF inv md(1) initOf_declares [OF i(2)] n] fd show ?thesis by simp
  qed
  with md(1) show ?thesis by simp
qed

section \<open>Reachable states\<close>

text \<open>Initialisations and calls of the compressing functions, in any order.\<close>

inductive api_reachable :: "('file, 'md, 'fd) protoimpl \<Rightarrow> ('file, 'md, 'fd) api_vars \<Rightarrow> bool"
  for L where
  start: "api_reachable L initialVars"
| initialise: "api_reachable L st \<Longrightarrow> runInit L i st = (st', r) \<Longrightarrow> api_reachable L st'"
| compress: "api_reachable L st \<Longrightarrow> rawDescGZIP L f st = (st', d) \<Longrightarrow> api_reachable L st'"

lemma rawDescGZIP_step:
  assumes inv: "api_inv L fdName st"
  shows "\<exists>st'. rawDescGZIP L f st = (st', Inr (CompressGZIP L (encodeFile (schemaOf f)))) \<and>
    api_inv L fdName st' \<and> api_le st st'"
proof -
  let ?v = "fileVars st f"
  have v: "file_inv L fdName f ?v" using inv by (simp add: api_inv_def)
  note table = initialFile_rawDesc [of f, where 'a='a]
  show ?thesis
  proof (cases "vOnce ?v")
    case True
    with v table inv show ?thesis by (intro exI [of _ st]) (simp add: rawDescGZIP_def file_inv_def)
  next
    case False
    let ?v' = "?v\<lparr>vOnce := True, vRawDescData := CompressGZIP L (vRawDescData ?v)\<rparr>"
    have "rawDescGZIP L f st = (setFile f ?v' st, Inr (CompressGZIP L (encodeFile (schemaOf f))))"
      using False v table by (simp add: rawDescGZIP_def file_inv_def Let_def)
    moreover have "file_inv L fdName f ?v'" using False v by (cases "vFile ?v") (simp_all add: file_inv_def)
    then have "api_inv L fdName (setFile f ?v' st)" by (intro api_inv_setFile [OF inv]) simp_all
    moreover have "api_le st (setFile f ?v' st)" by (simp add: api_le_def)
    ultimately show ?thesis by blast
  qed
qed

lemma api_reachable_inv:
  assumes "protoimpl_ok L fdName" "api_reachable L st"
  shows "api_inv L fdName st"
  using assms(2)
proof induction
  case start
  show ?case by (rule api_inv_initial)
next
  case (initialise st i st' r)
  with runInit_step [OF assms(1) initialise.IH, of i] show ?case by (auto simp: good_step_def)
next
  case (compress st f st' d)
  with rawDescGZIP_step [OF compress.IH, of f] show ?case by auto
qed

end
