(* ===== verification/FixedmintModule.thy ===== *)
theory FixedmintModule
  imports Services
begin

text \<open>
  \<open>x/fixedmint/module\<close>: the genesis functions, the application module with its block hooks, its
  registrations and its wiring, the simulation's genesis, and the chain as a state machine whose
  steps are the module's operations and whatever other modules do.
\<close>

section \<open>genesis.go\<close>

definition InitGenesis :: "('s, 'i, 'k) Keeper \<Rightarrow> 'i GenesisState \<Rightarrow> ('s, unit) act" where
  "InitGenesis k genState s =
     (let (s', r) = SetParams k (gsParams genState) s in (s', panicking r))"

definition ExportGenesis ::
  "('i, 'z) math_Int_scheme \<Rightarrow> ('s, 'i, 'k) Keeper \<Rightarrow> 's \<Rightarrow> 'i GenesisState res" where
  "ExportGenesis I k s =
     bindR (GetParams I k s) (\<lambda>p. Inr ((DefaultGenesis I)\<lparr>gsParams := p\<rparr>))"

section \<open>module.go\<close>

text \<open>\<open>codec.JSONCodec\<close> at the genesis state.\<close>

record 'i JSONCodec =
  MustMarshalJSON :: "'i GenesisState \<Rightarrow> bytes ext"
  UnmarshalJSON :: "bytes \<Rightarrow> 'i GenesisState ext"
  MustUnmarshalJSON :: "bytes \<Rightarrow> 'i GenesisState ext"

record 'i AppModuleBasic =
  basicCdc :: "'i BinaryCodec"

definition NewAppModuleBasic :: "'i BinaryCodec \<Rightarrow> 'i AppModuleBasic" where
  "NewAppModuleBasic c = \<lparr>basicCdc = c\<rparr>"

definition AppModuleBasic_Name :: "'i AppModuleBasic \<Rightarrow> string" where
  "AppModuleBasic_Name b = ModuleName"

definition AppModuleBasic_DefaultGenesis ::
  "('i, 'z) math_Int_scheme \<Rightarrow> 'i JSONCodec \<Rightarrow> bytes res" where
  "AppModuleBasic_DefaultGenesis I j = ext (MustMarshalJSON j (DefaultGenesis I))"

definition ValidateGenesis ::
  "('i, 'z) math_Int_scheme \<Rightarrow> 'i JSONCodec \<Rightarrow> bytes \<Rightarrow> unit res" where
  "ValidateGenesis I j bz =
     (case ext (UnmarshalJSON j bz) of
        Inl e \<Rightarrow> Inl (if is_panic e then e
                     else Wrapped (''failed to unmarshal '' @ ModuleName @ '' genesis state'') e)
      | Inr genState \<Rightarrow> GenesisState_Validate I genState)"

definition RegisterGRPCGatewayRoutes :: "('mux \<Rightarrow> 'mux \<times> unit res) \<Rightarrow> 'mux \<Rightarrow> 'mux \<times> unit res" where
  "RegisterGRPCGatewayRoutes registerClient mux =
     (let (mux', r) = registerClient mux in (mux', panicking r))"

record ('s, 'i, 'k, 'a) AppModule =
  amBasic :: "'i AppModuleBasic"
  amKeeper :: "('s, 'i, 'k) Keeper"
  amAccountKeeper :: 'a
  amBankKeeper :: "('s, 'k) BankKeeper"

definition NewAppModule ::
  "'i BinaryCodec \<Rightarrow> ('s, 'i, 'k) Keeper \<Rightarrow> 'a \<Rightarrow> ('s, 'k) BankKeeper \<Rightarrow> ('s, 'i, 'k, 'a) AppModule" where
  "NewAppModule c k accountKeeper bk =
     \<lparr>amBasic = NewAppModuleBasic c, amKeeper = k, amAccountKeeper = accountKeeper, amBankKeeper = bk\<rparr>"

text \<open>What is registered: the message server and the keeper itself as query server.\<close>

datatype ('s, 'i, 'k) server = MsgImpl "('s, 'i, 'k) msgServer" | QueryImpl "('s, 'i, 'k) Keeper"

record ('s, 'i, 'k) Configurator =
  cfgMsgServer :: "(ServiceDesc \<times> ('s, 'i, 'k) server) list"
  cfgQueryServer :: "(ServiceDesc \<times> ('s, 'i, 'k) server) list"

definition RegisterServices ::
  "('s, 'i, 'k, 'a) AppModule \<Rightarrow> ('s, 'i, 'k) Configurator \<Rightarrow> ('s, 'i, 'k) Configurator" where
  "RegisterServices am cfg =
     cfg\<lparr>cfgMsgServer := RegisterMsgServer (cfgMsgServer cfg) (MsgImpl (NewMsgServerImpl (amKeeper am))),
         cfgQueryServer := RegisterQueryServer (cfgQueryServer cfg) (QueryImpl (amKeeper am))\<rparr>"

definition AppModule_RegisterInvariants ::
  "('i, 'c, 'k) Coins \<Rightarrow> Addresses \<Rightarrow> ('s, 'i, 'k, 'a) AppModule \<Rightarrow> 's route list \<Rightarrow> 's route list" where
  "AppModule_RegisterInvariants C A am ir = RegisterInvariants C A ir (amKeeper am)"

definition AppModule_InitGenesis ::
  "'i JSONCodec \<Rightarrow> ('s, 'i, 'k, 'a) AppModule \<Rightarrow> bytes \<Rightarrow> ('s, unit) act" where
  "AppModule_InitGenesis j am gs =
     bindS (lift (ext (MustUnmarshalJSON j gs))) (\<lambda>genState. InitGenesis (amKeeper am) genState)"

definition AppModule_ExportGenesis ::
  "('i, 'z) math_Int_scheme \<Rightarrow> 'i JSONCodec \<Rightarrow> ('s, 'i, 'k, 'a) AppModule \<Rightarrow> 's \<Rightarrow> bytes res" where
  "AppModule_ExportGenesis I j am s =
     bindR (ExportGenesis I (amKeeper am) s) (\<lambda>genState. ext (MustMarshalJSON j genState))"

definition ConsensusVersion :: "('s, 'i, 'k, 'a) AppModule \<Rightarrow> u64" where
  "ConsensusVersion am = 1"

definition BeginBlock ::
  "('i, 'z) math_Int_scheme \<Rightarrow> ('i, 'c, 'k) Coins \<Rightarrow> Addresses \<Rightarrow> ('s, 'i, 'k, 'a) AppModule \<Rightarrow> ('s, unit) act"
where
  "BeginBlock I C A am = MintFixedBlockReward I C A (amKeeper am)"

definition EndBlock :: "('s, 'i, 'k, 'a) AppModule \<Rightarrow> ('s, unit) act" where
  "EndBlock am = lift (Inr ())"

record ('s, 'i, 'k, 'a) ModuleInputs =
  inStoreService :: "'s KVStore"
  inCdc :: "'i BinaryCodec"
  inConfigAuthority :: string
  inAccountKeeper :: 'a
  inBankKeeper :: "('s, 'k) BankKeeper"

text \<open>The configured authority, or the governance module's address.\<close>

definition ProvideModule ::
  "Addresses \<Rightarrow> ('s, 'i, 'k, 'a) ModuleInputs \<Rightarrow> (('s, 'i, 'k) Keeper \<times> ('s, 'i, 'k, 'a) AppModule) res" where
  "ProvideModule A i =
     (let auth = (if inConfigAuthority i \<noteq> '''' then NewModuleAddressOrBech32Address A (inConfigAuthority i)
                  else NewModuleAddress A (govModuleName A))
      in bindR (NewKeeper A (inCdc i) (inStoreService i) (AccAddress_String A auth) (inBankKeeper i)) (\<lambda>k.
         Inr (k, NewAppModule (inCdc i) k (inAccountKeeper i) (inBankKeeper i))))"

section \<open>simulation.go\<close>

text \<open>The simulator's genesis: one JSON entry per module.\<close>

definition GenerateGenesisState ::
  "('i, 'z) math_Int_scheme \<Rightarrow> 'i JSONCodec \<Rightarrow> (string \<Rightarrow> bytes option) \<Rightarrow> (string \<Rightarrow> bytes option) res" where
  "GenerateGenesisState I j genState =
     bindR (ext (MustMarshalJSON j \<lparr>gsParams = DefaultParams I\<rparr>)) (\<lambda>bz. Inr (genState(ModuleName \<mapsto> bz)))"

definition WeightedOperations :: "'o list" where
  "WeightedOperations = []"

definition ProposalMsgs :: "'o list" where
  "ProposalMsgs = []"

section \<open>Genesis\<close>

text \<open>Genesis stores its parameters, whatever they are, and only fails by a panic.\<close>

lemma InitGenesis_stores:
  assumes "codec_ok I (cdc k)" "store_ok (storeService k) W" "Params_ok I t (gsParams g)"
  shows "\<exists>s'. InitGenesis k g s = (s', Inr ()) \<and> W s' = putParams t (gsParams g) (W s)"
  using param_store.set_view [where I = I and k = k and W = W and t = t and p = "gsParams g" and s = s]
    assms by (auto simp: InitGenesis_def)

lemma InitGenesis_error_panics:
  assumes "InitGenesis k g s = (s', Inl e)"
  shows "is_panic e"
proof (cases "snd (SetParams k (gsParams g) s)")
  case (Inl e')
  with assms show ?thesis
    by (cases "SetParams k (gsParams g) s") (auto simp: InitGenesis_def split: if_splits)
next
  case (Inr u)
  with assms show ?thesis by (cases "SetParams k (gsParams g) s") (auto simp: InitGenesis_def)
qed

text \<open>Export after import gives the imported genesis back.\<close>

lemma Export_Init:
  assumes "codec_ok I (cdc k)" "store_ok (storeService k) W" "Params_ok I t (gsParams g)"
  shows "ExportGenesis I k (fst (InitGenesis k g s)) = Inr g"
proof -
  have "GetParams I k (fst (SetParams k (gsParams g) s)) = Inr (gsParams g)"
    by (rule param_store.get_set [where W = W and t = t]) (use assms in auto)
  then show ?thesis
    by (cases "SetParams k (gsParams g) s") (simp add: ExportGenesis_def InitGenesis_def DefaultGenesis_def)
qed

section \<open>The chain\<close>

text \<open>Blocks that only run this module: \<open>n\<close> begin blocks in a row, stopping at the first failure.\<close>

fun runBlocks ::
  "('i, 'z) math_Int_scheme \<Rightarrow> ('i, 'c, 'k) Coins \<Rightarrow> Addresses \<Rightarrow> ('s, 'i, 'k, 'a) AppModule \<Rightarrow> nat \<Rightarrow>
   ('s, unit) act" where
  "runBlocks I C A am 0 = lift (Inr ())"
| "runBlocks I C A am (Suc n) =
     bindS (BeginBlock I C A am) (\<lambda>_. bindS (EndBlock am) (\<lambda>_. runBlocks I C A am n))"

lemma BeginBlock_refines:
  assumes "keeper_ok I C A (amKeeper am) W valid val amt"
    and "lookParams I (W s) = Some p" "mintable I valid val p" "\<And>d. 0 \<le> bal (W s) ModuleName d"
  shows "\<exists>s'. BeginBlock I C A am s = (s', Inr ()) \<and> W s' = specBlock A val p (W s)"
  unfolding BeginBlock_def using assms by (rule Mint_refines)

lemma bal_module_specBlock:
  "FeeCollectorName A \<noteq> m \<Longrightarrow> bal (specBlock A val p w) m = bal w m"
  by (simp add: specBlock_def reward_def Let_def)

text \<open>\<open>n\<close> blocks mint \<open>n\<close> times the amount.\<close>

lemma runBlocks_refines:
  assumes k: "keeper_ok I C A (amKeeper am) W valid val amt" and m: "mintable I valid val p"
  shows "lookParams I (W s) = Some p \<Longrightarrow> (\<And>d. 0 \<le> bal (W s) ModuleName d) \<Longrightarrow>
    \<exists>s'. runBlocks I C A am n s = (s', Inr ()) \<and>
      W s' = (if MintEnabled p then reward A (MintDenom p) (int n * val (MintAmount p)) (W s) else W s)"
proof (induction n arbitrary: s)
  case 0
  then show ?case by (simp add: lift_def)
next
  case (Suc n)
  obtain s1 where s1: "BeginBlock I C A am s = (s1, Inr ())" "W s1 = specBlock A val p (W s)"
    using BeginBlock_refines [OF k Suc.prems(1) m Suc.prems(2)] by blast
  have "lookParams I (W s1) = Some p" using Suc.prems(1) lookParams_kv [of "W s1" "W s" I] s1(2) by simp
  moreover have "0 \<le> bal (W s1) ModuleName d" for d
    using Suc.prems(2) keeper_okD(4) [OF k] by (simp add: s1(2) bal_module_specBlock)
  ultimately obtain s' where s': "runBlocks I C A am n s1 = (s', Inr ())"
      "W s' = (if MintEnabled p then reward A (MintDenom p) (int n * val (MintAmount p)) (W s1) else W s1)"
    using Suc.IH by blast
  have "W s' = (if MintEnabled p then reward A (MintDenom p) (int (Suc n) * val (MintAmount p)) (W s)
                else W s)"
    using s1(2) s'(2) by (simp add: specBlock_def reward_add algebra_simps)
  with s1(1) s'(1) show ?case by (auto simp: bindS_def EndBlock_def lift_def)
qed

text \<open>
  The chain as the module sees it: begin blocks that succeed, accepted parameter updates whose
  parameters the authority allows, and steps of other modules, which have no access to the
  module's store key and do not touch its account.
\<close>

inductive chain_step ::
  "('i, 'z) math_Int_scheme \<Rightarrow> ('i, 'c, 'k) Coins \<Rightarrow> Addresses \<Rightarrow> ('s, 'i, 'k, 'a) AppModule \<Rightarrow>
   ('s \<Rightarrow> world) \<Rightarrow> ('i Params \<Rightarrow> bool) \<Rightarrow> 's \<Rightarrow> 's \<Rightarrow> bool"
  for I C A am W allow where
  block: "BeginBlock I C A am s = (s', Inr ()) \<Longrightarrow> chain_step I C A am W allow s s'"
| endblock: "EndBlock am s = (s', Inr ()) \<Longrightarrow> chain_step I C A am W allow s s'"
| update: "UpdateParams (NewMsgServerImpl (amKeeper am)) req s = (s', Inr r) \<Longrightarrow>
     allow (msgParams req) \<Longrightarrow> chain_step I C A am W allow s s'"
| other: "kv (W s') ParamsKey = kv (W s) ParamsKey \<Longrightarrow> bal (W s') ModuleName = bal (W s) ModuleName \<Longrightarrow>
     chain_step I C A am W allow s s'"

text \<open>The module's invariant: parameters that can be read and are allowed, and an empty account.\<close>

definition module_inv ::
  "('i, 'z) math_Int_scheme \<Rightarrow> ('s \<Rightarrow> world) \<Rightarrow> ('i Params \<Rightarrow> bool) \<Rightarrow> 's \<Rightarrow> bool" where
  "module_inv I W allow s \<longleftrightarrow>
     (\<exists>p. lookParams I (W s) = Some p \<and> allow p) \<and> (\<forall>d. bal (W s) ModuleName d = 0)"

text \<open>What an authority may send: parameters the codec can carry, with an amount that has a sign.\<close>

definition well_formed ::
  "('i, 'z) math_Int_scheme \<Rightarrow> ('i \<Rightarrow> bytes) \<Rightarrow> ('i \<Rightarrow> int) \<Rightarrow> 'i Params \<Rightarrow> bool" where
  "well_formed I t val p \<longleftrightarrow> Params_ok I t p \<and> int_signs I val (MintAmount p)"

lemma module_inv_step:
  assumes k: "keeper_ok I C A (amKeeper am) W valid val amt"
    and allow: "\<And>p. allow p \<Longrightarrow> MintEnabled p \<longrightarrow> int_signs I val (MintAmount p)"
    and step: "chain_step I C A am W (\<lambda>p. allow p \<and> Params_ok I t p) s s'"
    and inv: "module_inv I W allow s"
  shows "module_inv I W allow s'"
proof -
  from inv obtain p where p: "lookParams I (W s) = Some p" "allow p"
    and z: "\<And>d. bal (W s) ModuleName d = 0"
    by (auto simp: module_inv_def)
  from step show ?thesis
  proof cases
    case block
    with Mint_success [OF k p(1) allow [OF p(2)], of s'] z
    have w: "W s' = specBlock A val p (W s)" by (simp add: BeginBlock_def)
    have "lookParams I (W s') = Some p" using p(1) w lookParams_kv [of "W s'" "W s" I] by simp
    with p(2) z w keeper_okD(4) [OF k] show ?thesis
      by (simp add: module_inv_def bal_module_specBlock)
  next
    case endblock
    with inv show ?thesis by (simp add: EndBlock_def lift_def)
  next
    case (update req r)
    let ?q = "msgParams req"
    have q: "Params_ok I t ?q" "allow ?q" using update by auto
    have a: "Authority req = authority (amKeeper am)"
      using UpdateParams_Inr_authority [OF update(1)] by (simp add: NewMsgServerImpl_def)
    have "W s' = putParams t ?q (W s)"
      using UpdateParams_accepts [of I "NewMsgServerImpl (amKeeper am)" W req t s] q(1) a
        keeper_okD(1) [OF k] update(1) by (auto simp: NewMsgServerImpl_def)
    with q z show ?thesis
      using param_store.look_put [OF q(1)] by (auto simp: module_inv_def putParams_def)
  next
    case other
    then have "lookParams I (W s') = lookParams I (W s)" by (simp add: lookParams_def)
    with other p z show ?thesis by (auto simp: module_inv_def)
  qed
qed

lemma module_inv_reachable:
  assumes "keeper_ok I C A (amKeeper am) W valid val amt"
    and "\<And>p. allow p \<Longrightarrow> MintEnabled p \<longrightarrow> int_signs I val (MintAmount p)"
    and "(chain_step I C A am W (\<lambda>p. allow p \<and> Params_ok I t p))\<^sup>*\<^sup>* s s'" "module_inv I W allow s"
  shows "module_inv I W allow s'"
  using assms(3,4) by induction (auto intro: module_inv_step [OF assms(1,2)])

end
