(* ===== verification/Strconv.thy ===== *)
theory Strconv
  imports Prelude
begin

text \<open>
  The decimal notation of Go's standard library, as far as the repository uses it:
  \<open>strconv.Itoa\<close> (also behind \<open>%d\<close>) and its inverse. The chain's tooling builds ports, node names
  and addresses with it; the sample amounts of the witnesses use it as their text.
\<close>

definition digit :: "nat \<Rightarrow> char" where
  "digit n = char_of (48 + n)"

function digits :: "nat \<Rightarrow> string" where
  "digits n = (if n < 10 then [digit n] else digits (n div 10) @ [digit (n mod 10)])"
  by pat_completeness auto
termination
  by (relation "measure id") auto

declare digits.simps [simp del]

definition Itoa :: "int \<Rightarrow> string" where
  "Itoa i = (if i < 0 then CHR ''-'' # digits (nat (- i)) else digits (nat i))"

definition isDigit :: "char \<Rightarrow> bool" where
  "isDigit c \<longleftrightarrow> 48 \<le> (of_char c :: nat) \<and> (of_char c :: nat) \<le> 57"

definition undigits :: "string \<Rightarrow> nat" where
  "undigits s = foldl (\<lambda>a c. 10 * a + (of_char c - 48)) 0 s"

definition parseInt :: "string \<Rightarrow> int option" where
  "parseInt s =
     (case s of
        [] \<Rightarrow> None
      | c # cs \<Rightarrow>
          if c = CHR ''-'' then
            (if cs \<noteq> [] \<and> list_all isDigit cs then Some (- int (undigits cs)) else None)
          else if list_all isDigit s then Some (int (undigits s)) else None)"

lemma of_char_digit: "n < 10 \<Longrightarrow> of_char (digit n) = 48 + n"
  by (simp add: digit_def of_char_of)

lemma isDigit_digit [simp]: "n < 10 \<Longrightarrow> isDigit (digit n)"
  by (simp add: isDigit_def of_char_digit)

lemma digits_isDigit: "list_all isDigit (digits n)"
proof (induction n rule: digits.induct)
  case (1 n)
  then show ?case by (subst digits.simps) auto
qed

lemma digits_not_Nil [simp]: "digits n \<noteq> []"
  by (subst digits.simps) simp

lemma undigits_digits: "undigits (digits n) = n"
proof (induction n rule: digits.induct)
  case (1 n)
  then show ?case
    by (subst digits.simps) (auto simp: undigits_def of_char_digit)
qed

lemma not_isDigit_minus: "\<not> isDigit (CHR ''-'')"
  by (simp add: isDigit_def)

lemma parseInt_Itoa: "parseInt (Itoa i) = Some i"
proof (cases "i < 0")
  case True
  then show ?thesis by (simp add: parseInt_def Itoa_def digits_isDigit undigits_digits)
next
  case False
  obtain c cs where cs: "digits (nat i) = c # cs" by (cases "digits (nat i)") auto
  then have "isDigit c" using digits_isDigit [of "nat i"] by simp
  then have "c \<noteq> CHR ''-''" using not_isDigit_minus by auto
  with False cs digits_isDigit [of "nat i"] undigits_digits [of "nat i"] show ?thesis
    by (simp add: parseInt_def Itoa_def)
qed

lemma Itoa_inject: "Itoa i = Itoa j \<longleftrightarrow> i = j"
  by (metis option.inject parseInt_Itoa)

lemma Itoa_not_Nil [simp]: "Itoa i \<noteq> []"
  by (simp add: Itoa_def)

end
