(* ===== verification/Sample.thy ===== *)
theory Sample
  imports FixedmintModule Strconv
begin

text \<open>
  One concrete world for the witnesses: an amount is an integer or nil with its decimal text, a chain
  is an association list and a list of ledger entries, coins are lists of denominations and
  amounts. It satisfies every contract the development states about code outside the repository, so
  none of them is contradictory.
\<close>

section \<open>Amounts\<close>

fun dec_text :: "int option \<Rightarrow> string" where
  "dec_text None = ''0''"
| "dec_text (Some n) = Itoa n"

definition dec_wire :: "int option \<Rightarrow> bytes" where
  "dec_wire x = bytes_of (dec_text x)"

definition dec_Int :: "int option math_Int" where
  "dec_Int =
     \<lparr>Int_zero = None,
      NewInt = Some,
      Int_Size = (\<lambda>x. length (dec_text x)),
      Int_MarshalTo = (\<lambda>x d. let t = dec_wire x in
         if length t \<le> length d then Inr (t @ drop (length t) d, length t)
         else Inl (Failed ''short buffer'')),
      Int_Unmarshal = (\<lambda>_ b. case parseInt (string_of b) of
         None \<Rightarrow> Inl (Failed ''not an integer'') | Some n \<Rightarrow> Inr (Some n)),
      Int_Equal = (\<lambda>x y. if x = None \<or> y = None then Inl (Panicked ''nil Int'') else Inr (x = y)),
      Int_IsNegative = (\<lambda>x. case x of None \<Rightarrow> Inl (Panicked ''nil Int'') | Some n \<Rightarrow> Inr (n < 0)),
      Int_IsZero = (\<lambda>x. case x of None \<Rightarrow> Inl (Panicked ''nil Int'') | Some n \<Rightarrow> Inr (n = 0))\<rparr>"

text \<open>The value of an amount; nil counts as one no coin can have.\<close>

definition dec_val :: "int option \<Rightarrow> int" where
  "dec_val x = (case x of None \<Rightarrow> -1 | Some n \<Rightarrow> n)"

lemma dec_writes [simp]: "int_writes dec_Int x (dec_wire x)"
  by (simp add: int_writes_def dec_Int_def dec_wire_def Let_def)

lemma dec_reads [simp]: "int_reads dec_Int (Some n) (dec_wire (Some n))"
  by (simp add: int_reads_def dec_Int_def dec_wire_def parseInt_Itoa)

lemma dec_signs [simp]: "int_signs dec_Int dec_val (Some n)"
  by (simp add: int_signs_def dec_Int_def dec_val_def)

lemma dec_Unmarshal_clean [simp]: "clean (ext (Int_Unmarshal dec_Int x b))"
  by (simp add: dec_Int_def split: option.splits)

section \<open>The chain\<close>

record chain =
  cstore :: "(bytes \<times> bytes) list"
  cledger :: "(string \<times> string \<times> int) list"
  cminted :: "(string \<times> int) list"

type_synonym coins = "(string \<times> int) list"

definition amount_of :: "coins \<Rightarrow> string \<Rightarrow> int" where
  "amount_of c d = sum_list (map snd (filter (\<lambda>(d', _). d' = d) c))"

definition balance :: "chain \<Rightarrow> string \<Rightarrow> coins" where
  "balance s m = map snd (filter (\<lambda>(m', _). m' = m) (cledger s))"

definition view :: "chain \<Rightarrow> world" where
  "view s = \<lparr>kv = map_of (cstore s), bal = \<lambda>m. amount_of (balance s m), supplyOf = amount_of (cminted s)\<rparr>"

definition sample_store :: "chain KVStore" where
  "sample_store =
     \<lparr>Get = \<lambda>s key. Inr (map_of (cstore s) key),
      Set = \<lambda>key v s. (s\<lparr>cstore := (key, v) # cstore s\<rparr>, Inr ())\<rparr>"

definition sample_codec :: "int option BinaryCodec" where
  "sample_codec =
     \<lparr>Marshal = \<lambda>p. (case Params_Marshal dec_Int p of Inr b \<Rightarrow> Inr b | Inl _ \<Rightarrow> Inl (Failed ''marshal'')),
      MustUnmarshal = \<lambda>m b. (case Params_Unmarshal dec_Int m b of
         Inr p \<Rightarrow> Inr p | Inl _ \<Rightarrow> Inl (Panicked ''unmarshal''))\<rparr>"

definition sample_valid :: "string \<Rightarrow> bool" where
  "sample_valid d \<longleftrightarrow> 3 \<le> length d"

definition sample_coins :: "(int option, string \<times> int, coins) Coins" where
  "sample_coins =
     \<lparr>NewCoin = \<lambda>d x. if sample_valid d \<and> 0 \<le> dec_val x then Inr (d, dec_val x)
        else Inl (Panicked ''invalid coin''),
      NewCoins = \<lambda>cs. Inr (filter (\<lambda>(_, n). n \<noteq> 0) cs),
      Coins_IsZero = \<lambda>cs. list_all (\<lambda>(d, _). amount_of cs d = 0) cs,
      Coins_String = \<lambda>cs. concat (map (\<lambda>(d, n). Itoa n @ d) cs)\<rparr>"

definition sample_bank :: "(chain, coins) BankKeeper" where
  "sample_bank =
     \<lparr>SpendableCoins = \<lambda>s a. balance s (string_of a),
      MintCoins = \<lambda>m c s.
        (s\<lparr>cledger := map (Pair m) c @ cledger s, cminted := c @ cminted s\<rparr>, Inr ()),
      SendCoinsFromModuleToModule = \<lambda>from to c s.
        if list_all (\<lambda>(d, _). amount_of c d \<le> amount_of (balance s from) d) c
        then (s\<lparr>cledger := map (Pair to) c @ map (\<lambda>(d, n). (from, d, - n)) c @ cledger s\<rparr>, Inr ())
        else (s, Inl (Failed ''insufficient funds''))\<rparr>"

definition sample_addr :: Addresses where
  "sample_addr =
     \<lparr>AccAddressFromBech32 = \<lambda>s. if s = '''' then Inl (Failed ''empty address string'') else Inr (bytes_of s),
      AccAddress_String = string_of,
      NewModuleAddress = bytes_of,
      NewModuleAddressOrBech32Address = bytes_of,
      FeeCollectorName = ''fee_collector'',
      govModuleName = ''gov'',
      FormatInvariant = \<lambda>m n msg. m @ '': '' @ n @ '' invariant'' @ msg\<rparr>"

definition sample_keeper :: "(chain, int option, coins) Keeper" where
  "sample_keeper = \<lparr>cdc = sample_codec, storeService = sample_store, authority = ''gov'', bankKeeper = sample_bank\<rparr>"

definition sample_app :: "(chain, int option, coins, unit) AppModule" where
  "sample_app = NewAppModule sample_codec sample_keeper () sample_bank"

definition genesis_chain :: chain where
  "genesis_chain = \<lparr>cstore = [], cledger = [], cminted = []\<rparr>"

section \<open>It satisfies the contracts\<close>

lemma sample_codec_ok: "codec_ok dec_Int sample_codec"
  by (simp add: codec_ok_def sample_codec_def)

lemma sample_store_ok: "store_ok sample_store view"
  by (simp add: store_ok_def sample_store_def view_def balance_def)

lemma amount_of_simps [simp]:
  "amount_of [] d = 0"
  "amount_of ((d', n) # c) d = (if d' = d then n else 0) + amount_of c d"
  "amount_of (c @ c') d = amount_of c d + amount_of c' d"
  by (simp_all add: amount_of_def)

lemma amount_of_absent: "d \<notin> fst ` set c \<Longrightarrow> amount_of c d = 0"
  by (induction c) auto

lemma balance_Pair [simp]:
  "balance (s\<lparr>cledger := map (Pair m') c @ l\<rparr>) m =
   (if m' = m then c else []) @ balance (s\<lparr>cledger := l\<rparr>) m"
  by (induction c) (auto simp: balance_def)

lemma balance_neg [simp]:
  "balance (s\<lparr>cledger := map (\<lambda>(d, n). (m', d, - n)) c @ l\<rparr>) m =
   (if m' = m then map (\<lambda>(d, n). (d, - n)) c else []) @ balance (s\<lparr>cledger := l\<rparr>) m"
  by (induction c) (auto simp: balance_def)

lemma balance_other [simp]:
  "balance (s\<lparr>cstore := x\<rparr>) m = balance s m" "balance (s\<lparr>cminted := y\<rparr>) m = balance s m"
  "balance (s\<lparr>cledger := cledger s\<rparr>) m = balance s m"
  by (simp_all add: balance_def)

lemma amount_of_neg [simp]: "amount_of (map (\<lambda>(d, n). (d, - n)) c) d = - amount_of c d"
  by (induction c) auto

lemma sample_zero:
  "list_all (\<lambda>(d, _). amount_of cs d = 0) cs \<longleftrightarrow> (\<forall>d. amount_of cs d = 0)"
  using amount_of_absent by (fastforce simp: list_all_iff)

lemma sample_bank_ok: "bank_ok sample_bank sample_coins sample_addr view amount_of"
proof -
  have mint: "view (s\<lparr>cledger := map (Pair m) c @ cledger s, cminted := c @ cminted s\<rparr>) =
      mint m (amount_of c) (view s)" for m c and s :: chain
  proof -
    have "balance (s\<lparr>cledger := map (Pair m) c @ cledger s, cminted := c @ cminted s\<rparr>) m' =
        (if m = m' then c else []) @ balance s m'" for m'
      using balance_Pair [where s = "s\<lparr>cminted := c @ cminted s\<rparr>" and m' = m and m = m' and c = c and l = "cledger s"]
      by (simp add: balance_def)
    then show ?thesis by (auto simp: view_def mint_def fun_eq_iff add.commute)
  qed
  have move: "view (s\<lparr>cledger := map (Pair to) c @ map (\<lambda>(d, n). (from, d, - n)) c @ cledger s\<rparr>) =
      move from to (amount_of c) (view s)" for "from" to c and s :: chain
    by (auto simp: view_def move_def Let_def fun_eq_iff)
  show ?thesis
    unfolding bank_ok_def
  proof (intro conjI allI impI)
    fix c s
    show "\<exists>s'. MintCoins sample_bank ModuleName c s = (s', Inr ()) \<and>
        view s' = mint ModuleName (amount_of c) (view s)"
      by (simp add: sample_bank_def mint)
  next
    fix c s
    assume "\<forall>d. amount_of c d \<le> bal (view s) ModuleName d"
    then have "list_all (\<lambda>(d, _). amount_of c d \<le> amount_of (balance s ModuleName) d) c"
      by (auto simp: list_all_iff view_def)
    then show "\<exists>s'. SendCoinsFromModuleToModule sample_bank ModuleName (FeeCollectorName sample_addr) c s =
          (s', Inr ()) \<and> view s' = move ModuleName (FeeCollectorName sample_addr) (amount_of c) (view s)"
      by (simp add: sample_bank_def move)
  next
    fix s
    show "Coins_IsZero sample_coins (SpendableCoins sample_bank s (NewModuleAddress sample_addr ModuleName)) =
        (\<forall>d. bal (view s) ModuleName d = 0)"
      by (simp add: sample_bank_def sample_coins_def sample_addr_def view_def sample_zero)
  qed
qed

lemma sample_coins_ok: "coins_ok sample_coins sample_valid dec_val amount_of"
  by (auto simp: coins_ok_def sample_coins_def fun_eq_iff)

lemma sample_keeper_ok: "keeper_ok dec_Int sample_coins sample_addr sample_keeper view sample_valid dec_val amount_of"
  by (simp add: keeper_ok_def sample_keeper_def sample_codec_ok sample_store_ok sample_bank_ok
      sample_coins_ok) (simp add: sample_addr_def ModuleName_def)

lemma sample_app_keeper [simp]: "amKeeper sample_app = sample_keeper"
  by (simp add: sample_app_def NewAppModule_def)

text \<open>A message with the given denomination, amount and flag, and the two the witnesses use.\<close>

definition sample_params :: "int option Params" where
  "sample_params = DefaultParams dec_Int"

lemma sample_params_fields [simp]:
  "MintDenom sample_params = ''ubluechip''" "MintAmount sample_params = Some 1000000"
  "MintEnabled sample_params"
  by (simp_all add: sample_params_def DefaultParams_def NewParams_def DefaultMintDenom_def
      DefaultMintAmount_def DefaultMintEnabled_def dec_Int_def)

text \<open>Messages that fit in a slice are handled; the length of a varint is at most ten.\<close>

lemma Params_ok_short:
  assumes "length (MintDenom p) < 2 ^ 32" "MintAmount p = Some n" "length (Itoa n) < 2 ^ 32"
  shows "Params_ok dec_Int dec_wire p"
proof -
  have "length (Params_wire dec_wire p) \<le> 24 + length (MintDenom p) + length (Itoa n)"
    using length_varint_le_10 [of "word_of_nat (length (MintDenom p))"]
      length_varint_le_10 [of "word_of_nat (length (Itoa n))"] assms(2)
    by (auto simp: Params_wire_def dec_wire_def)
  then have "go_slice (Params_wire dec_wire p)" using assms(1,3) by (simp add: go_slice_def)
  with assms(2) dec_writes [of "Some n"] show ?thesis by (simp add: Params_ok_def)
qed

end
