(* ===== verification/MintProperties.thy ===== *)
theory MintProperties
  imports Sample
begin

text \<open>
  The properties of the fixed mint module, each with a witness on the sample chain of \<open>Sample\<close>.
\<close>

section \<open>Facts about the sample the witnesses share\<close>

lemma sample_ok [simp]: "Params_ok dec_Int dec_wire sample_params"
proof -
  have "length (Itoa 1000000) = 7" by (simp add: Itoa_def digits.simps)
  then show ?thesis by (intro Params_ok_short [of _ 1000000]) simp_all
qed

lemma sample_mintable [simp]: "mintable dec_Int sample_valid dec_val sample_params"
  by (simp add: mintable_def) (simp add: dec_val_def sample_valid_def)

lemma sample_kok [simp]:
  "codec_ok dec_Int (cdc sample_keeper)" "store_ok (storeService sample_keeper) view"
  using keeper_okD(1) [OF sample_keeper_ok] by simp_all

text \<open>The sample chain after genesis with the default parameters.\<close>

definition sample_start :: chain where
  "sample_start = fst (InitGenesis sample_keeper \<lparr>gsParams = sample_params\<rparr> genesis_chain)"

lemma sample_start_view: "view sample_start = putParams dec_wire sample_params (view genesis_chain)"
proof -
  obtain s' where "InitGenesis sample_keeper \<lparr>gsParams = sample_params\<rparr> genesis_chain = (s', Inr ())"
      "view s' = putParams dec_wire sample_params (view genesis_chain)"
    using InitGenesis_stores [OF sample_kok, of dec_wire "\<lparr>gsParams = sample_params\<rparr>" genesis_chain]
    by auto
  then show ?thesis by (simp add: sample_start_def)
qed

lemma sample_start_params [simp]: "lookParams dec_Int (view sample_start) = Some sample_params"
  using param_store.look_put [OF sample_ok] by (simp add: sample_start_view)

lemma sample_start_bal [simp]: "bal (view sample_start) m d = 0" "supplyOf (view sample_start) d = 0"
proof -
  have "bal (view genesis_chain) m d = 0" "supplyOf (view genesis_chain) d = 0"
    by (simp_all add: view_def balance_def genesis_chain_def)
  then show "bal (view sample_start) m d = 0" "supplyOf (view sample_start) d = 0"
    by (simp_all add: sample_start_view putParams_def)
qed

section \<open>The block reward\<close>

text \<open>
  C1. Refinement of the block reward: when the stored parameters are readable and can be acted on,
  \<open>BeginBlock\<close> returns without error and its effect on the ledger is exactly the
  specification's: if minting is enabled the amount is created and credited to the fee collector,
  the supply of that one denomination grows by it, and nothing else changes (in particular the module
  account and the stored parameters).
\<close>

theorem block_reward_refines_spec:
  assumes "keeper_ok I C A (amKeeper am) W valid val amt"
    and "lookParams I (W s) = Some p" and "mintable I valid val p"
    and "\<And>d. 0 \<le> bal (W s) ModuleName d"
  shows "\<exists>s'. BeginBlock I C A am s = (s', Inr ()) \<and> W s' = specBlock A val p (W s)"
  using assms by (rule BeginBlock_refines)

theorem block_reward_refines_spec_witness:
  "\<exists>s'. BeginBlock dec_Int sample_coins sample_addr sample_app sample_start = (s', Inr ()) \<and>
        view s' = reward sample_addr ''ubluechip'' 1000000 (view sample_start)"
  using block_reward_refines_spec [of dec_Int sample_coins sample_addr sample_app view sample_valid
      dec_val amount_of sample_start sample_params] sample_keeper_ok
  by (simp add: specBlock_def dec_val_def)

text \<open>
  C2. Emission is linear: after \<open>n\<close> blocks under unchanged, enabled parameters the supply of the
  mint denomination and the fee collector's balance have each grown by exactly \<open>n\<close> times the
  amount, the module account holds what it held, and every other denomination's supply is unchanged.
\<close>

theorem emission_is_linear:
  assumes "keeper_ok I C A (amKeeper am) W valid val amt"
    and "lookParams I (W s) = Some p" "mintable I valid val p" "MintEnabled p"
    and "\<And>d. 0 \<le> bal (W s) ModuleName d"
  shows "\<exists>s'. runBlocks I C A am n s = (s', Inr ()) \<and>
    (\<forall>d. supplyOf (W s') d = supplyOf (W s) d +
       (if d = MintDenom p then int n * val (MintAmount p) else 0)) \<and>
    (\<forall>d. bal (W s') (FeeCollectorName A) d = bal (W s) (FeeCollectorName A) d +
       (if d = MintDenom p then int n * val (MintAmount p) else 0)) \<and>
    (\<forall>m. m \<noteq> FeeCollectorName A \<longrightarrow> bal (W s') m = bal (W s) m)"
proof -
  obtain s' where s': "runBlocks I C A am n s = (s', Inr ())"
      "W s' = reward A (MintDenom p) (int n * val (MintAmount p)) (W s)"
    using runBlocks_refines [OF assms(1,3,2,5), of n] assms(4) by auto
  then show ?thesis by (intro exI [of _ s']) (simp add: reward_def Let_def)
qed

theorem emission_is_linear_witness:
  "\<exists>s'. runBlocks dec_Int sample_coins sample_addr sample_app 3 sample_start = (s', Inr ()) \<and>
        supplyOf (view s') ''ubluechip'' = 3000000"
  using emission_is_linear [of dec_Int sample_coins sample_addr sample_app view sample_valid
      dec_val amount_of sample_start sample_params 3] sample_keeper_ok
  by (auto simp: dec_val_def)

text \<open>
  C3. The reward is all or nothing in its success: a block that returns without error acted on
  parameters that could be minted and left exactly the specified ledger; there is no successful
  block that minted without forwarding, or minted another amount.
\<close>

theorem successful_block_meets_spec:
  assumes "keeper_ok I C A (amKeeper am) W valid val amt"
    and "lookParams I (W s) = Some p" "MintEnabled p \<longrightarrow> int_signs I val (MintAmount p)"
    and "\<And>d. 0 \<le> bal (W s) ModuleName d"
    and "BeginBlock I C A am s = (s', Inr ())"
  shows "mintable I valid val p \<and> W s' = specBlock A val p (W s)"
  using assms(1-4) assms(5) [unfolded BeginBlock_def] by (rule Mint_success)

theorem successful_block_meets_spec_witness:
  "view (fst (BeginBlock dec_Int sample_coins sample_addr sample_app sample_start)) =
   specBlock sample_addr dec_val sample_params (view sample_start)"
proof -
  obtain s' where "BeginBlock dec_Int sample_coins sample_addr sample_app sample_start = (s', Inr ())"
    using BeginBlock_refines [of dec_Int sample_coins sample_addr sample_app view sample_valid dec_val
        amount_of sample_start sample_params] sample_keeper_ok by auto
  then show ?thesis
    using successful_block_meets_spec [of dec_Int sample_coins sample_addr sample_app view sample_valid
        dec_val amount_of sample_start sample_params s'] sample_keeper_ok by simp
qed

section \<open>The chain as a state machine\<close>


lemma sample_start_inv:
  "allow sample_params \<Longrightarrow> module_inv dec_Int view allow sample_start"
  by (simp add: module_inv_def)

lemma sample_one_block:
  "(chain_step dec_Int sample_coins sample_addr sample_app view allow)\<^sup>*\<^sup>* sample_start
     (fst (BeginBlock dec_Int sample_coins sample_addr sample_app sample_start))"
proof -
  obtain s' where "BeginBlock dec_Int sample_coins sample_addr sample_app sample_start = (s', Inr ())"
    using BeginBlock_refines [of dec_Int sample_coins sample_addr sample_app view sample_valid dec_val
        amount_of sample_start sample_params] sample_keeper_ok by auto
  then show ?thesis by (auto intro: chain_step.block)
qed




text \<open>
  Infinite runs: begin blocks, whatever their result, and steps of the chain that do not lower the supply of \<open>d\<close>.
  While minting stays enabled with a positive amount of \<open>d\<close>, the supply never falls and grows at
  every block.
\<close>

definition emitting :: "('i, 'z) math_Int_scheme \<Rightarrow> (string \<Rightarrow> bool) \<Rightarrow> ('i \<Rightarrow> int) \<Rightarrow> string \<Rightarrow> 'i Params \<Rightarrow> bool" where
  "emitting I valid val d p \<longleftrightarrow>
     mintable I valid val p \<and> MintEnabled p \<and> MintDenom p = d \<and> 0 < val (MintAmount p)"

definition chain_run ::
  "('i, 'z) math_Int_scheme \<Rightarrow> ('i, 'c, 'k) Coins \<Rightarrow> Addresses \<Rightarrow> ('s, 'i, 'k, 'a) AppModule \<Rightarrow>
   ('s \<Rightarrow> world) \<Rightarrow> ('i Params \<Rightarrow> bool) \<Rightarrow> string \<Rightarrow> (nat \<Rightarrow> 's) \<Rightarrow> bool" where
  "chain_run I C A am W allow d \<sigma> \<longleftrightarrow> (\<forall>i. \<sigma> (Suc i) = fst (BeginBlock I C A am (\<sigma> i)) \<or>
     chain_step I C A am W allow (\<sigma> i) (\<sigma> (Suc i)) \<and> supplyOf (W (\<sigma> i)) d \<le> supplyOf (W (\<sigma> (Suc i))) d)"

lemma emitting_block:
  assumes k: "keeper_ok I C A (amKeeper am) W valid val amt" and inv: "module_inv I W (emitting I valid val d) s"
  shows "\<exists>s'. BeginBlock I C A am s = (s', Inr ()) \<and> supplyOf (W s) d < supplyOf (W s') d"
proof -
  obtain p where p: "lookParams I (W s) = Some p" "emitting I valid val d p" "\<And>d. 0 \<le> bal (W s) ModuleName d"
    using inv by (auto simp: module_inv_def)
  with BeginBlock_refines [OF k p(1) _ p(3)] obtain s' where
    "BeginBlock I C A am s = (s', Inr ())" "W s' = specBlock A val p (W s)" by (auto simp: emitting_def)
  with p(2) show ?thesis by (simp add: emitting_def specBlock_def reward_def Let_def)
qed

lemma chain_run_step:
  assumes k: "keeper_ok I C A (amKeeper am) W valid val amt"
    and run: "chain_run I C A am W (\<lambda>p. emitting I valid val d p \<and> Params_ok I t p) d \<sigma>"
    and inv: "module_inv I W (emitting I valid val d) (\<sigma> i)"
  shows "module_inv I W (emitting I valid val d) (\<sigma> (Suc i)) \<and> supplyOf (W (\<sigma> i)) d \<le> supplyOf (W (\<sigma> (Suc i))) d"
proof -
  note step = module_inv_step [OF k _ _ inv]
  consider (started) "\<sigma> (Suc i) = fst (BeginBlock I C A am (\<sigma> i))"
    | (other) "chain_step I C A am W (\<lambda>p. emitting I valid val d p \<and> Params_ok I t p) (\<sigma> i) (\<sigma> (Suc i))"
        "supplyOf (W (\<sigma> i)) d \<le> supplyOf (W (\<sigma> (Suc i))) d"
    using run by (auto simp: chain_run_def)
  then show ?thesis
  proof cases
    case started
    obtain s' where s': "BeginBlock I C A am (\<sigma> i) = (s', Inr ())" "supplyOf (W (\<sigma> i)) d < supplyOf (W s') d"
      using emitting_block [OF k inv] by blast
    have "module_inv I W (emitting I valid val d) s'"
      by (rule step [OF _ chain_step.block [OF s'(1)]]) (simp add: emitting_def mintable_def)
    with started s' show ?thesis by simp
  next
    case other
    have "module_inv I W (emitting I valid val d) (\<sigma> (Suc i))"
      by (rule step [OF _ other(1)]) (simp add: emitting_def mintable_def)
    with other(2) show ?thesis by simp
  qed
qed



text \<open>
  C7. Validation does not imply liveness: parameters that pass \<open>Params.Validate\<close> with a denomination
  the SDK rejects are accepted from the authority, and then every \<open>BeginBlock\<close> panics and leaves
  the state as it was.
\<close>

theorem validated_update_can_halt:
  assumes k: "keeper_ok I C A (amKeeper am) W valid val amt"
    and "Authority req = authority (amKeeper am)" and q: "Params_ok I t (msgParams req)"
    and v: "Params_Validate I (msgParams req) = Inr ()"
    and e: "MintEnabled (msgParams req)" "int_signs I val (MintAmount (msgParams req))"
      "val (MintAmount (msgParams req)) \<noteq> 0" "\<not> valid (MintDenom (msgParams req))"
  shows "\<exists>s' msg. UpdateParams (NewMsgServerImpl (amKeeper am)) req s = (s', Inr MsgUpdateParamsResponse) \<and>
    BeginBlock I C A am s' = (s', Inl (Panic msg))"
proof -
  obtain s' where s': "UpdateParams (NewMsgServerImpl (amKeeper am)) req s = (s', Inr MsgUpdateParamsResponse)"
      "W s' = putParams t (msgParams req) (W s)"
    using UpdateParams_accepts [of I "NewMsgServerImpl (amKeeper am)" W req t s] assms(2) q
      keeper_okD(1) [OF k] by (auto simp: NewMsgServerImpl_def)
  have "lookParams I (W s') = Some (msgParams req)"
    unfolding s'(2) by (rule param_store.look_put [OF q])
  then obtain msg where "BeginBlock I C A am s' = (s', Inl (Panic msg))"
    using Mint_panics [where W = W, OF k, of s' "msgParams req"] e
    unfolding BeginBlock_def int_signs_def by auto
  with s'(1) show ?thesis by blast
qed

definition sample_bad_update :: "int option MsgUpdateParams" where
  "sample_bad_update = \<lparr>Authority = ''gov'',
     msgParams = \<lparr>MintDenom = ''x'', MintAmount = Some 5, MintEnabled = True\<rparr>\<rparr>"

lemma sample_bad_ok: "Params_ok dec_Int dec_wire (msgParams sample_bad_update)"
  by (rule Params_ok_short [of _ 5]) (simp_all add: sample_bad_update_def Itoa_def digits.simps)

theorem validated_update_can_halt_witness:
  "\<exists>s' msg. UpdateParams (NewMsgServerImpl sample_keeper) sample_bad_update sample_start =
      (s', Inr MsgUpdateParamsResponse) \<and>
    BeginBlock dec_Int sample_coins sample_addr sample_app s' = (s', Inl (Panic msg))"
  using validated_update_can_halt [of dec_Int sample_coins sample_addr sample_app view sample_valid
      dec_val amount_of sample_bad_update dec_wire sample_start] sample_keeper_ok sample_bad_ok
  by (simp add: sample_bad_update_def sample_keeper_def Params_Validate_iff sample_valid_def
      dec_val_def) (simp add: dec_Int_def)

section \<open>The message server\<close>

text \<open>
  C8. The authority gate: a request of the keeper's authority stores exactly the requested parameters and
  is answered with an empty response; any other request is an error naming both addresses and
  changes nothing.
\<close>

theorem update_params_gate:
  assumes "codec_ok I (cdc k)" "store_ok (storeService k) W" "Params_ok I t (msgParams req)"
  shows "snd (UpdateParams (NewMsgServerImpl k) req s) =
      (if Authority req = authority k then Inr MsgUpdateParamsResponse
       else Inl (InvalidSigner (authority k) (Authority req))) \<and>
    GetParams I k (fst (UpdateParams (NewMsgServerImpl k) req s)) =
      (if Authority req = authority k then Inr (msgParams req) else GetParams I k s) \<and>
    (Authority req \<noteq> authority k \<longrightarrow> fst (UpdateParams (NewMsgServerImpl k) req s) = s)"
proof (cases "Authority req = authority k")
  case True
  then obtain s' where s': "UpdateParams (NewMsgServerImpl k) req s = (s', Inr MsgUpdateParamsResponse)"
      "W s' = putParams t (msgParams req) (W s)"
    using UpdateParams_accepts [of I "NewMsgServerImpl k" W req t s] assms
    by (auto simp: NewMsgServerImpl_def)
  have "lookParams I (W s') = Some (msgParams req)"
    unfolding s'(2) by (rule param_store.look_put [OF assms(3)])
  then have "GetParams I k s' = Inr (msgParams req)"
    by (rule param_store.get_view [where k = k and W = W, OF conjI [OF assms(1,2)]])
  with True s'(1) show ?thesis by simp
next
  case False
  then show ?thesis
    using UpdateParams_rejects [of req "NewMsgServerImpl k" s] by (simp add: NewMsgServerImpl_def)
qed

theorem update_params_gate_witness:
  "GetParams dec_Int sample_keeper
     (fst (UpdateParams (NewMsgServerImpl sample_keeper) sample_bad_update sample_start)) =
   Inr (msgParams sample_bad_update)"
  using update_params_gate [OF sample_kok sample_bad_ok, of sample_start]
  by (simp add: sample_bad_update_def sample_keeper_def)

text \<open>An update by the authority is what the store then holds.\<close>

lemma update_then_get:
  assumes "codec_ok I (cdc k)" "store_ok (storeService k) W"
    and "Params_ok I t (msgParams req)" "Authority req = authority k"
  shows "\<exists>s'. UpdateParams (NewMsgServerImpl k) req s = (s', Inr MsgUpdateParamsResponse) \<and>
    GetParams I k s' = Inr (msgParams req)"
proof -
  obtain s' where s': "UpdateParams (NewMsgServerImpl k) req s = (s', Inr MsgUpdateParamsResponse)"
      "W s' = putParams t (msgParams req) (W s)"
    using UpdateParams_accepts [of I "NewMsgServerImpl k" W req t s] assms
    by (auto simp: NewMsgServerImpl_def)
  have "lookParams I (W s') = Some (msgParams req)"
    unfolding s'(2) by (rule param_store.look_put [OF assms(3)])
  then have "GetParams I k s' = Inr (msgParams req)"
    by (rule param_store.get_view [where k = k and W = W, OF conjI [OF assms(1,2)]])
  with s'(1) show ?thesis by blast
qed

text \<open>
  Over a sequence of requests the last one of the authority decides: the parameters read
  afterwards are its, and those stored before if the authority sent none.
\<close>

lemma last_authorised_update_wins:
  assumes "codec_ok I (cdc k)" "store_ok (storeService k) W"
    and "\<forall>req \<in> set reqs. Params_ok I t (msgParams req)"
  shows "GetParams I k (foldl (\<lambda>s req. fst (UpdateParams (NewMsgServerImpl k) req s)) s reqs) =
    (case filter (\<lambda>req. Authority req = authority k) (rev reqs) of
       [] \<Rightarrow> GetParams I k s | req # _ \<Rightarrow> Inr (msgParams req))"
  using assms(3)
proof (induction reqs rule: rev_induct)
  case (snoc req reqs)
  let ?s = "foldl (\<lambda>s req. fst (UpdateParams (NewMsgServerImpl k) req s)) s reqs"
  show ?case
  proof (cases "Authority req = authority k")
    case True
    obtain s' where "UpdateParams (NewMsgServerImpl k) req ?s = (s', Inr MsgUpdateParamsResponse)"
        "GetParams I k s' = Inr (msgParams req)"
      using update_then_get [OF assms(1,2), of t req ?s] snoc.prems True by auto
    with True show ?thesis by simp
  next
    case False
    then show ?thesis
      using UpdateParams_rejects [of req "NewMsgServerImpl k" ?s] snoc by (simp add: NewMsgServerImpl_def)
  qed
qed simp

text \<open>
  C9. From the wire to the store: the bytes a client marshals for an update by the authority, decoded
  by the registered handler, store the client's parameters; querying through the query handler
  then returns them.
\<close>

theorem update_from_wire_then_query:
  assumes "codec_ok I (cdc k)" "store_ok (storeService k) W"
    and "MsgUpdateParams_ok I t req" "Authority req = authority k"
  shows "\<exists>b s'. MsgUpdateParams_Marshal I req = Inr b \<and>
    Msg_UpdateParams_Handler I (UpdateParams (NewMsgServerImpl k))
      (\<lambda>m. MsgUpdateParams_Unmarshal I m b) None s = (s', Inr MsgUpdateParamsResponse) \<and>
    Query_Params_Handler (\<lambda>q. readS (Query_Params I k (Some q))) Inr None s' =
      (s', Inr \<lparr>respParams = msgParams req\<rparr>)"
proof -
  have m: "MsgUpdateParams_Marshal I req = Inr (MsgUpdateParams_wire t req)"
    unfolding MsgUpdateParams_Marshal_def by (rule updateParams.marshal_wire [OF assms(3)])
  have "Params_ok I t (msgParams req)" using assms(3) by (simp add: MsgUpdateParams_ok_def)
  then obtain s' where s': "UpdateParams (NewMsgServerImpl k) req s = (s', Inr MsgUpdateParamsResponse)"
      "GetParams I k s' = Inr (msgParams req)"
    using update_then_get [OF assms(1,2) _ assms(4)] by blast
  then have "Query_Params_Handler (\<lambda>q. readS (Query_Params I k (Some q))) Inr None s' =
      (s', Inr \<lparr>respParams = msgParams req\<rparr>)"
    by (simp add: Query_Params_Handler_def Query_Params_def readS_def)
  with m s'(1) show ?thesis
    using Msg_handler_wire [OF assms(3) m] by metis
qed

lemma sample_bad_msg_ok: "MsgUpdateParams_ok dec_Int dec_wire sample_bad_update"
proof -
  have "length (Params_wire dec_wire (msgParams sample_bad_update)) \<le> 50"
    using length_varint_le_10 [of "word_of_nat (length (MintDenom (msgParams sample_bad_update)))"]
      length_varint_le_10 [of "word_of_nat (length (Itoa 5))"]
    by (simp add: Params_wire_def sample_bad_update_def dec_wire_def Itoa_def digits.simps)
  then have "length (MsgUpdateParams_wire dec_wire sample_bad_update) \<le> 200"
    using length_varint_le_10 [of "word_of_nat (length (Authority sample_bad_update))"]
      length_varint_le_10 [of "word_of_nat (length (Params_wire dec_wire (msgParams sample_bad_update)))"]
    by (simp add: MsgUpdateParams_wire_def sample_bad_update_def)
  then show ?thesis
    using sample_bad_ok by (simp add: MsgUpdateParams_ok_def go_slice_def)
qed

theorem update_from_wire_then_query_witness:
  "\<exists>b s'. MsgUpdateParams_Marshal dec_Int sample_bad_update = Inr b \<and>
    Msg_UpdateParams_Handler dec_Int (UpdateParams (NewMsgServerImpl sample_keeper))
      (\<lambda>m. MsgUpdateParams_Unmarshal dec_Int m b) None sample_start = (s', Inr MsgUpdateParamsResponse) \<and>
    Query_Params_Handler (\<lambda>q. readS (Query_Params dec_Int sample_keeper (Some q))) Inr None s' =
      (s', Inr \<lparr>respParams = msgParams sample_bad_update\<rparr>)"
  by (rule update_from_wire_then_query [OF sample_kok sample_bad_msg_ok])
     (simp add: sample_bad_update_def sample_keeper_def)

section \<open>Genesis, errors and wiring\<close>

text \<open>
  C10. Genesis round trip: initialising with a genesis state succeeds, exporting afterwards gives the
  same state, and the parameters query returns its parameters.
\<close>

theorem genesis_round_trip:
  assumes "codec_ok I (cdc k)" "store_ok (storeService k) W" "Params_ok I t (gsParams g)"
  shows "snd (InitGenesis k g s) = Inr () \<and>
    ExportGenesis I k (fst (InitGenesis k g s)) = Inr g \<and>
    Query_Params I k (Some QueryParamsRequest) (fst (InitGenesis k g s)) = Inr \<lparr>respParams = gsParams g\<rparr>"
proof -
  obtain s' where s': "InitGenesis k g s = (s', Inr ())"
    using InitGenesis_stores [OF assms] by blast
  have e: "ExportGenesis I k s' = Inr g"
    using Export_Init [OF assms, of s] s' by simp
  then have "GetParams I k s' = Inr (gsParams g)"
    by (auto simp: ExportGenesis_def bindR_Inr_conv)
  with s' e show ?thesis by (simp add: Query_Params_def)
qed

theorem genesis_round_trip_witness:
  "ExportGenesis dec_Int sample_keeper
     (fst (InitGenesis sample_keeper \<lparr>gsParams = sample_params\<rparr> genesis_chain)) =
   Inr \<lparr>gsParams = sample_params\<rparr>"
  using genesis_round_trip [OF sample_kok, of dec_wire "\<lparr>gsParams = sample_params\<rparr>" genesis_chain]
  by simp

text \<open>
  C12. Wiring: the module provided for a configuration holds a keeper whose authority is the configured
  one, or the gov module's when none is configured, and the services it registers route
  the update method to a server that refuses every other authority and the query method to the keeper.
\<close>

theorem provided_module_is_gated:
  assumes "\<And>a. AccAddressFromBech32 A (AccAddress_String A a) = Inr a"
  shows "\<exists>k am. ProvideModule A i = Inr (k, am) \<and>
    authority k = AccAddress_String A
      (if inConfigAuthority i = '''' then NewModuleAddress A (govModuleName A)
       else NewModuleAddressOrBech32Address A (inConfigAuthority i)) \<and>
    route (cfgMsgServer (RegisterServices am \<lparr>cfgMsgServer = [], cfgQueryServer = []\<rparr>))
      ''/bluechipchain.fixedmint.Msg/UpdateParams'' =
      Some (UpdateParamsHandler, MsgImpl (NewMsgServerImpl k)) \<and>
    route (cfgQueryServer (RegisterServices am \<lparr>cfgMsgServer = [], cfgQueryServer = []\<rparr>))
      ''/bluechipchain.fixedmint.Query/Params'' = Some (ParamsHandler, QueryImpl k) \<and>
    (\<forall>req s. Authority req \<noteq> authority k \<longrightarrow>
       UpdateParams (NewMsgServerImpl k) req s = (s, Inl (InvalidSigner (authority k) (Authority req))))"
proof -
  let ?a = "AccAddress_String A
      (if inConfigAuthority i = '''' then NewModuleAddress A (govModuleName A)
       else NewModuleAddressOrBech32Address A (inConfigAuthority i))"
  let ?k = "\<lparr>cdc = inCdc i, storeService = inStoreService i, authority = ?a, bankKeeper = inBankKeeper i\<rparr>"
  let ?am = "NewAppModule (inCdc i) ?k (inAccountKeeper i) (inBankKeeper i)"
  have "ProvideModule A i = Inr (?k, ?am)"
    by (simp add: ProvideModule_def NewKeeper_def assms Let_def)
  moreover have "UpdateParams (NewMsgServerImpl ?k) req s = (s, Inl (InvalidSigner ?a (Authority req)))"
    if "Authority req \<noteq> ?a" for req s
    using UpdateParams_rejects [of req "NewMsgServerImpl ?k" s] that by (simp add: NewMsgServerImpl_def)
  ultimately show ?thesis
    by (intro exI [of _ ?k] exI [of _ ?am])
       (simp add: RegisterServices_def RegisterMsgServer_def RegisterQueryServer_def route_def routes_def
        Msg_serviceDesc_def Query_serviceDesc_def NewAppModule_def)
qed

definition sample_hex :: Addresses where
  "sample_hex = sample_addr\<lparr>AccAddressFromBech32 := \<lambda>s. Inr (bytes_of s)\<rparr>"

definition sample_inputs :: "(chain, int option, coins, unit) ModuleInputs" where
  "sample_inputs = \<lparr>inStoreService = sample_store, inCdc = sample_codec, inConfigAuthority = '''',
     inAccountKeeper = (), inBankKeeper = sample_bank\<rparr>"

theorem provided_module_is_gated_witness:
  "\<exists>k am. ProvideModule sample_hex sample_inputs = Inr (k, am) \<and> authority k = ''gov''"
  using provided_module_is_gated [of sample_hex sample_inputs]
  by (auto simp: sample_hex_def sample_addr_def sample_inputs_def)

text \<open>
  Basic validation of an update: it passes exactly when the authority parses as an address, the
  denomination is not empty and the amount is not negative; otherwise the first of
  these checks that fails decides the error.
\<close>

lemma update_validate_basic:
  assumes "int_signs I val (MintAmount (msgParams m))"
  shows "ValidateBasic I acc m =
    (case acc (Authority m) of
       Inl (Panicked x) \<Rightarrow> Inl (Panic x)
     | Inl (Failed x) \<Rightarrow> Inl (Wrapped ''invalid authority address'' (External x))
     | Inr _ \<Rightarrow>
         if MintDenom (msgParams m) = '''' then Inl EmptyMintDenom
         else if val (MintAmount (msgParams m)) < 0 then Inl NegativeMintAmount else Inr ())"
  using assms
  by (auto simp: ValidateBasic_def Params_Validate_def validateMintDenom_def validateMintAmount_def
      int_signs_def split: sum.splits fault.splits)

text \<open>
  A store without parameters is harmless: before genesis the parameters read as the zero
  message, minting is off, and a block does nothing and succeeds even though the zero
  amount could not be tested (its nil integer may panic).
\<close>

lemma empty_store_block_is_noop:
  assumes "store_ok (storeService (amKeeper am)) W" "kv (W s) ParamsKey = None"
  shows "GetParams I (amKeeper am) s = Inr (Params_zero I) \<and> BeginBlock I C A am s = (s, Inr ())"
proof -
  have "GetParams I (amKeeper am) s = Inr (Params_zero I)"
    using assms by (simp add: GetParams_def store_ok_def)
  then show ?thesis
    using Mint_disabled [of I "amKeeper am" s "Params_zero I" C A]
    by (simp add: BeginBlock_def Params_zero_def)
qed

end
