(* ===== verification/ApiProperties.thy ===== *)
theory ApiProperties
  imports ApiGrpc WireProperties
begin

text \<open>
  The properties of the second API: it encodes and decodes like the codec of \<open>x/fixedmint/types\<close>, so
  that its clients can talk to the chain; its messages round trip with their unknown fields; its
  decoders return on any bytes; its reflective access obeys the laws generic code relies on; and
  the places where it differs from the chain's codec.
\<close>

section \<open>The same message in both APIs\<close>

text \<open>\<open>t\<close> gives the text of an amount, which the API's message holds as a string.\<close>

definition apiOf :: "('i \<Rightarrow> bytes) \<Rightarrow> 'i Params \<Rightarrow> apiParams" where
  "apiOf t p = \<lparr>apiMintDenom = MintDenom p, apiMintAmount = string_of (t (MintAmount p)),
     apiMintEnabled = MintEnabled p, paramsUnknown = []\<rparr>"

definition apiUpdateOf :: "('i \<Rightarrow> bytes) \<Rightarrow> 'i MsgUpdateParams \<Rightarrow> apiMsgUpdateParams" where
  "apiUpdateOf t m = \<lparr>updateAuthority = Authority m, updateParams = Some (apiOf t (msgParams m)),
     updateUnknown = []\<rparr>"

definition apiGenesisOf :: "('i \<Rightarrow> bytes) \<Rightarrow> 'i GenesisState \<Rightarrow> apiGenesisState" where
  "apiGenesisOf t g = \<lparr>genesisParams = Some (apiOf t (gsParams g)), genesisUnknown = []\<rparr>"

definition apiResponseOf :: "('i \<Rightarrow> bytes) \<Rightarrow> 'i QueryParamsResponse \<Rightarrow> apiQueryParamsResponse" where
  "apiResponseOf t r = \<lparr>responseParams = Some (apiOf t (respParams r)), responseUnknown = []\<rparr>"

lemma apiOf_wire: "t (MintAmount p) \<noteq> [] \<Longrightarrow> apiParams_wire (apiOf t p) = Params_wire t p"
  by (simp add: apiParams_wire_def Params_wire_def apiOf_def optField_def lenField_def)

lemma apiOf_ok: "Params_ok I t p \<Longrightarrow> t (MintAmount p) \<noteq> [] \<Longrightarrow> apiParams_ok (apiOf t p)"
  by (simp add: apiParams_ok_def apiOf_wire Params_ok_def)
     (simp add: apiOf_def unknownFields.none)

lemma apiUpdateOf_wire:
  "t (MintAmount (msgParams m)) \<noteq> [] \<Longrightarrow> apiMsgUpdateParams_wire (apiUpdateOf t m) = MsgUpdateParams_wire t m"
  by (simp add: apiMsgUpdateParams_wire_def MsgUpdateParams_wire_def apiUpdateOf_def apiOf_wire
      optField_def lenField_def)

lemma apiUpdateOf_ok:
  "MsgUpdateParams_ok I t m \<Longrightarrow> t (MintAmount (msgParams m)) \<noteq> [] \<Longrightarrow>
   apiMsgUpdateParams_ok (apiUpdateOf t m)"
  by (simp add: apiMsgUpdateParams_ok_def apiUpdateOf_wire MsgUpdateParams_ok_def)
     (auto simp: apiUpdateOf_def intro: apiOf_ok unknownFields.none)

lemma apiResponseOf_wire:
  "t (MintAmount (respParams r)) \<noteq> [] \<Longrightarrow>
   apiQueryParamsResponse_wire (apiResponseOf t r) = QueryParamsResponse_wire t r"
  by (simp add: apiQueryParamsResponse_wire_def QueryParamsResponse_wire_def apiResponseOf_def apiOf_wire
      lenField_def)

lemma apiResponseOf_ok:
  "QueryParamsResponse_ok I t r \<Longrightarrow> t (MintAmount (respParams r)) \<noteq> [] \<Longrightarrow>
   apiQueryParamsResponse_ok (apiResponseOf t r)"
  by (simp add: apiQueryParamsResponse_ok_def apiResponseOf_wire QueryParamsResponse_ok_def)
     (auto simp: apiResponseOf_def intro: apiOf_ok unknownFields.none)

lemma apiGenesisOf_wire:
  "t (MintAmount (gsParams g)) \<noteq> [] \<Longrightarrow> apiGenesisState_wire (apiGenesisOf t g) = GenesisState_wire t g"
  by (simp add: apiGenesisState_wire_def GenesisState_wire_def apiGenesisOf_def apiOf_wire lenField_def)

lemma apiGenesisOf_ok:
  "GenesisState_ok I t g \<Longrightarrow> t (MintAmount (gsParams g)) \<noteq> [] \<Longrightarrow> apiGenesisState_ok (apiGenesisOf t g)"
  by (simp add: apiGenesisState_ok_def apiGenesisOf_wire GenesisState_ok_def)
     (auto simp: apiGenesisOf_def intro: apiOf_ok unknownFields.none)

text \<open>Messages without unknown fields are not changed by discarding them.\<close>

lemma strip_simps [simp]:
  "apiMsgUpdateParams_strip (apiUpdateOf t m) = apiUpdateOf t m"
  "apiQueryParamsResponse_strip (apiResponseOf t r) = apiResponseOf t r"
  "apiGenesisState_strip (apiGenesisOf t g) = apiGenesisOf t g"
  by (simp_all add: apiMsgUpdateParams_strip_def apiUpdateOf_def apiParams_strip_def apiOf_def
      apiQueryParamsResponse_strip_def apiResponseOf_def apiGenesisState_strip_def apiGenesisOf_def)

section \<open>A library for the witnesses\<close>

definition own_LU :: "apiMsgUpdateParams proto_lib" where
  "own_LU = own_lib (apiMsgUpdateParams_ProtoMethods own_runtime own_LP
     (size_lib (apiMsgUpdateParams_size own_runtime own_LP))) apiMsgUpdateParams_zero"

definition own_LR :: "apiQueryParamsResponse proto_lib" where
  "own_LR = own_lib (apiQueryParamsResponse_ProtoMethods own_runtime own_LP
     (size_lib (apiQueryParamsResponse_size own_runtime own_LP))) apiQueryParamsResponse_zero"

lemma own_no_merge [simp]: "\<not> rtMerge own_runtime"
  by (simp add: own_runtime_def)

lemma own_LP_dispatches:
  "dispatches own_runtime own_LP (apiParams_ProtoMethods own_runtime own_LP) apiParams_zero"
  by (rule own_lib.lib)

lemma own_LU_dispatches:
  "dispatches own_runtime own_LU (apiMsgUpdateParams_ProtoMethods own_runtime own_LP own_LU) apiMsgUpdateParams_zero"
proof -
  have "apiMsgUpdateParams_ProtoMethods own_runtime own_LP own_LU =
      apiMsgUpdateParams_ProtoMethods own_runtime own_LP (size_lib (apiMsgUpdateParams_size own_runtime own_LP))"
    by (simp add: apiMsgUpdateParams_ProtoMethods_def apiMsgUpdateParams_marshal_def own_LU_def
        own_lib_def size_lib_def fun_eq_iff)
  then show ?thesis unfolding own_LU_def by (metis own_lib_dispatches own_no_merge)
qed

lemma own_LR_dispatches:
  "dispatches own_runtime own_LR (apiQueryParamsResponse_ProtoMethods own_runtime own_LP own_LR)
     apiQueryParamsResponse_zero"
proof -
  have "apiQueryParamsResponse_ProtoMethods own_runtime own_LP own_LR =
      apiQueryParamsResponse_ProtoMethods own_runtime own_LP
        (size_lib (apiQueryParamsResponse_size own_runtime own_LP))"
    by (simp add: apiQueryParamsResponse_ProtoMethods_def apiQueryParamsResponse_marshal_def own_LR_def
        own_lib_def size_lib_def fun_eq_iff)
  then show ?thesis unfolding own_LR_def by (metis own_lib_dispatches own_no_merge)
qed

lemma sample_bad_text: "dec_wire (MintAmount (msgParams sample_bad_update)) \<noteq> []"
  by (simp add: sample_bad_update_def dec_wire_def Itoa_def digits.simps)

lemma cosmos_paramsI:
  "runtime_ok R \<Longrightarrow> dispatches R LP (apiParams_ProtoMethods R LP) apiParams_zero \<Longrightarrow> cosmos_params R LP"
  by unfold_locales

lemma update_message:
  assumes "runtime_ok R" "dispatches R LP (apiParams_ProtoMethods R LP) apiParams_zero"
    and "dispatches R L (apiMsgUpdateParams_ProtoMethods R LP L) apiMsgUpdateParams_zero"
  shows "api_message R (apiMsgUpdateParams_ProtoMethods R LP L) apiMsgUpdateParams_wire
    apiMsgUpdateParams_zero apiMsgUpdateParams_ok apiMsgUpdateParams_strip"
  using assms(3)
  by (intro cosmos_params.apiMsgUpdateParams_message [OF cosmos_paramsI [OF assms(1,2)]])
     (simp add: dispatches_def apiMsgUpdateParams_ProtoMethods_def)

lemma response_message:
  assumes "runtime_ok R" "dispatches R LP (apiParams_ProtoMethods R LP) apiParams_zero"
    and "dispatches R L (apiQueryParamsResponse_ProtoMethods R LP L) apiQueryParamsResponse_zero"
  shows "api_message R (apiQueryParamsResponse_ProtoMethods R LP L) apiQueryParamsResponse_wire
    apiQueryParamsResponse_zero apiQueryParamsResponse_ok apiQueryParamsResponse_strip"
  using assms(3)
  by (intro cosmos_params.apiQueryParamsResponse_message [OF cosmos_paramsI [OF assms(1,2)]])
     (simp add: dispatches_def apiQueryParamsResponse_ProtoMethods_def)

text \<open>The parameters of an update that fits a slice fit one in a response as well.\<close>

lemma update_response_ok:
  "MsgUpdateParams_ok I t m \<Longrightarrow> QueryParamsResponse_ok I t \<lparr>respParams = msgParams m\<rparr>"
  by (simp add: MsgUpdateParams_ok_def QueryParamsResponse_ok_def go_slice_def MsgUpdateParams_wire_def
      QueryParamsResponse_wire_def)

section \<open>One encoding\<close>

text \<open>
  C18. The two generated codecs agree on updates: the chain's message and the API's message with the
  same content have the same size and the same bytes, and each side decodes them to its own
  message.
\<close>

theorem api_codec_agrees:
  assumes "runtime_ok R" "dispatches R LP (apiParams_ProtoMethods R LP) apiParams_zero"
    and "dispatches R L (apiMsgUpdateParams_ProtoMethods R LP L) apiMsgUpdateParams_zero"
    and "MsgUpdateParams_ok I t m" "t (MintAmount (msgParams m)) \<noteq> []"
  shows "\<exists>b. MsgUpdateParams_Marshal I m = Inr b \<and> optMarshal L (Some (apiUpdateOf t m)) = Inr b \<and>
    optSize L (Some (apiUpdateOf t m)) = MsgUpdateParams_Size I m \<and>
    MsgUpdateParams_Unmarshal I (MsgUpdateParams_zero I) b = Inr m \<and>
    optUnmarshal L disc b (Some apiMsgUpdateParams_zero) = Inr (Some (apiUpdateOf t m))"
proof -
  note api = update_message [OF assms(1-3)] and ok = apiUpdateOf_ok [OF assms(4,5)]
  show ?thesis
    using assms(5) updateParams.marshal_wire [OF assms(4)] updateParams.size_wire [OF assms(4)]
      updateParams.unm_wire [OF assms(4)] api_message.lib_size [OF api assms(3) ok]
      api_message.lib_marshal [OF api assms(3) ok] api_message.lib_unmarshal [OF api assms(3) ok, of disc]
    by (simp add: MsgUpdateParams_Marshal_def apiUpdateOf_wire)
qed

theorem api_codec_agrees_witness:
  "\<exists>b. MsgUpdateParams_Marshal dec_Int sample_bad_update = Inr b \<and>
    optMarshal own_LU (Some (apiUpdateOf dec_wire sample_bad_update)) = Inr b \<and>
    optUnmarshal own_LU False b (Some apiMsgUpdateParams_zero) =
      Inr (Some (apiUpdateOf dec_wire sample_bad_update))"
  using api_codec_agrees [OF own_runtime_ok own_LP_dispatches own_LU_dispatches sample_bad_msg_ok
      sample_bad_text, of False] by blast

text \<open>
  C17. An API client and the chain: the update an API client sends, marshalled by the API, is routed
  and executed by the chain's handler as the chain's own message, and the chain's answer to a
  query afterwards, marshalled by the chain, is read by the API's client as the parameters it sent.
\<close>

theorem api_client_updates_chain:
  assumes "runtime_ok R" "dispatches R LP (apiParams_ProtoMethods R LP) apiParams_zero"
    and "dispatches R LU (apiMsgUpdateParams_ProtoMethods R LP LU) apiMsgUpdateParams_zero"
    and "dispatches R LR (apiQueryParamsResponse_ProtoMethods R LP LR) apiQueryParamsResponse_zero"
    and "codec_ok I (cdc k)" "store_ok (storeService k) W"
    and "MsgUpdateParams_ok I t req" "Authority req = authority k" "t (MintAmount (msgParams req)) \<noteq> []"
  shows "route (RegisterQueryServer (RegisterMsgServer [] srv) q) Msg_UpdateParams_FullMethodName =
      Some (UpdateParamsHandler, srv) \<and>
    (\<exists>b s' r. optMarshal LU (Some (apiUpdateOf t req)) = Inr b \<and>
      Msg_UpdateParams_Handler I (UpdateParams (NewMsgServerImpl k))
        (\<lambda>m. MsgUpdateParams_Unmarshal I m b) None s = (s', Inr MsgUpdateParamsResponse) \<and>
      bindR (Query_Params I k (Some QueryParamsRequest) s') (QueryParamsResponse_Marshal I) = Inr r \<and>
      optUnmarshal LR disc r (Some apiQueryParamsResponse_zero) =
        Inr (Some \<lparr>responseParams = Some (apiOf t (msgParams req)), responseUnknown = []\<rparr>))"
proof -
  let ?p = "msgParams req" and ?b = "MsgUpdateParams_wire t req"
  let ?r = "\<lparr>respParams = msgParams req\<rparr>"
  note ok = apiUpdateOf_ok [OF assms(7,9)]
  have b: "optMarshal LU (Some (apiUpdateOf t req)) = Inr ?b"
    using assms(9) api_message.lib_marshal [OF update_message [OF assms(1-3)] assms(3) ok]
    by (simp add: apiUpdateOf_wire)
  have m: "MsgUpdateParams_Marshal I req = Inr ?b"
    unfolding MsgUpdateParams_Marshal_def by (rule updateParams.marshal_wire [OF assms(7)])
  have "Params_ok I t (msgParams req)" using assms(7) by (simp add: MsgUpdateParams_ok_def)
  then obtain s' where s': "UpdateParams (NewMsgServerImpl k) req s = (s', Inr MsgUpdateParamsResponse)"
      "Query_Params I k (Some QueryParamsRequest) s' = Inr ?r"
    using update_then_get [OF assms(5,6) _ assms(8), of t s] by (auto simp: Query_Params_def)
  have h: "Msg_UpdateParams_Handler I (UpdateParams (NewMsgServerImpl k))
      (\<lambda>m. MsgUpdateParams_Unmarshal I m ?b) None s = (s', Inr MsgUpdateParamsResponse)"
    unfolding Msg_handler_wire [OF assms(7) m] by (rule s'(1))
  have rok: "QueryParamsResponse_ok I t ?r" using assms(7) by (rule update_response_ok)
  have r: "QueryParamsResponse_Marshal I ?r = Inr (QueryParamsResponse_wire t ?r)"
    unfolding QueryParamsResponse_Marshal_def by (rule queryResponse.marshal_wire [OF rok])
  have u: "optUnmarshal LR disc (QueryParamsResponse_wire t ?r) (Some apiQueryParamsResponse_zero) =
      Inr (Some (apiResponseOf t ?r))"
    using api_message.lib_unmarshal [OF response_message [OF assms(1,2,4)] assms(4)
        apiResponseOf_ok [OF rok], of disc] assms(9)
    by (simp add: apiResponseOf_wire)
  show ?thesis
    using b h s'(2) r u api_routes(1) [of srv q] by (auto simp: apiResponseOf_def)
qed

theorem api_client_updates_chain_witness:
  "\<exists>b s' r. optMarshal own_LU (Some (apiUpdateOf dec_wire sample_bad_update)) = Inr b \<and>
    Msg_UpdateParams_Handler dec_Int (UpdateParams (NewMsgServerImpl sample_keeper))
      (\<lambda>m. MsgUpdateParams_Unmarshal dec_Int m b) None sample_start = (s', Inr MsgUpdateParamsResponse) \<and>
    bindR (Query_Params dec_Int sample_keeper (Some QueryParamsRequest) s')
      (QueryParamsResponse_Marshal dec_Int) = Inr r \<and>
    optUnmarshal own_LR False r (Some apiQueryParamsResponse_zero) =
      Inr (Some \<lparr>responseParams = Some (apiOf dec_wire (msgParams sample_bad_update)), responseUnknown = []\<rparr>)"
proof -
  have "Authority sample_bad_update = authority sample_keeper"
    by (simp add: sample_bad_update_def sample_keeper_def)
  from api_client_updates_chain [OF own_runtime_ok own_LP_dispatches own_LU_dispatches own_LR_dispatches
      sample_kok sample_bad_msg_ok this sample_bad_text, of "()" "()" sample_start False]
  show ?thesis by blast
qed

section \<open>Round trips and totality\<close>

text \<open>
  C21. API round trip: an update with any known and unknown fields, nested ones included, marshals to
  exactly \<open>Size\<close> bytes appended to the buffer it is given; those bytes decode to the same message,
  or to the message without its unknown fields when the flag discards them.
\<close>

theorem api_update_round_trip:
  assumes "runtime_ok R" "dispatches R LP (apiParams_ProtoMethods R LP) apiParams_zero"
    and "dispatches R L (apiMsgUpdateParams_ProtoMethods R LP L) apiMsgUpdateParams_zero"
    and "apiMsgUpdateParams_ok m"
  shows "\<exists>b. apiMsgUpdateParams_marshal R LP L (Some m) buf = Inr (Some (raw buf @ b)) \<and>
    length b = apiMsgUpdateParams_size R LP (Some m) \<and>
    apiMsgUpdateParams_unmarshal R LP 0 b (Some apiMsgUpdateParams_zero) = Inr (Some m) \<and>
    apiMsgUpdateParams_unmarshal R LP 1 b (Some apiMsgUpdateParams_zero) =
      Inr (Some (apiMsgUpdateParams_strip m))"
proof -
  note api = update_message [OF assms(1-3)]
  show ?thesis
    using api_message.marshal_wire [OF api assms(4)] api_message.size_wire [OF api assms(4)]
      api_message.unm_wire [OF api assms(4), of 0] api_message.unm_wire [OF api assms(4), of 1]
      cosmos.rtDiscard_bits [OF cosmos.intro [OF assms(1)]]
    by (simp add: apiMsgUpdateParams_ProtoMethods_def)
qed

text \<open>A message with a field 4 in the update and a field 7 in its parameters.\<close>

definition sample_api_update :: apiMsgUpdateParams where
  "sample_api_update = \<lparr>updateAuthority = ''gov'',
     updateParams = Some \<lparr>apiMintDenom = ''stake'', apiMintAmount = ''5'', apiMintEnabled = True,
       paramsUnknown = varint 0x38 @ varint 9\<rparr>,
     updateUnknown = varint 0x20 @ varint 1\<rparr>"

lemma one_unknown:
  "tagField w \<notin> known \<Longrightarrow> 0 < tagField w \<Longrightarrow> tagType w = 0 \<Longrightarrow> unknownFields known (varint w @ varint v)"
  using unknownFields.more [OF _ _ _ unknownFields.none, of w known "varint v"] by (auto simp: payload_def)

lemma bytes_of_Nil [simp]: "bytes_of [] = []"
  by (simp add: bytes_of_def)

lemma short_varint: "length (varint v) < 11"
  using length_varint_le_10 [of v] by simp

lemma sample_api_update_ok: "apiMsgUpdateParams_ok sample_api_update"
proof -
  have f: "tagField 0x38 = 7" "tagType 0x38 = 0" "tagField 0x20 = 4" "tagType 0x20 = 0"
    by (simp_all add: tagField_def tagType_def)
  have u: "unknownFields {1, 2, 3} (varint 0x38 @ varint 9)" "unknownFields {1, 2} (varint 0x20 @ varint 1)"
    using f by (auto intro: one_unknown)
  let ?p = "the (updateParams sample_api_update)"
  have p: "length (apiParams_wire ?p) < 100"
    using short_varint [of 5] short_varint [of 1] short_varint [of 9] short_varint [of "0x38"]
    by (simp add: sample_api_update_def apiParams_wire_def length_optField)
  then have "length (apiMsgUpdateParams_wire sample_api_update) < 200"
    using short_varint [of 3] short_varint [of 1] short_varint [of "0x20"]
      short_varint [of "word_of_nat (length (apiParams_wire ?p))"]
    by (simp add: sample_api_update_def apiMsgUpdateParams_wire_def length_optField lenField_def)
  with p u show ?thesis
    by (simp add: apiMsgUpdateParams_ok_def apiParams_ok_def go_slice_def sample_api_update_def)
qed

theorem api_update_round_trip_witness:
  "\<exists>b. apiMsgUpdateParams_marshal own_runtime own_LP own_LU (Some sample_api_update) (Some [7]) =
      Inr (Some ([7] @ b)) \<and>
    apiMsgUpdateParams_unmarshal own_runtime own_LP 0 b (Some apiMsgUpdateParams_zero) =
      Inr (Some sample_api_update)"
  using api_update_round_trip [OF own_runtime_ok own_LP_dispatches own_LU_dispatches sample_api_update_ok,
      of "Some [7]"] by auto

text \<open>
  C22. Every decoder of the API returns: on any bytes, with any flags, into any message or a nil one,
  it stops with a message or one of its errors, and never panics.
\<close>

theorem api_decoders_return:
  assumes "runtime_ok R" "dispatches R LP (apiParams_ProtoMethods R LP) apiParams_zero" "go_slice d"
  shows "clean (apiParams_unmarshal R fl d x1) \<and> clean (apiGenesisState_unmarshal R LP fl d x2) \<and>
    clean (apiQueryParamsRequest_unmarshal R fl d x3) \<and>
    clean (apiQueryParamsResponse_unmarshal R LP fl d x4) \<and>
    clean (apiMsgUpdateParams_unmarshal R LP fl d x5) \<and>
    clean (apiMsgUpdateParamsResponse_unmarshal R fl d x6) \<and> clean (apiModule_unmarshal R fl d x7)"
proof -
  note c = cosmos.intro [OF assms(1)] and cp = cosmos_paramsI [OF assms(1,2)]
  show ?thesis
    using assms(3)
    by (intro conjI cosmos.apiParams_unmarshal_clean [OF c] cosmos_params.apiGenesisState_unmarshal_clean [OF cp]
        cosmos.apiQueryParamsRequest_unmarshal_clean [OF c]
        cosmos_params.apiQueryParamsResponse_unmarshal_clean [OF cp]
        cosmos_params.apiMsgUpdateParams_unmarshal_clean [OF cp]
        cosmos.apiMsgUpdateParamsResponse_unmarshal_clean [OF c] cosmos.apiModule_unmarshal_clean [OF c])
qed

theorem api_decoders_return_witness:
  "clean (apiMsgUpdateParams_unmarshal own_runtime own_LP 0 [0x12, 0xFF, 0xFF, 0x03, 7] apiMsgUpdateParams_New)"
  using api_decoders_return [OF own_runtime_ok own_LP_dispatches, of "[0x12, 0xFF, 0xFF, 0x03, 7]"]
  by (simp add: go_slice_def)

section \<open>Reflective access\<close>



text \<open>
  Ranging is complete: setting on a new message every field that \<open>Range\<close> visits, after giving
  it the unknown fields, makes a copy of the message, for updates and for parameters. (The
  copy's nested message is the original's, as the pointer is what is copied.)
\<close>

lemma api_range_copies:
  "bindR (apiMsgUpdateParams_GetUnknown (Some m)) (\<lambda>u.
     bindR (apiMsgUpdateParams_SetUnknown u apiMsgUpdateParams_New) (\<lambda>e.
     Inr (apiMsgUpdateParams_Range (copyField apiMsgUpdateParams_Set) (Some m) e))) = Inr (m, Inr ()) \<and>
   bindR (apiParams_GetUnknown (Some p)) (\<lambda>u.
     bindR (apiParams_SetUnknown u apiParams_New) (\<lambda>e.
     Inr (apiParams_Range (copyField apiParams_Set) (Some p) e))) = Inr (p, Inr ())"
proof -
  have "apiMsgUpdateParams_Range (copyField apiMsgUpdateParams_Set) (Some m)
      (apiMsgUpdateParams_zero\<lparr>updateUnknown := updateUnknown m\<rparr>) = (m, Inr ())"
    unfolding apiMsgUpdateParams_Range_over
    by (rule api_update_reflect.range_copies)
       (auto simp: apiMsgUpdateParams_fds_def reflect_defs apiMsgUpdateParams_zero_def)
  moreover have "apiParams_Range (copyField apiParams_Set) (Some p)
      (apiParams_zero\<lparr>paramsUnknown := paramsUnknown p\<rparr>) = (p, Inr ())"
    unfolding apiParams_Range_over
    by (rule params_reflect.range_copies) (auto simp: apiParams_fds_def reflect_defs apiParams_zero_def)
  ultimately show ?thesis
    by (simp add: apiMsgUpdateParams_GetUnknown_def apiMsgUpdateParams_SetUnknown_def
        apiMsgUpdateParams_New_def apiParams_GetUnknown_def apiParams_SetUnknown_def apiParams_New_def)
qed

text \<open>
  A nil message is not a read-only empty one. \<open>Get\<close> of absent parameters returns a view of a nil
  message, which says that it is invalid; asking that view for a field, for its unknown
  fields or to range over it panics, while the plain getters read the same nil pointer as empty.
\<close>

lemma api_nil_view_panics:
  "apiMsgUpdateParams_Get fd_MsgUpdateParams_params apiMsgUpdateParams_New = Inr (VMessage None) \<and>
   \<not> apiParams_IsValid None \<and>
   apiParams_Get fd_Params_mint_denom None = Inl (Panic ''nil pointer dereference'') \<and>
   apiParams_Has fd_Params_mint_amount None = Inl (Panic ''nil pointer dereference'') \<and>
   apiParams_GetUnknown None = Inl (Panic ''nil pointer dereference'') \<and>
   apiParams_Range f None s = (s, Inl (Panic ''nil pointer dereference'')) \<and>
   apiParams_GetMintDenom (apiMsgUpdateParams_GetParams apiMsgUpdateParams_New) = '''' \<and>
   apiParams_GetMintEnabled None = False \<and>
   apiParams_size R None = 0 \<and> apiParams_marshal R L None buf = Inr buf"
proof -
  have "apiParams_Get fd_Params_mint_denom None = Inl (Panic ''nil pointer dereference'')"
    by (simp add: apiParams_Get_def fd_Params_mint_denom_def)
  moreover have "apiParams_Has fd_Params_mint_amount None = Inl (Panic ''nil pointer dereference'')"
    by (simp add: apiParams_Has_def fd_Params_mint_amount_def)
  moreover have "apiParams_Range f None s = (s, Inl (Panic ''nil pointer dereference''))"
    by (simp add: apiParams_Range_def)
  ultimately show ?thesis
    by (simp add: apiMsgUpdateParams_New_def apiMsgUpdateParams_zero_def apiParams_IsValid_def
        apiParams_GetUnknown_def apiParams_size_def apiSize_def apiParams_marshal_def apiMarshal_def)
qed

section \<open>Where the two codecs differ\<close>

text \<open>A parameters field of an update, decoded by either side into a message that may have one already.\<close>

context cosmos_params
begin

interpretation D: api_decoder R "''MsgUpdateParams''" "apiMsgUpdateParams_field LP" apiMsgUpdateParams_keep "{1, 2}"
  by (rule apiMsgUpdateParams_decoder)

lemma api_decode_params:
  assumes "apiParams_ok p" "go_slice (lenField 0x12 (apiParams_wire p))" "paramsUnknown p = []"
  shows "apiMsgUpdateParams_unmarshal R LP fl (lenField 0x12 (apiParams_wire p)) (Some m) =
    Inr (Some (m\<lparr>updateParams := Some (case updateParams m of None \<Rightarrow> p
      | Some x \<Rightarrow> if rtMerge R then apiParams_merge x p else p)\<rparr>))"
proof -
  have "apiParams_strip p = p" using assms(3) by (simp add: apiParams_strip_def)
  then show ?thesis
    unfolding apiMsgUpdateParams_unmarshal_def
    by (intro D.unm_lenField [OF assms(2), where s = "''Params''" and f = "\<lambda>bs.
          bindR (optUnmarshal LP (rtDiscard R fl) bs (Some (case updateParams m of None \<Rightarrow> apiParams_zero
            | Some x \<Rightarrow> x))) (\<lambda>p. Inr (m\<lparr>updateParams := p\<rparr>))"])
       (auto simp: apiMsgUpdateParams_field_def nested_unmarshal [OF assms(1)] apiParams_merge_zero
         split: option.splits)
qed

end

text \<open>
  C19. Parameters that occur twice. Given an update whose bytes hold two parameters fields, the chain
  merges them, so a denomination or an enabled flag of the first survives when the second leaves
  it out; the API reads the second alone, unless the runtime asks the library to merge. The two
  sides then see different updates in the same bytes.
\<close>

theorem repeated_params_differ:
  assumes "runtime_ok R" "dispatches R LP (apiParams_ProtoMethods R LP) apiParams_zero"
    and "Params_ok I t p" "t (MintAmount p) \<noteq> []" "Params_ok I t q" "t (MintAmount q) \<noteq> []"
    and "go_slice (lenField 0x12 (Params_wire t p) @ lenField 0x12 (Params_wire t q))"
  shows "MsgUpdateParams_Unmarshal I (MsgUpdateParams_zero I)
      (lenField 0x12 (Params_wire t p) @ lenField 0x12 (Params_wire t q)) =
      Inr ((MsgUpdateParams_zero I)\<lparr>msgParams := Params_merge p q\<rparr>) \<and>
    apiMsgUpdateParams_unmarshal R LP fl
      (lenField 0x12 (Params_wire t p) @ lenField 0x12 (Params_wire t q)) apiMsgUpdateParams_New =
      Inr (Some (apiMsgUpdateParams_zero\<lparr>updateParams :=
        Some (apiOf t (if rtMerge R then Params_merge p q else q))\<rparr>))"
proof
  let ?z = "MsgUpdateParams_zero I"
  have gs: "go_slice (lenField 0x12 (Params_wire t p))" "go_slice (lenField 0x12 (Params_wire t q))"
    using assms(7) by blast+
  have "MsgUpdateParams_Unmarshal I ?z (lenField 0x12 (Params_wire t p)) = Inr (?z\<lparr>msgParams := p\<rparr>)"
    unfolding lenField_def using gs(1) Params_Unmarshal_wire [OF assms(3)]
    by (intro decode_msgParams) (simp_all add: lenField_def MsgUpdateParams_zero_def)
  moreover have "MsgUpdateParams_Unmarshal I (?z\<lparr>msgParams := p\<rparr>) (lenField 0x12 (Params_wire t q)) =
      Inr (?z\<lparr>msgParams := Params_merge p q\<rparr>)"
    unfolding lenField_def using gs(2) Params_Unmarshal_into [OF assms(5), of p]
      decode_msgParams [of "Params_wire t q" I "?z\<lparr>msgParams := p\<rparr>" "Params_merge p q"]
    by (simp add: lenField_def)
  ultimately show "MsgUpdateParams_Unmarshal I ?z
      (lenField 0x12 (Params_wire t p) @ lenField 0x12 (Params_wire t q)) =
      Inr (?z\<lparr>msgParams := Params_merge p q\<rparr>)"
    by (rule MsgUpdateParams_Unmarshal_append [OF assms(7)])
  note cp = cosmos_paramsI [OF assms(1,2)]
  have w: "Params_wire t p = apiParams_wire (apiOf t p)" "Params_wire t q = apiParams_wire (apiOf t q)"
    using assms(4,6) by (simp_all add: apiOf_wire)
  have ok: "apiParams_ok (apiOf t p)" "apiParams_ok (apiOf t q)"
    using assms(3-6) by (auto intro: apiOf_ok)
  have mg: "apiParams_merge (apiOf t p) (apiOf t q) = apiOf t (Params_merge p q)"
    using assms(6) by (simp add: apiParams_merge_def apiOf_def Params_merge_def string_of_def)
  have u: "paramsUnknown (apiOf t x) = []" for x by (simp add: apiOf_def)
  note d = cosmos_params.api_decode_params [OF cp]
  show "apiMsgUpdateParams_unmarshal R LP fl
      (lenField 0x12 (Params_wire t p) @ lenField 0x12 (Params_wire t q)) apiMsgUpdateParams_New =
      Inr (Some (apiMsgUpdateParams_zero\<lparr>updateParams :=
        Some (apiOf t (if rtMerge R then Params_merge p q else q))\<rparr>))"
    unfolding w apiMsgUpdateParams_New_def
    by (rule cosmos_params.apiMsgUpdateParams_unmarshal_append [OF cp _
          d [OF ok(1) _ u] trans [OF d [OF ok(2) _ u]]])
       (use assms(7) gs in \<open>simp_all add: w mg apiMsgUpdateParams_zero_def\<close>)
qed

lemma sample_second_ok:
  "Params_ok dec_Int dec_wire \<lparr>MintDenom = '''', MintAmount = Some 5, MintEnabled = False\<rparr>"
  by (rule Params_ok_short [of _ 5]) (simp_all add: Itoa_def digits.simps)

lemma sample_repeated_slice:
  "go_slice (lenField 0x12 (Params_wire dec_wire sample_params) @
     lenField 0x12 (Params_wire dec_wire \<lparr>MintDenom = '''', MintAmount = Some 5, MintEnabled = False\<rparr>))"
proof -
  let ?q = "Params_wire dec_wire \<lparr>MintDenom = '''', MintAmount = Some 5, MintEnabled = False\<rparr>"
  have "length ?q < 30"
    using short_varint [of "word_of_nat (length (dec_wire (Some 5)))"]
    by (simp add: Params_wire_def dec_wire_def Itoa_def digits.simps)
  then show ?thesis
    using sample_params_wire_short short_varint [of "word_of_nat (length ?q)"]
      short_varint [of "word_of_nat (length (Params_wire dec_wire sample_params))"]
    by (simp add: go_slice_def lenField_def)
qed

text \<open>The chain keeps the denomination \<open>ubluechip\<close> of the first parameters; the API has none.\<close>

theorem repeated_params_differ_witness:
  "\<exists>d m a. MsgUpdateParams_Unmarshal dec_Int (MsgUpdateParams_zero dec_Int) d = Inr m \<and>
    apiMsgUpdateParams_unmarshal own_runtime own_LP 0 d apiMsgUpdateParams_New = Inr (Some a) \<and>
    MintDenom (msgParams m) = ''ubluechip'' \<and> map_option apiMintDenom (updateParams a) = Some ''''"
proof -
  let ?q = "\<lparr>MintDenom = '''', MintAmount = Some (5 :: int), MintEnabled = False\<rparr>"
  have t: "dec_wire (MintAmount sample_params) \<noteq> []" "dec_wire (MintAmount ?q) \<noteq> []"
    by (simp_all add: dec_wire_def Itoa_def digits.simps)
  let ?m = "(MsgUpdateParams_zero dec_Int)\<lparr>msgParams := Params_merge sample_params ?q\<rparr>"
  let ?a = "apiMsgUpdateParams_zero\<lparr>updateParams := Some (apiOf dec_wire ?q)\<rparr>"
  show ?thesis
    using repeated_params_differ [OF own_runtime_ok own_LP_dispatches sample_ok t(1) sample_second_ok t(2)
        sample_repeated_slice, of 0]
    by (intro exI [of _ "lenField 0x12 (Params_wire dec_wire sample_params) @ lenField 0x12 (Params_wire dec_wire ?q)"]
        exI [of _ ?m] exI [of _ ?a]) (simp add: Params_merge_def apiOf_def)
qed

text \<open>
  C20. An update without an amount. The API's message omits an empty amount; the chain decodes the
  missing field to the zero value of the integer, a nil one, and \<open>ValidateBasic\<close> then panics
  if reading the sign of a nil integer does, although the address and the denomination are fine.
\<close>

theorem omitted_amount_panics:
  assumes "runtime_ok R" "dispatches R LP (apiParams_ProtoMethods R LP) apiParams_zero"
    and "dispatches R L (apiMsgUpdateParams_ProtoMethods R LP L) apiMsgUpdateParams_zero"
    and "m = \<lparr>updateAuthority = a, updateParams = Some \<lparr>apiMintDenom = d, apiMintAmount = '''',
      apiMintEnabled = e, paramsUnknown = []\<rparr>, updateUnknown = []\<rparr>"
    and "apiMsgUpdateParams_ok m" "d \<noteq> ''''" "acc a = Inr x"
    and "Int_IsNegative I (Int_zero I) = Inl (Panicked s)"
  shows "\<exists>b r. optMarshal L (Some m) = Inr b \<and>
    MsgUpdateParams_Unmarshal I (MsgUpdateParams_zero I) b = Inr r \<and>
    msgParams r = \<lparr>MintDenom = d, MintAmount = Int_zero I, MintEnabled = e\<rparr> \<and>
    ValidateBasic I acc r = Inl (Panic s)"
proof -
  let ?d = "optField 0x0A (bytes_of d)" and ?e = "if e then [0x18, 1] else []"
  let ?x = "?d @ ?e" and ?a = "optField 0x0A (bytes_of a)"
  let ?z = "MsgUpdateParams_zero I"
  let ?p1 = "(Params_zero I)\<lparr>MintDenom := d\<rparr>" and ?m1 = "?z\<lparr>Authority := a\<rparr>"
  let ?p = "\<lparr>MintDenom = d, MintAmount = Int_zero I, MintEnabled = e\<rparr>"
  have w: "apiMsgUpdateParams_wire m = ?a @ lenField 0x12 ?x"
    by (simp add: assms(4) apiMsgUpdateParams_wire_def apiParams_wire_def)
  then have g: "go_slice (?a @ lenField 0x12 ?x)" using assms(5) by (simp add: apiMsgUpdateParams_ok_def)
  then have gs: "go_slice ?a" "go_slice (lenField 0x12 ?x)" by blast+
  then have gx: "go_slice ?x" by (simp add: lenField_def go_slice_def)
  then have gd: "go_slice ?d" by blast
  have b: "optMarshal L (Some m) = Inr (?a @ lenField 0x12 ?x)"
    using api_message.lib_marshal [OF update_message [OF assms(1-3)] assms(3,5)] w by simp
  have "Params_Unmarshal I (Params_zero I) ?d = Inr ?p1"
    using gd decode_denom [of d I "Params_zero I"] assms(6) by (simp add: optField_def lenField_def)
  moreover have "Params_Unmarshal I ?p1 ?e = Inr ?p"
    using decode_enabled [of I ?p1] by (simp add: Params_zero_def)
  ultimately have p: "Params_Unmarshal I (Params_zero I) ?x = Inr ?p"
    by (rule Params_Unmarshal_append [OF gx])
  have "MsgUpdateParams_Unmarshal I ?z ?a = Inr ?m1"
    using gs(1) decode_authority [of a I ?z]
    by (cases "a = ''''") (simp_all add: optField_def lenField_def MsgUpdateParams_zero_def MsgUpdateParams_Unmarshal_def)
  moreover have "MsgUpdateParams_Unmarshal I ?m1 (lenField 0x12 ?x) = Inr (?m1\<lparr>msgParams := ?p\<rparr>)"
    using gs(2) p unfolding lenField_def by (intro decode_msgParams) (simp_all add: MsgUpdateParams_zero_def)
  ultimately have r: "MsgUpdateParams_Unmarshal I ?z (?a @ lenField 0x12 ?x) = Inr (?m1\<lparr>msgParams := ?p\<rparr>)"
    by (rule MsgUpdateParams_Unmarshal_append [OF g])
  have "ValidateBasic I acc (?m1\<lparr>msgParams := ?p\<rparr>) = Inl (Panic s)"
    using assms(6-8) by (simp add: ValidateBasic_def Params_Validate_def validateMintDenom_def validateMintAmount_def)
  with b r show ?thesis by auto
qed

theorem omitted_amount_panics_witness:
  "\<exists>b r. MsgUpdateParams_Unmarshal dec_Int (MsgUpdateParams_zero dec_Int) b = Inr r \<and>
    ValidateBasic dec_Int (\<lambda>s. Inr (bytes_of s)) r = Inl (Panic ''nil Int'')"
proof -
  let ?m = "\<lparr>updateAuthority = ''gov'', updateParams = Some \<lparr>apiMintDenom = ''stake'', apiMintAmount = '''',
      apiMintEnabled = True, paramsUnknown = []\<rparr>, updateUnknown = []\<rparr>"
  have p: "length (apiParams_wire (the (updateParams ?m))) < 50"
    using short_varint [of 5] by (simp add: apiParams_wire_def length_optField)
  then have "length (apiMsgUpdateParams_wire ?m) < 200"
    using short_varint [of 3] short_varint [of "word_of_nat (length (apiParams_wire (the (updateParams ?m))))"]
    by (simp add: apiMsgUpdateParams_wire_def length_optField lenField_def)
  with p have ok: "apiMsgUpdateParams_ok ?m"
    by (simp add: apiMsgUpdateParams_ok_def apiParams_ok_def go_slice_def unknownFields.none)
  have n: "Int_IsNegative dec_Int (Int_zero dec_Int) = Inl (Panicked ''nil Int'')" by (simp add: dec_Int_def)
  from omitted_amount_panics [where acc = "\<lambda>s. Inr (bytes_of s)", OF own_runtime_ok own_LP_dispatches own_LU_dispatches refl ok _ refl n]
  show ?thesis by auto
qed

end
