(* ===== verification/Inflate.thy ===== *)
theory Inflate
  imports Prelude
begin

text \<open>
  The documented formats of compressed data (RFC 1951 and RFC 1952), as far as the descriptors embedded in the generated
  code use them: stored blocks and blocks with the fixed Huffman codes. A reference definition, as Descriptor is;
  other blocks and headers with optional parts are rejected, and the checksum is not computed.
  Compressing a list of tokens and reading it again gives the text that the tokens stand for.
\<close>

section \<open>Bits\<close>

text \<open>The lowest bit of a byte comes first.\<close>

type_synonym bits = "bool list"

definition byteBits :: "8 word \<Rightarrow> bits" where
  "byteBits d = [bit d 0, bit d 1, bit d 2, bit d 3, bit d 4, bit d 5, bit d 6, bit d 7]"

definition unpackBits :: "bytes \<Rightarrow> bits" where
  "unpackBits d = concat (map byteBits d)"

text \<open>Huffman codes come with their highest bit first, other numbers with the lowest.\<close>

fun codeBits :: "nat \<Rightarrow> nat \<Rightarrow> bits \<Rightarrow> (nat \<times> bits) option" where
  "codeBits 0 v s = Some (v, s)"
| "codeBits (Suc n) v [] = None"
| "codeBits (Suc n) v (b # s) = codeBits n (2 * v + of_bool b) s"

fun numBits :: "nat \<Rightarrow> bits \<Rightarrow> (nat \<times> bits) option" where
  "numBits 0 s = Some (0, s)"
| "numBits (Suc n) [] = None"
| "numBits (Suc n) (b # s) = map_option (\<lambda>(v, s). (of_bool b + 2 * v, s)) (numBits n s)"

lemma codeBits_length: "codeBits n v s = Some (w, s') \<Longrightarrow> length s = n + length s'"
  by (induction n v s rule: codeBits.induct) auto

lemma numBits_length: "numBits n s = Some (w, s') \<Longrightarrow> length s = n + length s'"
  by (induction n s arbitrary: w rule: numBits.induct) auto

section \<open>Blocks\<close>

text \<open>The fixed code: 256 ends a block, greater symbols are lengths.\<close>

definition symbol :: "bits \<Rightarrow> (nat \<times> bits) option" where
  "symbol s = Option.bind (codeBits 7 0 s) (\<lambda>(v, s).
     if v < 24 then Some (256 + v, s)
     else Option.bind (codeBits 1 v s) (\<lambda>(v, s).
       if v < 192 then Some (v - 48, s)
       else if v < 200 then Some (v + 88, s)
       else map_option (\<lambda>(v, s). (v - 256, s)) (codeBits 1 v s)))"

lemma symbol_length: "symbol s = Some (v, s') \<Longrightarrow> length s' < length s"
proof -
  assume "symbol s = Some (v, s')"
  then obtain v1 s1 where 1: "codeBits 7 0 s = Some (v1, s1)" and
    "s' = s1 \<or> (\<exists>v2 s2. codeBits 1 v1 s1 = Some (v2, s2) \<and> (s' = s2 \<or> (\<exists>v3. codeBits 1 v2 s2 = Some (v3, s'))))"
    by (auto simp: symbol_def bind_eq_Some_conv simp del: codeBits.simps One_nat_def split: if_splits)
  then have "length s' \<le> length s1" by (auto simp del: codeBits.simps One_nat_def dest!: codeBits_length)
  with codeBits_length [OF 1] show ?thesis by simp
qed

text \<open>Lengths and distances: a base and a number of further bits for each symbol.\<close>

definition lengths :: "(nat \<times> nat) list" where
  "lengths = [(3, 0), (4, 0), (5, 0), (6, 0), (7, 0), (8, 0), (9, 0), (10, 0), (11, 1), (13, 1), (15, 1), (17, 1),
     (19, 2), (23, 2), (27, 2), (31, 2), (35, 3), (43, 3), (51, 3), (59, 3), (67, 4), (83, 4), (99, 4), (115, 4),
     (131, 5), (163, 5), (195, 5), (227, 5), (258, 0)]"

definition distances :: "(nat \<times> nat) list" where
  "distances = [(1, 0), (2, 0), (3, 0), (4, 0), (5, 1), (7, 1), (9, 2), (13, 2), (17, 3), (25, 3), (33, 4), (49, 4),
     (65, 5), (97, 5), (129, 6), (193, 6), (257, 7), (385, 7), (513, 8), (769, 8), (1025, 9), (1537, 9),
     (2049, 10), (3073, 10), (4097, 11), (6145, 11), (8193, 12), (12289, 12), (16385, 13), (24577, 13)]"

definition based :: "(nat \<times> nat) list \<Rightarrow> nat \<Rightarrow> bits \<Rightarrow> (nat \<times> bits) option" where
  "based table k s =
     (if k < length table
      then map_option (\<lambda>(v, s). (fst (table ! k) + v, s)) (numBits (snd (table ! k)) s) else None)"

lemma based_length: "based table k s = Some (v, s') \<Longrightarrow> length s' \<le> length s"
  by (auto simp: based_def split: if_splits dest!: numBits_length)

text \<open>The output is kept in reverse; a match repeats what was written a distance before.\<close>

fun copyBack :: "nat \<Rightarrow> nat \<Rightarrow> bytes \<Rightarrow> bytes option" where
  "copyBack 0 d out = Some out"
| "copyBack (Suc n) d out = (case drop (d - 1) out of [] \<Rightarrow> None | b # _ \<Rightarrow> copyBack n d (b # out))"

definition matched :: "nat \<Rightarrow> bits \<Rightarrow> bytes \<Rightarrow> (bytes \<times> bits) option" where
  "matched l s out =
     Option.bind (based lengths l s) (\<lambda>(n, s).
     Option.bind (codeBits 5 0 s) (\<lambda>(k, s).
     Option.bind (based distances k s) (\<lambda>(d, s).
       map_option (\<lambda>out. (out, s)) (copyBack n d out))))"

lemma matched_length: "matched l s out = Some (out', s') \<Longrightarrow> length s' \<le> length s"
  by (auto simp: matched_def bind_eq_Some_conv dest!: based_length codeBits_length)

function fixedBlock :: "bits \<Rightarrow> bytes \<Rightarrow> (bytes \<times> bits) option" where
  "fixedBlock s out =
     (case symbol s of
        None \<Rightarrow> None
      | Some (c, s') \<Rightarrow>
          if c < 256 then fixedBlock s' (of_nat c # out)
          else if c = 256 then Some (out, s')
          else (case matched (c - 257) s' out of None \<Rightarrow> None | Some (out', s'') \<Rightarrow> fixedBlock s'' out'))"
  by pat_completeness auto
termination
  by (relation "measure (length \<circ> fst)") (auto dest!: symbol_length matched_length)

declare fixedBlock.simps [simp del]

text \<open>A stored block starts at the next byte, with its length and the complement of it.\<close>

fun storedBytes :: "nat \<Rightarrow> bits \<Rightarrow> bytes \<Rightarrow> (bytes \<times> bits) option" where
  "storedBytes 0 s out = Some (out, s)"
| "storedBytes (Suc n) s out = Option.bind (numBits 8 s) (\<lambda>(v, s). storedBytes n s (of_nat v # out))"

definition storedBlock :: "bits \<Rightarrow> bytes \<Rightarrow> (bytes \<times> bits) option" where
  "storedBlock s out =
     Option.bind (numBits 16 (drop (length s mod 8) s)) (\<lambda>(n, s).
     Option.bind (numBits 16 s) (\<lambda>(m, s). if n + m = 65535 then storedBytes n s out else None))"

lemma fixedBlock_length: "fixedBlock s out = Some (out', s') \<Longrightarrow> length s' < length s"
proof (induction s out arbitrary: out' s' rule: fixedBlock.induct)
  case (1 s out)
  from "1.prems" obtain c s1 where c: "symbol s = Some (c, s1)"
    by (subst (asm) fixedBlock.simps) (auto split: option.splits)
  note lt = symbol_length [OF this]
  consider "c < 256" | "c = 256" | "\<not> c < 256" "c \<noteq> 256" by blast
  then show ?case
  proof cases
    case 1
    with "1.prems" c have "fixedBlock s1 (of_nat c # out) = Some (out', s')"
      by (subst (asm) fixedBlock.simps) simp
    from "1.IH"(1) [OF c refl 1 this] lt show ?thesis by simp
  next
    case 2
    with "1.prems" c lt show ?thesis by (subst (asm) fixedBlock.simps) simp
  next
    case 3
    with "1.prems" c obtain o2 s2 where m: "matched (c - 257) s1 out = Some (o2, s2)"
      "fixedBlock s2 o2 = Some (out', s')" by (subst (asm) fixedBlock.simps) (auto split: option.splits)
    from "1.IH"(2) [OF c refl 3 m(1) refl m(2)] matched_length [OF m(1)] lt show ?thesis by simp
  qed
qed

lemma storedBytes_length: "storedBytes n s out = Some (out', s') \<Longrightarrow> length s' \<le> length s"
  by (induction n arbitrary: s out) (fastforce simp: bind_eq_Some_conv dest!: numBits_length)+

lemma storedBlock_length: "storedBlock s out = Some (out', s') \<Longrightarrow> length s' \<le> length s"
  by (fastforce simp: storedBlock_def bind_eq_Some_conv split: if_splits dest!: numBits_length storedBytes_length)

text \<open>A block begins with the flag of the last block and its kind.\<close>

definition block :: "bits \<Rightarrow> bytes \<Rightarrow> (bool \<times> bytes \<times> bits) option" where
  "block s out =
     Option.bind (numBits 1 s) (\<lambda>(final, s).
     Option.bind (numBits 2 s) (\<lambda>(kind, s).
       map_option (Pair (final = 1))
         (if kind = 0 then storedBlock s out else if kind = 1 then fixedBlock s out else None)))"

lemma block_length: "block s out = Some (l, out', s') \<Longrightarrow> length s' < length s"
  by (fastforce simp: block_def bind_eq_Some_conv simp del: numBits.simps split: if_splits
      dest!: numBits_length storedBlock_length fixedBlock_length)

function inflate :: "bits \<Rightarrow> bytes \<Rightarrow> (bytes \<times> bits) option" where
  "inflate s out =
     (case block s out of
        None \<Rightarrow> None
      | Some (final, out', s') \<Rightarrow> if final then Some (rev out', s') else inflate s' out')"
  by pat_completeness auto
termination
  by (relation "measure (length \<circ> fst)") (auto dest!: block_length)

declare inflate.simps [simp del]

text \<open>A header without optional parts, the compressed data, the checksum and the length.\<close>

definition gunzip :: "bytes \<Rightarrow> bytes option" where
  "gunzip d =
     (if length d < 18 \<or> take 4 d \<noteq> [0x1f, 0x8b, 8, 0] then None
      else Option.bind (inflate (unpackBits (drop 10 d)) []) (\<lambda>(out, trailer).
        if length trailer = 64 \<and> map_option fst (numBits 32 (drop 32 trailer)) = Some (length out mod 2 ^ 32)
        then Some out else None))"

section \<open>Writing tokens\<close>

text \<open>A literal, or a match: the symbol of its length, further bits, the symbol of its distance, further bits.\<close>

datatype token = Lit nat | Copy nat nat nat nat

fun tokenOk :: "token \<Rightarrow> bool" where
  "tokenOk (Lit c) \<longleftrightarrow> c < 256"
| "tokenOk (Copy l x k y) \<longleftrightarrow> l < 29 \<and> x < 2 ^ snd (lengths ! l) \<and> k < 30 \<and> y < 2 ^ snd (distances ! k)"

fun codeOut :: "nat \<Rightarrow> nat \<Rightarrow> bits" where
  "codeOut 0 v = []"
| "codeOut (Suc n) v = codeOut n (v div 2) @ [odd v]"

fun numOut :: "nat \<Rightarrow> nat \<Rightarrow> bits" where
  "numOut 0 v = []"
| "numOut (Suc n) v = odd v # numOut n (v div 2)"

definition symbolOut :: "nat \<Rightarrow> bits" where
  "symbolOut c = (if c < 144 then codeOut 8 (c + 48) else if c < 256 then codeOut 9 (c + 256)
     else if c < 280 then codeOut 7 (c - 256) else codeOut 8 (c - 88))"

fun tokenOut :: "token \<Rightarrow> bits" where
  "tokenOut (Lit c) = symbolOut c"
| "tokenOut (Copy l x k y) =
     symbolOut (257 + l) @ numOut (snd (lengths ! l)) x @ codeOut 5 k @ numOut (snd (distances ! k)) y"

definition tokensOut :: "token list \<Rightarrow> bits" where
  "tokensOut ts = concat (map tokenOut ts)"

text \<open>What tokens stand for, written after \<open>out\<close>.\<close>

fun expand :: "token list \<Rightarrow> bytes \<Rightarrow> bytes option" where
  "expand [] out = Some out"
| "expand (Lit c # ts) out = expand ts (of_nat c # out)"
| "expand (Copy l x k y # ts) out =
     (case copyBack (fst (lengths ! l) + x) (fst (distances ! k) + y) out of
        None \<Rightarrow> None | Some out \<Rightarrow> expand ts out)"

section \<open>Reading what was written\<close>

lemma codeBits_codeOut: "codeBits (n + m) a (codeOut n v @ s) = codeBits m (a * 2 ^ n + v mod 2 ^ n) s"
proof (induction n arbitrary: v m s)
  case (Suc n)
  have "codeBits (Suc n + m) a (codeOut (Suc n) v @ s) = codeBits (n + Suc m) a (codeOut n (v div 2) @ odd v # s)"
    by simp
  also have "\<dots> = codeBits m (2 * (a * 2 ^ n + v div 2 mod 2 ^ n) + of_bool (odd v)) s"
    by (subst Suc) simp
  also have "2 * (a * 2 ^ n + v div 2 mod 2 ^ n) + of_bool (odd v) = a * 2 ^ Suc n + v mod 2 ^ Suc n"
    by (simp add: mod_mult2_eq [of v 2 "2 ^ n"] mod_2_eq_odd algebra_simps)
  finally show ?case .
qed simp

lemma codeBits_exact: "v < 2 ^ n \<Longrightarrow> codeBits n 0 (codeOut n v @ s) = Some (v, s)"
  using codeBits_codeOut [of n 0 0 v s] by simp

lemma numBits_numOut: "v < 2 ^ n \<Longrightarrow> numBits n (numOut n v @ s) = Some (v, s)"
proof (induction n arbitrary: v)
  case (Suc n)
  then have "numBits n (numOut n (v div 2) @ s) = Some (v div 2, s)" by (intro Suc.IH) auto
  moreover have "of_bool (odd v) + 2 * (v div 2) = v" by (cases "even v") auto
  ultimately show ?case by simp
qed simp

lemma half: "2 * (v div 2) + of_bool (odd v) = v" for v :: nat
  by (cases "even v") auto

lemma codeOut_eight: "codeOut 8 v = codeOut 7 (v div 2) @ [odd v]"
  using codeOut.simps(2) [of 7 v] by (simp del: codeOut.simps)

lemma codeOut_nine: "codeOut 9 v = codeOut 7 (v div 2 div 2) @ [odd (v div 2), odd v]"
  using codeOut.simps(2) [of 8 v] by (simp add: codeOut_eight del: codeOut.simps)

lemma symbol_short:
  assumes "v < 24"
  shows "symbol (codeOut 7 v @ s) = Some (256 + v, s)"
  using assms codeBits_exact [of v 7 s] by (simp add: symbol_def)

lemma symbol_eight:
  assumes "48 \<le> v" "v < 200"
  shows "symbol (codeOut 8 v @ s) = Some (if v < 192 then v - 48 else v + 88, s)"
proof -
  have "codeBits 7 0 (codeOut 7 (v div 2) @ odd v # s) = Some (v div 2, odd v # s)"
    using assms by (intro codeBits_exact) simp
  moreover have "codeBits 1 (v div 2) (odd v # s) = Some (v, s)" by (simp only: One_nat_def codeBits.simps half)
  moreover have "\<not> v div 2 < 24" using assms by simp
  ultimately show ?thesis using assms(2) by (simp add: symbol_def codeOut_eight del: codeBits.simps One_nat_def)
qed

lemma symbol_nine:
  assumes "400 \<le> v" "v < 512"
  shows "symbol (codeOut 9 v @ s) = Some (v - 256, s)"
proof -
  let ?w = "v div 2"
  have "codeBits 7 0 (codeOut 7 (?w div 2) @ odd ?w # odd v # s) = Some (?w div 2, odd ?w # odd v # s)"
    using assms by (intro codeBits_exact) simp
  moreover have "codeBits 1 (?w div 2) (odd ?w # odd v # s) = Some (?w, odd v # s)"
    "codeBits 1 ?w (odd v # s) = Some (v, s)" by (simp_all only: One_nat_def codeBits.simps half)
  moreover have "\<not> ?w div 2 < 24" "\<not> ?w < 200" using assms by simp_all
  ultimately show ?thesis by (simp add: symbol_def codeOut_nine del: codeBits.simps One_nat_def)
qed

lemma symbol_symbolOut: "c < 288 \<Longrightarrow> symbol (symbolOut c @ s) = Some (c, s)"
  by (auto simp: symbolOut_def symbol_short symbol_eight symbol_nine)

lemma tables_length: "length lengths = 29" "length distances = 30"
  by (simp_all add: lengths_def distances_def)

lemma matched_tokenOut:
  assumes "tokenOk (Copy l x k y)"
  shows "matched l (numOut (snd (lengths ! l)) x @ codeOut 5 k @ numOut (snd (distances ! k)) y @ s) out =
    map_option (\<lambda>out. (out, s)) (copyBack (fst (lengths ! l) + x) (fst (distances ! k) + y) out)"
  using assms by (simp add: matched_def based_def tables_length numBits_numOut codeBits_exact)

lemma fixedBlock_tokens:
  "list_all tokenOk ts \<Longrightarrow>
   fixedBlock (tokensOut ts @ symbolOut 256 @ s) out = map_option (\<lambda>out. (out, s)) (expand ts out)"
proof (induction ts out rule: expand.induct)
  case (1 out)
  show ?case by (subst fixedBlock.simps) (simp add: tokensOut_def symbol_symbolOut)
next
  case (2 c ts out)
  then show ?case by (subst fixedBlock.simps) (simp add: tokensOut_def symbol_symbolOut)
next
  case (3 l x k y ts out)
  then have ok: "tokenOk (Copy l x k y)" by simp
  then have l: "symbol (symbolOut (257 + l) @ r) = Some (257 + l, r)" for r by (intro symbol_symbolOut) simp
  show ?case
  proof (cases "copyBack (fst (lengths ! l) + x) (fst (distances ! k) + y) out")
    case None
    then show ?thesis
      by (subst fixedBlock.simps) (simp add: tokensOut_def l matched_tokenOut [OF ok])
  next
    case (Some out')
    with 3 show ?thesis
      by (subst fixedBlock.simps) (simp add: tokensOut_def l matched_tokenOut [OF ok])
  qed
qed

lemma numBits_replicate: "numBits n (replicate n b @ s) = Some (if b then 2 ^ n - 1 else 0, s)"
proof (induction n)
  case (Suc n)
  have "Suc (2 * (2 ^ n - Suc 0)) = 2 * 2 ^ n - Suc 0" using one_le_power [of 2 n] by (cases "2 ^ n :: nat") auto
  with Suc show ?case by simp
qed simp

lemma storedBlock_empty:
  assumes "length pad < 8" "length trailer = 64"
  shows "storedBlock (pad @ replicate 16 False @ replicate 16 True @ trailer) out = Some (out, trailer)"
proof -
  have "(length pad + 96) mod 8 = length pad" using assms(1) by presburger
  then have d: "drop (length (pad @ replicate 16 False @ replicate 16 True @ trailer) mod 8)
      (pad @ replicate 16 False @ replicate 16 True @ trailer) = replicate 16 False @ replicate 16 True @ trailer"
    using assms(2) by simp
  show ?thesis unfolding storedBlock_def d
    using numBits_replicate [of 16 False "replicate 16 True @ trailer"] numBits_replicate [of 16 True trailer]
    by simp
qed

text \<open>A stream as Go's writer leaves it: one block of tokens, then an empty stored block as the last one.\<close>

lemma inflate_tokens:
  assumes "list_all tokenOk ts" "expand ts [] = Some out" "length pad < 8" "length trailer = 64"
    and "s = [False, True, False] @ tokensOut ts @ symbolOut 256 @ [True, False, False] @ pad @
      replicate 16 False @ replicate 16 True @ trailer"
  shows "inflate s [] = Some (rev out, trailer)"
proof -
  let ?tail = "[True, False, False] @ pad @ replicate 16 False @ replicate 16 True @ trailer"
  have "block s [] = Some (False, out, ?tail)"
    using fixedBlock_tokens [OF assms(1), of ?tail "[]"] assms(2)
    by (simp add: assms(5) block_def numeral_2_eq_2)
  moreover have "block ?tail out = Some (True, out, trailer)"
    using storedBlock_empty [OF assms(3,4), of out]
    by (simp add: block_def numeral_2_eq_2)
  ultimately show ?thesis by (subst inflate.simps, simp) (subst inflate.simps, simp)
qed

end
