(* ===== verification/PbDescriptors.thy ===== *)
theory PbDescriptors
  imports Inflate ApiTables
begin

text \<open>
  The descriptors that \<open>x/fixedmint/types/*.pb.go\<close> embed, compressed, with the methods \<open>Descriptor\<close> and the
  registrations of the \<open>init\<close> functions. Unpacking them with the reference definition of Inflate gives
  tables that declare the schemas of ApiTables but for the options of the file.
\<close>

section \<open>The compressed tables\<close>

definition fileDescriptor_3957a907f0e796d4 :: bytes where
  "fileDescriptor_3957a907f0e796d4 =
   [0x1f, 0x8b, 0x08, 0x00, 0x00, 0x00, 0x00, 0x00, 0x02, 0xff, 0xe2, 0x52, 0x49, 0xca, 0x29, 0x4d,
    0x4d, 0xce, 0xc8, 0x2c, 0x48, 0xce, 0x48, 0xcc, 0xcc, 0xd3, 0x4f, 0xcb, 0xac, 0x48, 0x4d, 0xc9,
    0xcd, 0xcc, 0x2b, 0xd1, 0x2f, 0x48, 0x2c, 0x4a, 0xcc, 0x2d, 0xd6, 0x2b, 0x28, 0xca, 0x2f, 0xc9,
    0x17, 0x12, 0x47, 0x51, 0xa5, 0x07, 0x57, 0x25, 0x25, 0x98, 0x98, 0x9b, 0x99, 0x97, 0xaf, 0x0f,
    0x26, 0x21, 0x6a, 0xa5, 0x24, 0x93, 0xf3, 0x8b, 0x73, 0xf3, 0x8b, 0xe3, 0xc1, 0x3c, 0x7d, 0x08,
    0x07, 0x2a, 0x25, 0x92, 0x9e, 0x9f, 0x9e, 0x0f, 0x11, 0x07, 0xb1, 0x20, 0xa2, 0x4a, 0x87, 0x19,
    0xb9, 0xd8, 0x02, 0xc0, 0xb6, 0x09, 0xc9, 0x72, 0x71, 0x81, 0x8c, 0x8d, 0x4f, 0x49, 0xcd, 0xcb,
    0xcf, 0x95, 0x60, 0x54, 0x60, 0xd4, 0xe0, 0x0c, 0xe2, 0x04, 0x89, 0xb8, 0x80, 0x04, 0x84, 0x7c,
    0xb8, 0xb8, 0xc1, 0xd2, 0x89, 0xb9, 0xf9, 0xa5, 0x79, 0x25, 0x12, 0x4c, 0x20, 0x79, 0x27, 0xed,
    0x13, 0xf7, 0xe4, 0x19, 0x6e, 0xdd, 0x93, 0x17, 0x85, 0x58, 0x55, 0x9c, 0x92, 0xad, 0x97, 0x99,
    0xaf, 0x9f, 0x9b, 0x58, 0x92, 0xa1, 0xe7, 0x99, 0x57, 0x72, 0x69, 0x8b, 0x2e, 0x17, 0xd4, 0x0d,
    0x9e, 0x79, 0x25, 0x41, 0x60, 0xe3, 0x1d, 0xc1, 0xda, 0x85, 0x14, 0xb9, 0x78, 0xc0, 0xa6, 0xa5,
    0xe6, 0x25, 0x26, 0xe5, 0xa4, 0xa6, 0x48, 0x30, 0x2b, 0x30, 0x6a, 0x70, 0x04, 0x81, 0x6d, 0x70,
    0x85, 0x08, 0x59, 0x69, 0xbe, 0x58, 0x20, 0xcf, 0xd8, 0xf5, 0x7c, 0x83, 0x96, 0x02, 0x6a, 0x30,
    0x55, 0x20, 0x05, 0x14, 0xc4, 0xe9, 0x4e, 0x96, 0x27, 0x1e, 0xc9, 0x31, 0x5e, 0x78, 0x24, 0xc7,
    0xf8, 0xe0, 0x91, 0x1c, 0xe3, 0x84, 0xc7, 0x72, 0x0c, 0x17, 0x1e, 0xcb, 0x31, 0xdc, 0x78, 0x2c,
    0xc7, 0x10, 0x25, 0x0f, 0xd3, 0xeb, 0x8c, 0xa1, 0xb7, 0xa4, 0xb2, 0x20, 0xb5, 0x38, 0x89, 0x0d,
    0x1c, 0x0e, 0xc6, 0x80, 0x00, 0x00, 0x00, 0xff, 0xff, 0x16, 0xf0, 0xcc, 0x8e, 0x8c, 0x01, 0x00,
    0x00]"

definition fileDescriptor_e1a1d1288ebf91c8 :: bytes where
  "fileDescriptor_e1a1d1288ebf91c8 =
   [0x1f, 0x8b, 0x08, 0x00, 0x00, 0x00, 0x00, 0x00, 0x02, 0xff, 0xe2, 0x52, 0x4d, 0xca, 0x29, 0x4d,
    0x4d, 0xce, 0xc8, 0x2c, 0x48, 0xce, 0x48, 0xcc, 0xcc, 0xd3, 0x4f, 0xcb, 0xac, 0x48, 0x4d, 0xc9,
    0xcd, 0xcc, 0x2b, 0xd1, 0x4f, 0x4f, 0xcd, 0x4b, 0x2d, 0xce, 0x2c, 0xd6, 0x2b, 0x28, 0xca, 0x2f,
    0xc9, 0x17, 0x12, 0x47, 0x51, 0xa6, 0x07, 0x57, 0x26, 0x25, 0x98, 0x98, 0x9b, 0x99, 0x97, 0xaf,
    0x0f, 0x26, 0x21, 0x6a, 0xa5, 0x44, 0xd2, 0xf3, 0xd3, 0xf3, 0xc1, 0x4c, 0x7d, 0x10, 0x0b, 0x2a,
    0xaa, 0x82, 0xcb, 0xa2, 0x82, 0xc4, 0xa2, 0xc4, 0x5c, 0xa8, 0x3d, 0x4a, 0x41, 0x5c, 0x3c, 0xee,
    0x10, 0x8b, 0x83, 0x4b, 0x12, 0x4b, 0x52, 0x85, 0x9c, 0xb8, 0xd8, 0x20, 0xf2, 0x12, 0x8c, 0x0a,
    0x8c, 0x1a, 0xdc, 0x46, 0xf2, 0x7a, 0x38, 0x1c, 0xa2, 0x17, 0x00, 0x56, 0xe6, 0xc4, 0x79, 0xe2,
    0x9e, 0x3c, 0xc3, 0x8a, 0xe7, 0x1b, 0xb4, 0x18, 0x83, 0xa0, 0x3a, 0x9d, 0x2c, 0x4f, 0x3c, 0x92,
    0x63, 0xbc, 0xf0, 0x48, 0x8e, 0xf1, 0xc1, 0x23, 0x39, 0xc6, 0x09, 0x8f, 0xe5, 0x18, 0x2e, 0x3c,
    0x96, 0x63, 0xb8, 0xf1, 0x58, 0x8e, 0x21, 0x4a, 0x1e, 0x66, 0x98, 0x33, 0xd8, 0x4d, 0x15, 0x48,
    0xae, 0x2a, 0xa9, 0x2c, 0x48, 0x2d, 0x4e, 0x62, 0x03, 0xbb, 0xca, 0x18, 0x10, 0x00, 0x00, 0xff,
    0xff, 0xbe, 0xfc, 0xbd, 0x85, 0x26, 0x01, 0x00, 0x00]"

definition fileDescriptor_46eb71efd44984c9 :: bytes where
  "fileDescriptor_46eb71efd44984c9 =
   [0x1f, 0x8b, 0x08, 0x00, 0x00, 0x00, 0x00, 0x00, 0x02, 0xff, 0xe2, 0x52, 0x4e, 0xca, 0x29, 0x4d,
    0x4d, 0xce, 0xc8, 0x2c, 0x48, 0xce, 0x48, 0xcc, 0xcc, 0xd3, 0x4f, 0xcb, 0xac, 0x48, 0x4d, 0xc9,
    0xcd, 0xcc, 0x2b, 0xd1, 0x2f, 0x2c, 0x4d, 0x2d, 0xaa, 0xd4, 0x2b, 0x28, 0xca, 0x2f, 0xc9, 0x17,
    0x12, 0x47, 0x51, 0xa4, 0x07, 0x57, 0x24, 0x25, 0x98, 0x98, 0x9b, 0x99, 0x97, 0xaf, 0x0f, 0x26,
    0x21, 0x6a, 0xa5, 0x44, 0xd2, 0xf3, 0xd3, 0xf3, 0xc1, 0x4c, 0x7d, 0x10, 0x0b, 0x2a, 0x2a, 0x93,
    0x9e, 0x9f, 0x9f, 0x9e, 0x93, 0xaa, 0x9f, 0x58, 0x90, 0xa9, 0x9f, 0x98, 0x97, 0x97, 0x5f, 0x92,
    0x58, 0x92, 0x99, 0x9f, 0x57, 0x0c, 0x95, 0xd5, 0x4a, 0xce, 0x2f, 0xce, 0xcd, 0x2f, 0xd6, 0x4f,
    0x4a, 0x2c, 0x4e, 0x85, 0x58, 0xac, 0x5f, 0x66, 0x98, 0x94, 0x5a, 0x92, 0x68, 0xa8, 0x5f, 0x90,
    0x98, 0x9e, 0x99, 0x07, 0x56, 0x0c, 0x55, 0xab, 0x82, 0xcb, 0xc1, 0x05, 0x89, 0x45, 0x89, 0xb9,
    0x50, 0x13, 0x95, 0x44, 0xb8, 0x84, 0x02, 0x41, 0xe6, 0x04, 0x80, 0x05, 0x83, 0x52, 0x0b, 0x4b,
    0x53, 0x8b, 0x4b, 0x94, 0x22, 0xb9, 0x84, 0x51, 0x44, 0x8b, 0x0b, 0xf2, 0xf3, 0x8a, 0x53, 0x85,
    0x9c, 0xb8, 0xd8, 0x20, 0x9a, 0x25, 0x18, 0x15, 0x18, 0x35, 0xb8, 0x8d, 0xe4, 0xf5, 0x70, 0xf8,
    0x57, 0x0f, 0xa2, 0xd1, 0x89, 0xf3, 0xc4, 0x3d, 0x79, 0x86, 0x15, 0xcf, 0x37, 0x68, 0x31, 0x06,
    0x41, 0x75, 0x1a, 0x4d, 0x63, 0xe4, 0x62, 0x05, 0x9b, 0x2d, 0xd4, 0xc3, 0xc8, 0xc5, 0x06, 0x51,
    0x27, 0xa4, 0x8d, 0xd3, 0x20, 0x4c, 0xc7, 0x49, 0xe9, 0x10, 0xa7, 0x18, 0xe2, 0x66, 0x25, 0xf5,
    0xa6, 0xcb, 0x4f, 0x26, 0x33, 0x29, 0x0a, 0xc9, 0xeb, 0xc3, 0x74, 0x39, 0x63, 0x0d, 0x0f, 0x27,
    0xcb, 0x13, 0x8f, 0xe4, 0x18, 0x2f, 0x3c, 0x92, 0x63, 0x7c, 0xf0, 0x48, 0x8e, 0x71, 0xc2, 0x63,
    0x39, 0x86, 0x0b, 0x8f, 0xe5, 0x18, 0x6e, 0x3c, 0x96, 0x63, 0x88, 0x92, 0x47, 0xd5, 0x59, 0x81,
    0xa4, 0xb7, 0xa4, 0xb2, 0x20, 0xb5, 0x38, 0x89, 0x0d, 0x1c, 0x96, 0xc6, 0x80, 0x00, 0x00, 0x00,
    0xff, 0xff, 0xe3, 0xe2, 0xc2, 0x83, 0x24, 0x02, 0x00, 0x00]"

definition fileDescriptor_066622f4970b002b :: bytes where
  "fileDescriptor_066622f4970b002b =
   [0x1f, 0x8b, 0x08, 0x00, 0x00, 0x00, 0x00, 0x00, 0x02, 0xff, 0xe2, 0x52, 0x48, 0xca, 0x29, 0x4d,
    0x4d, 0xce, 0xc8, 0x2c, 0x48, 0xce, 0x48, 0xcc, 0xcc, 0xd3, 0x4f, 0xcb, 0xac, 0x48, 0x4d, 0xc9,
    0xcd, 0xcc, 0x2b, 0xd1, 0x2f, 0xa9, 0xd0, 0x2b, 0x28, 0xca, 0x2f, 0xc9, 0x17, 0x12, 0x47, 0x51,
    0xa1, 0x07, 0x57, 0x21, 0x25, 0x98, 0x98, 0x9b, 0x99, 0x97, 0xaf, 0x0f, 0x26, 0x21, 0x6a, 0xa5,
    0xc4, 0x93, 0xf3, 0x8b, 0x73, 0xf3, 0x8b, 0xf5, 0x73, 0x8b, 0xd3, 0xf5, 0xcb, 0x0c, 0x41, 0x14,
    0x54, 0x42, 0x12, 0x22, 0x11, 0x0f, 0xe6, 0xe9, 0x43, 0x38, 0x50, 0x29, 0x91, 0xf4, 0xfc, 0xf4,
    0x7c, 0x88, 0x38, 0x88, 0x05, 0x15, 0x55, 0xc1, 0xe5, 0xae, 0x82, 0xc4, 0xa2, 0xc4, 0x5c, 0xa8,
    0x5e, 0xa5, 0xd3, 0x8c, 0x5c, 0xfc, 0xbe, 0xc5, 0xe9, 0xa1, 0x05, 0x29, 0x89, 0x25, 0xa9, 0x01,
    0x60, 0x19, 0x21, 0x33, 0x2e, 0xce, 0xc4, 0xd2, 0x92, 0x8c, 0xfc, 0xa2, 0xcc, 0x92, 0x4a, 0x09,
    0x46, 0x05, 0x46, 0x0d, 0x4e, 0x27, 0x89, 0x4b, 0x5b, 0x74, 0x45, 0xa0, 0x96, 0x3a, 0xa6, 0xa4,
    0x14, 0xa5, 0x16, 0x17, 0x07, 0x97, 0x14, 0x65, 0xe6, 0xa5, 0x07, 0x21, 0x94, 0x0a, 0x39, 0x71,
    0xb1, 0x41, 0xcc, 0x96, 0x60, 0x52, 0x60, 0xd4, 0xe0, 0x36, 0x92, 0xd7, 0xc3, 0xe1, 0x71, 0x3d,
    0x88, 0x45, 0x4e, 0x9c, 0x27, 0xee, 0xc9, 0x33, 0xac, 0x78, 0xbe, 0x41, 0x8b, 0x31, 0x08, 0xaa,
    0xd3, 0xca, 0xa6, 0xe9, 0xf9, 0x06, 0x2d, 0x84, 0x99, 0x5d, 0xcf, 0x37, 0x68, 0x69, 0xa2, 0x7a,
    0xa4, 0x02, 0xc9, 0x2b, 0x68, 0x2e, 0x57, 0x92, 0xe4, 0x12, 0x47, 0x13, 0x0a, 0x4a, 0x2d, 0x2e,
    0xc8, 0xcf, 0x2b, 0x4e, 0x35, 0xaa, 0xe0, 0x62, 0xf6, 0x2d, 0x4e, 0x17, 0xca, 0xe2, 0xe2, 0x41,
    0xf1, 0xab, 0x06, 0x4e, 0x37, 0xa2, 0x19, 0x24, 0x65, 0x40, 0xac, 0x4a, 0x98, 0x95, 0x52, 0xac,
    0x0d, 0x20, 0xaf, 0x39, 0x59, 0x9e, 0x78, 0x24, 0xc7, 0x78, 0xe1, 0x91, 0x1c, 0xe3, 0x83, 0x47,
    0x72, 0x8c, 0x13, 0x1e, 0xcb, 0x31, 0x5c, 0x78, 0x2c, 0xc7, 0x70, 0xe3, 0xb1, 0x1c, 0x43, 0x94,
    0x3c, 0xcc, 0x44, 0x67, 0x0c, 0x9f, 0x95, 0x54, 0x16, 0xa4, 0x16, 0x27, 0xb1, 0x81, 0x23, 0xc9,
    0x18, 0x10, 0x00, 0x00, 0xff, 0xff, 0xff, 0xf1, 0x07, 0x42, 0x64, 0x02, 0x00, 0x00]"

section \<open>Descriptor methods\<close>

definition Params_Descriptor :: "bytes \<times> nat list" where
  "Params_Descriptor = (fileDescriptor_3957a907f0e796d4, [0])"
definition GenesisState_Descriptor :: "bytes \<times> nat list" where
  "GenesisState_Descriptor = (fileDescriptor_e1a1d1288ebf91c8, [0])"
definition QueryParamsRequest_Descriptor :: "bytes \<times> nat list" where
  "QueryParamsRequest_Descriptor = (fileDescriptor_46eb71efd44984c9, [0])"
definition QueryParamsResponse_Descriptor :: "bytes \<times> nat list" where
  "QueryParamsResponse_Descriptor = (fileDescriptor_46eb71efd44984c9, [1])"
definition MsgUpdateParams_Descriptor :: "bytes \<times> nat list" where
  "MsgUpdateParams_Descriptor = (fileDescriptor_066622f4970b002b, [0])"
definition MsgUpdateParamsResponse_Descriptor :: "bytes \<times> nat list" where
  "MsgUpdateParamsResponse_Descriptor = (fileDescriptor_066622f4970b002b, [1])"

section \<open>Registration\<close>

text \<open>
  What the \<open>init\<close> functions register with gogoproto, in order: a message under its Go type and its full name, a
  file under its path.
\<close>

datatype registration = RegisterType string string | RegisterFile string bytes

definition params_pb_init :: "registration list" where
  "params_pb_init =
     [RegisterType ''Params'' ''bluechipchain.fixedmint.Params'',
      RegisterFile ''bluechipchain/fixedmint/params.proto'' fileDescriptor_3957a907f0e796d4]"

definition genesis_pb_init :: "registration list" where
  "genesis_pb_init =
     [RegisterType ''GenesisState'' ''bluechipchain.fixedmint.GenesisState'',
      RegisterFile ''bluechipchain/fixedmint/genesis.proto'' fileDescriptor_e1a1d1288ebf91c8]"

definition query_pb_init :: "registration list" where
  "query_pb_init =
     [RegisterType ''QueryParamsRequest'' ''bluechipchain.fixedmint.QueryParamsRequest'',
      RegisterType ''QueryParamsResponse'' ''bluechipchain.fixedmint.QueryParamsResponse'',
      RegisterFile ''bluechipchain/fixedmint/query.proto'' fileDescriptor_46eb71efd44984c9]"

definition tx_pb_init :: "registration list" where
  "tx_pb_init =
     [RegisterType ''MsgUpdateParams'' ''bluechipchain.fixedmint.MsgUpdateParams'',
      RegisterType ''MsgUpdateParamsResponse'' ''bluechipchain.fixedmint.MsgUpdateParamsResponse'',
      RegisterFile ''bluechipchain/fixedmint/tx.proto'' fileDescriptor_066622f4970b002b]"

section \<open>Unpacking\<close>

text \<open>The options of the files generated with gogoproto.\<close>

definition gogoOptions :: entries where
  "gogoOptions = [(63017, VarintV 1), (63018, VarintV 1), (63020, VarintV 1), (63026, VarintV 0), (63034, VarintV 0),
     (63035, VarintV 0), textE 11 ''bluechipChain/x/fixedmint/types'']"

text \<open>The tokens that Go's writer chose. They are read off the bits and checked against them.\<close>

definition params_tokens :: "token list" where
  "params_tokens =
    [Lit 10, Lit 36, Lit 98, Lit 108, Lit 117, Lit 101, Lit 99, Lit 104, Lit 105, Lit 112, Lit 99,
     Lit 104, Lit 97, Lit 105, Lit 110, Lit 47, Lit 102, Lit 105, Lit 120, Lit 101, Lit 100,
     Lit 109, Lit 105, Lit 110, Lit 116, Lit 47, Lit 112, Lit 97, Lit 114, Lit 97, Lit 109, Lit 115,
     Lit 46, Lit 112, Lit 114, Lit 111, Lit 116, Lit 111, Lit 18, Lit 23, Copy 9 0 10 5, Lit 46,
     Copy 6 0 10 5, Lit 26, Lit 17, Lit 97, Lit 109, Lit 105, Lit 110, Lit 111, Lit 47,
     Copy 2 0 4 1, Copy 3 0 10 11, Lit 26, Lit 25, Lit 99, Lit 111, Lit 115, Lit 109, Lit 111,
     Lit 115, Lit 95, Copy 2 0 7 1, Lit 47, Copy 3 0 7 0, Copy 4 0 9 2, Lit 20, Lit 103, Lit 111,
     Lit 103, Lit 111, Copy 3 0 8 7, Copy 1 0 6 1, Copy 3 0 8 5, Lit 34, Lit 195, Lit 1, Lit 10,
     Lit 6, Lit 80, Copy 2 0 13 13, Lit 18, Lit 29, Lit 10, Lit 10, Copy 1 0 12 22, Lit 95, Lit 100,
     Lit 101, Lit 110, Lit 111, Lit 109, Lit 24, Lit 1, Lit 32, Lit 1, Lit 40, Lit 9, Lit 82, Lit 9,
     Copy 1 0 8 1, Lit 68, Copy 1 0 8 0, Lit 18, Lit 76, Lit 10, Lit 11, Copy 2 0 9 6, Lit 97,
     Lit 109, Lit 111, Lit 117, Lit 110, Lit 116, Lit 24, Lit 2, Copy 1 0 9 7, Lit 66, Lit 43,
     Lit 200, Lit 222, Lit 31, Lit 0, Lit 218, Lit 222, Lit 31, Lit 21, Copy 3 0 13 10, Lit 115,
     Lit 100, Lit 107, Lit 46, Lit 105, Lit 111, Lit 47, Lit 109, Lit 97, Lit 116, Lit 104, Lit 46,
     Lit 73, Lit 110, Lit 116, Lit 210, Lit 180, Lit 45, Lit 10, Copy 4 0 14 3, Lit 73, Lit 110,
     Lit 116, Lit 82, Copy 2 0 12 30, Lit 65, Copy 2 0 11 14, Lit 18, Lit 33, Lit 10, Lit 12,
     Copy 2 0 12 13, Lit 101, Lit 110, Lit 97, Lit 98, Lit 108, Lit 101, Lit 100, Lit 24, Lit 3,
     Lit 32, Lit 1, Lit 40, Lit 8, Lit 82, Copy 2 0 13 1, Lit 69, Copy 3 0 8 2, Lit 58, Lit 41,
     Lit 232, Lit 160, Lit 31, Lit 1, Lit 138, Lit 231, Lit 176, Lit 42, Lit 32, Copy 9 1 16 38,
     Lit 120, Copy 8 0 16 40, Copy 3 0 14 58, Lit 66, Lit 57, Lit 200, Lit 226, Lit 30, Lit 1,
     Lit 208, Lit 226, Lit 30, Lit 1, Lit 224, Lit 226, Lit 30, Lit 1, Lit 144, Lit 227, Lit 30,
     Lit 0, Lit 208, Lit 227, Lit 30, Lit 0, Lit 216, Lit 227, Lit 30, Lit 0, Lit 90, Lit 31,
     Copy 5 0 11 11, Lit 67, Copy 11 0 11 11, Lit 116, Lit 121, Lit 112, Lit 101, Lit 115, Lit 98,
     Lit 6, Copy 2 0 16 7, Lit 51]"

definition genesis_tokens :: "token list" where
  "genesis_tokens =
    [Lit 10, Lit 37, Lit 98, Lit 108, Lit 117, Lit 101, Lit 99, Lit 104, Lit 105, Lit 112, Lit 99,
     Lit 104, Lit 97, Lit 105, Lit 110, Lit 47, Lit 102, Lit 105, Lit 120, Lit 101, Lit 100,
     Lit 109, Lit 105, Lit 110, Lit 116, Lit 47, Lit 103, Lit 101, Lit 110, Lit 101, Lit 115,
     Lit 105, Lit 115, Lit 46, Lit 112, Lit 114, Lit 111, Lit 116, Lit 111, Lit 18, Lit 23,
     Copy 9 0 10 6, Lit 46, Copy 6 0 10 6, Lit 26, Lit 17, Lit 97, Lit 109, Lit 105, Lit 110,
     Lit 111, Lit 47, Copy 2 0 4 1, Copy 3 0 10 11, Lit 26, Lit 20, Lit 103, Lit 111, Lit 103,
     Lit 111, Copy 2 0 6 2, Lit 47, Copy 1 0 6 1, Copy 4 0 8 5, Lit 36, Copy 13 1 13 8, Lit 112,
     Lit 97, Lit 114, Lit 97, Lit 109, Copy 4 0 13 7, Lit 34, Lit 82, Lit 10, Lit 12, Lit 71,
     Copy 3 0 13 24, Lit 83, Lit 116, Lit 97, Lit 116, Lit 101, Lit 18, Lit 66, Lit 10, Lit 6,
     Copy 3 0 9 7, Lit 24, Lit 1, Lit 32, Lit 1, Lit 40, Lit 11, Lit 50, Lit 31, Lit 46,
     Copy 13 0 14 8, Lit 46, Lit 80, Copy 2 0 10 6, Lit 66, Lit 9, Lit 200, Lit 222, Lit 31, Lit 0,
     Lit 168, Lit 231, Lit 176, Lit 42, Lit 1, Lit 82, Copy 4 0 11 9, Lit 66, Lit 57, Lit 200,
     Lit 226, Lit 30, Lit 1, Lit 208, Lit 226, Lit 30, Lit 1, Lit 224, Lit 226, Lit 30, Lit 1,
     Lit 144, Lit 227, Lit 30, Lit 0, Lit 208, Lit 227, Lit 30, Lit 0, Lit 216, Lit 227, Lit 30,
     Lit 0, Lit 90, Lit 31, Copy 5 0 12 12, Lit 67, Copy 2 0 14 19, Lit 120, Copy 8 0 14 21,
     Lit 116, Lit 121, Lit 112, Lit 101, Lit 115, Lit 98, Lit 6, Copy 2 0 14 21, Lit 51]"

definition query_tokens :: "token list" where
  "query_tokens =
    [Lit 10, Lit 35, Lit 98, Lit 108, Lit 117, Lit 101, Lit 99, Lit 104, Lit 105, Lit 112, Lit 99,
     Lit 104, Lit 97, Lit 105, Lit 110, Lit 47, Lit 102, Lit 105, Lit 120, Lit 101, Lit 100,
     Lit 109, Lit 105, Lit 110, Lit 116, Lit 47, Lit 113, Lit 117, Lit 101, Lit 114, Lit 121,
     Lit 46, Lit 112, Lit 114, Lit 111, Lit 116, Lit 111, Lit 18, Lit 23, Copy 9 0 10 4, Lit 46,
     Copy 6 0 10 4, Lit 26, Lit 17, Lit 97, Lit 109, Lit 105, Lit 110, Lit 111, Lit 47,
     Copy 2 0 4 1, Copy 3 0 10 11, Lit 26, Lit 20, Lit 103, Lit 111, Lit 103, Lit 111, Copy 2 0 6 2,
     Lit 47, Copy 1 0 6 1, Copy 4 0 8 5, Lit 28, Lit 103, Lit 111, Lit 111, Lit 103, Lit 108,
     Lit 101, Lit 47, Lit 97, Lit 112, Lit 105, Lit 47, Lit 97, Lit 110, Lit 110, Lit 111, Lit 116,
     Lit 97, Lit 116, Lit 105, Lit 111, Lit 110, Lit 115, Copy 4 0 9 5, Lit 42, Lit 99, Lit 111,
     Lit 115, Lit 109, Lit 111, Lit 115, Lit 47, Lit 98, Lit 97, Lit 115, Lit 101, Copy 3 0 13 24,
     Lit 47, Lit 118, Lit 49, Lit 98, Lit 101, Lit 116, Lit 97, Lit 49, Lit 47, Lit 112, Lit 97,
     Lit 103, Lit 105, Lit 110, Copy 2 0 10 12, Copy 4 0 10 11, Lit 36, Copy 13 1 14 48, Lit 112,
     Lit 97, Lit 114, Lit 97, Lit 109, Copy 4 0 12 17, Lit 34, Lit 20, Lit 10, Lit 18, Lit 81,
     Copy 1 0 12 7, Lit 80, Copy 2 0 8 4, Lit 82, Lit 101, Lit 113, Lit 117, Lit 101, Lit 115,
     Lit 116, Lit 34, Lit 89, Lit 10, Lit 19, Copy 9 0 8 5, Lit 115, Lit 112, Lit 111, Lit 110,
     Lit 115, Lit 101, Lit 18, Lit 66, Lit 10, Lit 6, Copy 3 0 11 12, Lit 24, Lit 1, Lit 32, Lit 1,
     Lit 40, Lit 11, Lit 50, Lit 31, Lit 46, Copy 13 0 15 47, Lit 46, Copy 3 0 11 8, Lit 66, Lit 9,
     Lit 200, Lit 222, Lit 31, Lit 0, Lit 168, Lit 231, Lit 176, Lit 42, Lit 1, Lit 82,
     Copy 4 0 11 9, Lit 50, Lit 150, Lit 1, Lit 10, Lit 5, Copy 2 0 12 27, Lit 18, Lit 140, Lit 1,
     Lit 10, Lit 6, Copy 3 0 10 7, Lit 18, Lit 43, Copy 13 2 12 8, Copy 11 1 14 28, Lit 26, Lit 44,
     Copy 16 3 10 12, Copy 3 0 14 51, Lit 34, Lit 39, Lit 130, Lit 211, Lit 228, Lit 147, Lit 2,
     Lit 33, Lit 18, Lit 31, Lit 47, Copy 5 0 11 5, Lit 67, Copy 12 2 16 15, Lit 66, Lit 57,
     Lit 200, Lit 226, Lit 30, Lit 1, Lit 208, Lit 226, Lit 30, Lit 1, Lit 224, Lit 226, Lit 30,
     Lit 1, Lit 144, Lit 227, Lit 30, Lit 0, Lit 208, Lit 227, Lit 30, Lit 0, Lit 216, Lit 227,
     Lit 30, Lit 0, Lit 90, Lit 31, Copy 9 1 11 9, Lit 120, Copy 8 0 11 11, Lit 116, Lit 121,
     Lit 112, Lit 101, Lit 115, Lit 98, Lit 6, Copy 2 0 16 75, Lit 51]"

definition tx_tokens :: "token list" where
  "tx_tokens =
    [Lit 10, Lit 32, Lit 98, Lit 108, Lit 117, Lit 101, Lit 99, Lit 104, Lit 105, Lit 112, Lit 99,
     Lit 104, Lit 97, Lit 105, Lit 110, Lit 47, Lit 102, Lit 105, Lit 120, Lit 101, Lit 100,
     Lit 109, Lit 105, Lit 110, Lit 116, Lit 47, Lit 116, Lit 120, Lit 46, Lit 112, Lit 114,
     Lit 111, Lit 116, Lit 111, Lit 18, Lit 23, Copy 9 0 10 1, Lit 46, Copy 6 0 10 1, Lit 26,
     Lit 17, Lit 97, Lit 109, Lit 105, Lit 110, Lit 111, Lit 47, Copy 2 0 4 1, Copy 3 0 10 11,
     Lit 26, Lit 23, Lit 99, Lit 111, Lit 115, Lit 109, Lit 111, Lit 115, Lit 47, Lit 109, Lit 115,
     Lit 103, Lit 47, Lit 118, Lit 49, Copy 1 0 5 0, Copy 4 0 9 0, Lit 25, Copy 3 0 9 0, Lit 95,
     Copy 2 0 7 1, Lit 47, Copy 3 0 7 0, Copy 4 0 9 2, Lit 20, Lit 103, Lit 111, Lit 103, Lit 111,
     Copy 3 0 8 7, Copy 1 0 6 1, Copy 4 0 8 5, Lit 36, Copy 13 1 14 23, Lit 112, Lit 97, Lit 114,
     Lit 97, Lit 109, Copy 4 0 11 11, Lit 34, Lit 203, Lit 1, Lit 10, Lit 15, Lit 77, Lit 115,
     Lit 103, Lit 85, Lit 112, Lit 100, Lit 97, Lit 116, Lit 101, Lit 80, Copy 2 0 9 1, Lit 18,
     Lit 54, Lit 10, Lit 9, Lit 97, Lit 117, Lit 116, Lit 104, Lit 111, Lit 114, Lit 105, Lit 116,
     Lit 121, Lit 24, Lit 1, Lit 32, Lit 1, Lit 40, Lit 9, Lit 66, Lit 24, Lit 210, Lit 180, Lit 45,
     Lit 20, Copy 4 0 13 20, Lit 65, Lit 100, Lit 100, Lit 114, Lit 101, Lit 115, Lit 115, Lit 83,
     Lit 116, Lit 114, Lit 105, Lit 110, Lit 103, Lit 82, Copy 7 0 10 10, Lit 18, Lit 66, Lit 10,
     Lit 6, Copy 3 0 12 27, Lit 24, Lit 2, Lit 32, Lit 1, Lit 40, Lit 11, Lit 50, Lit 31, Lit 46,
     Copy 13 0 15 56, Lit 46, Copy 3 0 13 8, Lit 66, Lit 9, Lit 200, Lit 222, Lit 31, Lit 0,
     Lit 168, Lit 231, Lit 176, Lit 42, Lit 1, Lit 82, Copy 4 0 11 9, Lit 58, Lit 60, Lit 130,
     Lit 231, Lit 176, Lit 42, Copy 7 0 12 19, Lit 138, Lit 231, Lit 176, Lit 42, Lit 41,
     Copy 9 1 15 8, Lit 120, Copy 8 0 15 10, Copy 10 0 14 57, Lit 34, Lit 25, Lit 10, Lit 23,
     Copy 10 0 8 2, Lit 82, Lit 101, Lit 115, Lit 112, Lit 111, Lit 110, Lit 115, Lit 101, Lit 50,
     Lit 120, Lit 10, Lit 3, Lit 77, Lit 115, Lit 103, Lit 18, Lit 106, Lit 10, Lit 12,
     Copy 9 0 15 43, Lit 40, Copy 13 2 14 35, Copy 10 0 12 8, Lit 26, Lit 48, Copy 16 5 10 9,
     Copy 5 0 13 18, Lit 26, Lit 5, Lit 128, Copy 1 0 15 26, Lit 66, Lit 57, Lit 200, Lit 226,
     Lit 30, Lit 1, Lit 208, Lit 226, Lit 30, Lit 1, Lit 224, Lit 226, Lit 30, Lit 1, Lit 144,
     Lit 227, Lit 30, Lit 0, Lit 208, Lit 227, Lit 30, Lit 0, Lit 216, Lit 227, Lit 30, Lit 0,
     Lit 90, Lit 31, Copy 5 0 12 17, Lit 67, Copy 11 0 15 25, Lit 116, Lit 121, Lit 112, Lit 101,
     Lit 115, Lit 98, Lit 6, Copy 2 0 17 36, Lit 51]"

lemma gunzip_tokens:
  assumes "d = [0x1f, 0x8b, 8, 0] @ hdr @ body @ trailer" "length hdr = 6" "length trailer = 8"
    and "unpackBits body = [False, True, False] @ tokensOut ts @ symbolOut 256 @ [True, False, False] @ pad @
      replicate 16 False @ replicate 16 True" "length pad < 8"
    and "list_all tokenOk ts" "expand ts [] = Some (rev out)"
    and "map_option fst (numBits 32 (unpackBits (drop 4 trailer))) = Some (length out)" "length out < 2 ^ 32"
  shows "gunzip d = Some out"
proof -
  have len: "length (unpackBits t) = 8 * length t" for t
    by (induction t) (simp_all add: unpackBits_def byteBits_def)
  have app: "unpackBits (s @ t) = unpackBits s @ unpackBits t" for s t by (simp add: unpackBits_def)
  have "drop 32 (unpackBits trailer) = unpackBits (drop 4 trailer)"
    using app [of "take 4 trailer" "drop 4 trailer"] len [of "take 4 trailer"] assms(3) by simp
  moreover have "inflate (unpackBits (body @ trailer)) [] = Some (rev (rev out), unpackBits trailer)"
    by (rule inflate_tokens [OF assms(6,7,5)]) (simp_all add: app len assms(3,4))
  ultimately show ?thesis using assms(1,2,3,8,9) len [of trailer] by (simp add: gunzip_def)
qed

text \<open>A match that does not overlap with itself is copied at once.\<close>

lemma copyBack_chunk:
  "n \<le> d \<Longrightarrow> copyBack n d out =
     (if length (take n (drop (d - n) out)) = n then Some (take n (drop (d - n) out) @ out) else None)"
proof (induction n arbitrary: out)
  case (Suc n)
  show ?case
  proof (cases "drop (d - 1) out")
    case Nil
    then have "length out \<le> d - 1" by simp
    with Suc.prems Nil show ?thesis by simp
  next
    case (Cons b rest)
    have "take (Suc n) (drop (d - Suc n) out) = take n (drop (d - Suc n) out) @ [b]"
    proof -
      have "drop n (drop (d - Suc n) out) = b # rest" using Cons Suc.prems by (simp add: add.commute)
      then show ?thesis by (metis take_Suc_conv_app_nth drop_eq_Nil hd_drop_conv_nth leI list.distinct(1) list.sel(1))
    qed
    moreover have "drop (d - n) (b # out) = drop (d - Suc n) out"
    proof -
      have "d - n = Suc (d - Suc n)" using Suc.prems by simp
      then show ?thesis by simp
    qed
    ultimately show ?thesis using Cons Suc.IH [of "b # out"] Suc.prems by simp
  qed
qed simp

lemma codeOut_lists:
  "codeOut 5 v = [odd (v div 2 div 2 div 2 div 2), odd (v div 2 div 2 div 2), odd (v div 2 div 2), odd (v div 2), odd (v)]"
  "codeOut 7 v =
     [odd (v div 2 div 2 div 2 div 2 div 2 div 2), odd (v div 2 div 2 div 2 div 2 div 2), odd (v div 2 div 2 div 2 div 2),
      odd (v div 2 div 2 div 2), odd (v div 2 div 2), odd (v div 2), odd (v)]"
  by (simp_all add: numeral_eq_Suc)

lemma numOut_numeral: "numOut (numeral k) v = odd v # numOut (pred_numeral k) (v div 2)"
  by (simp add: numeral_eq_Suc)

lemma numBits_numeral:
  "numBits (numeral k) (b # s) = map_option (\<lambda>(v, s). (of_bool b + 2 * v, s)) (numBits (pred_numeral k) s)"
  by (simp add: numeral_eq_Suc)

lemma replicate_numeral: "replicate (numeral k) x = x # replicate (pred_numeral k) x"
  by (simp add: numeral_eq_Suc)

lemmas bits_eval = unpackBits_def byteBits_def tokensOut_def symbolOut_def lengths_def distances_def codeOut_lists
  codeOut_eight codeOut_nine numOut_numeral replicate_numeral

lemma params_bits: "unpackBits (take 271 (drop 10 fileDescriptor_3957a907f0e796d4)) = [False, True, False] @ tokensOut params_tokens @
    symbolOut 256 @ [True, False, False] @ replicate 6 False @ replicate 16 False @ replicate 16 True"
  by (simp add: fileDescriptor_3957a907f0e796d4_def params_tokens_def bits_eval)

lemma params_text: "expand params_tokens [] = Some (rev (encodeFile (params_schema\<lparr>flOptions := gogoOptions\<rparr>)))"
  by (simp add: params_tokens_def copyBack_chunk lengths_def distances_def params_schema_def gogoOptions_def encode_eval
      del: list.size)

lemma params_length: "length (encodeFile (params_schema\<lparr>flOptions := gogoOptions\<rparr>)) = 396"
  by (simp add: params_schema_def gogoOptions_def encode_eval del: list.size)

lemma params_unpacked: "gunzip fileDescriptor_3957a907f0e796d4 = Some (encodeFile (params_schema\<lparr>flOptions := gogoOptions\<rparr>))"
  by (rule gunzip_tokens [OF _ _ _ params_bits _ _ params_text, where hdr = "[0, 0, 0, 0, 2, 0xff]" and
        trailer = "drop 281 fileDescriptor_3957a907f0e796d4"])
    (simp_all add: fileDescriptor_3957a907f0e796d4_def params_tokens_def lengths_def distances_def params_length
        unpackBits_def byteBits_def numBits_numeral)

lemma genesis_bits: "unpackBits (take 183 (drop 10 fileDescriptor_e1a1d1288ebf91c8)) = [False, True, False] @ tokensOut genesis_tokens @
    symbolOut 256 @ [True, False, False] @ replicate 1 False @ replicate 16 False @ replicate 16 True"
  by (simp add: fileDescriptor_e1a1d1288ebf91c8_def genesis_tokens_def bits_eval)

lemma genesis_text: "expand genesis_tokens [] = Some (rev (encodeFile (genesis_schema\<lparr>flOptions := gogoOptions\<rparr>)))"
  by (simp add: genesis_tokens_def copyBack_chunk lengths_def distances_def genesis_schema_def gogoOptions_def encode_eval
      del: list.size)

lemma genesis_length: "length (encodeFile (genesis_schema\<lparr>flOptions := gogoOptions\<rparr>)) = 294"
  by (simp add: genesis_schema_def gogoOptions_def encode_eval del: list.size)

lemma genesis_unpacked: "gunzip fileDescriptor_e1a1d1288ebf91c8 = Some (encodeFile (genesis_schema\<lparr>flOptions := gogoOptions\<rparr>))"
  by (rule gunzip_tokens [OF _ _ _ genesis_bits _ _ genesis_text, where hdr = "[0, 0, 0, 0, 2, 0xff]" and
        trailer = "drop 193 fileDescriptor_e1a1d1288ebf91c8"])
    (simp_all add: fileDescriptor_e1a1d1288ebf91c8_def genesis_tokens_def lengths_def distances_def genesis_length
        unpackBits_def byteBits_def numBits_numeral)

lemma query_bits: "unpackBits (take 296 (drop 10 fileDescriptor_46eb71efd44984c9)) = [False, True, False] @ tokensOut query_tokens @
    symbolOut 256 @ [True, False, False] @ replicate 6 False @ replicate 16 False @ replicate 16 True"
  by (simp add: fileDescriptor_46eb71efd44984c9_def query_tokens_def bits_eval)

lemma query_text: "expand query_tokens [] = Some (rev (encodeFile (query_schema\<lparr>flOptions := gogoOptions\<rparr>)))"
  by (simp add: query_tokens_def copyBack_chunk lengths_def distances_def query_schema_def gogoOptions_def encode_eval
      del: list.size)

lemma query_length: "length (encodeFile (query_schema\<lparr>flOptions := gogoOptions\<rparr>)) = 548"
  by (simp add: query_schema_def gogoOptions_def encode_eval del: list.size)

lemma query_unpacked: "gunzip fileDescriptor_46eb71efd44984c9 = Some (encodeFile (query_schema\<lparr>flOptions := gogoOptions\<rparr>))"
  by (rule gunzip_tokens [OF _ _ _ query_bits _ _ query_text, where hdr = "[0, 0, 0, 0, 2, 0xff]" and
        trailer = "drop 306 fileDescriptor_46eb71efd44984c9"])
    (simp_all add: fileDescriptor_46eb71efd44984c9_def query_tokens_def lengths_def distances_def query_length
        unpackBits_def byteBits_def numBits_numeral)

lemma tx_bits: "unpackBits (take 316 (drop 10 fileDescriptor_066622f4970b002b)) = [False, True, False] @ tokensOut tx_tokens @
    symbolOut 256 @ [True, False, False] @ replicate 1 False @ replicate 16 False @ replicate 16 True"
  by (simp add: fileDescriptor_066622f4970b002b_def tx_tokens_def bits_eval)

lemma tx_text: "expand tx_tokens [] = Some (rev (encodeFile (tx_schema\<lparr>flOptions := gogoOptions\<rparr>)))"
  by (simp add: tx_tokens_def copyBack_chunk lengths_def distances_def tx_schema_def gogoOptions_def encode_eval
      del: list.size)

lemma tx_length: "length (encodeFile (tx_schema\<lparr>flOptions := gogoOptions\<rparr>)) = 612"
  by (simp add: tx_schema_def gogoOptions_def encode_eval del: list.size)

lemma tx_unpacked: "gunzip fileDescriptor_066622f4970b002b = Some (encodeFile (tx_schema\<lparr>flOptions := gogoOptions\<rparr>))"
  by (rule gunzip_tokens [OF _ _ _ tx_bits _ _ tx_text, where hdr = "[0, 0, 0, 0, 2, 0xff]" and
        trailer = "drop 326 fileDescriptor_066622f4970b002b"])
    (simp_all add: fileDescriptor_066622f4970b002b_def tx_tokens_def lengths_def distances_def tx_length
        unpackBits_def byteBits_def numBits_numeral)

end
