(* ===== verification/DescriptorProperties.thy ===== *)
theory DescriptorProperties
  imports ApiDescriptors ApiProperties PbDescriptors
begin

text \<open>
  The properties of the embedded descriptors: the initialisation of the five files succeeds in any order and finds what the
  reflective methods rely on, the methods \<open>Descriptor\<close> return the tables, and the generated decoders,
  encoders and service descriptions follow what the tables declare.
\<close>

section \<open>A library that keeps the promises\<close>

definition sample_impl :: "(file_schema, string \<times> message_schema, string) protoimpl" where
  "sample_impl = \<lparr>UnsafeEnabled = False,
     Build = (\<lambda>reg b. case readFile (RawDescriptor b) of
        None \<Rightarrow> Inl (Panicked ''mismatching message lengths'') | Some sch \<Rightarrow> Inr sch),
     MessagesByName = (\<lambda>sch m. map_option (\<lambda>ms. (flPackage sch @ ''.'' @ m, ms))
        (find (\<lambda>ms. msName ms = m) (flMessages sch))),
     FieldsByName = (\<lambda>(pkg, ms) n. map_option (\<lambda>fs. pkg @ ''.'' @ n) (find (\<lambda>fs. fsName fs = n) (msFields ms))),
     CompressGZIP = (\<lambda>b. 31 # b)\<rparr>"

lemma find_distinct: "distinct (map f xs) \<Longrightarrow> x \<in> set xs \<Longrightarrow> find (\<lambda>y. f y = f x) xs = Some x"
  by (induction xs) auto

lemma sample_impl_ok [simp]: "protoimpl_ok sample_impl (\<lambda>fd. fd)"
  unfolding protoimpl_ok_def wellNamed_def
  by (auto simp: sample_impl_def find_distinct list_all_iff)

section \<open>Initialisation\<close>

text \<open>
  C24. the \<open>init\<close> functions of the five files can run in any order and any number of times, on a library that builds a
  file only if its messages are not registered yet and those it depends on are. No one
  panics; afterwards the variables of every message that was initialised hold the descriptor of that message
  and the descriptors of its fields, under the names the reflective methods compare with; running any of them
  again changes nothing; and every message of a built file is registered.
\<close>

theorem init_in_any_order:
  assumes "protoimpl_ok L fdName"
  shows "\<exists>st. forS (runInit L) is initialVars = (st, Inr ()) \<and>
    (\<forall>i \<in> set is. runInit L i st = (st, Inr ()) \<and>
      (\<forall>m ns. initOf i = Some (m, ns) \<longrightarrow> mdVars st m \<noteq> None \<and>
        (\<forall>n \<in> set ns. \<exists>fd. fdVars st (m, n) = Some fd \<and> fdName fd = fullName m n))) \<and>
    (\<forall>f. vFile (fileVars st f) \<noteq> None \<longrightarrow> set (ownNames f) \<subseteq> set (registered st))"
proof -
  obtain st where st: "good_step L fdName (forS (runInit L) is) initialVars st" "\<forall>i \<in> set is. initialised st i"
    using runInits_step [OF assms api_inv_initial] by blast
  then have inv: "api_inv L fdName st" by (simp add: good_step_def)
  have "mdVars st m \<noteq> None \<and> (\<forall>n \<in> set ns. \<exists>fd. fdVars st (m, n) = Some fd \<and> fdName fd = fullName m n)"
    if i: "i \<in> set is" "initOf i = Some (m, ns)" for i m ns
    using st(2) i initialised_fields [OF inv _ i(2)] by blast
  moreover have "set (ownNames f) \<subseteq> set (registered st)" if "vFile (fileVars st f) \<noteq> None" for f
    using inv that unfolding api_inv_def by blast
  ultimately show ?thesis using st runInit_again [OF inv]
    by (intro exI [of _ st]) (simp add: good_step_def)
qed

theorem init_in_any_order_witness:
  "\<exists>st. forS (runInit sample_impl) [InitFile DTx, InitMsgUpdateParams, InitParams, InitFile DParams] initialVars = (st, Inr ()) \<and>
    fdVars st (''MsgUpdateParams'', ''authority'') = Some ''bluechipchain.fixedmint.MsgUpdateParams.authority''"
  using init_in_any_order [OF sample_impl_ok, of "[InitFile DTx, InitMsgUpdateParams, InitParams, InitFile DParams]"]
  by (auto simp: fullName_def messageFile_def tx_schema_def)

definition descriptorMethods where
  "descriptorMethods L =
     [(''Params'', DParams, apiParams_Descriptor L), (''GenesisState'', DGenesis, apiGenesisState_Descriptor L),
      (''QueryParamsRequest'', DQuery, apiQueryParamsRequest_Descriptor L),
      (''QueryParamsResponse'', DQuery, apiQueryParamsResponse_Descriptor L),
      (''MsgUpdateParams'', DTx, apiMsgUpdateParams_Descriptor L),
      (''MsgUpdateParamsResponse'', DTx, apiMsgUpdateParamsResponse_Descriptor L),
      (''Module'', DModule, apiModule_Descriptor L)]"

text \<open>
  the methods \<open>Descriptor\<close> of the seven messages, called in whatever state initialisations and other
  such calls have left, return the compressed table the file was generated with, and the index of the
  message in the schema that the table declares.
\<close>

lemma descriptors_return_tables:
  assumes "protoimpl_ok L fdName" "api_reachable L st" "(m, f, desc) \<in> set (descriptorMethods L)"
  shows "\<exists>st' k. desc st = (st', Inr (CompressGZIP L (rawDescOf f), [k])) \<and> api_reachable L st' \<and>
    (\<exists>sch. readFile (rawDescOf f) = Some sch \<and> map msName (flMessages sch) ! k = m)"
proof -
  obtain st' where st': "rawDescGZIP L f st = (st', Inr (CompressGZIP L (encodeFile (schemaOf f))))"
    using rawDescGZIP_step [OF api_reachable_inv [OF assms(1,2)]] by blast
  then have r: "api_reachable L st'" by (rule compress [OF assms(2)])
  have "\<exists>k. desc = bindS (rawDescGZIP L f) (\<lambda>d. lift (Inr (d, [k]))) \<and> map msName (flMessages (schemaOf f)) ! k = m"
    using assms(3) by (auto simp: descriptorMethods_def descriptor_defs schema_defs)
  with st' r show ?thesis by (auto simp: rawDescOf_table readFile_encodeFile bindS_def lift_def)
qed

section \<open>Codecs and tables\<close>

text \<open>The wire type of a declared type (1 to 18), and the Go name of a field, as the generator writes it.\<close>

definition fieldWireType :: "nat \<Rightarrow> int" where
  "fieldWireType t = (if t \<in> {9, 11, 12} then 2 else if t \<in> {1, 6, 16} then 1 else if t \<in> {2, 7, 15} then 5
     else if t = 10 then 3 else 0)"

fun camelCase :: "bool \<Rightarrow> string \<Rightarrow> string" where
  "camelCase up [] = []"
| "camelCase up (c # cs) =
     (if c = CHR ''_'' then camelCase True cs
      else (if up then char_of (of_char c - 32 :: nat) else c) # camelCase False cs)"

definition goName :: "string \<Rightarrow> string" where
  "goName s = camelCase True s"

definition tableMessage :: "desc_file \<Rightarrow> string \<Rightarrow> message_schema option" where
  "tableMessage f m = (case readFile (rawDescOf f) of
     None \<Rightarrow> None | Some sch \<Rightarrow> find (\<lambda>ms. msName ms = m) (flMessages sch))"

text \<open>
  A decoder's \<open>switch\<close> follows a declared message: it leaves exactly the undeclared numbers to the default
  branch, and rejects a declared number on any wire type but the declared one, naming the field.
\<close>

definition follows :: "'m field \<Rightarrow> message_schema option \<Rightarrow> bool" where
  "follows fld msg \<longleftrightarrow> (\<exists>ms. msg = Some ms \<and> (\<forall>m n wt d i.
     case find (\<lambda>fs. int (fsNumber fs) = n) (msFields ms) of
       None \<Rightarrow> fld m n wt d i = None
     | Some fs \<Rightarrow> fld m n wt d i \<noteq> None \<and>
         (wt \<noteq> fieldWireType (fsType fs) \<longrightarrow> fld m n wt d i = Some (Inl (WrongWireType wt (goName (fsName fs)))))))"

lemma tableMessage_schema: "tableMessage f m = find (\<lambda>ms. msName ms = m) (flMessages (schemaOf f))"
  by (simp add: tableMessage_def rawDescOf_table readFile_encodeFile)

lemma goName_simps [simp]:
  "goName ''mint_denom'' = ''MintDenom''" "goName ''mint_amount'' = ''MintAmount''"
  "goName ''mint_enabled'' = ''MintEnabled''" "goName ''params'' = ''Params''" "goName ''authority'' = ''Authority''"
  by (simp_all add: goName_def char_of_def of_char_def bit_0)

lemmas switch_defs = fieldLen_def fieldVarint_def Params_field_def GenesisState_field_def QueryParamsRequest_field_def
  QueryParamsResponse_field_def MsgUpdateParams_field_def MsgUpdateParamsResponse_field_def apiParams_field_def
  apiGenesisState_field_def apiQueryParamsRequest_field_def apiQueryParamsResponse_field_def
  apiMsgUpdateParams_field_def apiMsgUpdateParamsResponse_field_def apiModule_field_def

text \<open>
  C25. the decoders of both generated codecs and the embedded tables agree: for every message, the field numbers, wire
  types and Go names in the decoder's \<open>switch\<close> are those of the fields that the descriptor read from the table
  declares.
\<close>

theorem decoders_follow_tables:
  "follows (Params_field I) (tableMessage DParams ''Params'') \<and>
   follows (apiParams_field disc) (tableMessage DParams ''Params'') \<and>
   follows (GenesisState_field I) (tableMessage DGenesis ''GenesisState'') \<and>
   follows (apiGenesisState_field LP disc) (tableMessage DGenesis ''GenesisState'') \<and>
   follows QueryParamsRequest_field (tableMessage DQuery ''QueryParamsRequest'') \<and>
   follows (apiQueryParamsRequest_field disc) (tableMessage DQuery ''QueryParamsRequest'') \<and>
   follows (QueryParamsResponse_field I) (tableMessage DQuery ''QueryParamsResponse'') \<and>
   follows (apiQueryParamsResponse_field LP disc) (tableMessage DQuery ''QueryParamsResponse'') \<and>
   follows (MsgUpdateParams_field I) (tableMessage DTx ''MsgUpdateParams'') \<and>
   follows (apiMsgUpdateParams_field LP disc) (tableMessage DTx ''MsgUpdateParams'') \<and>
   follows MsgUpdateParamsResponse_field (tableMessage DTx ''MsgUpdateParamsResponse'') \<and>
   follows (apiMsgUpdateParamsResponse_field disc) (tableMessage DTx ''MsgUpdateParamsResponse'') \<and>
   follows (apiModule_field disc) (tableMessage DModule ''Module'')"
  unfolding tableMessage_schema follows_def
  by (intro conjI) (simp_all add: schema_defs fieldWireType_def switch_defs Let_def)

text \<open>The varints of the codecs are those of the tables.\<close>

lemma low7: "unat (ucast (b AND 0x7F) :: u64) = unat b mod 128" for b :: u8
proof -
  have "unat b mod 128 < 18446744073709551616" by (rule less_trans [of _ 128]) simp_all
  moreover have "b AND 0x7F = take_bit 7 b" by (simp add: take_bit_eq_mask mask_eq_exp_minus_1)
  ultimately show ?thesis by (simp add: take_bit_eq_mod unsigned_ucast_eq unat_mod)
qed

lemma high_byte: "\<not> b < 0x80 \<Longrightarrow> b = of_nat (unat b mod 128 + 128)" for b :: u8
proof -
  assume "\<not> b < 0x80"
  then have "128 \<le> unat b" by (simp add: word_less_nat_alt)
  moreover have "unat b < 256" using unsigned_less [of b, where 'a = nat] by simp
  moreover have "n = n mod 128 + 128" if "128 \<le> n" "n < 256" for n :: nat
    using that by (simp add: le_mod_geq)
  ultimately have u: "unat b = unat b mod 128 + 128" by blast
  have "b = of_nat (unat b)" by simp
  also have "\<dots> = of_nat (unat b mod 128 + 128)" by (rule arg_cong [OF u])
  finally show ?thesis .
qed

lemma varint_byte: "ucast (v AND 0x7F) OR 0x80 = (of_nat (unat v mod 128 + 128) :: u8)" for v :: u64
proof -
  have "unat (ucast (v AND 0x7F) OR 0x80 :: u8) mod 128 = unat v mod 128"
    unfolding low7 [symmetric] low_bits_more by (simp add: take_bit_eq_mod unat_mod)
  then show ?thesis by (rule subst) (rule high_byte [OF continuation_bit])
qed

lemma varint_vint: "varint v = vint (unat v)"
proof (induction v rule: varint.induct)
  case (1 v)
  show ?case
  proof (cases "v < 0x80")
    case True
    then have "unat v < 128" by (simp add: word_less_nat_alt)
    with True show ?thesis by (simp add: varint.simps [of v] vint.simps [of "unat v"])
  next
    case False
    then have "\<not> unat v < 128" by (simp add: word_less_nat_alt)
    with 1 False show ?thesis
      by (simp add: varint.simps [of v] vint.simps [of "unat v"] unat_drop_bit_7 varint_byte)
  qed
qed

text \<open>A length prefix or a flag of the codecs is an entry.\<close>

lemma vint_small: "n < 128 \<Longrightarrow> vint n = [of_nat n]"
  by (simp add: vint.simps [of n])

lemma length_entry:
  assumes "go_slice b" "8 * k + 2 < 128" "t = of_nat (8 * k + 2)"
  shows "t # varint (word_of_nat (length b)) @ b = encodeEntry (k, BytesV b)"
proof -
  have "unat (word_of_nat (length b) :: u64) = length b"
    using assms(1) by (simp add: go_slice_def unat_of_nat take_bit_nat_eq_self)
  then show ?thesis unfolding encodeEntry.simps vint_small [OF assms(2)] varint_vint assms(3) by simp
qed

section \<open>Conforming bytes\<close>

text \<open>
  Reading bytes by the tables alone: every field is declared with the kind of value it has, flags are 0 or 1, the
  bytes of a nested message conform to the type that its field names, and numbers ascend. The
  fuel is the depth of nesting.
\<close>

definition tableType :: "string \<Rightarrow> message_schema option" where
  "tableType name = List.find (\<lambda>_. True) (List.map_filter
     (\<lambda>f. case readFile (rawDescOf f) of
        None \<Rightarrow> None
      | Some sch \<Rightarrow> find (\<lambda>ms. ''.'' @ flPackage sch @ ''.'' @ msName ms = name) (flMessages sch))
     [DParams, DGenesis, DQuery, DTx, DModule])"

fun conforms :: "nat \<Rightarrow> string \<Rightarrow> bytes \<Rightarrow> bool" where
  "conforms 0 name b = False"
| "conforms (Suc n) name b =
     (case tableType name of
        None \<Rightarrow> False
      | Some ms \<Rightarrow>
          (case protoFields b of
             None \<Rightarrow> False
           | Some es \<Rightarrow> sorted_wrt (<) (map fst es) \<and>
               list_all (\<lambda>(k, v). case find (\<lambda>fs. fsNumber fs = k) (msFields ms) of
                   None \<Rightarrow> False
                 | Some fs \<Rightarrow>
                     (case v of
                        VarintV x \<Rightarrow> fieldWireType (fsType fs) = 0 \<and> (fsType fs = 8 \<longrightarrow> x \<le> 1)
                      | BytesV x \<Rightarrow> fieldWireType (fsType fs) = 2 \<and>
                          (fsType fs = 11 \<longrightarrow> conforms n (fsTypeName fs) x))) es))"

lemma tableType_schema:
  "tableType name = List.find (\<lambda>_. True) (List.map_filter
     (\<lambda>f. find (\<lambda>ms. ''.'' @ flPackage (schemaOf f) @ ''.'' @ msName ms = name) (flMessages (schemaOf f)))
     [DParams, DGenesis, DQuery, DTx, DModule])"
  by (simp add: tableType_def rawDescOf_table readFile_encodeFile)

lemma Params_wire_entries:
  assumes "go_slice (Params_wire t p)"
  shows "Params_wire t p = encodeEntries
    ((if MintDenom p = [] then [] else [(1, BytesV (bytes_of (MintDenom p)))]) @
     [(2, BytesV (t (MintAmount p)))] @ (if MintEnabled p then [(3, VarintV 1)] else []))"
proof -
  have "go_slice (bytes_of (MintDenom p))" "go_slice (t (MintAmount p))"
    using assms by (cases "MintDenom p = []"; simp add: Params_wire_def go_slice_def)+
  from length_entry [OF this(1), of 1 "0x0A"] length_entry [OF this(2), of 2 "0x12"] show ?thesis
    by (simp add: Params_wire_def encodeEntries_def vint_small)
qed

lemma Params_conforms:
  assumes "go_slice (Params_wire t p)"
  shows "conforms 1 ''.bluechipchain.fixedmint.Params'' (Params_wire t p)"
  unfolding Params_wire_entries [OF assms] tableType_schema One_nat_def conforms.simps
  by (simp add: schema_defs map_filter_simps fieldWireType_def)

text \<open>Nested parameters, after an optional text field and alone.\<close>

lemma nested_entries:
  assumes "go_slice (0x0A # varint (word_of_nat (length b)) @ b)"
  shows "0x0A # varint (word_of_nat (length b)) @ b = encodeEntries [(1, BytesV b)]"
proof -
  have "go_slice b" using assms by (simp add: go_slice_def)
  from length_entry [OF this, of 1 "0x0A"] show ?thesis by (simp add: encodeEntries_def)
qed

lemma MsgUpdateParams_wire_entries:
  assumes "go_slice (MsgUpdateParams_wire t m)"
  shows "MsgUpdateParams_wire t m = encodeEntries
    ((if Authority m = [] then [] else [(1, BytesV (bytes_of (Authority m)))]) @
     [(2, BytesV (Params_wire t (msgParams m)))])"
proof -
  have "go_slice (bytes_of (Authority m))" "go_slice (Params_wire t (msgParams m))"
    using assms by (cases "Authority m = []"; simp add: MsgUpdateParams_wire_def go_slice_def)+
  from length_entry [OF this(1), of 1 "0x0A"] length_entry [OF this(2), of 2 "0x12"] show ?thesis
    by (simp add: MsgUpdateParams_wire_def encodeEntries_def)
qed

lemma conforms_update:
  assumes "go_slice (MsgUpdateParams_wire t m)" "conforms (Suc 0) ''.bluechipchain.fixedmint.Params'' (Params_wire t (msgParams m))"
  shows "conforms 2 ''.bluechipchain.fixedmint.MsgUpdateParams'' (MsgUpdateParams_wire t m)"
  unfolding MsgUpdateParams_wire_entries [OF assms(1)] tableType_schema numeral_2_eq_2 conforms.simps(2) [of "Suc 0"]
  using assms(2) by (simp add: schema_defs map_filter_simps fieldWireType_def del: conforms.simps)

lemma conforms_nested:
  assumes "conforms (Suc 0) ''.bluechipchain.fixedmint.Params'' b"
  shows "conforms 2 ''.bluechipchain.fixedmint.GenesisState'' (encodeEntries [(1, BytesV b)])"
    "conforms 2 ''.bluechipchain.fixedmint.QueryParamsResponse'' (encodeEntries [(1, BytesV b)])"
  unfolding tableType_schema numeral_2_eq_2 conforms.simps(2) [of "Suc 0"]
  using assms by (simp_all add: schema_defs map_filter_simps fieldWireType_def del: conforms.simps)

text \<open>
  C26. What the chain's encoders write conforms to the embedded tables, down to the nested parameters: a reader that
  knows only the tables finds declared fields of the declared kinds in ascending order, so clients
  that decode by descriptor accept every update, genesis state and query response.
\<close>

theorem encoders_follow_tables:
  assumes "MsgUpdateParams_ok I t m" "GenesisState_ok I t g" "QueryParamsResponse_ok I t r"
  shows "(\<exists>b. MsgUpdateParams_Marshal I m = Inr b \<and> conforms 2 ''.bluechipchain.fixedmint.MsgUpdateParams'' b) \<and>
    (\<exists>b. GenesisState_Marshal I g = Inr b \<and> conforms 2 ''.bluechipchain.fixedmint.GenesisState'' b) \<and>
    (\<exists>b. QueryParamsResponse_Marshal I r = Inr b \<and> conforms 2 ''.bluechipchain.fixedmint.QueryParamsResponse'' b)"
proof (intro conjI)
  have p: "conforms (Suc 0) ''.bluechipchain.fixedmint.Params'' (Params_wire t p)" if "Params_ok I t p" for p
    using that Params_conforms [of t p] by (simp add: Params_ok_def del: conforms.simps)
  show "\<exists>b. MsgUpdateParams_Marshal I m = Inr b \<and> conforms 2 ''.bluechipchain.fixedmint.MsgUpdateParams'' b"
    using updateParams.marshal_wire [OF assms(1)] conforms_update [of t m] p assms(1)
    by (simp add: MsgUpdateParams_Marshal_def MsgUpdateParams_ok_def del: conforms.simps)
  show "\<exists>b. GenesisState_Marshal I g = Inr b \<and> conforms 2 ''.bluechipchain.fixedmint.GenesisState'' b"
    using genesis.marshal_wire [OF assms(2)] conforms_nested(1) [OF p, of "gsParams g"] assms(2)
      nested_entries [of "Params_wire t (gsParams g)"]
    by (simp add: GenesisState_Marshal_def GenesisState_ok_def GenesisState_wire_def del: conforms.simps)
  show "\<exists>b. QueryParamsResponse_Marshal I r = Inr b \<and> conforms 2 ''.bluechipchain.fixedmint.QueryParamsResponse'' b"
    using queryResponse.marshal_wire [OF assms(3)] conforms_nested(2) [OF p, of "respParams r"] assms(3)
      nested_entries [of "Params_wire t (respParams r)"]
    by (simp add: QueryParamsResponse_Marshal_def QueryParamsResponse_ok_def QueryParamsResponse_wire_def
        del: conforms.simps)
qed

theorem encoders_follow_tables_witness:
  "\<exists>b. MsgUpdateParams_Marshal dec_Int sample_bad_update = Inr b \<and>
    conforms 2 ''.bluechipchain.fixedmint.MsgUpdateParams'' b"
  using encoders_follow_tables [OF sample_bad_msg_ok sample_genesis_ok update_response_ok [OF sample_bad_msg_ok]] by blast

section \<open>Services and tables\<close>

definition describes :: "desc_file \<Rightarrow> ServiceDesc \<Rightarrow> bool" where
  "describes f sd \<longleftrightarrow> (\<exists>sch s. readFile (rawDescOf f) = Some sch \<and> flServices sch = [s] \<and>
     ServiceName sd = flPackage sch @ ''.'' @ svName s \<and>
     map fst (Methods sd) = map mtName (svMethods s) \<and> Metadata sd = flName sch)"

text \<open>The method of the only service of a file, with its full name.\<close>

definition tableMethod :: "desc_file \<Rightarrow> (string \<times> method_schema) option" where
  "tableMethod f = (case readFile (rawDescOf f) of
     None \<Rightarrow> None
   | Some sch \<Rightarrow>
       (case flServices sch of
          [s] \<Rightarrow> (case svMethods s of
             [mt] \<Rightarrow> Some (''/'' @ flPackage sch @ ''.'' @ svName s @ ''/'' @ mtName mt, mt) | _ \<Rightarrow> None)
        | _ \<Rightarrow> None))"

text \<open>The option \<open>google.api.http\<close> of a method, and the path it binds \<open>GET\<close> to.\<close>

definition httpGet :: "method_schema \<Rightarrow> string option" where
  "httpGet mt = (case map_of (mtOptions mt) 72295728 of
     Some (BytesV b) \<Rightarrow> map_option (getText 2) (protoFields b) | _ \<Rightarrow> None)"

text \<open>The option \<open>cosmos.msg.v1.signer\<close> of a message.\<close>

definition signerOption :: "message_schema \<Rightarrow> string" where
  "signerOption ms = getText 11110000 (msOptions ms)"

text \<open>
  C28. The service descriptions of both codecs are those of the tables: services, methods and file names agree, the full
  method names that the clients call are built from them, the requests and responses are messages the
  tables declare, the gateway's path is the one bound to the query, and the field that the signer of an
  update is read from is the authority the keeper checks.
\<close>

theorem services_follow_tables:
  "describes DTx Msg_serviceDesc \<and> describes DTx apiMsg_ServiceDesc \<and>
   describes DQuery Query_serviceDesc \<and> describes DQuery apiQuery_ServiceDesc \<and>
   (\<exists>mt ms. tableMethod DTx = Some (Msg_UpdateParams_FullMethodName, mt) \<and>
      tableType (mtInput mt) = Some ms \<and> tableMessage DTx ''MsgUpdateParams'' = Some ms \<and>
      tableType (mtOutput mt) = tableMessage DTx ''MsgUpdateParamsResponse'' \<and>
      (\<exists>fs \<in> set (msFields ms). fsName fs = signerOption ms \<and> goName (fsName fs) = ''Authority'' \<and> fsType fs = 9)) \<and>
   (\<exists>mt. tableMethod DQuery = Some (Query_Params_FullMethodName, mt) \<and>
      tableType (mtInput mt) = tableMessage DQuery ''QueryParamsRequest'' \<and>
      tableType (mtOutput mt) = tableMessage DQuery ''QueryParamsResponse'' \<and>
      httpGet mt = Some (concat (map ((@) ''/'') pattern_Query_Params_0)))"
proof (intro conjI)
  note [simp] = schema_defs map_filter_simps rawDescOf_table readFile_encodeFile
  show "describes DTx Msg_serviceDesc" "describes DTx apiMsg_ServiceDesc"
    by (simp_all add: describes_def Msg_serviceDesc_def apiMsg_ServiceDesc_def)
  show "describes DQuery Query_serviceDesc" "describes DQuery apiQuery_ServiceDesc"
    by (simp_all add: describes_def Query_serviceDesc_def apiQuery_ServiceDesc_def)
  show "\<exists>mt ms. tableMethod DTx = Some (Msg_UpdateParams_FullMethodName, mt) \<and>
      tableType (mtInput mt) = Some ms \<and> tableMessage DTx ''MsgUpdateParams'' = Some ms \<and>
      tableType (mtOutput mt) = tableMessage DTx ''MsgUpdateParamsResponse'' \<and>
      (\<exists>fs \<in> set (msFields ms). fsName fs = signerOption ms \<and> goName (fsName fs) = ''Authority'' \<and> fsType fs = 9)"
    by (simp add: tableMethod_def tableType_schema tableMessage_schema Msg_UpdateParams_FullMethodName_def
        signerOption_def getText_def getBytes_def textE_def del: rawDescOf.simps)
  show "\<exists>mt. tableMethod DQuery = Some (Query_Params_FullMethodName, mt) \<and>
      tableType (mtInput mt) = tableMessage DQuery ''QueryParamsRequest'' \<and>
      tableType (mtOutput mt) = tableMessage DQuery ''QueryParamsResponse'' \<and>
      httpGet mt = Some (concat (map ((@) ''/'') pattern_Query_Params_0))"
    by (simp add: tableMethod_def tableType_schema tableMessage_schema Query_Params_FullMethodName_def
        httpGet_def getText_def getBytes_def textE_def pattern_Query_Params_0_def del: rawDescOf.simps)
qed

section \<open>The descriptors of the chain's codec\<close>

text \<open>
  Registrations follow the descriptor they end with: every message it declares, in order, under its own name and its full
  name, then the file under its path; and the second API's table for the file declares the same schema, up
  to the options of the file.
\<close>

definition registers :: "registration list \<Rightarrow> desc_file \<Rightarrow> bool" where
  "registers regs f \<longleftrightarrow> (\<exists>d sch api. Option.bind (gunzip d) readFile = Some sch \<and>
     regs = map (\<lambda>ms. RegisterType (msName ms) (flPackage sch @ ''.'' @ msName ms)) (flMessages sch) @
       [RegisterFile (flName sch) d] \<and>
     readFile (rawDescOf f) = Some api \<and> api\<lparr>flOptions := []\<rparr> = sch\<lparr>flOptions := []\<rparr>)"

definition describedBy :: "bytes \<times> nat list \<Rightarrow> string \<Rightarrow> bool" where
  "describedBy desc m \<longleftrightarrow> (\<exists>sch k. Option.bind (gunzip (fst desc)) readFile = Some sch \<and> snd desc = [k] \<and>
     k < length (flMessages sch) \<and> msName (flMessages sch ! k) = m)"

lemma registersI:
  assumes "gunzip d = Some (encodeFile (schemaOf f\<lparr>flOptions := os\<rparr>))"
    and "regs = map (\<lambda>ms. RegisterType (msName ms) (flPackage (schemaOf f) @ ''.'' @ msName ms)) (flMessages (schemaOf f)) @
       [RegisterFile (flName (schemaOf f)) d]"
  shows "registers regs f"
  unfolding registers_def
  by (intro exI [of _ d] exI [of _ "schemaOf f\<lparr>flOptions := os\<rparr>"] exI [of _ "schemaOf f"])
    (simp add: assms readFile_encodeFile rawDescOf_table)

lemma describedByI:
  assumes "gunzip d = Some (encodeFile (sch\<lparr>flOptions := os\<rparr>))" "k < length (flMessages sch)"
    "msName (flMessages sch ! k) = m"
  shows "describedBy (d, [k]) m"
  unfolding describedBy_def using assms by (simp add: readFile_encodeFile)

text \<open>
  C27. The two generated codecs embed the same schemas: what the chain's \<open>init\<close> functions register, and the compressed
  tables they register it with, declare message for message and field for field what the second
  API's tables declare; and the methods \<open>Descriptor\<close> of the chain's messages point at their own message.
\<close>

theorem chain_registers_api_schemas:
  "registers params_pb_init DParams \<and> registers genesis_pb_init DGenesis \<and>
   registers query_pb_init DQuery \<and> registers tx_pb_init DTx \<and>
   describedBy Params_Descriptor ''Params'' \<and> describedBy GenesisState_Descriptor ''GenesisState'' \<and>
   describedBy QueryParamsRequest_Descriptor ''QueryParamsRequest'' \<and>
   describedBy QueryParamsResponse_Descriptor ''QueryParamsResponse'' \<and>
   describedBy MsgUpdateParams_Descriptor ''MsgUpdateParams'' \<and>
   describedBy MsgUpdateParamsResponse_Descriptor ''MsgUpdateParamsResponse''"
proof (intro conjI)
  note [simp] = schema_defs
  show "registers params_pb_init DParams" "registers genesis_pb_init DGenesis"
    "registers query_pb_init DQuery" "registers tx_pb_init DTx"
    by (rule registersI, simp only: schemaOf.simps, rule params_unpacked genesis_unpacked query_unpacked tx_unpacked,
        simp add: params_pb_init_def genesis_pb_init_def query_pb_init_def tx_pb_init_def)+
  show "describedBy Params_Descriptor ''Params''" "describedBy GenesisState_Descriptor ''GenesisState''"
    "describedBy QueryParamsRequest_Descriptor ''QueryParamsRequest''"
    "describedBy QueryParamsResponse_Descriptor ''QueryParamsResponse''"
    "describedBy MsgUpdateParams_Descriptor ''MsgUpdateParams''"
    "describedBy MsgUpdateParamsResponse_Descriptor ''MsgUpdateParamsResponse''"
    unfolding Params_Descriptor_def GenesisState_Descriptor_def QueryParamsRequest_Descriptor_def
      QueryParamsResponse_Descriptor_def MsgUpdateParams_Descriptor_def MsgUpdateParamsResponse_Descriptor_def
    by (rule describedByI, rule params_unpacked genesis_unpacked query_unpacked tx_unpacked, simp, simp)+
qed

end
