(* ===== verification/GatewayProperties.thy ===== *)
theory GatewayProperties
  imports ApiProperties
begin

text \<open>
  The HTTP gateway of \<open>query.pb.gw.go\<close> over the keeper's query server, in the same process and through
  the generated client of a connection.
\<close>

text \<open>
  The query client's call as gRPC carries it out: the request's bytes go to the handler registered
  under the method's name, the answer's bytes are decoded into the reply the client passed.
\<close>

definition carries ::
  "('i, 'z) math_Int_scheme \<Rightarrow> ('s, QueryParamsRequest, 'i QueryParamsResponse) handler \<Rightarrow>
   ('s, QueryParamsRequest, 'i QueryParamsResponse) invoke \<Rightarrow> bool" where
  "carries I srv invoke \<longleftrightarrow>
     (\<forall>q reply b. QueryParamsRequest_Marshal q = Inr b \<longrightarrow>
        invoke ''/bluechipchain.fixedmint.Query/Params'' q reply =
          bindS (Query_Params_Handler srv (\<lambda>m. QueryParamsRequest_Unmarshal m b) None) (\<lambda>r.
            lift (bindR (QueryParamsResponse_Marshal I r) (QueryParamsResponse_Unmarshal I reply))))"

lemma query_request_round_trip:
  "QueryParamsRequest_Marshal q = Inr [] \<and> QueryParamsRequest_Unmarshal m [] = Inr QueryParamsRequest"
  using queryRequest.marshal_wire [of q] queryRequest.unm_wire [of q] QueryParamsRequest_all [of m]
  by (cases q) (simp add: QueryParamsRequest_Marshal_def)

text \<open>Over such a connection the client stub answers what the server answers.\<close>

lemma client_over_connection:
  assumes "carries I srv invoke" "srv QueryParamsRequest s = (s', Inr r)" "QueryParamsResponse_ok I t r"
  shows "queryClient_Params I invoke q s = (s', Inr r)"
proof -
  have "QueryParamsResponse_Marshal I r = Inr (QueryParamsResponse_wire t r)"
    unfolding QueryParamsResponse_Marshal_def by (rule queryResponse.marshal_wire [OF assms(3)])
  then have "bindR (QueryParamsResponse_Marshal I r) (QueryParamsResponse_Unmarshal I (QueryParamsResponse_zero I)) = Inr r"
    by (simp add: queryResponse.unm_wire [OF assms(3)])
  moreover have "Query_Params_Handler srv (\<lambda>m. QueryParamsRequest_Unmarshal m []) None s = (s', Inr r)"
    using query_request_round_trip assms(2) by (simp add: Query_handler_direct)
  ultimately show ?thesis
    using assms(1) query_request_round_trip [of q] by (simp add: carries_def queryClient_Params_def lift_def bindS_def)
qed

text \<open>
  C11. The HTTP gateway serves the parameters that are stored: on both ways of registering it, over
  the query server itself and over a client of a connection to it, it adds the path
  \<open>/bluechipChain/fixedmint/params\<close> to the mux; a GET request there is answered with exactly the
  stored parameters and the metadata of its way, and with an error, without any metadata, where its context is refused.
\<close>

theorem gateway_serves_stored_params:
  assumes "codec_ok I (cdc k)" "store_ok (storeService k) W"
    and "carries I (\<lambda>q. readS (Query_Params I k (Some q))) (invoke conn)"
    and "\<forall>http ctx. annotate http = Inr ctx \<longrightarrow> lookParams I (W (chain ctx)) = Some p"
    and "QueryParamsResponse_ok I t \<lparr>respParams = p\<rparr>"
  shows "\<exists>inner remote.
    RegisterQueryHandlerServer noMD join annotate stream mux
      (\<lambda>ctx q. Query_Params I k (Some q) (chain ctx)) =
        (mux @ [(''GET'', [''bluechipChain'', ''fixedmint'', ''params''], inner)], Inr ()) \<and>
    RegisterQueryHandler annotate mux conn
      (\<lambda>conn ctx q. (snd (queryClient_Params I (invoke conn) q (chain ctx)), headers ctx, trailers ctx)) =
        (mux @ [(''GET'', [''bluechipChain'', ''fixedmint'', ''params''], remote)], Inr ()) \<and>
    (\<forall>http. case ext (annotate http) of
        Inl e \<Rightarrow> inner http = HTTPError e None \<and> remote http = HTTPError e None
      | Inr ctx \<Rightarrow>
          inner http = ForwardResponse \<lparr>respParams = p\<rparr>
            \<lparr>HeaderMD = join noMD (HeaderMD stream), TrailerMD = join noMD (TrailerMD stream)\<rparr> \<and>
          remote http = ForwardResponse \<lparr>respParams = p\<rparr>
            \<lparr>HeaderMD = headers ctx, TrailerMD = trailers ctx\<rparr>)"
proof -
  have get: "Query_Params I k (Some q) (chain ctx) = Inr \<lparr>respParams = p\<rparr>" if "annotate http = Inr ctx" for q http ctx
  proof -
    have "lookParams I (W (chain ctx)) = Some p" using assms(4) that by blast
    from param_store.get_view [where k = k and W = W, OF _ this] assms(1,2)
    show ?thesis by (simp add: Query_Params_def)
  qed
  then have "queryClient_Params I (invoke conn) q (chain ctx) = (chain ctx, Inr \<lparr>respParams = p\<rparr>)"
    if "annotate http = Inr ctx" for q http ctx
    using client_over_connection [OF assms(3) _ assms(5)] that by (fastforce simp: readS_def)
  with get show ?thesis
    by (auto simp: RegisterQueryHandlerServer_def RegisterQueryHandler_def RegisterQueryHandlerClient_def
        pattern_Query_Params_0_def gateway_server_def gateway_client_def local_request_Query_Params_0_def
        request_Query_Params_0_def Let_def split: sum.splits elim: ext.elims)
qed

text \<open>A connection to the sample chain, and requests with and without a context.\<close>

definition sample_conn :: "(chain, QueryParamsRequest, int option QueryParamsResponse) invoke" where
  "sample_conn name q reply =
     bindS (lift (QueryParamsRequest_Marshal q)) (\<lambda>b.
     bindS (Query_Params_Handler (\<lambda>q. readS (Query_Params dec_Int sample_keeper (Some q)))
       (\<lambda>m. QueryParamsRequest_Unmarshal m b) None) (\<lambda>r.
       lift (bindR (QueryParamsResponse_Marshal dec_Int r) (QueryParamsResponse_Unmarshal dec_Int reply))))"

definition sample_annotate :: "bool \<Rightarrow> chain ext" where
  "sample_annotate ok = (if ok then Inr sample_start else Inl (Failed ''bad header''))"

lemma sample_conn_carries:
  "carries dec_Int (\<lambda>q. readS (Query_Params dec_Int sample_keeper (Some q))) sample_conn"
  by (auto simp: carries_def sample_conn_def lift_def bindS_def fun_eq_iff split: prod.splits sum.splits)

lemma sample_response_ok: "QueryParamsResponse_ok dec_Int dec_wire \<lparr>respParams = sample_params\<rparr>"
  using sample_genesis_ok
  by (simp add: GenesisState_ok_def QueryParamsResponse_ok_def GenesisState_wire_def QueryParamsResponse_wire_def)

theorem gateway_serves_stored_params_witness:
  "\<exists>inner remote.
    RegisterQueryHandlerServer [] (@) sample_annotate \<lparr>HeaderMD = [''x''], TrailerMD = []\<rparr> []
      (\<lambda>ctx q. Query_Params dec_Int sample_keeper (Some q) ctx) =
        ([(''GET'', [''bluechipChain'', ''fixedmint'', ''params''], inner)], Inr ()) \<and>
    RegisterQueryHandler sample_annotate [] ()
      (\<lambda>conn ctx q. (snd (queryClient_Params dec_Int sample_conn q ctx), [''h''], [])) =
        ([(''GET'', [''bluechipChain'', ''fixedmint'', ''params''], remote)], Inr ()) \<and>
    inner True = ForwardResponse \<lparr>respParams = sample_params\<rparr> \<lparr>HeaderMD = [''x''], TrailerMD = []\<rparr> \<and>
    remote True = ForwardResponse \<lparr>respParams = sample_params\<rparr> \<lparr>HeaderMD = [''h''], TrailerMD = []\<rparr> \<and>
    inner False = HTTPError (External ''bad header'') None \<and> remote False = inner False"
proof -
  have look: "\<forall>http ctx. sample_annotate http = Inr ctx \<longrightarrow> lookParams dec_Int (view ctx) = Some sample_params"
    by (auto simp: sample_annotate_def split: if_splits)
  from gateway_serves_stored_params [where chain = "\<lambda>ctx. ctx" and headers = "\<lambda>_. [''h'']" and trailers = "\<lambda>_. []"
      and annotate = sample_annotate and invoke = "\<lambda>_. sample_conn" and conn = "()" and noMD = "[]" and join = "(@)"
      and stream = "\<lparr>HeaderMD = [''x''], TrailerMD = []\<rparr>" and mux = "[]",
      OF sample_kok sample_conn_carries look sample_response_ok]
  obtain inner remote where reg: "RegisterQueryHandlerServer [] (@) sample_annotate \<lparr>HeaderMD = [''x''], TrailerMD = []\<rparr> []
      (\<lambda>ctx q. Query_Params dec_Int sample_keeper (Some q) ctx) =
        ([(''GET'', [''bluechipChain'', ''fixedmint'', ''params''], inner)], Inr ())"
    "RegisterQueryHandler sample_annotate [] ()
      (\<lambda>conn ctx q. (snd (queryClient_Params dec_Int sample_conn q ctx), [''h''], [])) =
        ([(''GET'', [''bluechipChain'', ''fixedmint'', ''params''], remote)], Inr ())"
    and h: "\<forall>http. case ext (sample_annotate http) of
        Inl e \<Rightarrow> inner http = HTTPError e None \<and> remote http = HTTPError e None
      | Inr ctx \<Rightarrow>
          inner http = ForwardResponse \<lparr>respParams = sample_params\<rparr>
            \<lparr>HeaderMD = [] @ HeaderMD \<lparr>HeaderMD = [''x''], TrailerMD = []\<rparr>,
             TrailerMD = [] @ TrailerMD \<lparr>HeaderMD = [''x''], TrailerMD = []\<rparr>\<rparr> \<and>
          remote http = ForwardResponse \<lparr>respParams = sample_params\<rparr> \<lparr>HeaderMD = [''h''], TrailerMD = []\<rparr>"
    unfolding append_Nil by blast
  then show ?thesis
    using spec [OF h, of True] spec [OF h, of False] by (auto simp: sample_annotate_def)
qed

end
