(* ===== verification/AppAnte.thy ===== *)
theory AppAnte
  imports Prelude
begin

text \<open>
  \<open>app/ante.go\<close>: the options of the ante handler, the checks of its constructor and the chain of
  decorators it builds. Keepers, checkers and services are references of an unknown type
  that may be nil; the decorators themselves are the SDK's and are recorded with the
  arguments they are built from.
\<close>

record NodeConfig =
  SimulationGasLimit :: "u64 option"

text \<open>\<open>HandlerOptions\<close>, the embedded \<open>ante.HandlerOptions\<close> first.\<close>

record 'k HandlerOptions =
  AccountKeeper :: "'k option"
  hoBankKeeper :: "'k option"
  ExtensionOptionChecker :: "'k option"
  FeegrantKeeper :: "'k option"
  SignModeHandler :: "'k option"
  SigGasConsumer :: "'k option"
  TxFeeChecker :: "'k option"
  IBCKeeper :: "'k option"
  WasmConfig :: "NodeConfig option"
  WasmKeeper :: "'k option"
  TXCounterStoreService :: "'k option"
  CircuitKeeper :: "'k option"

datatype 'k decorator =
    SetUpContext
  | LimitSimulationGas "u64 option"
  | CountTX 'k
  | GasRegister 'k
  | CircuitBreaker 'k
  | ExtensionOptions "'k option"
  | ValidateBasicTx
  | TxTimeoutHeight
  | ValidateMemo 'k
  | ConsumeGasForTxSize 'k
  | DeductFee 'k 'k "'k option" "'k option"
  | SetPubKey 'k
  | ValidateSigCount 'k
  | SigGasConsume 'k "'k option"
  | SigVerification 'k 'k
  | IncrementSequence 'k
  | RedundantRelay "'k option"

text \<open>\<open>options.X == nil\<close> returns the error; the code after it uses the value.\<close>

definition required :: "string \<Rightarrow> 'a option \<Rightarrow> 'a res" where
  "required msg x = (case x of None \<Rightarrow> Inl (ErrText msg) | Some v \<Rightarrow> Inr v)"

text \<open>A field or method of a nil pointer panics.\<close>

definition deref :: "'a option \<Rightarrow> 'a res" where
  "deref x = (case x of None \<Rightarrow> Inl (Panic ''nil pointer dereference'') | Some v \<Rightarrow> Inr v)"

definition NewAnteHandler :: "'k HandlerOptions \<Rightarrow> 'k decorator list res" where
  "NewAnteHandler opts =
     bindR (required ''account keeper is required for ante builder'' (AccountKeeper opts)) (\<lambda>ak.
     bindR (required ''bank keeper is required for ante builder'' (hoBankKeeper opts)) (\<lambda>bk.
     bindR (required ''sign mode handler is required for ante builder'' (SignModeHandler opts)) (\<lambda>smh.
     bindR (required ''wasm config is required for ante builder'' (WasmConfig opts)) (\<lambda>wc.
     bindR (required ''wasm store service is required for ante builder'' (TXCounterStoreService opts)) (\<lambda>tcs.
     bindR (required ''circuit keeper is required for ante builder'' (CircuitKeeper opts)) (\<lambda>ck.
     bindR (deref (WasmKeeper opts)) (\<lambda>wk.
       Inr [SetUpContext,
            LimitSimulationGas (SimulationGasLimit wc),
            CountTX tcs,
            GasRegister wk,
            CircuitBreaker ck,
            ExtensionOptions (ExtensionOptionChecker opts),
            ValidateBasicTx,
            TxTimeoutHeight,
            ValidateMemo ak,
            ConsumeGasForTxSize ak,
            DeductFee ak bk (FeegrantKeeper opts) (TxFeeChecker opts),
            SetPubKey ak,
            ValidateSigCount ak,
            SigGasConsume ak (SigGasConsumer opts),
            SigVerification ak smh,
            IncrementSequence ak,
            RedundantRelay (IBCKeeper opts)])))))))"

text \<open>The decorators that read or check signatures and sequences.\<close>

fun sig_decorator :: "'k decorator \<Rightarrow> bool" where
  "sig_decorator (ValidateSigCount _) = True"
| "sig_decorator (SigGasConsume _ _) = True"
| "sig_decorator (SigVerification _ _) = True"
| "sig_decorator (IncrementSequence _) = True"
| "sig_decorator _ = False"

text \<open>The six options that are checked.\<close>

definition complete :: "'k HandlerOptions \<Rightarrow> bool" where
  "complete opts \<longleftrightarrow> AccountKeeper opts \<noteq> None \<and> hoBankKeeper opts \<noteq> None \<and> SignModeHandler opts \<noteq> None \<and>
     WasmConfig opts \<noteq> None \<and> TXCounterStoreService opts \<noteq> None \<and> CircuitKeeper opts \<noteq> None"

lemma required_simps [simp]:
  "required m x = Inr v \<longleftrightarrow> x = Some v"
  "required m x = Inl e \<longleftrightarrow> x = None \<and> e = ErrText m"
  by (auto simp: required_def split: option.splits)

lemma deref_simps [simp]:
  "deref x = Inr v \<longleftrightarrow> x = Some v"
  "deref x = Inl e \<longleftrightarrow> x = None \<and> e = Panic ''nil pointer dereference''"
  by (auto simp: deref_def split: option.splits)

lemma NewAnteHandler_Inr_iff:
  "(\<exists>ds. NewAnteHandler opts = Inr ds) \<longleftrightarrow> complete opts \<and> WasmKeeper opts \<noteq> None"
  by (auto simp: NewAnteHandler_def complete_def bindR_Inr_conv)


definition sample_options :: "nat HandlerOptions" where
  "sample_options = \<lparr>AccountKeeper = Some 1, hoBankKeeper = Some 2, ExtensionOptionChecker = None,
     FeegrantKeeper = Some 3, SignModeHandler = Some 4, SigGasConsumer = Some 5, TxFeeChecker = None,
     IBCKeeper = None, WasmConfig = Some \<lparr>SimulationGasLimit = None\<rparr>, WasmKeeper = Some 6,
     TXCounterStoreService = Some 7, CircuitKeeper = Some 8\<rparr>"


end
