(* ===== verification/AppWiring.thy ===== *)
theory AppWiring
  imports AppAnte Types
begin

text \<open>
  \<open>app/app_config.go\<close>, \<open>app/app.go\<close>, \<open>app/ibc.go\<close> and \<open>app/wasm.go\<close>: the module orders and account
  permissions, the application's configuration, the lookups the application offers, and its
  construction up to the registration of the modules that do not support dependency injection.
  Names of third-party modules and accounts are symbols, one constructor per constant.
\<close>

section \<open>Names\<close>

datatype modname =
    M_capability | M_auth | M_bank | M_distr | M_staking | M_slashing | M_gov | M_mint | M_crisis
  | M_ibc | M_genutil | M_evidence | M_authz | M_transfer | M_ica | M_ibcfee | M_feegrant | M_params
  | M_upgrade | M_vesting | M_nft | M_group | M_consensus | M_circuit | M_wasm | M_fixedmint
  | M_runtime | M_tx | M_ibctm | M_solomachine | M_icacontroller | M_icahost

datatype account = FeeCollector | BondedPool | NotBondedPool | ModuleAcc modname

datatype permission = Minter | Burner | StakingPerm

section \<open>app_config.go\<close>

definition genesisModuleOrder :: "modname list" where
  "genesisModuleOrder =
     [M_capability, M_auth, M_bank, M_distr, M_staking, M_slashing, M_gov, M_mint, M_crisis,
      M_ibc, M_genutil, M_evidence, M_authz, M_transfer, M_ica, M_ibcfee, M_feegrant, M_params,
      M_upgrade, M_vesting, M_nft, M_group, M_consensus, M_circuit, M_wasm, M_fixedmint]"

definition beginBlockers :: "modname list" where
  "beginBlockers =
     [M_mint, M_distr, M_slashing, M_evidence, M_staking, M_authz, M_genutil,
      M_capability, M_ibc, M_transfer, M_ica, M_ibcfee, M_wasm, M_fixedmint]"

definition endBlockers :: "modname list" where
  "endBlockers =
     [M_crisis, M_gov, M_staking, M_feegrant, M_group, M_genutil,
      M_ibc, M_transfer, M_capability, M_ica, M_ibcfee, M_wasm, M_fixedmint]"

definition preBlockers :: "modname list" where
  "preBlockers = [M_upgrade]"

definition moduleAccPerms :: "(account \<times> permission list) list" where
  "moduleAccPerms =
     [(FeeCollector, []),
      (ModuleAcc M_distr, []),
      (ModuleAcc M_mint, [Minter]),
      (BondedPool, [Burner, StakingPerm]),
      (NotBondedPool, [Burner, StakingPerm]),
      (ModuleAcc M_gov, [Burner]),
      (ModuleAcc M_nft, []),
      (ModuleAcc M_transfer, [Minter, Burner]),
      (ModuleAcc M_ibcfee, []),
      (ModuleAcc M_ica, []),
      (ModuleAcc M_wasm, [Burner]),
      (ModuleAcc M_fixedmint, [Minter])]"

definition blockAccAddrs :: "account list" where
  "blockAccAddrs =
     [FeeCollector, ModuleAcc M_distr, ModuleAcc M_mint, BondedPool, NotBondedPool, ModuleAcc M_nft]"

definition AccountAddressPrefix :: string where
  "AccountAddressPrefix = ''bluechip''"

definition ChainCoinType :: nat where
  "ChainCoinType = 118"

definition AppName :: string where
  "AppName = ''bluechipChain''"

text \<open>A module's configuration: what is set of it.\<close>

datatype module_config =
    CfgRuntime string "modname list" "modname list" "modname list" "modname list" "(modname \<times> string) list"
  | CfgAuth string "(account \<times> permission list) list"
  | CfgBank "account list"
  | CfgStaking string string
  | CfgGroup nat nat
  | CfgDefault

definition appConfig :: "(modname \<times> module_config) list" where
  "appConfig =
     [(M_runtime, CfgRuntime AppName preBlockers beginBlockers endBlockers genesisModuleOrder
        [(M_auth, ''acc'')]),
      (M_auth, CfgAuth AccountAddressPrefix moduleAccPerms),
      (M_nft, CfgDefault),
      (M_vesting, CfgDefault),
      (M_bank, CfgBank blockAccAddrs),
      (M_staking, CfgStaking (AccountAddressPrefix @ ''valoper'') (AccountAddressPrefix @ ''valcons'')),
      (M_slashing, CfgDefault),
      (M_params, CfgDefault),
      (M_tx, CfgDefault),
      (M_genutil, CfgDefault),
      (M_authz, CfgDefault),
      (M_upgrade, CfgDefault),
      (M_distr, CfgDefault),
      (M_evidence, CfgDefault),
      (M_mint, CfgDefault),
      (M_group, CfgGroup 1209600 255),
      (M_feegrant, CfgDefault),
      (M_gov, CfgDefault),
      (M_crisis, CfgDefault),
      (M_consensus, CfgDefault),
      (M_circuit, CfgDefault),
      (M_fixedmint, CfgDefault)]"

section \<open>app.go: lookups\<close>

text \<open>A Go map as a function; \<open>dup[perms.Account] = perms.Permissions\<close> in the list's order.\<close>

definition GetMaccPerms :: "account \<Rightarrow> permission list option" where
  "GetMaccPerms = foldl (\<lambda>dup (acc, perms). dup(acc \<mapsto> perms)) Map.empty moduleAccPerms"

definition blockedFrom :: "account list \<Rightarrow> (account \<Rightarrow> permission list option) \<Rightarrow> account \<Rightarrow> bool" where
  "blockedFrom blocked perms =
     (if length blocked > 0
      then foldl (\<lambda>result addr. result(addr := True)) (\<lambda>_. False) blocked
      else (\<lambda>addr. perms addr \<noteq> None))"

definition BlockedAddresses :: "account \<Rightarrow> bool" where
  "BlockedAddresses = blockedFrom blockAccAddrs GetMaccPerms"

text \<open>Store keys: each has a name and a kind.\<close>

datatype store_key = KVStoreKey modname | MemoryStoreKey modname | TransientStoreKey modname

fun key_name :: "store_key \<Rightarrow> modname" where
  "key_name (KVStoreKey n) = n"
| "key_name (MemoryStoreKey n) = n"
| "key_name (TransientStoreKey n) = n"

text \<open>\<open>UnsafeFindStoreKey\<close> of the runtime finds a key by name; it is a parameter.\<close>

definition GetKey :: "(modname \<Rightarrow> store_key option) \<Rightarrow> modname \<Rightarrow> store_key option" where
  "GetKey UnsafeFindStoreKey storeKey =
     (case UnsafeFindStoreKey storeKey of Some (KVStoreKey n) \<Rightarrow> Some (KVStoreKey n) | _ \<Rightarrow> None)"

definition GetMemKey :: "(modname \<Rightarrow> store_key option) \<Rightarrow> modname \<Rightarrow> store_key option" where
  "GetMemKey UnsafeFindStoreKey storeKey =
     (case UnsafeFindStoreKey storeKey of Some (MemoryStoreKey n) \<Rightarrow> Some (MemoryStoreKey n) | _ \<Rightarrow> None)"

definition kvStoreKeys :: "store_key list \<Rightarrow> modname \<Rightarrow> store_key option" where
  "kvStoreKeys keys =
     foldl (\<lambda>m k. case k of KVStoreKey n \<Rightarrow> m(n \<mapsto> KVStoreKey n) | _ \<Rightarrow> m) Map.empty keys"

section \<open>Construction\<close>

text \<open>
  What the construction builds: the store keys, the capability keeper (absent until it is made),
  the memo of scoped keepers, the keepers scoped for IBC, legacy subspaces, IBC routes, registered
  modules, the ante chain and the post handler. \<open>'ck\<close> is the capability keeper's own state and
  \<open>'sk\<close> a scoped keeper.
\<close>

record ('ck, 'sk) app =
  aStores :: "store_key list"
  aCapability :: "'ck option"
  aScopedKeepers :: "modname \<Rightarrow> 'sk option"
  aScoped :: "modname \<Rightarrow> 'sk option"
  aSubspaces :: "modname list"
  aRoutes :: "modname list"
  aModules :: "modname list"
  aAnte :: "modname decorator list option"
  aPost :: bool

text \<open>The outcomes of the calls to third-party code.\<close>

record ('ck, 'sk) calls =
  NewCapabilityKeeper :: 'ck
  ScopeToModule :: "modname \<Rightarrow> 'ck \<Rightarrow> 'ck \<times> 'sk ext"
  RegisterStores :: "store_key list \<Rightarrow> unit ext"
  RegisterModules :: "modname list \<Rightarrow> unit ext"
  ReadNodeConfig :: "NodeConfig ext"
  SnapshotManager :: "unit ext option"
  NewPostHandler :: "unit ext"
  MergedRegistry :: "unit ext"
  ValidateProtoAnnotations :: "unit ext"

type_synonym ('ck, 'sk, 'a) build = "(('ck, 'sk) app, 'a) act"

definition registerStores :: "('ck, 'sk) calls \<Rightarrow> store_key list \<Rightarrow> ('ck, 'sk, unit) build" where
  "registerStores X ks = bindS (lift (ext (RegisterStores X ks))) (\<lambda>_ a. (a\<lparr>aStores := aStores a @ ks\<rparr>, Inr ()))"

definition registerModules :: "('ck, 'sk) calls \<Rightarrow> modname list \<Rightarrow> ('ck, 'sk, unit) build" where
  "registerModules X ms = bindS (lift (ext (RegisterModules X ms))) (\<lambda>_ a. (a\<lparr>aModules := aModules a @ ms\<rparr>, Inr ()))"

text \<open>\<open>app.CapabilityKeeper.ScopeToModule(name)\<close>; the keeper is nil before it is created.\<close>

definition scopeToModule :: "('ck, 'sk) calls \<Rightarrow> modname \<Rightarrow> ('ck, 'sk, 'sk) build" where
  "scopeToModule X name a =
     (case aCapability a of
        None \<Rightarrow> (a, Inl (Panic ''nil pointer dereference''))
      | Some ck \<Rightarrow>
          let (ck', r) = ScopeToModule X name ck
          in (a\<lparr>aCapability := Some ck'\<rparr>, ext r))"

definition GetCapabilityScopedKeeper :: "('ck, 'sk) calls \<Rightarrow> modname \<Rightarrow> ('ck, 'sk, 'sk) build" where
  "GetCapabilityScopedKeeper X name a =
     (case aScopedKeepers a name of
        Some sk \<Rightarrow> (a, Inr sk)
      | None \<Rightarrow>
          bindS (scopeToModule X name) (\<lambda>sk a.
            (a\<lparr>aScopedKeepers := (aScopedKeepers a)(name \<mapsto> sk)\<rparr>, Inr sk)) a)"

text \<open>\<open>fmt.Errorf(... %s, err)\<close>: a new error with the text; panics pass.\<close>

definition wrapS :: "string \<Rightarrow> ('s, 'a) act \<Rightarrow> ('s, 'a) act" where
  "wrapS msg f s =
     (case f s of
        (s', Inl e) \<Rightarrow> (s', Inl (if is_panic e then e else Wrapped msg e))
      | (s', Inr x) \<Rightarrow> (s', Inr x))"

definition setPostHandler :: "('ck, 'sk) calls \<Rightarrow> ('ck, 'sk, unit) build" where
  "setPostHandler X = bindS (lift (ext (NewPostHandler X))) (\<lambda>_ a. (a\<lparr>aPost := True\<rparr>, Inr ()))"

text \<open>The application's keepers stand for themselves, by the name of their module.\<close>

definition anteOptions :: "NodeConfig \<Rightarrow> modname HandlerOptions" where
  "anteOptions wasmConfig =
     \<lparr>AccountKeeper = Some M_auth, hoBankKeeper = Some M_bank, ExtensionOptionChecker = None,
      FeegrantKeeper = Some M_feegrant, SignModeHandler = Some M_tx, SigGasConsumer = Some M_auth,
      TxFeeChecker = None, IBCKeeper = Some M_ibc, WasmConfig = Some wasmConfig,
      WasmKeeper = Some M_wasm, TXCounterStoreService = Some M_wasm, CircuitKeeper = Some M_circuit\<rparr>"

definition setAnteHandler :: "NodeConfig \<Rightarrow> ('ck, 'sk, unit) build" where
  "setAnteHandler wasmConfig =
     bindS (wrapS ''failed to create AnteHandler'' (lift (NewAnteHandler (anteOptions wasmConfig))))
       (\<lambda>ds a. (a\<lparr>aAnte := Some ds\<rparr>, Inr ()))"

definition registerWasmModules :: "('ck, 'sk) calls \<Rightarrow> ('ck, 'sk, unit) build" where
  "registerWasmModules X =
     bindS (panicS (registerStores X [KVStoreKey M_wasm])) (\<lambda>_.
     bindS (scopeToModule X M_wasm) (\<lambda>scopedWasmKeeper.
     bindS (wrapS ''error while reading wasm config'' (lift (ext (ReadNodeConfig X)))) (\<lambda>wasmConfig.
     bindS (registerModules X [M_wasm]) (\<lambda>_.
     bindS (setAnteHandler wasmConfig) (\<lambda>_.
     bindS (case SnapshotManager X of
              None \<Rightarrow> lift (Inr ())
            | Some r \<Rightarrow> wrapS ''failed to register snapshot extension'' (lift (ext r))) (\<lambda>_.
     bindS (\<lambda>a. (a\<lparr>aScoped := (aScoped a)(M_wasm \<mapsto> scopedWasmKeeper)\<rparr>, Inr ())) (\<lambda>_.
     bindS (setPostHandler X) (\<lambda>_.
     bindS (lift (ext (MergedRegistry X))) (\<lambda>_.
     lift (ext (ValidateProtoAnnotations X)))))))))))"

definition registerIBCModules :: "('ck, 'sk) calls \<Rightarrow> ('ck, 'sk, unit) build" where
  "registerIBCModules X =
     bindS (registerStores X
       [KVStoreKey M_capability, KVStoreKey M_ibc, KVStoreKey M_transfer, KVStoreKey M_ibcfee,
        KVStoreKey M_icahost, KVStoreKey M_icacontroller, MemoryStoreKey M_capability,
        TransientStoreKey M_params]) (\<lambda>_.
     bindS (\<lambda>a. (a\<lparr>aSubspaces := aSubspaces a @ [M_ibc, M_transfer, M_icacontroller, M_icahost],
                     aCapability := Some (NewCapabilityKeeper X)\<rparr>, Inr ())) (\<lambda>_.
     bindS (scopeToModule X M_ibc) (\<lambda>scopedIBCKeeper.
     bindS (scopeToModule X M_transfer) (\<lambda>scopedIBCTransferKeeper.
     bindS (scopeToModule X M_icacontroller) (\<lambda>scopedICAControllerKeeper.
     bindS (scopeToModule X M_icahost) (\<lambda>scopedICAHostKeeper.
     bindS (registerWasmModules X) (\<lambda>_.
     bindS (\<lambda>a. (a\<lparr>aRoutes := [M_transfer, M_icacontroller, M_icahost] @ [M_wasm],
                     aScoped := (aScoped a)(M_ibc \<mapsto> scopedIBCKeeper,
                       M_transfer \<mapsto> scopedIBCTransferKeeper, M_icahost \<mapsto> scopedICAHostKeeper,
                       M_icacontroller \<mapsto> scopedICAControllerKeeper)\<rparr>, Inr ())) (\<lambda>_.
     registerModules X [M_ibc, M_transfer, M_ibcfee, M_ica, M_capability, M_ibctm, M_solomachine]))))))))"

text \<open>
  The client side registers the interfaces of the same modules by hand: \<open>RegisterIBC\<close>. Its map is
  given by its keys; the loop over it registers each module's interfaces.
\<close>

definition RegisterIBC :: "(modname \<Rightarrow> 'reg \<Rightarrow> 'reg) \<Rightarrow> 'reg \<Rightarrow> 'reg \<times> modname list" where
  "RegisterIBC RegisterInterfaces registry =
     (let modules = [M_ibc, M_transfer, M_ibcfee, M_ica, M_capability, M_ibctm, M_solomachine, M_wasm]
      in (foldl (\<lambda>r m. RegisterInterfaces m r) registry modules, modules))"

section \<open>Permissions and blocked accounts\<close>

lemma foldl_map_upd:
  "foldl (\<lambda>dup (acc, perms). dup(acc \<mapsto> perms)) m xs = m ++ map_of (rev xs)"
  by (induction xs arbitrary: m) auto

lemma foldl_fun_upd_True:
  "foldl (\<lambda>result addr. result(addr := True)) f xs = (\<lambda>a. a \<in> set xs \<or> f a)"
  by (induction xs arbitrary: f) auto

lemma GetMaccPerms_alt: "GetMaccPerms = map_of moduleAccPerms"
proof -
  have "distinct (map fst moduleAccPerms)" by (simp add: moduleAccPerms_def)
  then have "map_of (rev moduleAccPerms) = map_of moduleAccPerms"
    by (intro map_of_inject_set [THEN iffD2]) (auto simp: rev_map [symmetric])
  then show ?thesis by (simp add: GetMaccPerms_def foldl_map_upd)
qed

lemma BlockedAddresses_alt: "BlockedAddresses a \<longleftrightarrow> a \<in> set blockAccAddrs"
proof -
  have "length blockAccAddrs > 0" by (simp add: blockAccAddrs_def)
  then show ?thesis by (simp add: BlockedAddresses_def blockedFrom_def foldl_fun_upd_True)
qed

lemma kvStoreKeys_alt:
  "kvStoreKeys keys n = (if KVStoreKey n \<in> set keys then Some (KVStoreKey n) else None)"
proof -
  have "foldl (\<lambda>m k. case k of KVStoreKey n \<Rightarrow> m(n \<mapsto> KVStoreKey n) | _ \<Rightarrow> m) m keys n =
      (if KVStoreKey n \<in> set keys then Some (KVStoreKey n) else m n)" for m
    by (induction keys arbitrary: m) (auto split: store_key.splits)
  then show ?thesis by (simp add: kvStoreKeys_def)
qed

section \<open>Construction succeeds and is complete\<close>

text \<open>
  The capability keeper's rule: a module is scoped once, a second time panics. \<open>scoped\<close> reads which
  modules a keeper has scoped.
\<close>

definition cap_ok :: "('ck, 'sk) calls \<Rightarrow> ('ck \<Rightarrow> modname set) \<Rightarrow> bool" where
  "cap_ok X scoped \<longleftrightarrow>
     scoped (NewCapabilityKeeper X) = {} \<and>
     (\<forall>m ck. m \<notin> scoped ck \<longrightarrow>
        (\<exists>ck' sk. ScopeToModule X m ck = (ck', Inr sk) \<and> scoped ck' = insert m (scoped ck))) \<and>
     (\<forall>m ck. m \<in> scoped ck \<longrightarrow> (\<exists>msg. ScopeToModule X m ck = (ck, Inl (Panicked msg))))"

text \<open>All other calls succeed.\<close>

definition calls_ok :: "('ck, 'sk) calls \<Rightarrow> bool" where
  "calls_ok X \<longleftrightarrow>
     (\<forall>ks. RegisterStores X ks = Inr ()) \<and> (\<forall>ms. RegisterModules X ms = Inr ()) \<and>
     (\<exists>c. ReadNodeConfig X = Inr c) \<and> (SnapshotManager X = None \<or> SnapshotManager X = Some (Inr ())) \<and>
     NewPostHandler X = Inr () \<and> MergedRegistry X = Inr () \<and> ValidateProtoAnnotations X = Inr ()"

lemma scope_fresh:
  assumes "cap_ok X scoped" "aCapability a = Some ck" "m \<notin> scoped ck"
  shows "\<exists>ck' sk. scopeToModule X m a = (a\<lparr>aCapability := Some ck'\<rparr>, Inr sk) \<and>
    scoped ck' = insert m (scoped ck)"
proof -
  obtain ck' sk where "ScopeToModule X m ck = (ck', Inr sk)" "scoped ck' = insert m (scoped ck)"
    using assms(1,3) unfolding cap_ok_def by blast
  then have "scopeToModule X m a = (a\<lparr>aCapability := Some ck'\<rparr>, Inr sk)" "scoped ck' = insert m (scoped ck)"
    using assms(2) by (simp_all add: scopeToModule_def)
  then show ?thesis by blast
qed

lemma scope_again:
  assumes "cap_ok X scoped" "aCapability a = Some ck" "m \<in> scoped ck"
  shows "\<exists>msg. scopeToModule X m a = (a, Inl (Panic msg))"
proof -
  obtain msg where "ScopeToModule X m ck = (ck, Inl (Panicked msg))"
    using assms(1,3) unfolding cap_ok_def by blast
  then have "scopeToModule X m a = (a, Inl (Panic msg))"
    using assms(2) by (simp add: scopeToModule_def)
  then show ?thesis by blast
qed

lemma ante_built: "\<exists>ds. NewAnteHandler (anteOptions c) = Inr ds"
  by (simp add: NewAnteHandler_Inr_iff complete_def anteOptions_def)

lemma registerWasmModules_ok:
  assumes "cap_ok X scoped" "calls_ok X" "aCapability a = Some ck" "M_wasm \<notin> scoped ck"
  shows "\<exists>ck' sk ds. registerWasmModules X a =
      (a\<lparr>aStores := aStores a @ [KVStoreKey M_wasm], aCapability := Some ck',
         aScoped := (aScoped a)(M_wasm \<mapsto> sk), aModules := aModules a @ [M_wasm],
         aAnte := Some ds, aPost := True\<rparr>, Inr ()) \<and>
    scoped ck' = insert M_wasm (scoped ck)"
proof -
  obtain c where c: "ReadNodeConfig X = Inr c" using assms(2) by (auto simp: calls_ok_def)
  obtain ds where ds: "NewAnteHandler (anteOptions c) = Inr ds" using ante_built by blast
  obtain ck' sk where sc: "scopeToModule X M_wasm (a\<lparr>aStores := aStores a @ [KVStoreKey M_wasm]\<rparr>) =
      (a\<lparr>aStores := aStores a @ [KVStoreKey M_wasm], aCapability := Some ck'\<rparr>, Inr sk)"
      "scoped ck' = insert M_wasm (scoped ck)"
    using scope_fresh [OF assms(1) _ assms(4), of "a\<lparr>aStores := aStores a @ [KVStoreKey M_wasm]\<rparr>"]
      assms(3) by auto
  have snap: "SnapshotManager X = None \<or> SnapshotManager X = Some (Inr ())"
    and calls: "RegisterStores X ks = Inr ()" "RegisterModules X ms = Inr ()"
      "NewPostHandler X = Inr ()" "MergedRegistry X = Inr ()" "ValidateProtoAnnotations X = Inr ()" for ks ms
    using assms(2) by (auto simp: calls_ok_def)
  have "registerWasmModules X a =
      (a\<lparr>aStores := aStores a @ [KVStoreKey M_wasm], aCapability := Some ck',
         aScoped := (aScoped a)(M_wasm \<mapsto> sk), aModules := aModules a @ [M_wasm],
         aAnte := Some ds, aPost := True\<rparr>, Inr ())"
    using snap sc(1) c ds calls
    by (auto simp: registerWasmModules_def registerStores_def registerModules_def setAnteHandler_def
        setPostHandler_def bindS_def panicS_def wrapS_def lift_def)
  with sc(2) show ?thesis by blast
qed


text \<open>The whole registration, from an application whose dependency injection is done.\<close>

definition ibcModules :: "modname list" where
  "ibcModules = [M_ibc, M_transfer, M_ibcfee, M_ica, M_capability, M_ibctm, M_solomachine]"

lemma registerIBCModules_ok:
  assumes "cap_ok X scoped" "calls_ok X"
  shows "\<exists>a' ck ds. registerIBCModules X a = (a', Inr ()) \<and>
    aModules a' = aModules a @ [M_wasm] @ ibcModules \<and> aAnte a' = Some ds \<and> aPost a' \<and>
    aRoutes a' = [M_transfer, M_icacontroller, M_icahost, M_wasm] \<and>
    aScopedKeepers a' = aScopedKeepers a \<and>
    aCapability a' = Some ck \<and> scoped ck = {M_ibc, M_transfer, M_icacontroller, M_icahost, M_wasm} \<and>
    (\<forall>m \<in> scoped ck. aScoped a' m \<noteq> None \<and> KVStoreKey m \<in> set (aStores a'))"
proof -
  let ?ks = "[KVStoreKey M_capability, KVStoreKey M_ibc, KVStoreKey M_transfer, KVStoreKey M_ibcfee,
        KVStoreKey M_icahost, KVStoreKey M_icacontroller, MemoryStoreKey M_capability,
        TransientStoreKey M_params]"
  define a1 where "a1 = a\<lparr>aStores := aStores a @ ?ks,
      aSubspaces := aSubspaces a @ [M_ibc, M_transfer, M_icacontroller, M_icahost],
      aCapability := Some (NewCapabilityKeeper X)\<rparr>"
  have calls: "RegisterStores X ks = Inr ()" "RegisterModules X ms = Inr ()" for ks ms
    using assms(2) by (auto simp: calls_ok_def)
  have s0: "scoped (NewCapabilityKeeper X) = {}" using assms(1) by (simp add: cap_ok_def)
  obtain c1 k1 where 1: "scopeToModule X M_ibc a1 = (a1\<lparr>aCapability := Some c1\<rparr>, Inr k1)"
      "scoped c1 = {M_ibc}"
    using scope_fresh [OF assms(1), of a1 "NewCapabilityKeeper X" M_ibc] s0 by (auto simp: a1_def)
  obtain c2 k2 where 2: "scopeToModule X M_transfer (a1\<lparr>aCapability := Some c1\<rparr>) =
      (a1\<lparr>aCapability := Some c2\<rparr>, Inr k2)" "scoped c2 = {M_ibc, M_transfer}"
    using scope_fresh [OF assms(1), of "a1\<lparr>aCapability := Some c1\<rparr>" c1 M_transfer] 1(2) by auto
  obtain c3 k3 where 3: "scopeToModule X M_icacontroller (a1\<lparr>aCapability := Some c2\<rparr>) =
      (a1\<lparr>aCapability := Some c3\<rparr>, Inr k3)" "scoped c3 = {M_ibc, M_transfer, M_icacontroller}"
    using scope_fresh [OF assms(1), of "a1\<lparr>aCapability := Some c2\<rparr>" c2 M_icacontroller] 2(2) by auto
  obtain c4 k4 where 4: "scopeToModule X M_icahost (a1\<lparr>aCapability := Some c3\<rparr>) =
      (a1\<lparr>aCapability := Some c4\<rparr>, Inr k4)" "scoped c4 = {M_ibc, M_transfer, M_icacontroller, M_icahost}"
    using scope_fresh [OF assms(1), of "a1\<lparr>aCapability := Some c3\<rparr>" c3 M_icahost] 3(2) by auto
  let ?a4 = "a1\<lparr>aCapability := Some c4\<rparr>"
  obtain c5 k5 ds where 5: "registerWasmModules X ?a4 =
      (?a4\<lparr>aStores := aStores ?a4 @ [KVStoreKey M_wasm], aCapability := Some c5,
         aScoped := (aScoped ?a4)(M_wasm \<mapsto> k5), aModules := aModules ?a4 @ [M_wasm],
         aAnte := Some ds, aPost := True\<rparr>, Inr ())"
      "scoped c5 = insert M_wasm (scoped c4)"
    using registerWasmModules_ok [OF assms, of ?a4 c4] 4(2) by auto
  define a6 where "a6 = a1\<lparr>aStores := aStores a1 @ [KVStoreKey M_wasm], aCapability := Some c5,
         aScoped := (aScoped a1)(M_wasm \<mapsto> k5, M_ibc \<mapsto> k1, M_transfer \<mapsto> k2, M_icahost \<mapsto> k4,
           M_icacontroller \<mapsto> k3), aModules := (aModules a1 @ [M_wasm]) @ ibcModules,
         aAnte := Some ds, aPost := True, aRoutes := [M_transfer, M_icacontroller, M_icahost, M_wasm]\<rparr>"
  have "registerIBCModules X a = (a6, Inr ())"
    using 1(1) 2(1) 3(1) 4(1) 5(1)
    by (simp add: registerIBCModules_def registerStores_def registerModules_def calls bindS_def lift_def
        a1_def [symmetric] a6_def ibcModules_def)
  then show ?thesis
    using 4(2) 5(2) by (intro exI [of _ a6] exI [of _ c5] exI [of _ ds]) (auto simp: a6_def a1_def)
qed


section \<open>Properties\<close>

text \<open>
  C30. The construction covers the configured orders: from the modules of the application's
  configuration, registering the IBC and wasm modules succeeds, and then the registered modules are
  exactly those of the genesis order and the four that have no genesis of their own; every
  module of the block orders is registered; the ante chain and the post handler are set; and every
  routed IBC application has a scoped capability keeper and a store key.
\<close>

theorem construction_covers_orders:
  assumes "cap_ok X scoped" "calls_ok X" "aModules a = map fst appConfig"
  shows "\<exists>a'. registerIBCModules X a = (a', Inr ()) \<and>
    set (aModules a') = set genesisModuleOrder \<union> {M_runtime, M_tx, M_ibctm, M_solomachine} \<and>
    set (preBlockers @ beginBlockers @ endBlockers) \<subseteq> set (aModules a') \<and>
    distinct (aModules a') \<and> aAnte a' \<noteq> None \<and> aPost a' \<and>
    (\<forall>m \<in> set (aRoutes a'). aScoped a' m \<noteq> None \<and> KVStoreKey m \<in> set (aStores a'))"
proof -
  obtain a' ck ds where a': "registerIBCModules X a = (a', Inr ())"
    "aModules a' = aModules a @ [M_wasm] @ ibcModules" "aAnte a' = Some ds" "aPost a'"
    "aRoutes a' = [M_transfer, M_icacontroller, M_icahost, M_wasm]"
    "scoped ck = {M_ibc, M_transfer, M_icacontroller, M_icahost, M_wasm}"
    "\<forall>m \<in> scoped ck. aScoped a' m \<noteq> None \<and> KVStoreKey m \<in> set (aStores a')"
    using registerIBCModules_ok [OF assms(1,2), of a] by blast
  have m: "aModules a' = map fst appConfig @ [M_wasm] @ ibcModules" using a'(2) assms(3) by simp
  have "set (aModules a') = set genesisModuleOrder \<union> {M_runtime, M_tx, M_ibctm, M_solomachine}"
    unfolding m by (simp add: appConfig_def ibcModules_def genesisModuleOrder_def) blast
  moreover have "set (preBlockers @ beginBlockers @ endBlockers) \<subseteq> set (aModules a')"
    unfolding m by (simp add: appConfig_def ibcModules_def preBlockers_def beginBlockers_def endBlockers_def)
  moreover have "distinct (aModules a')"
    unfolding m by (simp add: appConfig_def ibcModules_def)
  moreover have "\<forall>m \<in> set (aRoutes a'). aScoped a' m \<noteq> None \<and> KVStoreKey m \<in> set (aStores a')"
    using a'(5-7) by auto
  ultimately show ?thesis using a'(1,3,4) by blast
qed

text \<open>A capability keeper that is the list of the scoped modules, and calls that all succeed.\<close>

definition sample_calls :: "(modname list, modname) calls" where
  "sample_calls = \<lparr>NewCapabilityKeeper = [],
     ScopeToModule = \<lambda>m ck. if m \<in> set ck then (ck, Inl (Panicked ''already scoped'')) else (m # ck, Inr m),
     RegisterStores = \<lambda>_. Inr (), RegisterModules = \<lambda>_. Inr (),
     ReadNodeConfig = Inr \<lparr>SimulationGasLimit = None\<rparr>, SnapshotManager = None,
     NewPostHandler = Inr (), MergedRegistry = Inr (), ValidateProtoAnnotations = Inr ()\<rparr>"

definition fresh_app :: "(modname list, modname) app" where
  "fresh_app = \<lparr>aStores = [], aCapability = None, aScopedKeepers = \<lambda>_. None, aScoped = \<lambda>_. None,
     aSubspaces = [], aRoutes = [], aModules = map fst appConfig, aAnte = None, aPost = False\<rparr>"

lemma sample_calls_ok: "cap_ok sample_calls set" "calls_ok sample_calls"
  by (auto simp: cap_ok_def calls_ok_def sample_calls_def)

theorem construction_covers_orders_witness:
  "\<exists>a'. registerIBCModules sample_calls fresh_app = (a', Inr ()) \<and> aPost a'"
proof -
  have "aModules fresh_app = map fst appConfig" by (simp add: fresh_app_def)
  from construction_covers_orders [OF sample_calls_ok this] show ?thesis by blast
qed

text \<open>
  The scoped-keeper getter remembers: asking twice for the same module gives the same keeper, and
  the second time nothing is scoped or stored again.
\<close>

lemma scoped_keeper_memo:
  assumes "GetCapabilityScopedKeeper X m a = (a', Inr sk)"
  shows "GetCapabilityScopedKeeper X m a' = (a', Inr sk)"
  using assms
  by (auto simp: GetCapabilityScopedKeeper_def bindS_def split: option.splits prod.splits sum.splits)

text \<open>
  C32. The memo and the registration do not share: the registration scopes its five modules past
  the memo, so after it the getter panics for each of them, and before it (the capability keeper is
  still nil) the getter panics for every module.
\<close>

theorem scoped_getter_panics_for_ibc:
  assumes "cap_ok X scoped" "calls_ok X" "aScopedKeepers a = (\<lambda>_. None)" "aCapability a = None"
  shows "(\<forall>m. \<exists>msg. GetCapabilityScopedKeeper X m a = (a, Inl (Panic msg))) \<and>
    (\<exists>a'. registerIBCModules X a = (a', Inr ()) \<and>
      (\<forall>m \<in> {M_ibc, M_transfer, M_icacontroller, M_icahost, M_wasm}.
         \<exists>msg. GetCapabilityScopedKeeper X m a' = (a', Inl (Panic msg))))"
proof (intro conjI allI)
  show "\<exists>msg. GetCapabilityScopedKeeper X m a = (a, Inl (Panic msg))" for m
    using assms(3,4) by (simp add: GetCapabilityScopedKeeper_def scopeToModule_def bindS_def)
  obtain a' ck where a': "registerIBCModules X a = (a', Inr ())" "aScopedKeepers a' = aScopedKeepers a"
      "aCapability a' = Some ck" "scoped ck = {M_ibc, M_transfer, M_icacontroller, M_icahost, M_wasm}"
    using registerIBCModules_ok [OF assms(1,2), of a] by blast
  have "\<exists>msg. GetCapabilityScopedKeeper X m a' = (a', Inl (Panic msg))" if "m \<in> scoped ck" for m
    using scope_again [OF assms(1) a'(3) that] a'(2) assms(3)
    by (auto simp: GetCapabilityScopedKeeper_def bindS_def)
  with a'(1,4) show "\<exists>a'. registerIBCModules X a = (a', Inr ()) \<and>
      (\<forall>m \<in> {M_ibc, M_transfer, M_icacontroller, M_icahost, M_wasm}.
         \<exists>msg. GetCapabilityScopedKeeper X m a' = (a', Inl (Panic msg)))" by auto
qed

theorem scoped_getter_panics_for_ibc_witness:
  "\<exists>a' msg. registerIBCModules sample_calls fresh_app = (a', Inr ()) \<and>
     GetCapabilityScopedKeeper sample_calls M_wasm a' = (a', Inl (Panic msg))"
proof -
  have "aScopedKeepers fresh_app = (\<lambda>_. None)" "aCapability fresh_app = None"
    by (simp_all add: fresh_app_def)
  from scoped_getter_panics_for_ibc [OF sample_calls_ok this] show ?thesis by blast
qed

text \<open>
  Permissions: the only module accounts that can mint are the inflation module's, the IBC transfer
  module's and this chain's, and the last one can do nothing else; every blocked address is a module
  account; the fee collector is one, so it can be paid from a module.
\<close>

lemma minters_and_blocked_accounts:
  "{acc. \<exists>ps. GetMaccPerms acc = Some ps \<and> Minter \<in> set ps} =
     {ModuleAcc M_mint, ModuleAcc M_transfer, ModuleAcc M_fixedmint} \<and>
   GetMaccPerms (ModuleAcc M_fixedmint) = Some [Minter] \<and>
   {acc. BlockedAddresses acc} \<subseteq> dom GetMaccPerms \<and>
   {acc. acc \<in> dom GetMaccPerms \<and> \<not> BlockedAddresses acc} =
     {ModuleAcc M_gov, ModuleAcc M_transfer, ModuleAcc M_ibcfee, ModuleAcc M_ica, ModuleAcc M_wasm,
      ModuleAcc M_fixedmint} \<and>
   GetMaccPerms FeeCollector = Some []"
  by (auto simp: GetMaccPerms_alt moduleAccPerms_def BlockedAddresses_alt blockAccAddrs_def
      split: if_splits)

definition before :: "'a list \<Rightarrow> 'a \<Rightarrow> 'a \<Rightarrow> bool" where
  "before xs a b \<longleftrightarrow> b \<in> set (tl (dropWhile (\<lambda>x. x \<noteq> a) xs))"

text \<open>
  The orders obey the constraints the configuration states: the capability module initialises
  first, genutil after staking and auth, capability begins before every module that uses
  capabilities, slashing begins after distribution, and the fixed reward is minted after distribution has
  emptied the fee collector. No order names a module twice.
\<close>

lemma module_orders_respect_constraints:
  "hd genesisModuleOrder = M_capability \<and>
   before genesisModuleOrder M_staking M_genutil \<and> before genesisModuleOrder M_auth M_genutil \<and>
   (\<forall>m \<in> {M_ibc, M_transfer, M_ica, M_ibcfee, M_wasm}. before beginBlockers M_capability m) \<and>
   before beginBlockers M_distr M_slashing \<and> before beginBlockers M_mint M_distr \<and>
   before beginBlockers M_distr M_fixedmint \<and>
   distinct genesisModuleOrder \<and> distinct beginBlockers \<and> distinct endBlockers"
  by (simp add: before_def genesisModuleOrder_def beginBlockers_def endBlockers_def)

end
