(* ===== verification/AppExport.thy ===== *)
theory AppExport
  imports Prelude
begin

text \<open>
  \<open>app/export.go\<close> and \<open>app/genesis_account.go\<close>: exporting the application's state, the
  preparation for a restart at height zero, and the validation of genesis accounts. The SDK's
  keepers are operations on a state \<open>'s\<close> that holds the stores and the context's block height.
\<close>

section \<open>The SDK's keepers, a parameter\<close>

record validator =
  Operator :: string
  UnbondingHeight :: int
  Jailed :: bool

record delegation =
  DelegatorAddress :: string
  ValidatorAddress :: string

text \<open>A redelegation or an unbonding delegation: who it is of, and its entries' creation heights.\<close>

record unbonding =
  Owner :: string
  Entries :: "int list"

text \<open>
  An iteration of the SDK (\<open>IterateX(ctx, f)\<close>) is the list of the items it visits and the error it
  ends with.
\<close>

record ('s, 'pool, 'coins) keepers =
  ValAddressFromBech32 :: "string \<Rightarrow> bytes ext"
  ValAddress_String :: "bytes \<Rightarrow> string"
  MustAccAddressFromBech32 :: "string \<Rightarrow> bytes ext"
  StringToBytes :: "string \<Rightarrow> bytes ext"
  AssertInvariants :: "'s \<Rightarrow> 's \<times> unit ext"
  IterateValidators :: "'s \<Rightarrow> validator list \<times> unit ext"
  WithdrawValidatorCommission :: "bytes \<Rightarrow> 's \<Rightarrow> 's \<times> unit ext"
  GetAllDelegations :: "'s \<Rightarrow> delegation list ext"
  WithdrawDelegationRewards :: "bytes \<Rightarrow> bytes \<Rightarrow> 's \<Rightarrow> 's \<times> unit ext"
  DeleteAllValidatorSlashEvents :: "'s \<Rightarrow> 's \<times> unit ext"
  DeleteAllValidatorHistoricalRewards :: "'s \<Rightarrow> 's \<times> unit ext"
  BlockHeight :: "'s \<Rightarrow> int"
  WithBlockHeight :: "int \<Rightarrow> 's \<Rightarrow> 's"
  GetValidatorOutstandingRewardsCoins :: "bytes \<Rightarrow> 's \<Rightarrow> 'coins ext"
  FeePool_Get :: "'s \<Rightarrow> 'pool ext"
  CommunityPool_Add :: "'pool \<Rightarrow> 'coins \<Rightarrow> 'pool"
  FeePool_Set :: "'pool \<Rightarrow> 's \<Rightarrow> 's \<times> unit ext"
  AfterValidatorCreated :: "bytes \<Rightarrow> 's \<Rightarrow> 's \<times> unit ext"
  BeforeDelegationCreated :: "bytes \<Rightarrow> bytes \<Rightarrow> 's \<Rightarrow> 's \<times> unit ext"
  AfterDelegationModified :: "bytes \<Rightarrow> bytes \<Rightarrow> 's \<Rightarrow> 's \<times> unit ext"
  IterateRedelegations :: "'s \<Rightarrow> unbonding list \<times> unit ext"
  SetRedelegation :: "unbonding \<Rightarrow> 's \<Rightarrow> 's \<times> unit ext"
  IterateUnbondingDelegations :: "'s \<Rightarrow> unbonding list \<times> unit ext"
  SetUnbondingDelegation :: "unbonding \<Rightarrow> 's \<Rightarrow> 's \<times> unit ext"
  ReverseValidatorKeys :: "'s \<Rightarrow> bytes list"
  AddressFromValidatorsKey :: "bytes \<Rightarrow> bytes"
  GetValidator :: "bytes \<Rightarrow> 's \<Rightarrow> validator ext"
  SetValidator :: "validator \<Rightarrow> 's \<Rightarrow> 's \<times> unit ext"
  IteratorClose :: "'s \<Rightarrow> unit ext"
  ApplyAndReturnValidatorSetUpdates :: "'s \<Rightarrow> 's \<times> unit ext"
  IterateValidatorSigningInfos :: "'s \<Rightarrow> (bytes \<times> int) list \<times> unit ext"
  SetValidatorSigningInfo :: "bytes \<Rightarrow> int \<Rightarrow> 's \<Rightarrow> 's \<times> unit ext"

text \<open>\<open>log.Fatal(err)\<close> on an error; a panic on the way stays one.\<close>

definition fatal :: "('s, 'a) act \<Rightarrow> ('s, 'a) act" where
  "fatal f s =
     (case f s of
        (s', Inl e) \<Rightarrow> (s', Inl (if is_panic e then e else Fatal e))
      | (s', Inr x) \<Rightarrow> (s', Inr x))"

text \<open>Run a callback on what an iteration visits, then return the iteration's error.\<close>

definition iterateS :: "('s \<Rightarrow> 'a list \<times> unit ext) \<Rightarrow> ('a \<Rightarrow> ('s, unit) act) \<Rightarrow> ('s, unit) act" where
  "iterateS it f =
     bindS (readS (\<lambda>s. Inr (it s))) (\<lambda>(xs, r). bindS (forS f xs) (\<lambda>_. lift (ext r)))"

section \<open>prepForZeroHeightGenesis\<close>

text \<open>The map of allowed addresses; an address that does not parse ends the process.\<close>

fun allowAddrs ::
  "('s, 'pool, 'coins) keepers \<Rightarrow> (string \<Rightarrow> bool) \<Rightarrow> string list \<Rightarrow> (string \<Rightarrow> bool) res" where
  "allowAddrs X allowed [] = Inr allowed"
| "allowAddrs X allowed (addr # rest) =
     (case ext (ValAddressFromBech32 X addr) of
        Inl e \<Rightarrow> Inl (if is_panic e then e else Fatal e)
      | Inr _ \<Rightarrow> allowAddrs X (allowed(addr := True)) rest)"

definition withdrawCommission :: "('s, 'pool, 'coins) keepers \<Rightarrow> validator \<Rightarrow> ('s, unit) act" where
  "withdrawCommission X val =
     bindS (panicS (lift (ext (StringToBytes X (Operator val))))) (\<lambda>valBz.
       dropS (call (WithdrawValidatorCommission X valBz)))"

definition withdrawRewards :: "('s, 'pool, 'coins) keepers \<Rightarrow> delegation \<Rightarrow> ('s, unit) act" where
  "withdrawRewards X d =
     bindS (panicS (lift (ext (ValAddressFromBech32 X (ValidatorAddress d))))) (\<lambda>valAddr.
     bindS (panicS (lift (ext (MustAccAddressFromBech32 X (DelegatorAddress d))))) (\<lambda>delAddr.
       dropS (call (WithdrawDelegationRewards X delAddr valAddr))))"

definition reinitValidator :: "('s, 'pool, 'coins) keepers \<Rightarrow> validator \<Rightarrow> ('s, unit) act" where
  "reinitValidator X val =
     bindS (panicS (lift (ext (StringToBytes X (Operator val))))) (\<lambda>valBz.
     bindS (panicS (readS (\<lambda>s. ext (GetValidatorOutstandingRewardsCoins X valBz s)))) (\<lambda>scraps.
     bindS (panicS (readS (\<lambda>s. ext (FeePool_Get X s)))) (\<lambda>feePool.
     bindS (panicS (call (FeePool_Set X (CommunityPool_Add X feePool scraps)))) (\<lambda>_.
       panicS (call (AfterValidatorCreated X valBz))))))"

definition reinitDelegation :: "('s, 'pool, 'coins) keepers \<Rightarrow> delegation \<Rightarrow> ('s, unit) act" where
  "reinitDelegation X d =
     bindS (panicS (lift (ext (ValAddressFromBech32 X (ValidatorAddress d))))) (\<lambda>valAddr.
     bindS (panicS (lift (ext (MustAccAddressFromBech32 X (DelegatorAddress d))))) (\<lambda>delAddr.
     bindS (panicS (call (BeforeDelegationCreated X delAddr valAddr))) (\<lambda>_.
       panicS (call (AfterDelegationModified X delAddr valAddr)))))"

text \<open>\<open>for i := range e.Entries { e.Entries[i].CreationHeight = 0 }\<close>\<close>

definition zeroEntries :: "unbonding \<Rightarrow> unbonding" where
  "zeroEntries u = u\<lparr>Entries := map (\<lambda>_. 0) (Entries u)\<rparr>"

text \<open>One step of the loop over the validators' keys; its counter is never read.\<close>

definition resetValidator ::
  "('s, 'pool, 'coins) keepers \<Rightarrow> bool \<Rightarrow> (string \<Rightarrow> bool) \<Rightarrow> bytes \<Rightarrow> ('s, unit) act" where
  "resetValidator X applyAllowedAddrs allowedAddrsMap key =
     (let addr = AddressFromValidatorsKey X key in
      bindS (\<lambda>s. case ext (GetValidator X addr s) of
               Inl e \<Rightarrow> (s, Inl (if is_panic e then e else Panic ''expected validator, not found''))
             | Inr v \<Rightarrow> (s, Inr v)) (\<lambda>v.
        let v1 = v\<lparr>UnbondingHeight := 0\<rparr>;
            v2 = (if applyAllowedAddrs \<and> \<not> allowedAddrsMap (ValAddress_String X addr)
                  then v1\<lparr>Jailed := True\<rparr> else v1)
        in panicS (call (SetValidator X v2))))"

definition resetValidators ::
  "('s, 'pool, 'coins) keepers \<Rightarrow> bool \<Rightarrow> (string \<Rightarrow> bool) \<Rightarrow> ('s, unit) act" where
  "resetValidators X applyAllowedAddrs allowedAddrsMap =
     bindS (readS (\<lambda>s. Inr (ReverseValidatorKeys X s)))
       (forS (resetValidator X applyAllowedAddrs allowedAddrsMap))"

text \<open>What follows the loop; a failing close is only logged and skips it.\<close>

definition finishReset :: "('s, 'pool, 'coins) keepers \<Rightarrow> ('s, unit) act" where
  "finishReset X =
     bindS (readS (\<lambda>s. Inr (ext (IteratorClose X s)))) (\<lambda>closed.
       case closed of
         Inl e \<Rightarrow> lift (if is_panic e then Inl e else Inr ())
       | Inr _ \<Rightarrow>
           bindS (fatal (call (ApplyAndReturnValidatorSetUpdates X))) (\<lambda>_.
             fatal (iterateS (IterateValidatorSigningInfos X) (\<lambda>(addr, startHeight).
               dropS (call (SetValidatorSigningInfo X addr 0))))))"

text \<open>The error of the second iteration over the validators is overwritten before it is read.\<close>

definition prepForZeroHeightGenesis ::
  "('s, 'pool, 'coins) keepers \<Rightarrow> string list \<Rightarrow> ('s, unit) act" where
  "prepForZeroHeightGenesis X jailAllowedAddrs =
     (let applyAllowedAddrs = (length jailAllowedAddrs > 0) in
      bindS (lift (allowAddrs X (\<lambda>_. False) jailAllowedAddrs)) (\<lambda>allowedAddrsMap.
      bindS (call (AssertInvariants X)) (\<lambda>_.
      bindS (panicS (iterateS (IterateValidators X) (withdrawCommission X))) (\<lambda>_.
      bindS (panicS (readS (\<lambda>s. ext (GetAllDelegations X s)))) (\<lambda>dels.
      bindS (forS (withdrawRewards X) dels) (\<lambda>_.
      bindS (call (DeleteAllValidatorSlashEvents X)) (\<lambda>_.
      bindS (call (DeleteAllValidatorHistoricalRewards X)) (\<lambda>_.
      bindS (readS (\<lambda>s. Inr (BlockHeight X s))) (\<lambda>height.
      bindS (\<lambda>s. (WithBlockHeight X 0 s, Inr ())) (\<lambda>_.
      bindS (dropS (iterateS (IterateValidators X) (reinitValidator X))) (\<lambda>_.
      bindS (forS (reinitDelegation X) dels) (\<lambda>_.
      bindS (\<lambda>s. (WithBlockHeight X height s, Inr ())) (\<lambda>_.
      bindS (panicS (iterateS (IterateRedelegations X) (\<lambda>red. panicS (call (SetRedelegation X (zeroEntries red)))))) (\<lambda>_.
      bindS (panicS (iterateS (IterateUnbondingDelegations X) (\<lambda>ubd. panicS (call (SetUnbondingDelegation X (zeroEntries ubd)))))) (\<lambda>_.
      bindS (resetValidators X applyAllowedAddrs allowedAddrsMap) (\<lambda>_.
        finishReset X))))))))))))))))"

section \<open>ExportAppStateAndValidators\<close>

record ExportedApp =
  AppState :: bytes
  Validators :: bytes
  Height :: int
  ConsensusParams :: bytes

record 's exporter =
  LastBlockHeight :: int
  ExportGenesisForModules :: "string list \<Rightarrow> 's \<Rightarrow> bytes ext"
  MarshalIndent :: "bytes \<Rightarrow> bytes ext"
  WriteValidators :: "'s \<Rightarrow> bytes ext"
  GetConsensusParams :: "'s \<Rightarrow> bytes"

definition empty_export :: ExportedApp where
  "empty_export = \<lparr>AppState = [], Validators = [], Height = 0, ConsensusParams = []\<rparr>"

text \<open>Go returns a value and an error; the last step returns both.\<close>

definition exportAt :: "'s exporter \<Rightarrow> int \<Rightarrow> string list \<Rightarrow> ('s, ExportedApp \<times> err option) act" where
  "exportAt E height modulesToExport s =
     (s, case ext (ExportGenesisForModules E modulesToExport s) of
           Inl e \<Rightarrow> (if is_panic e then Inl e else Inr (empty_export, Some e))
         | Inr genState \<Rightarrow>
             (case ext (MarshalIndent E genState) of
                Inl e \<Rightarrow> (if is_panic e then Inl e else Inr (empty_export, Some e))
              | Inr appState \<Rightarrow>
                  (case ext (WriteValidators E s) of
                     Inl e \<Rightarrow> (if is_panic e then Inl e
                              else Inr (\<lparr>AppState = appState, Validators = [], Height = height,
                                         ConsensusParams = GetConsensusParams E s\<rparr>, Some e))
                   | Inr vals \<Rightarrow> Inr (\<lparr>AppState = appState, Validators = vals, Height = height,
                                         ConsensusParams = GetConsensusParams E s\<rparr>, None))))"

definition ExportAppStateAndValidators ::
  "('s, 'pool, 'coins) keepers \<Rightarrow> 's exporter \<Rightarrow> bool \<Rightarrow> string list \<Rightarrow> string list \<Rightarrow>
   ('s, ExportedApp \<times> err option) act" where
  "ExportAppStateAndValidators X E forZeroHeight jailAllowedAddrs modulesToExport =
     (let height = (if forZeroHeight then 0 else wrap64 (LastBlockHeight E + 1)) in
      bindS (if forZeroHeight then prepForZeroHeightGenesis X jailAllowedAddrs else lift (Inr ())) (\<lambda>_.
        exportAt E height modulesToExport))"

section \<open>genesis_account.go\<close>

text \<open>The embedded account and the SDK's module account are validated by the SDK.\<close>

record ('b, 'k) GenesisAccount =
  gaBaseAccount :: 'b
  OriginalVesting :: 'k
  DelegatedFree :: 'k
  DelegatedVesting :: 'k
  StartTime :: int
  EndTime :: int
  gaModuleName :: string
  ModulePermissions :: "string list"

definition GenesisAccount_Validate ::
  "('k \<Rightarrow> bool) \<Rightarrow> ('b \<Rightarrow> string \<Rightarrow> string list \<Rightarrow> unit ext) \<Rightarrow> ('b \<Rightarrow> unit ext) \<Rightarrow>
   ('b, 'k) GenesisAccount \<Rightarrow> unit res" where
  "GenesisAccount_Validate CoinsIsZero ModuleAccount_Validate BaseAccount_Validate sga =
     bindR (if \<not> CoinsIsZero (OriginalVesting sga) \<and> StartTime sga \<ge> EndTime sga
            then Inl (ErrText ''vesting start-time cannot be before end-time'') else Inr ()) (\<lambda>_.
     bindR (if gaModuleName sga \<noteq> ''''
            then ext (ModuleAccount_Validate (gaBaseAccount sga) (gaModuleName sga) (ModulePermissions sga))
            else Inr ()) (\<lambda>_.
       ext (BaseAccount_Validate (gaBaseAccount sga))))"

section \<open>The loop over the validators\<close>

text \<open>
  The staking keeper on a view \<open>V\<close> of the validators by address: a validator is stored under the
  address \<open>opaddr\<close> of its operator, and a set replaces it.
\<close>

definition staking_ok ::
  "('s, 'pool, 'coins) keepers \<Rightarrow> ('s \<Rightarrow> bytes \<Rightarrow> validator option) \<Rightarrow> (string \<Rightarrow> bytes) \<Rightarrow> bool" where
  "staking_ok X V opaddr \<longleftrightarrow>
     (\<forall>a s v. V s a = Some v \<longrightarrow> GetValidator X a s = Inr v \<and> opaddr (Operator v) = a) \<and>
     (\<forall>v s. \<exists>s'. SetValidator X v s = (s', Inr ()) \<and> V s' = (V s)(opaddr (Operator v) \<mapsto> v))"

text \<open>What the loop is meant to do to one validator.\<close>

definition restarted :: "(bytes \<Rightarrow> bool) \<Rightarrow> bytes \<Rightarrow> validator \<Rightarrow> validator" where
  "restarted jail a v = v\<lparr>UnbondingHeight := 0, Jailed := Jailed v \<or> jail a\<rparr>"

lemma restarted_again [simp]: "restarted jail a (restarted jail a v) = restarted jail a v"
  by (simp add: restarted_def)

lemma resetValidator_effect:
  assumes X: "staking_ok X V opaddr" and v: "V s (AddressFromValidatorsKey X key) = Some v"
  shows "\<exists>s'. resetValidator X ap allowed key s = (s', Inr ()) \<and>
    V s' = (V s)(AddressFromValidatorsKey X key \<mapsto>
      restarted (\<lambda>a. ap \<and> \<not> allowed (ValAddress_String X a)) (AddressFromValidatorsKey X key) v)"
proof -
  let ?a = "AddressFromValidatorsKey X key"
  let ?v = "restarted (\<lambda>a. ap \<and> \<not> allowed (ValAddress_String X a)) ?a v"
  have g: "GetValidator X ?a s = Inr v" "opaddr (Operator v) = ?a"
    using X v unfolding staking_ok_def by blast+
  obtain s' where s': "SetValidator X ?v s = (s', Inr ())" "V s' = (V s)(opaddr (Operator ?v) \<mapsto> ?v)"
    using X unfolding staking_ok_def by blast
  have "(if ap \<and> \<not> allowed (ValAddress_String X ?a) then v\<lparr>UnbondingHeight := 0\<rparr>\<lparr>Jailed := True\<rparr>
         else v\<lparr>UnbondingHeight := 0\<rparr>) = ?v"
    by (auto simp: restarted_def intro!: validator.equality)
  then have "resetValidator X ap allowed key s = (s', Inr ())"
    using g(1) s'(1) by (simp add: resetValidator_def Let_def bindS_def panicS_def call_def)
  moreover have "opaddr (Operator ?v) = ?a" using g(2) by (simp add: restarted_def)
  ultimately show ?thesis using s'(2) by auto
qed

lemma forS_resetValidator:
  assumes X: "staking_ok X V opaddr"
  shows "\<forall>key \<in> set keys. V s (AddressFromValidatorsKey X key) \<noteq> None \<Longrightarrow>
    \<exists>s'. forS (resetValidator X ap allowed) keys s = (s', Inr ()) \<and>
      V s' = (\<lambda>a. if a \<in> AddressFromValidatorsKey X ` set keys
                   then map_option (restarted (\<lambda>a. ap \<and> \<not> allowed (ValAddress_String X a)) a) (V s a)
                   else V s a)"
proof (induction keys arbitrary: s)
  case Nil
  then show ?case by (simp add: lift_def)
next
  case (Cons key keys)
  let ?a = "AddressFromValidatorsKey X key"
  let ?r = "restarted (\<lambda>a. ap \<and> \<not> allowed (ValAddress_String X a))"
  obtain v where v: "V s ?a = Some v" using Cons.prems by auto
  obtain s1 where s1: "resetValidator X ap allowed key s = (s1, Inr ())"
      "V s1 = (V s)(?a \<mapsto> ?r ?a v)"
    using resetValidator_effect [OF X v] by blast
  have "\<forall>key \<in> set keys. V s1 (AddressFromValidatorsKey X key) \<noteq> None"
    using Cons.prems s1(2) by auto
  from Cons.IH [OF this] obtain s' where s': "forS (resetValidator X ap allowed) keys s1 = (s', Inr ())"
      "V s' = (\<lambda>a. if a \<in> AddressFromValidatorsKey X ` set keys then map_option (?r a) (V s1 a) else V s1 a)"
    by blast
  have "V s' = (\<lambda>a. if a \<in> AddressFromValidatorsKey X ` set (key # keys)
                   then map_option (?r a) (V s a) else V s a)"
    using v by (auto simp: s'(2) s1(2) fun_eq_iff)
  with s1(1) s'(1) show ?case by (auto simp: bindS_def)
qed

section \<open>Properties\<close>

text \<open>
  C33. Restart at height zero, validators: every validator found under the iterated keys gets unbonding height
  zero; it ends jailed exactly when it was jailed before or a non-empty allow list does not
  name it; no other validator changes, and the loop does not fail.
\<close>

theorem restart_jails_unlisted:
  assumes "staking_ok X V opaddr"
    and "\<forall>key \<in> set (ReverseValidatorKeys X s). V s (AddressFromValidatorsKey X key) \<noteq> None"
  shows "\<exists>s'. resetValidators X ap allowed s = (s', Inr ()) \<and>
    (\<forall>a. V s' a =
      (if a \<in> AddressFromValidatorsKey X ` set (ReverseValidatorKeys X s)
       then map_option (\<lambda>v. v\<lparr>UnbondingHeight := 0,
              Jailed := Jailed v \<or> (ap \<and> \<not> allowed (ValAddress_String X a))\<rparr>) (V s a)
       else V s a))"
  using forS_resetValidator [OF assms, of ap allowed]
  by (auto simp: resetValidators_def bindS_def readS_def restarted_def [abs_def])

text \<open>A staking store that is an association list, and nothing else.\<close>

type_synonym vals = "(bytes \<times> validator) list"

definition sample_keepers :: "(vals, unit, unit) keepers" where
  "sample_keepers =
     \<lparr>ValAddressFromBech32 = \<lambda>s. if s = '''' then Inl (Failed ''empty'') else Inr (bytes_of s),
      ValAddress_String = string_of, MustAccAddressFromBech32 = \<lambda>s. Inr (bytes_of s),
      StringToBytes = \<lambda>s. Inr (bytes_of s), AssertInvariants = \<lambda>s. (s, Inr ()),
      IterateValidators = \<lambda>s. (map snd s, Inr ()), WithdrawValidatorCommission = \<lambda>_ s. (s, Inr ()),
      GetAllDelegations = \<lambda>_. Inr [], WithdrawDelegationRewards = \<lambda>_ _ s. (s, Inr ()),
      DeleteAllValidatorSlashEvents = \<lambda>s. (s, Inr ()), DeleteAllValidatorHistoricalRewards = \<lambda>s. (s, Inr ()),
      BlockHeight = \<lambda>_. 0, WithBlockHeight = \<lambda>_ s. s,
      GetValidatorOutstandingRewardsCoins = \<lambda>_ _. Inr (), FeePool_Get = \<lambda>_. Inr (),
      CommunityPool_Add = \<lambda>_ _. (), FeePool_Set = \<lambda>_ s. (s, Inr ()),
      AfterValidatorCreated = \<lambda>_ s. (s, Inr ()), BeforeDelegationCreated = \<lambda>_ _ s. (s, Inr ()),
      AfterDelegationModified = \<lambda>_ _ s. (s, Inr ()), IterateRedelegations = \<lambda>_. ([], Inr ()),
      SetRedelegation = \<lambda>_ s. (s, Inr ()), IterateUnbondingDelegations = \<lambda>_. ([], Inr ()),
      SetUnbondingDelegation = \<lambda>_ s. (s, Inr ()), ReverseValidatorKeys = map fst,
      AddressFromValidatorsKey = id,
      GetValidator = \<lambda>a s. (case map_of s a of None \<Rightarrow> Inl (Failed ''not found'') | Some v \<Rightarrow> Inr v),
      SetValidator = \<lambda>v s. ((bytes_of (Operator v), v) # s, Inr ()), IteratorClose = \<lambda>_. Inr (),
      ApplyAndReturnValidatorSetUpdates = \<lambda>s. (s, Inr ()),
      IterateValidatorSigningInfos = \<lambda>_. ([], Inr ()), SetValidatorSigningInfo = \<lambda>_ _ s. (s, Inr ())\<rparr>"

text \<open>Only validators under their operator's address are seen.\<close>

definition sample_view :: "vals \<Rightarrow> bytes \<Rightarrow> validator option" where
  "sample_view s a = (case map_of s a of
     Some v \<Rightarrow> (if bytes_of (Operator v) = a then Some v else None) | None \<Rightarrow> None)"

lemma sample_staking_ok: "staking_ok sample_keepers sample_view bytes_of"
  by (auto simp: staking_ok_def sample_keepers_def sample_view_def fun_eq_iff
      split: option.splits if_splits)

definition sample_vals :: vals where
  "sample_vals = [(bytes_of ''alice'', \<lparr>Operator = ''alice'', UnbondingHeight = 7, Jailed = False\<rparr>)]"

theorem restart_jails_unlisted_witness:
  "\<exists>s'. resetValidators sample_keepers True (\<lambda>a. a = ''bob'') sample_vals = (s', Inr ()) \<and>
    sample_view s' (bytes_of ''alice'') = Some \<lparr>Operator = ''alice'', UnbondingHeight = 0, Jailed = True\<rparr>"
proof -
  have "\<forall>key \<in> set (ReverseValidatorKeys sample_keepers sample_vals).
      sample_view sample_vals (AddressFromValidatorsKey sample_keepers key) \<noteq> None"
    by (simp add: sample_keepers_def sample_vals_def sample_view_def)
  from restart_jails_unlisted [OF sample_staking_ok this, of True "\<lambda>a. a = ''bob''"] obtain s' where
    s': "resetValidators sample_keepers True (\<lambda>a. a = ''bob'') sample_vals = (s', Inr ())"
    "\<And>a. sample_view s' a =
      (if a \<in> AddressFromValidatorsKey sample_keepers ` set (ReverseValidatorKeys sample_keepers sample_vals)
       then map_option (\<lambda>v. v\<lparr>UnbondingHeight := 0,
              Jailed := Jailed v \<or> (True \<and> \<not> ValAddress_String sample_keepers a = ''bob'')\<rparr>) (sample_view sample_vals a)
       else sample_view sample_vals a)" by blast
  show ?thesis
    using s'(1) s'(2) [of "bytes_of ''alice''"]
    by (intro exI [of _ s']) (simp add: sample_keepers_def sample_vals_def sample_view_def)
qed

lemma exportAt_ok:
  assumes "exportAt E h modules t = (s', Inr (exp, None))"
  shows "s' = t \<and> Height exp = h \<and>
    (\<exists>g. ExportGenesisForModules E modules t = Inr g \<and> MarshalIndent E g = Inr (AppState exp)) \<and>
    WriteValidators E t = Inr (Validators exp)"
proof -
  obtain g where g: "ext (ExportGenesisForModules E modules t) = Inr g"
    using assms by (cases "ext (ExportGenesisForModules E modules t)") (auto simp: exportAt_def split: if_splits)
  obtain a where a: "ext (MarshalIndent E g) = Inr a"
    using assms g by (cases "ext (MarshalIndent E g)") (auto simp: exportAt_def split: if_splits)
  obtain v where v: "ext (WriteValidators E t) = Inr v"
    using assms g a by (cases "ext (WriteValidators E t)") (auto simp: exportAt_def split: if_splits)
  show ?thesis using assms g a v by (auto simp: exportAt_def)
qed

text \<open>
  The heights of an export: a plain export changes no state and is stamped with the height after the last
  block; an export for height zero is stamped zero; the errors of the genesis export, of the JSON
  encoding and of the validators are returned in that order.
\<close>

lemma export_height:
  assumes "ExportAppStateAndValidators X E zero jail modules s = (s', Inr (exp, None))"
    and "- (2 ^ 63) \<le> LastBlockHeight E" "LastBlockHeight E < 2 ^ 63 - 1"
  shows "Height exp = (if zero then 0 else LastBlockHeight E + 1) \<and>
    (\<not> zero \<longrightarrow> s' = s) \<and>
    (\<exists>g. ExportGenesisForModules E modules s' = Inr g \<and> MarshalIndent E g = Inr (AppState exp)) \<and>
    WriteValidators E s' = Inr (Validators exp)"
proof -
  have w: "wrap64 (LastBlockHeight E + 1) = LastBlockHeight E + 1"
    using assms(2,3) by (intro wrap64_id) auto
  from assms(1) obtain t u where t: "(if zero then prepForZeroHeightGenesis X jail else lift (Inr ())) s = (t, Inr u)"
    and r: "exportAt E (if zero then 0 else LastBlockHeight E + 1) modules t = (s', Inr (exp, None))"
    unfolding ExportAppStateAndValidators_def Let_def bindS_Inr_iff w by blast
  then show ?thesis using exportAt_ok [OF r] by (auto simp: lift_def)
qed

definition sample_exporter :: "vals exporter" where
  "sample_exporter = \<lparr>LastBlockHeight = 41, ExportGenesisForModules = \<lambda>_ _. Inr [], MarshalIndent = Inr,
     WriteValidators = \<lambda>_. Inr [1], GetConsensusParams = \<lambda>_. []\<rparr>"

lemma allowAddrs_fatal:
  assumes "\<forall>a \<in> set good. \<exists>b. ValAddressFromBech32 X a = Inr b"
    and "ValAddressFromBech32 X bad = Inl (Failed e)"
  shows "allowAddrs X allowed (good @ bad # rest) = Inl (Fatal (External e))"
  using assms by (induction good arbitrary: allowed) auto

text \<open>
  An allowed address that does not parse ends the process before any state is touched, whatever comes
  after it in the list.
\<close>

lemma bad_allowed_address_is_fatal:
  assumes "\<forall>a \<in> set good. \<exists>b. ValAddressFromBech32 X a = Inr b"
    and "ValAddressFromBech32 X bad = Inl (Failed e)"
  shows "ExportAppStateAndValidators X E True (good @ bad # rest) modules s =
    (s, Inl (Fatal (External e)))"
  using allowAddrs_fatal [OF assms, of "\<lambda>_. False" rest]
  by (simp add: ExportAppStateAndValidators_def prepForZeroHeightGenesis_def bindS_def lift_def Let_def)

end
