(* ===== verification/AppNew.thy ===== *)
theory AppNew
  imports AppWiring AppExport
begin

text \<open>
  \<open>New\<close> of \<open>app/app.go\<close>, \<open>app/upgrades.go\<close>, and the commands of
  \<open>cmd/bluechipchaind/cmd/commands.go\<close> that create an application: \<open>newApp\<close> and \<open>appExport\<close>. The
  process state \<open>'s\<close> holds the database; everything the SDK does is a parameter.
\<close>

section \<open>Parameters\<close>

type_synonym version_map = "(modname \<times> nat) list"

text \<open>
  Dependency injection yields the registered modules and their store keys; the module manager runs
  versions, genesis and migrations; an application is loaded (\<open>Load\<close>, at the latest height if it is told
  to) and may be loaded at a given height.
\<close>

record 's runtime =
  Inject :: "(modname \<times> module_config) list \<Rightarrow> (modname list \<times> store_key list) ext"
  RegisterStreamingServices :: "(modname \<Rightarrow> store_key option) \<Rightarrow> unit ext"
  GetVersionMap :: "modname list \<Rightarrow> version_map"
  SetModuleVersionMap :: "version_map \<Rightarrow> 's \<Rightarrow> 's \<times> unit ext"
  RunInitChainer :: "bytes \<Rightarrow> 's \<Rightarrow> 's \<times> bytes ext"
  RunMigrations :: "modname list \<Rightarrow> version_map \<Rightarrow> 's \<Rightarrow> 's \<times> version_map ext"
  Load :: "bool \<Rightarrow> 's \<Rightarrow> 's \<times> unit ext"
  LoadHeight :: "int \<Rightarrow> 's \<Rightarrow> 's \<times> unit ext"
  InitializePinnedCodes :: "'s \<Rightarrow> 's \<times> unit ext"

section \<open>New\<close>

datatype base_option = GivenOption string | SetOptimisticExecution

record ('ck, 'sk, 's) App =
  registry :: "('ck, 'sk) app"
  baseOptions :: "base_option list"
  invariantsRegistered :: bool
  simModules :: "modname list"
  simOverrides :: "modname list"
  initChainer :: "bytes \<Rightarrow> ('s, bytes) act"
  upgradeHandlers :: "string \<Rightarrow> (version_map \<Rightarrow> ('s, version_map) act) option"

text \<open>The custom init chainer stores the version map, then runs the runtime's.\<close>

definition customInitChainer :: "'s runtime \<Rightarrow> modname list \<Rightarrow> bytes \<Rightarrow> ('s, bytes) act" where
  "customInitChainer R modules req =
     bindS (call (SetModuleVersionMap R (GetVersionMap R modules))) (\<lambda>_. call (RunInitChainer R req))"

definition RegisterUpgradeHandlers ::
  "'s runtime \<Rightarrow> modname list \<Rightarrow> (string \<Rightarrow> (version_map \<Rightarrow> ('s, version_map) act) option) \<Rightarrow>
   string \<Rightarrow> (version_map \<Rightarrow> ('s, version_map) act) option" where
  "RegisterUpgradeHandlers R modules handlers =
     handlers(''v1.1.0'' \<mapsto> (\<lambda>fromVM. call (RunMigrations R modules fromVM)))"

text \<open>What dependency injection fills of a new application.\<close>

definition injectedApp :: "modname list \<Rightarrow> store_key list \<Rightarrow> ('ck, 'sk) app" where
  "injectedApp modules keys =
     \<lparr>aStores = keys, aCapability = None, aScopedKeepers = Map.empty, aScoped = \<lambda>_. None,
      aSubspaces = [], aRoutes = [], aModules = modules, aAnte = None, aPost = False\<rparr>"

definition newStateful :: "'s runtime \<Rightarrow> bool \<Rightarrow> ('s, unit) act" where
  "newStateful R loadLatest =
     bindS (call (Load R loadLatest)) (\<lambda>_.
       panicS (call (InitializePinnedCodes R)))"

definition New ::
  "'s runtime \<Rightarrow> ('ck, 'sk) calls \<Rightarrow> bool \<Rightarrow> string list \<Rightarrow> ('s, ('ck, 'sk, 's) App) act" where
  "New R X loadLatest baseAppOptions =
     bindS (panicS (lift (ext (Inject R appConfig)))) (\<lambda>(modules, keys).
     bindS (lift (let (a, r) = registerIBCModules X (injectedApp modules keys)
                  in bindR r (\<lambda>_. Inr a))) (\<lambda>a.
     bindS (lift (ext (RegisterStreamingServices R (kvStoreKeys (aStores a))))) (\<lambda>_.
     let app = \<lparr>registry = a,
                 baseOptions = map GivenOption baseAppOptions @ [SetOptimisticExecution],
                 invariantsRegistered = True,
                 simModules = aModules a, simOverrides = [M_auth],
                 initChainer = customInitChainer R (aModules a),
                 upgradeHandlers = RegisterUpgradeHandlers R (aModules a) Map.empty\<rparr>
     in bindS (newStateful R loadLatest) (\<lambda>_. lift (Inr app)))))"

section \<open>commands.go\<close>

definition newApp ::
  "'s runtime \<Rightarrow> ('ck, 'sk) calls \<Rightarrow> string list \<Rightarrow> ('s, ('ck, 'sk, 's) App) act" where
  "newApp R X defaultOptions = panicS (New R X True defaultOptions)"

text \<open>
  An option's value is an \<open>interface{}\<close>: of the types the code asserts, or of some other.
  The options themselves are a viper or not. The keys of the SDK's options are symbols.
\<close>

datatype option_value = VString string | VHexBytes bytes | VPubKey bytes | VInt int | VOther

datatype option_key =
    FlagHome | FlagInvCheckPeriod | KeyNewValAddr | KeyUserPubKey | KeyNewOpAddr | KeyTriggerTestnetUpgrade
  | FlagChainID | FlagKeyringBackend | FlagMinGasPrices | FlagKeyType | OwnFlag string

datatype appOptions =
    Viper "option_key \<Rightarrow> option_value"
  | NotViper "option_key \<Rightarrow> option_value"

fun optGet :: "appOptions \<Rightarrow> option_key \<Rightarrow> option_value" where
  "optGet (Viper m) key = m key"
| "optGet (NotViper m) key = m key"

text \<open>
  The runtime and the calls depend on the options, so they are functions of them; the export's view
  of the loaded application is read from the state.
\<close>

definition appExport ::
  "(appOptions \<Rightarrow> 's runtime) \<Rightarrow> (appOptions \<Rightarrow> ('ck, 'sk) calls) \<Rightarrow> ('s, 'pool, 'coins) keepers \<Rightarrow>
   ('s \<Rightarrow> 's exporter) \<Rightarrow> int \<Rightarrow> bool \<Rightarrow> string list \<Rightarrow> appOptions \<Rightarrow> string list \<Rightarrow>
   ('s, ExportedApp \<times> err option) act" where
  "appExport R X K exporterOf height forZeroHeight jailAllowedAddrs appOpts modulesToExport =
     (case optGet appOpts FlagHome of
        VString homePath \<Rightarrow>
          (if homePath = '''' then lift (Inl (ErrText ''application home not set''))
           else case appOpts of
             NotViper _ \<Rightarrow> lift (Inl (ErrText ''appOpts is not viper.Viper''))
           | Viper m \<Rightarrow>
               let opts = Viper (m(FlagInvCheckPeriod := VInt 1)) in
               bindS (if height \<noteq> -1
                      then bindS (New (R opts) (X opts) False []) (\<lambda>bApp.
                           bindS (call (LoadHeight (R opts) height)) (\<lambda>_. lift (Inr bApp)))
                      else New (R opts) (X opts) True []) (\<lambda>bApp.
               bindS (readS (\<lambda>s. Inr (exporterOf s))) (\<lambda>E.
                 ExportAppStateAndValidators K E forZeroHeight jailAllowedAddrs modulesToExport)))
      | _ \<Rightarrow> lift (Inl (ErrText ''application home not set'')))"

section \<open>Properties\<close>

lemma newStateful_Inr_iff:
  "newStateful R ll s = (s', Inr ()) \<longleftrightarrow>
     (\<exists>s1. Load R ll s = (s1, Inr ()) \<and> InitializePinnedCodes R s1 = (s', Inr ()))"
  by (auto simp: newStateful_def bindS_Inr_iff call_Inr_iff panicS_Inr_iff)

lemma New_Inr_stateful:
  assumes "New R X ll opts s = (s', Inr app)"
  shows "\<exists>s1. Load R ll s = (s1, Inr ()) \<and> InitializePinnedCodes R s1 = (s', Inr ())"
proof -
  from assms have "newStateful R ll s = (s', Inr ())"
    unfolding New_def Let_def bindS_Inr_iff
    by (auto simp: bindS_Inr_iff lift_def panicS_def)
  then show ?thesis by (simp only: newStateful_Inr_iff)
qed

lemma New_ok:
  assumes "Inject R appConfig = Inr (modules, keys)" "registerIBCModules X (injectedApp modules keys) = (a, Inr ())"
    and "RegisterStreamingServices R (kvStoreKeys (aStores a)) = Inr ()"
    and "Load R ll s = (s1, Inr ())" "InitializePinnedCodes R s1 = (s2, Inr ())"
  shows "\<exists>app. New R X ll opts s = (s2, Inr app) \<and> registry app = a \<and> simModules app = aModules a \<and>
     baseOptions app = map GivenOption opts @ [SetOptimisticExecution] \<and>
     initChainer app = customInitChainer R (aModules a) \<and>
     upgradeHandlers app = RegisterUpgradeHandlers R (aModules a) Map.empty"
proof -
  have n: "newStateful R ll s = (s2, Inr ())"
    using assms(4,5) by (simp only: newStateful_Inr_iff) blast
  show ?thesis
    using assms(1-3) by (simp add: New_def bindS_def lift_def panicS_def n)
qed

lemma injectedApp_modules [simp]: "aModules (injectedApp ms keys) = ms"
  by (simp add: injectedApp_def)

lemma customInitChainer_Inr_iff:
  "customInitChainer R ms req t = (t', Inr r) \<longleftrightarrow>
     (\<exists>t1. SetModuleVersionMap R (GetVersionMap R ms) t = (t1, Inr ()) \<and> RunInitChainer R req t1 = (t', Inr r))"
  by (auto simp: customInitChainer_def bindS_Inr_iff call_Inr_iff)

text \<open>
  C31. A complete application: when injection yields the configured modules and no call fails, \<open>New\<close>
  returns an application whose block and genesis orders are all covered by registered modules,
  whose routed IBC applications have a scoped keeper and a key-value store that the streaming
  service is told about, with optimistic execution as the last option, one upgrade handler, and an
  init chainer that stores the versions of exactly its modules before the runtime's runs. The state it leaves
  is the loaded one after the pinned codes.
\<close>

theorem application_construction:
  assumes "cap_ok X scoped" "calls_ok X" "Inject R appConfig = Inr (map fst appConfig, keys)"
    and "\<And>m. RegisterStreamingServices R m = Inr ()"
    and "Load R ll s = (s1, Inr ())" "InitializePinnedCodes R s1 = (s2, Inr ())"
  shows "\<exists>app. New R X ll opts s = (s2, Inr app) \<and>
    set (genesisModuleOrder @ preBlockers @ beginBlockers @ endBlockers) \<subseteq> set (simModules app) \<and>
    (\<forall>m \<in> {M_transfer, M_icacontroller, M_icahost, M_wasm}. m \<in> set (aRoutes (registry app)) \<and>
       aScoped (registry app) m \<noteq> None \<and> kvStoreKeys (aStores (registry app)) m = Some (KVStoreKey m)) \<and>
    last (baseOptions app) = SetOptimisticExecution \<and> dom (upgradeHandlers app) = {''v1.1.0''} \<and>
    (\<forall>req t t' r. initChainer app req t = (t', Inr r) \<longleftrightarrow>
       (\<exists>t1. SetModuleVersionMap R (GetVersionMap R (simModules app)) t = (t1, Inr ()) \<and>
             RunInitChainer R req t1 = (t', Inr r)))"
proof -
  obtain a ck where a: "registerIBCModules X (injectedApp (map fst appConfig) keys) = (a, Inr ())"
    "aModules a = map fst appConfig @ [M_wasm] @ ibcModules"
    "aRoutes a = [M_transfer, M_icacontroller, M_icahost, M_wasm]"
    "scoped ck = {M_ibc, M_transfer, M_icacontroller, M_icahost, M_wasm}"
    "\<forall>m \<in> scoped ck. aScoped a m \<noteq> None \<and> KVStoreKey m \<in> set (aStores a)"
    using registerIBCModules_ok [OF assms(1,2), of "injectedApp (map fst appConfig) keys"] by auto
  from New_ok [OF assms(3) a(1) assms(4) assms(5,6), of opts] obtain app where
    app: "New R X ll opts s = (s2, Inr app)" "registry app = a" "simModules app = aModules a"
      "baseOptions app = map GivenOption opts @ [SetOptimisticExecution]"
      "initChainer app = customInitChainer R (aModules a)"
      "upgradeHandlers app = RegisterUpgradeHandlers R (aModules a) Map.empty" by blast
  have orders: "set (genesisModuleOrder @ preBlockers @ beginBlockers @ endBlockers) \<subseteq> set (simModules app)"
    unfolding app(3) a(2)
    by (simp add: appConfig_def ibcModules_def genesisModuleOrder_def preBlockers_def beginBlockers_def
        endBlockers_def)
  have routes: "\<forall>m \<in> {M_transfer, M_icacontroller, M_icahost, M_wasm}. m \<in> set (aRoutes (registry app)) \<and>
       aScoped (registry app) m \<noteq> None \<and> kvStoreKeys (aStores (registry app)) m = Some (KVStoreKey m)"
    using a(3-5) by (simp add: app(2) kvStoreKeys_alt)
  have upgrades: "dom (upgradeHandlers app) = {''v1.1.0''}"
    by (simp add: app(6) RegisterUpgradeHandlers_def)
  have opts: "last (baseOptions app) = SetOptimisticExecution" by (simp add: app(4))
  have chainer: "\<forall>req t t' r. initChainer app req t = (t', Inr r) \<longleftrightarrow>
      (\<exists>t1. SetModuleVersionMap R (GetVersionMap R (simModules app)) t = (t1, Inr ()) \<and>
            RunInitChainer R req t1 = (t', Inr r))"
    unfolding app(3,5) by (intro allI) (rule customInitChainer_Inr_iff)
  show ?thesis
    by (rule exI [of _ app], rule conjI [OF app(1) conjI [OF orders conjI [OF routes
          conjI [OF opts conjI [OF upgrades chainer]]]]])
qed

text \<open>A database that is its height, with versions 1 to 41.\<close>

definition sample_runtime :: "int runtime" where
  "sample_runtime = \<lparr>Inject = \<lambda>cfg. Inr (map fst cfg, []), RegisterStreamingServices = \<lambda>_. Inr (),
     GetVersionMap = map (\<lambda>m. (m, 1)), SetModuleVersionMap = \<lambda>_ s. (s, Inr ()),
     RunInitChainer = \<lambda>req s. (s, Inr req), RunMigrations = \<lambda>_ vm s. (s, Inr vm),
     Load = \<lambda>latest s. (if latest then 41 else 0, Inr ()),
     LoadHeight = \<lambda>h s. if 0 < h \<and> h \<le> 41 then (h, Inr ()) else (s, Inl (Failed ''no version'')),
     InitializePinnedCodes = \<lambda>s. (s, Inr ())\<rparr>"

theorem application_construction_witness:
  "\<exists>app. New sample_runtime sample_calls True [''iavl''] 0 = (41, Inr app) \<and>
     dom (upgradeHandlers app) = {''v1.1.0''}"
proof -
  have i: "Inject sample_runtime appConfig = Inr (map fst appConfig, [])"
      "RegisterStreamingServices sample_runtime m = Inr ()" "Load sample_runtime True 0 = (41, Inr ())"
      "InitializePinnedCodes sample_runtime 41 = (41, Inr ())" for m
    by (simp_all add: sample_runtime_def)
  from application_construction [OF sample_calls_ok i, of "[''iavl'']"] show ?thesis
    by (elim exE conjE) (intro exI conjI)
qed

lemma ExportAppStateAndValidators_stamp:
  assumes "ExportAppStateAndValidators X E zero jail modules s = (s', Inr (exp, None))"
  shows "Height exp = (if zero then 0 else wrap64 (LastBlockHeight E + 1)) \<and> (\<not> zero \<longrightarrow> s' = s)"
proof -
  from assms obtain t u where t: "(if zero then prepForZeroHeightGenesis X jail else lift (Inr ())) s = (t, Inr u)"
    and r: "exportAt E (if zero then 0 else wrap64 (LastBlockHeight E + 1)) modules t = (s', Inr (exp, None))"
    unfolding ExportAppStateAndValidators_def Let_def bindS_Inr_iff by blast
  then show ?thesis using exportAt_ok [OF r] by (auto simp: lift_def)
qed


definition sample_height_keepers :: "(int, unit, unit) keepers" where
  "sample_height_keepers =
     \<lparr>ValAddressFromBech32 = \<lambda>s. Inr (bytes_of s),
      ValAddress_String = string_of, MustAccAddressFromBech32 = \<lambda>s. Inr (bytes_of s),
      StringToBytes = \<lambda>s. Inr (bytes_of s), AssertInvariants = \<lambda>s. (s, Inr ()),
      IterateValidators = \<lambda>s. ([], Inr ()), WithdrawValidatorCommission = \<lambda>_ s. (s, Inr ()),
      GetAllDelegations = \<lambda>_. Inr [], WithdrawDelegationRewards = \<lambda>_ _ s. (s, Inr ()),
      DeleteAllValidatorSlashEvents = \<lambda>s. (s, Inr ()), DeleteAllValidatorHistoricalRewards = \<lambda>s. (s, Inr ()),
      BlockHeight = \<lambda>s. s, WithBlockHeight = \<lambda>h s. s,
      GetValidatorOutstandingRewardsCoins = \<lambda>_ _. Inr (), FeePool_Get = \<lambda>_. Inr (),
      CommunityPool_Add = \<lambda>_ _. (), FeePool_Set = \<lambda>_ s. (s, Inr ()),
      AfterValidatorCreated = \<lambda>_ s. (s, Inr ()), BeforeDelegationCreated = \<lambda>_ _ s. (s, Inr ()),
      AfterDelegationModified = \<lambda>_ _ s. (s, Inr ()), IterateRedelegations = \<lambda>_. ([], Inr ()),
      SetRedelegation = \<lambda>_ s. (s, Inr ()), IterateUnbondingDelegations = \<lambda>_. ([], Inr ()),
      SetUnbondingDelegation = \<lambda>_ s. (s, Inr ()), ReverseValidatorKeys = \<lambda>_. [],
      AddressFromValidatorsKey = id, GetValidator = \<lambda>a s. Inl (Failed ''not found''),
      SetValidator = \<lambda>v s. (s, Inr ()), IteratorClose = \<lambda>_. Inr (),
      ApplyAndReturnValidatorSetUpdates = \<lambda>s. (s, Inr ()),
      IterateValidatorSigningInfos = \<lambda>_. ([], Inr ()), SetValidatorSigningInfo = \<lambda>_ _ s. (s, Inr ())\<rparr>"

definition sample_height_exporter :: "int \<Rightarrow> int exporter" where
  "sample_height_exporter s = \<lparr>LastBlockHeight = s, ExportGenesisForModules = \<lambda>_ _. Inr [], MarshalIndent = Inr,
     WriteValidators = \<lambda>_. Inr [], GetConsensusParams = \<lambda>_. []\<rparr>"

lemma sample_export:
  "\<exists>exp. appExport (\<lambda>_. sample_runtime) (\<lambda>_. sample_calls) sample_height_keepers sample_height_exporter 7 False []
     (Viper (\<lambda>_. VString ''/home'')) [] 0 = (7, Inr (exp, None))"
proof -
  have reg: "\<exists>a. registerIBCModules sample_calls (injectedApp ms ks) = (a, Inr ())" for ms ks
    using registerIBCModules_ok [OF sample_calls_ok] by blast
  have "\<exists>app. New sample_runtime sample_calls False [] 0 = (0, Inr app)"
  proof -
    obtain a where a: "registerIBCModules sample_calls (injectedApp (map fst appConfig) []) = (a, Inr ())"
      using reg by blast
    show ?thesis
      using New_ok [where R = sample_runtime, OF _ a, of False 0 0 0 "[]"]
      by (auto simp: sample_runtime_def)
  qed
  then show ?thesis
    by (auto simp: appExport_def bindS_def lift_def readS_def call_def sample_runtime_def
        ExportAppStateAndValidators_def exportAt_def sample_height_exporter_def Let_def)
qed


end
