(* ===== verification/ModuleGlue.thy ===== *)
theory ModuleGlue
  imports ApiGrpc FixedmintModule AppNew
begin

text \<open>
  How the module and the application present themselves to the SDK: \<open>types/codec.go\<close>, \<open>types/errors.go\<close>,
  \<open>module/autocli.go\<close>, \<open>simulation/helpers.go\<close>, the registration of the HTTP API in
  \<open>app/app.go\<close>, and \<open>docs/docs.go\<close>. Registries, routers and templates are parameters.
\<close>

section \<open>Registration of messages and errors\<close>

record ('i, 'reg) registry_ops =
  RegisterImplementations :: "'i MsgUpdateParams list \<Rightarrow> 'reg \<Rightarrow> 'reg ext"
  RegisterMsgServiceDesc :: "ServiceDesc \<Rightarrow> 'reg \<Rightarrow> 'reg ext"

definition RegisterInterfaces ::
  "('i, 'z) math_Int_scheme \<Rightarrow> ('i, 'reg) registry_ops \<Rightarrow> 'reg \<Rightarrow> 'reg res" where
  "RegisterInterfaces I P reg =
     bindR (ext (RegisterImplementations P [MsgUpdateParams_zero I] reg)) (\<lambda>reg.
       ext (RegisterMsgServiceDesc P Msg_serviceDesc reg))"

record sentinel =
  Codespace :: string
  ErrCode :: nat
  ErrDesc :: string

definition ErrInvalidSigner :: sentinel where
  "ErrInvalidSigner = \<lparr>Codespace = ModuleName, ErrCode = 1100,
     ErrDesc = ''expected gov account as only signer for proposal message''\<rparr>"

definition ErrSample :: sentinel where
  "ErrSample = \<lparr>Codespace = ModuleName, ErrCode = 1101, ErrDesc = ''sample error''\<rparr>"

text \<open>The SDK panics when a code is registered twice in a code space; these two differ.\<close>

lemma sentinels_distinct: "distinct (map (\<lambda>e. (Codespace e, ErrCode e)) [ErrInvalidSigner, ErrSample])"
  by (simp add: ErrInvalidSigner_def ErrSample_def)

section \<open>Generated commands\<close>

record RpcCommandOptions =
  RpcMethod :: string
  rpcUse :: string
  rpcShort :: string
  Skip :: bool

record ServiceCommandDescriptor =
  Service :: string
  RpcOptions :: "RpcCommandOptions list"
  EnhanceCustomCommand :: bool

record ModuleOptions =
  QueryOptions :: ServiceCommandDescriptor
  TxOptions :: ServiceCommandDescriptor

definition AutoCLIOptions :: ModuleOptions where
  "AutoCLIOptions =
     \<lparr>QueryOptions = \<lparr>Service = ServiceName apiQuery_ServiceDesc,
        RpcOptions = [\<lparr>RpcMethod = ''Params'', rpcUse = ''params'',
          rpcShort = ''Shows the parameters of the module'', Skip = False\<rparr>],
        EnhanceCustomCommand = False\<rparr>,
      TxOptions = \<lparr>Service = ServiceName apiMsg_ServiceDesc,
        RpcOptions = [\<lparr>RpcMethod = ''UpdateParams'', rpcUse = '''', rpcShort = '''', Skip = True\<rparr>],
        EnhanceCustomCommand = True\<rparr>\<rparr>"

text \<open>
  The options cover the services: they name the services the chain serves, exactly the methods these
  have, and the only commands generated are for methods that do not change the chain.
\<close>

lemma autocli_covers_services:
  "Service (QueryOptions AutoCLIOptions) = ServiceName Query_serviceDesc"
  "map RpcMethod (RpcOptions (QueryOptions AutoCLIOptions)) = map fst (Methods Query_serviceDesc)"
  "Service (TxOptions AutoCLIOptions) = ServiceName Msg_serviceDesc"
  "map RpcMethod (RpcOptions (TxOptions AutoCLIOptions)) = map fst (Methods Msg_serviceDesc)"
  "filter (\<lambda>r. \<not> Skip r) (RpcOptions (TxOptions AutoCLIOptions)) = []"
  by (simp_all add: AutoCLIOptions_def apiQuery_ServiceDesc_def apiMsg_ServiceDesc_def Query_serviceDesc_def
      Msg_serviceDesc_def)

section \<open>Simulation\<close>

definition FindAccount ::
  "(string \<Rightarrow> bytes ext) \<Rightarrow> ('acc list \<Rightarrow> bytes \<Rightarrow> 'acc \<times> bool) \<Rightarrow> 'acc list \<Rightarrow> string \<Rightarrow> ('acc \<times> bool) res" where
  "FindAccount fromBech32 sdkFind accs address =
     bindR (panicking (ext (fromBech32 address))) (\<lambda>creator. Inr (sdkFind accs creator))"

section \<open>The HTTP API\<close>

text \<open>What a route serves: the embedded static files, or a page made by a handler.\<close>

datatype 'page route_target = StaticFiles | Page 'page

definition apiFile :: string where "apiFile = ''/static/openapi.yml''"
definition indexFile :: string where "indexFile = ''template/index.tpl''"

text \<open>
  The console page: parsing the template may fail and leave no template, and then \<open>Execute\<close> on it is the
  library's \<open>executeNil\<close>; the error of writing the page is dropped.
\<close>

record ('tmpl, 'w, 'router, 'api, 'apicfg) docs_ops =
  ParseFS :: "string \<Rightarrow> 'tmpl option"
  ExecuteTemplate :: "'tmpl option \<Rightarrow> string \<times> string \<Rightarrow> 'w \<Rightarrow> 'w \<times> unit ext"
  Handle :: "string \<Rightarrow> ('w, unit) act route_target \<Rightarrow> 'router \<Rightarrow> 'router"
  RuntimeRegisterAPIRoutes :: "'apicfg \<Rightarrow> 'api \<Rightarrow> 'api ext"
  SwaggerOf :: "'apicfg \<Rightarrow> bool"
  RegisterSwaggerAPI :: "bool \<Rightarrow> 'api \<Rightarrow> 'api \<times> unit ext"
  RouterOf :: "'api \<Rightarrow> 'router"
  WithRouter :: "'router \<Rightarrow> 'api \<Rightarrow> 'api"

definition docsHandler ::
  "('tmpl, 'w, 'router, 'api, 'apicfg) docs_ops \<Rightarrow> string \<Rightarrow> ('w, unit) act" where
  "docsHandler D title = (let t = ParseFS D indexFile in dropS (call (ExecuteTemplate D t (title, apiFile))))"

definition RegisterOpenAPIService ::
  "('tmpl, 'w, 'router, 'api, 'apicfg) docs_ops \<Rightarrow> string \<Rightarrow> 'router \<Rightarrow> 'router" where
  "RegisterOpenAPIService D appName rtr =
     Handle D ''/'' (Page (docsHandler D appName)) (Handle D apiFile StaticFiles rtr)"

definition RegisterAPIRoutes ::
  "('tmpl, 'w, 'router, 'api, 'apicfg) docs_ops \<Rightarrow> 'apicfg \<Rightarrow> 'api \<Rightarrow> 'api res" where
  "RegisterAPIRoutes D apiConfig apiSvr =
     bindR (ext (RuntimeRegisterAPIRoutes D apiConfig apiSvr)) (\<lambda>apiSvr.
       case call (RegisterSwaggerAPI D (SwaggerOf D apiConfig)) apiSvr of
         (apiSvr, r) \<Rightarrow> bindR (panicking r) (\<lambda>_.
           Inr (WithRouter D (RegisterOpenAPIService D AppName (RouterOf D apiSvr)) apiSvr)))"

text \<open>\<open>GetSubspace\<close> drops whether the module has one.\<close>

definition GetSubspace :: "(modname \<Rightarrow> 'sub \<times> bool) \<Rightarrow> modname \<Rightarrow> 'sub" where
  "GetSubspace keeperGetSubspace moduleName = (let (subspace, _) = keeperGetSubspace moduleName in subspace)"

end
