(* ===== verification/CmdFlags.thy ===== *)
theory CmdFlags
  imports AppNew Strconv
begin

text \<open>
  Commands and flags, as \<open>cmd/bluechipchaind/cmd/root.go\<close> sees them: a tree of commands with two flag
  sets each, and \<open>overwriteFlagDefaults\<close>, which walks it. The libraries cobra and pflag are a record.
\<close>

section \<open>Flags\<close>

datatype flag_type = StringFlag | IntFlag | OtherFlag

record flag =
  FlagType :: flag_type
  DefValue :: string
  FlagValue :: string

text \<open>A command: its use line, aliases, what it runs, its own and persistent flags, and its children.\<close>

datatype ('n, 'r) command =
  Command (cmdUse: string) (cmdAliases: "string list") (cmdRunE: "'r option")
    (cmdFlags: "'n \<Rightarrow> flag option") (cmdPersistent: "'n \<Rightarrow> flag option")
    (cmdCommands: "('n, 'r) command list")

text \<open>\<open>setValue\<close> is \<open>Value.Set\<close> of a flag: the text it stores; its error is dropped.\<close>

definition setFlag ::
  "(flag \<Rightarrow> string \<Rightarrow> string ext) \<Rightarrow> 'n \<Rightarrow> string \<Rightarrow> ('n \<Rightarrow> flag option) \<Rightarrow> 'n \<Rightarrow> flag option" where
  "setFlag setValue key val fs =
     (case fs key of
        None \<Rightarrow> fs
      | Some f \<Rightarrow> fs(key \<mapsto> f\<lparr>DefValue := val,
                 FlagValue := (case setValue f val of Inr v \<Rightarrow> v | Inl _ \<Rightarrow> FlagValue f)\<rparr>))"

definition setDefaults ::
  "(flag \<Rightarrow> string \<Rightarrow> string ext) \<Rightarrow> ('n \<times> string) list \<Rightarrow> ('n \<Rightarrow> flag option) \<Rightarrow> 'n \<Rightarrow> flag option" where
  "setDefaults setValue defaults fs = foldl (\<lambda>fs (key, val). setFlag setValue key val fs) fs defaults"

text \<open>A Go map is visited in no fixed order: \<open>defaults\<close> is one order of its entries.\<close>

fun overwriteFlagDefaults ::
  "(flag \<Rightarrow> string \<Rightarrow> string ext) \<Rightarrow> ('n \<times> string) list \<Rightarrow> ('n, 'r) command \<Rightarrow> ('n, 'r) command" where
  "overwriteFlagDefaults setValue defaults (Command use aliases run flags persistent cs) =
     Command use aliases run (setDefaults setValue defaults flags) (setDefaults setValue defaults persistent)
       (map (overwriteFlagDefaults setValue defaults) cs)"

definition rootDefaults :: "(option_key \<times> string) list" where
  "rootDefaults = [(FlagChainID, filter (\<lambda>c. c \<noteq> CHR ''-'') AppName), (FlagKeyringBackend, ''test'')]"

section \<open>The command library\<close>

text \<open>
  \<open>AddCommand\<close>, the definition of a flag in a flag set (which panics on a name that is taken), name
  normalization, the readers of values and \<open>Value.Set\<close>.
\<close>

record ('n, 'r) cobra =
  AddCommand :: "('n, 'r) command \<Rightarrow> ('n, 'r) command list \<Rightarrow> ('n, 'r) command ext"
  DefineString :: "'n \<Rightarrow> string \<Rightarrow> ('n \<Rightarrow> flag option) \<Rightarrow> ('n \<Rightarrow> flag option) ext"
  DefineInt :: "'n \<Rightarrow> int \<Rightarrow> ('n \<Rightarrow> flag option) \<Rightarrow> ('n \<Rightarrow> flag option) ext"
  SetNormalizeFunc :: "('n \<Rightarrow> 'n) \<Rightarrow> ('n \<Rightarrow> flag option) \<Rightarrow> 'n \<Rightarrow> flag option"
  GetString :: "('n \<Rightarrow> flag option) \<Rightarrow> 'n \<Rightarrow> string option"
  GetInt :: "('n \<Rightarrow> flag option) \<Rightarrow> 'n \<Rightarrow> int option"
  SetValue :: "flag \<Rightarrow> string \<Rightarrow> string ext"

definition string_flag :: "string \<Rightarrow> flag" where
  "string_flag v = \<lparr>FlagType = StringFlag, DefValue = v, FlagValue = v\<rparr>"

definition int_flag :: "int \<Rightarrow> flag" where
  "int_flag i = \<lparr>FlagType = IntFlag, DefValue = Itoa i, FlagValue = Itoa i\<rparr>"

definition cobra_ok :: "('n, 'r) cobra \<Rightarrow> bool" where
  "cobra_ok C \<longleftrightarrow>
     (\<forall>c cs. \<exists>cs'. AddCommand C c cs =
        Inr (Command (cmdUse c) (cmdAliases c) (cmdRunE c) (cmdFlags c) (cmdPersistent c) cs') \<and>
        set cs' = set (cmdCommands c) \<union> set cs) \<and>
     (\<forall>n v fs. fs n = None \<longrightarrow> DefineString C n v fs = Inr (fs(n \<mapsto> string_flag v))) \<and>
     (\<forall>n i fs. fs n = None \<longrightarrow> DefineInt C n i fs = Inr (fs(n \<mapsto> int_flag i))) \<and>
     (\<forall>norm fs. (\<forall>n \<in> dom fs. norm n = n) \<longrightarrow> SetNormalizeFunc C norm fs = (\<lambda>n. fs (norm n))) \<and>
     (\<forall>fs n f. fs n = Some f \<longrightarrow> FlagType f = StringFlag \<longrightarrow> GetString C fs n = Some (FlagValue f)) \<and>
     (\<forall>fs n f. fs n = Some f \<longrightarrow> FlagType f = IntFlag \<longrightarrow> GetInt C fs n = parseInt (FlagValue f)) \<and>
     (\<forall>f v. FlagType f = StringFlag \<longrightarrow> SetValue C f v = Inr v)"

section \<open>The walk over the tree\<close>

text \<open>A command and everything below it.\<close>

fun subtree :: "('n, 'r) command \<Rightarrow> ('n, 'r) command list" where
  "subtree (Command use aliases run flags persistent cs) =
     Command use aliases run flags persistent cs # concat (map subtree cs)"

lemma subtree_refl: "c \<in> set (subtree c)"
  by (cases c) simp

definition defaulted :: "(flag \<Rightarrow> string \<Rightarrow> string ext) \<Rightarrow> string \<Rightarrow> flag \<Rightarrow> flag" where
  "defaulted setValue val f = f\<lparr>DefValue := val,
     FlagValue := (case setValue f val of Inr v \<Rightarrow> v | Inl _ \<Rightarrow> FlagValue f)\<rparr>"

lemma setFlag_alt:
  "setFlag setValue key val fs = fs(key := map_option (defaulted setValue val) (fs key))"
  by (auto simp: setFlag_def defaulted_def fun_eq_iff split: option.splits)

lemma setDefaults_alt:
  assumes "distinct (map fst defaults)"
  shows "setDefaults setValue defaults fs k =
    (case map_of defaults k of None \<Rightarrow> fs k | Some val \<Rightarrow> map_option (defaulted setValue val) (fs k))"
  using assms
proof (induction defaults arbitrary: fs)
  case Nil
  then show ?case by (simp add: setDefaults_def)
next
  case (Cons d ds)
  obtain key val where d: "d = (key, val)" by fastforce
  have "setDefaults setValue (d # ds) fs = setDefaults setValue ds (setFlag setValue key val fs)"
    by (simp add: setDefaults_def d)
  moreover have "map_of ds key = None" using Cons.prems by (auto simp: d map_of_eq_None_iff)
  ultimately show ?case using Cons by (auto simp: d setFlag_alt split: option.splits)
qed

text \<open>The flags after the walk do not depend on the order of the map's entries.\<close>

lemma overwriteFlagDefaults_order:
  assumes "map_of ds = map_of ds'" "distinct (map fst ds)" "distinct (map fst ds')"
  shows "overwriteFlagDefaults setValue ds c = overwriteFlagDefaults setValue ds' c"
proof (induction c)
  case (Command use aliases run flags persistent cs)
  have "setDefaults setValue ds fs = setDefaults setValue ds' fs" for fs
    using assms by (simp add: fun_eq_iff setDefaults_alt)
  with Command show ?case by simp
qed

text \<open>The walk reaches every command: the tree afterwards is the tree before, command by command.\<close>

lemma overwriteFlagDefaults_sel:
  "cmdUse (overwriteFlagDefaults setValue ds c) = cmdUse c"
  "cmdAliases (overwriteFlagDefaults setValue ds c) = cmdAliases c"
  "cmdRunE (overwriteFlagDefaults setValue ds c) = cmdRunE c"
  "cmdFlags (overwriteFlagDefaults setValue ds c) = setDefaults setValue ds (cmdFlags c)"
  "cmdPersistent (overwriteFlagDefaults setValue ds c) = setDefaults setValue ds (cmdPersistent c)"
  "cmdCommands (overwriteFlagDefaults setValue ds c) = map (overwriteFlagDefaults setValue ds) (cmdCommands c)"
  by (cases c; simp)+

lemma subtree_overwrite:
  "subtree (overwriteFlagDefaults setValue ds c) = map (overwriteFlagDefaults setValue ds) (subtree c)"
proof (induction c)
  case (Command use aliases run flags persistent cs)
  then have "map (\<lambda>c. subtree (overwriteFlagDefaults setValue ds c)) cs =
      map (\<lambda>c. map (overwriteFlagDefaults setValue ds) (subtree c)) cs" by (intro map_cong) auto
  from arg_cong [OF this, of concat] show ?case by (simp add: map_concat o_def)
qed

end
