(* ===== verification/GoPath.thy ===== *)
theory GoPath
  imports Strconv
begin

text \<open>
  What the chain's commands use of Go's \<open>strings\<close> and \<open>path/filepath\<close> (on Unix): splitting at a
  character, prefixes, and cleaning, joining, absolute and relative paths. A path is a string; its
  components are what lies between its slashes.
\<close>

section \<open>strings\<close>

text \<open>\<open>strings.Split(s, sep)\<close> for a one-byte separator: never empty.\<close>

fun splitOn :: "char \<Rightarrow> string \<Rightarrow> string list" where
  "splitOn c [] = [[]]"
| "splitOn c (x # xs) =
     (if x = c then [] # splitOn c xs
      else (case splitOn c xs of [] \<Rightarrow> [[x]] | y # ys \<Rightarrow> (x # y) # ys))"

fun joinWith :: "char \<Rightarrow> string list \<Rightarrow> string" where
  "joinWith c [] = []"
| "joinWith c [x] = x"
| "joinWith c (x # y # ys) = x @ c # joinWith c (y # ys)"

definition hasPrefix :: "string \<Rightarrow> string \<Rightarrow> bool" where
  "hasPrefix s p \<longleftrightarrow> take (length p) s = p"

lemma splitOn_not_Nil [simp]: "splitOn c s \<noteq> []"
  by (induction s) (auto split: list.splits)

lemma splitOn_no_sep: "c \<notin> set s \<Longrightarrow> splitOn c s = [s]"
  by (induction s) auto

lemma splitOn_append: "c \<notin> set x \<Longrightarrow> splitOn c (x @ c # r) = x # splitOn c r"
  by (induction x) auto

lemma splitOn_joinWith:
  "xs \<noteq> [] \<Longrightarrow> \<forall>x \<in> set xs. c \<notin> set x \<Longrightarrow> splitOn c (joinWith c xs) = xs"
proof (induction xs rule: joinWith.induct)
  case (3 c x y ys)
  then show ?case using splitOn_append [of c x "joinWith c (y # ys)"] by simp
qed (auto simp: splitOn_no_sep)

lemma joinWith_splitOn: "joinWith c (splitOn c s) = s"
proof (induction s)
  case (Cons x xs)
  then show ?case
    by (cases "splitOn c xs" rule: list.exhaust) (auto split: list.splits, (case_tac x22; simp)+)
qed simp

section \<open>path/filepath\<close>

abbreviation slash :: char where
  "slash \<equiv> CHR ''/''"

definition IsAbs :: "string \<Rightarrow> bool" where
  "IsAbs p \<longleftrightarrow> p \<noteq> [] \<and> hd p = slash"

text \<open>One component of \<open>Clean\<close>: \<open>.\<close> and empty ones vanish, \<open>..\<close> removes the one before it.\<close>

definition cleanStep :: "bool \<Rightarrow> string list \<Rightarrow> string \<Rightarrow> string list" where
  "cleanStep rooted out c =
     (if c = '''' \<or> c = ''.'' then out
      else if c = ''..'' then
        (if out \<noteq> [] \<and> last out \<noteq> ''..'' then butlast out
         else if rooted then out else out @ [''..''])
      else out @ [c])"

definition components :: "string \<Rightarrow> string list" where
  "components p = foldl (cleanStep (IsAbs p)) [] (splitOn slash p)"

definition render :: "bool \<Rightarrow> string list \<Rightarrow> string" where
  "render rooted cs =
     (if rooted then slash # joinWith slash cs
      else if cs = [] then ''.'' else joinWith slash cs)"

definition Clean :: "string \<Rightarrow> string" where
  "Clean p = render (IsAbs p) (components p)"

definition Join :: "string list \<Rightarrow> string" where
  "Join elems =
     (let es = filter (\<lambda>e. e \<noteq> '''') elems in if es = [] then '''' else Clean (joinWith slash es))"

text \<open>\<open>Abs\<close> asks for the working directory only when it needs it.\<close>

definition Abs :: "string ext \<Rightarrow> string \<Rightarrow> string res" where
  "Abs wd p = (if IsAbs p then Inr (Clean p) else bindR (ext wd) (\<lambda>w. Inr (Join [w, p])))"

fun dropCommon :: "string list \<Rightarrow> string list \<Rightarrow> string list \<times> string list" where
  "dropCommon (b # bs) (t # ts) = (if b = t then dropCommon bs ts else (b # bs, t # ts))"
| "dropCommon bs ts = (bs, ts)"

definition Rel :: "string \<Rightarrow> string \<Rightarrow> string res" where
  "Rel base targ =
     (if IsAbs base \<noteq> IsAbs targ then Inl (ErrText ''Rel: can't make relative'')
      else
        let (bs, ts) = dropCommon (components base) (components targ) in
        if bs \<noteq> [] \<and> hd bs = ''..'' then Inl (ErrText ''Rel: can't make relative'')
        else Inr (render False (replicate (length bs) ''..'' @ ts)))"

text \<open>\<open>Base\<close>: the last component, without trailing slashes.\<close>

definition Base :: "string \<Rightarrow> string" where
  "Base p =
     (if p = '''' then ''.''
      else
        let q = rev (dropWhile (\<lambda>c. c = slash) (rev p)) in
        if q = '''' then ''/'' else last (splitOn slash q))"

section \<open>Normal components\<close>

text \<open>A name that \<open>Clean\<close> keeps.\<close>

definition name :: "string \<Rightarrow> bool" where
  "name c \<longleftrightarrow> c \<noteq> '''' \<and> c \<noteq> ''.'' \<and> c \<noteq> ''..'' \<and> slash \<notin> set c"

lemma foldl_cleanStep_names:
  "list_all name cs \<Longrightarrow> foldl (cleanStep r) out cs = out @ cs"
proof (induction cs arbitrary: out)
  case (Cons c cs)
  then have "cleanStep r out c = out @ [c]" by (simp add: cleanStep_def name_def)
  with Cons show ?case by simp
qed simp

lemma components_render_abs:
  assumes "list_all name cs"
  shows "components (render True cs) = cs"
proof (cases "cs = []")
  case True
  then show ?thesis by (simp add: components_def render_def IsAbs_def cleanStep_def)
next
  case False
  have "splitOn slash (joinWith slash cs) = cs"
    using assms False by (intro splitOn_joinWith) (auto simp: list_all_iff name_def)
  then show ?thesis
    using foldl_cleanStep_names [OF assms, of True "[]"]
    by (simp add: components_def render_def IsAbs_def cleanStep_def)
qed

lemma IsAbs_render [simp]: "IsAbs (render True cs)"
  by (simp add: IsAbs_def render_def)

lemma Clean_render: "list_all name cs \<Longrightarrow> Clean (render True cs) = render True cs"
  by (simp add: Clean_def components_render_abs)

lemma Abs_render: "list_all name cs \<Longrightarrow> Abs wd (render True cs) = Inr (render True cs)"
  by (simp add: Abs_def Clean_render)

lemma dropCommon_prefix: "dropCommon bs (bs @ ts) = ([], ts)"
  by (induction bs) (cases ts; simp)+

lemma dropCommon_props:
  "dropCommon bs ts = (bs', ts') \<Longrightarrow> \<exists>p. bs = p @ bs' \<and> ts = p @ ts' \<and> (bs' = [] \<or> ts' = [] \<or> hd bs' \<noteq> hd ts')"
proof (induction bs ts rule: dropCommon.induct)
  case (1 b bs t ts)
  show ?case
  proof (cases "b = t")
    case True
    with 1 obtain p where "bs = p @ bs'" "ts = p @ ts'" "bs' = [] \<or> ts' = [] \<or> hd bs' \<noteq> hd ts'" by auto
    with True show ?thesis by (intro exI [of _ "b # p"]) simp
  next
    case False
    with 1 show ?thesis by (intro exI [of _ "[]"]) auto
  qed
qed auto

end
