(* ===== verification/CmdTestnet.thy ===== *)
theory CmdTestnet
  imports AppNew GoPath "HOL-Library.Sublist"
begin

text \<open>
  \<open>cmd/bluechipchaind/cmd/testnet.go\<close>: the in-place testnet, which replaces the validators of a
  loaded application by one of its own and funds accounts. Stores and keepers of the SDK are parameters.
\<close>

section \<open>Arguments\<close>

record valArgs =
  newValAddr :: bytes
  newOperatorAddress :: string
  newValPubKey :: bytes
  accountsToFund :: "bytes list"
  upgradeToTrigger :: string
  homeDir :: string

definition flagAccountsToFund :: option_key where
  "flagAccountsToFund = OwnFlag ''accounts-to-fund''"

text \<open>A type assertion that panics if it fails.\<close>

definition asHexBytes :: "string \<Rightarrow> option_value \<Rightarrow> bytes res" where
  "asHexBytes msg v = (case v of VHexBytes b \<Rightarrow> Inr b | _ \<Rightarrow> Inl (Panic msg))"

definition asPubKey :: "string \<Rightarrow> option_value \<Rightarrow> bytes res" where
  "asPubKey msg v = (case v of VPubKey b \<Rightarrow> Inr b | _ \<Rightarrow> Inl (Panic msg))"

definition asString :: "string \<Rightarrow> option_value \<Rightarrow> string res" where
  "asString msg v = (case v of VString b \<Rightarrow> Inr b | _ \<Rightarrow> Inl (Panic msg))"

text \<open>\<open>fmt.Errorf(... %w, err)\<close>.\<close>

definition wrapErr :: "string \<Rightarrow> 'a res \<Rightarrow> 'a res" where
  "wrapErr msg r = (case r of Inl e \<Rightarrow> Inl (if is_panic e then e else Wrapped msg e) | Inr x \<Rightarrow> Inr x)"

text \<open>The accounts of the comma-separated list; empty entries are skipped.\<close>

fun fundAccounts :: "(string \<Rightarrow> bytes ext) \<Rightarrow> string list \<Rightarrow> bytes list \<Rightarrow> bytes list res" where
  "fundAccounts fromBech32 [] acc = Inr acc"
| "fundAccounts fromBech32 (account # rest) acc =
     (if account \<noteq> '''' then
        bindR (wrapErr ''invalid bech32 address format'' (ext (fromBech32 account))) (\<lambda>addr.
          fundAccounts fromBech32 rest (acc @ [addr]))
      else fundAccounts fromBech32 rest acc)"

text \<open>\<open>cast.ToString\<close> is a parameter; the arguments returned beside an error are not used.\<close>

definition getCommandArgs :: "(option_value \<Rightarrow> string) \<Rightarrow> (string \<Rightarrow> bytes ext) \<Rightarrow> appOptions \<Rightarrow> valArgs res" where
  "getCommandArgs toString fromBech32 appOpts =
     bindR (asHexBytes ''newValAddr is not of type bytes.HexBytes'' (optGet appOpts KeyNewValAddr)) (\<lambda>valAddr.
     bindR (asPubKey ''newValPubKey is not of type crypto.PubKey'' (optGet appOpts KeyUserPubKey)) (\<lambda>pubKey.
     bindR (asString ''newOperatorAddress is not of type string'' (optGet appOpts KeyNewOpAddr)) (\<lambda>operator.
     bindR (asString ''upgradeToTrigger is not of type string'' (optGet appOpts KeyTriggerTestnetUpgrade)) (\<lambda>upgrade.
     bindR (fundAccounts fromBech32 (splitOn (CHR '','') (toString (optGet appOpts flagAccountsToFund))) []) (\<lambda>accounts.
       let home = toString (optGet appOpts FlagHome) in
       if home = '''' then Inl (ErrText ''invalid home dir'')
       else Inr \<lparr>newValAddr = valAddr, newOperatorAddress = operator, newValPubKey = pubKey,
                   accountsToFund = accounts, upgradeToTrigger = upgrade, homeDir = home\<rparr>)))))"

section \<open>initAppForTestnet\<close>

definition valVotingPower :: int where
  "valVotingPower = 900000000000000"

datatype bond_status = Unspecified | Unbonded | Unbonding | Bonded

record ('any, 'i, 'dec) new_validator =
  OperatorAddress :: string
  ConsensusPubkey :: 'any
  vJailed :: bool
  Status :: bond_status
  Tokens :: 'i
  DelegatorShares :: 'dec
  vMoniker :: string
  CommissionRate :: 'dec
  CommissionMaxRate :: 'dec
  CommissionMaxChangeRate :: 'dec
  MinSelfDelegation :: 'i

record signing_info =
  siAddress :: string
  StartHeight :: int
  Tombstoned :: bool

text \<open>
  The SDK: a store handle \<open>'h\<close>, iterators as the keys they yield (they are read before the loop
  deletes), and the setters of the keepers. Errors that the code drops are part of their result.
\<close>

record ('s, 'h, 'any, 'i, 'dec, 'coins) testnet_ops =
  NewAnyWithValue :: "bytes \<Rightarrow> 'any ext"
  MakeInt :: "int \<Rightarrow> 'i"
  LegacyMustNewDecFromStr :: "string \<Rightarrow> 'dec ext"
  ValidatorAddressToBytes :: "string \<Rightarrow> bytes ext"
  FindStoreKey :: "modname \<Rightarrow> store_key option"
  OpenKVStore :: "store_key option \<Rightarrow> 'h ext"
  ValidatorsPowerStoreIterator :: "'s \<Rightarrow> bytes list ext"
  LastValidatorsIterator :: "'s \<Rightarrow> bytes list ext"
  StoreIterator :: "'h \<Rightarrow> bytes \<Rightarrow> bytes \<Rightarrow> 's \<Rightarrow> bytes list"
  PrefixEndBytes :: "bytes \<Rightarrow> bytes"
  ValidatorsKey :: bytes
  ValidatorQueueKey :: bytes
  StoreDelete :: "'h \<Rightarrow> bytes \<Rightarrow> 's \<Rightarrow> 's"
  StoreValidator :: "('any, 'i, 'dec) new_validator \<Rightarrow> 's \<Rightarrow> 's \<times> unit ext"
  SetValidatorByConsAddr :: "('any, 'i, 'dec) new_validator \<Rightarrow> 's \<Rightarrow> 's \<times> unit ext"
  SetValidatorByPowerIndex :: "('any, 'i, 'dec) new_validator \<Rightarrow> 's \<Rightarrow> 's \<times> unit ext"
  SetLastValidatorPower :: "bytes \<Rightarrow> int \<Rightarrow> 's \<Rightarrow> 's \<times> unit ext"
  HookAfterValidatorCreated :: "bytes \<Rightarrow> 's \<Rightarrow> 's \<times> unit ext"
  SetValidatorHistoricalRewards :: "bytes \<Rightarrow> nat \<Rightarrow> nat \<Rightarrow> 's \<Rightarrow> 's \<times> unit ext"
  SetValidatorCurrentRewards :: "bytes \<Rightarrow> nat \<Rightarrow> 's \<Rightarrow> 's \<times> unit ext"
  SetInitialAccumulatedCommission :: "bytes \<Rightarrow> 's \<Rightarrow> 's \<times> unit ext"
  SetEmptyOutstandingRewards :: "bytes \<Rightarrow> 's \<Rightarrow> 's \<times> unit ext"
  ConsAddressString :: "bytes \<Rightarrow> string"
  AppLastBlockHeight :: "'s \<Rightarrow> int"
  SetSigningInfo :: "bytes \<Rightarrow> signing_info \<Rightarrow> 's \<Rightarrow> 's \<times> unit ext"
  BondDenom :: "'s \<Rightarrow> string ext"
  NewInt64Coins :: "string \<Rightarrow> int \<Rightarrow> 'coins ext"
  mintModule :: string
  BankMintCoins :: "string \<Rightarrow> 'coins \<Rightarrow> 's \<Rightarrow> 's \<times> unit ext"
  SendCoinsFromModuleToAccount :: "string \<Rightarrow> bytes \<Rightarrow> 'coins \<Rightarrow> 's \<Rightarrow> 's \<times> unit ext"

type_synonym ('s, 'h, 'any, 'i, 'dec, 'coins) ops = "('s, 'h, 'any, 'i, 'dec, 'coins) testnet_ops"

definition newVal ::
  "('s, 'h, 'any, 'i, 'dec, 'coins) ops \<Rightarrow> valArgs \<Rightarrow> 'any \<Rightarrow> ('any, 'i, 'dec) new_validator res" where
  "newVal T args pubkeyAny =
     bindR (ext (LegacyMustNewDecFromStr T ''10000000'')) (\<lambda>shares.
     bindR (ext (LegacyMustNewDecFromStr T ''0.05'')) (\<lambda>rate.
     bindR (ext (LegacyMustNewDecFromStr T ''0.1'')) (\<lambda>maxRate.
     bindR (ext (LegacyMustNewDecFromStr T ''0.05'')) (\<lambda>maxChange.
       Inr \<lparr>OperatorAddress = newOperatorAddress args, ConsensusPubkey = pubkeyAny, vJailed = False,
             Status = Bonded, Tokens = MakeInt T valVotingPower, DelegatorShares = shares,
             vMoniker = ''Testnet Validator'', CommissionRate = rate, CommissionMaxRate = maxRate,
             CommissionMaxChangeRate = maxChange, MinSelfDelegation = MakeInt T 1\<rparr>))))"

text \<open>\<open>for ; iterator.Valid(); iterator.Next() { stakingStore.Delete(iterator.Key()) }\<close>\<close>

definition deleteAll :: "('s, 'h, 'any, 'i, 'dec, 'coins) ops \<Rightarrow> 'h \<Rightarrow> bytes list \<Rightarrow> 's \<Rightarrow> 's" where
  "deleteAll T store keys s = foldl (\<lambda>s key. StoreDelete T store key s) s keys"

definition deletePrefix :: "('s, 'h, 'any, 'i, 'dec, 'coins) ops \<Rightarrow> 'h \<Rightarrow> bytes \<Rightarrow> 's \<Rightarrow> 's" where
  "deletePrefix T store start s = deleteAll T store (StoreIterator T store start (PrefixEndBytes T start) s) s"

text \<open>The staking part: the four groups of keys are emptied, then the new validator is stored.\<close>

definition clearValidators ::
  "('s, 'h, 'any, 'i, 'dec, 'coins) ops \<Rightarrow> 'h \<Rightarrow> ('s, unit) act" where
  "clearValidators T store =
     bindS (fatal (readS (\<lambda>s. ext (ValidatorsPowerStoreIterator T s)))) (\<lambda>keys.
     bindS (\<lambda>s. (deleteAll T store keys s, Inr ())) (\<lambda>_.
     bindS (fatal (readS (\<lambda>s. ext (LastValidatorsIterator T s)))) (\<lambda>keys.
     bindS (\<lambda>s. (deleteAll T store keys s, Inr ())) (\<lambda>_.
     bindS (\<lambda>s. (deletePrefix T store (ValidatorsKey T) s, Inr ())) (\<lambda>_ s.
       (deletePrefix T store (ValidatorQueueKey T) s, Inr ()))))))"

definition storeNewValidator ::
  "('s, 'h, 'any, 'i, 'dec, 'coins) ops \<Rightarrow> ('any, 'i, 'dec) new_validator \<Rightarrow> bytes \<Rightarrow> ('s, unit) act" where
  "storeNewValidator T v validator =
     bindS (dropS (call (StoreValidator T v))) (\<lambda>_.
     bindS (fatal (call (SetValidatorByConsAddr T v))) (\<lambda>_.
     bindS (dropS (call (SetValidatorByPowerIndex T v))) (\<lambda>_.
     bindS (dropS (call (SetLastValidatorPower T validator 0))) (\<lambda>_.
       fatal (call (HookAfterValidatorCreated T validator))))))"

definition initRewards :: "('s, 'h, 'any, 'i, 'dec, 'coins) ops \<Rightarrow> bytes \<Rightarrow> ('s, unit) act" where
  "initRewards T validator =
     bindS (dropS (call (SetValidatorHistoricalRewards T validator 0 1))) (\<lambda>_.
     bindS (dropS (call (SetValidatorCurrentRewards T validator 1))) (\<lambda>_.
     bindS (dropS (call (SetInitialAccumulatedCommission T validator))) (\<lambda>_.
       dropS (call (SetEmptyOutstandingRewards T validator)))))"

definition setSigningInfo :: "('s, 'h, 'any, 'i, 'dec, 'coins) ops \<Rightarrow> valArgs \<Rightarrow> ('s, unit) act" where
  "setSigningInfo T args =
     bindS (readS (\<lambda>s. Inr (AppLastBlockHeight T s))) (\<lambda>h.
       dropS (call (SetSigningInfo T (newValAddr args)
         \<lparr>siAddress = ConsAddressString T (newValAddr args), StartHeight = wrap64 (h - 1),
          Tombstoned = False\<rparr>)))"

definition fundAccount :: "('s, 'h, 'any, 'i, 'dec, 'coins) ops \<Rightarrow> 'coins \<Rightarrow> bytes \<Rightarrow> ('s, unit) act" where
  "fundAccount T coins account =
     bindS (fatal (call (BankMintCoins T (mintModule T) coins))) (\<lambda>_.
       fatal (call (SendCoinsFromModuleToAccount T (mintModule T) account coins)))"

definition initAppForTestnet :: "('s, 'h, 'any, 'i, 'dec, 'coins) ops \<Rightarrow> valArgs \<Rightarrow> ('s, unit) act" where
  "initAppForTestnet T args =
     bindS (fatal (lift (ext (NewAnyWithValue T (newValPubKey args))))) (\<lambda>pubkeyAny.
     bindS (lift (newVal T args pubkeyAny)) (\<lambda>v.
     bindS (fatal (lift (ext (ValidatorAddressToBytes T (OperatorAddress v))))) (\<lambda>validator.
     bindS (lift (ext (OpenKVStore T (GetKey (FindStoreKey T) M_staking)))) (\<lambda>stakingStore.
     bindS (clearValidators T stakingStore) (\<lambda>_.
     bindS (storeNewValidator T v validator) (\<lambda>_.
     bindS (initRewards T validator) (\<lambda>_.
     bindS (setSigningInfo T args) (\<lambda>_.
     bindS (fatal (readS (\<lambda>s. ext (BondDenom T s)))) (\<lambda>bondDenom.
     bindS (lift (ext (NewInt64Coins T bondDenom 1000000000))) (\<lambda>defaultCoins.
       forS (fundAccount T defaultCoins) (accountsToFund args)))))))))))"

definition newTestnetApp ::
  "'s runtime \<Rightarrow> ('ck, 'sk) calls \<Rightarrow> string list \<Rightarrow> (option_value \<Rightarrow> string) \<Rightarrow> (string \<Rightarrow> bytes ext) \<Rightarrow>
   ('s, 'h, 'any, 'i, 'dec, 'coins) ops \<Rightarrow> appOptions \<Rightarrow> ('s, ('ck, 'sk, 's) App) act" where
  "newTestnetApp R X defaultOptions toString fromBech32 T appOpts =
     bindS (newApp R X defaultOptions) (\<lambda>testApp.
     bindS (panicS (lift (getCommandArgs toString fromBech32 appOpts))) (\<lambda>args.
     bindS (initAppForTestnet T args) (\<lambda>_. lift (Inr testApp))))"

section \<open>What the in-place testnet relies on\<close>

text \<open>
  The view: the keys of the staking store in the four groups the code empties (validators, their
  power index, last powers, the unbonding queue), the balance of the mint module's account and those of
  accounts.
\<close>

record testnet_view =
  groupKeys :: "bytes set"
  moduleBal :: "string \<Rightarrow> int"
  accountBal :: "bytes \<Rightarrow> string \<Rightarrow> int"

text \<open>How keys of the four groups begin, and the keys under which a validator is stored.\<close>

record ('any, 'i, 'dec) key_layout =
  powerPrefix :: bytes
  lastPrefix :: bytes
  validatorKey :: "string \<Rightarrow> bytes"
  powerKey :: "('any, 'i, 'dec) new_validator \<Rightarrow> bytes"
  lastKey :: "bytes \<Rightarrow> bytes"

definition steps_to :: "('s \<Rightarrow> testnet_view) \<Rightarrow> ('s \<Rightarrow> 's \<times> unit ext) \<Rightarrow> (testnet_view \<Rightarrow> testnet_view) \<Rightarrow> bool" where
  "steps_to V f g \<longleftrightarrow> (\<forall>s. \<exists>s'. f s = (s', Inr ()) \<and> V s' = g (V s))"

text \<open>Iterators yield the keys of their group, and a deletion removes one key.\<close>

definition staking_store_ok ::
  "('s, 'h, 'any, 'i, 'dec, 'coins) ops \<Rightarrow> ('any, 'i, 'dec) key_layout \<Rightarrow> 'h \<Rightarrow> ('s \<Rightarrow> testnet_view) \<Rightarrow> bool" where
  "staking_store_ok T K h V \<longleftrightarrow>
     FindStoreKey T M_staking = Some (KVStoreKey M_staking) \<and>
     OpenKVStore T (Some (KVStoreKey M_staking)) = Inr h \<and>
     (\<forall>s. \<forall>k \<in> groupKeys (V s).
        \<exists>p \<in> {powerPrefix K, lastPrefix K, ValidatorsKey T, ValidatorQueueKey T}. prefix p k) \<and>
     (\<forall>s. \<exists>ks. ValidatorsPowerStoreIterator T s = Inr ks \<and>
        set ks = {k \<in> groupKeys (V s). prefix (powerPrefix K) k}) \<and>
     (\<forall>s. \<exists>ks. LastValidatorsIterator T s = Inr ks \<and>
        set ks = {k \<in> groupKeys (V s). prefix (lastPrefix K) k}) \<and>
     (\<forall>p \<in> {ValidatorsKey T, ValidatorQueueKey T}. \<forall>s.
        set (StoreIterator T h p (PrefixEndBytes T p) s) = {k \<in> groupKeys (V s). prefix p k}) \<and>
     (\<forall>k s. V (StoreDelete T h k s) = (V s)\<lparr>groupKeys := groupKeys (V s) - {k}\<rparr>)"

text \<open>Setters of keys outside the four groups do not change the view.\<close>

definition setters_ok ::
  "('s, 'h, 'any, 'i, 'dec, 'coins) ops \<Rightarrow> ('any, 'i, 'dec) key_layout \<Rightarrow> ('s \<Rightarrow> testnet_view) \<Rightarrow> bool" where
  "setters_ok T K V \<longleftrightarrow>
     (\<forall>v. steps_to V (StoreValidator T v)
        (\<lambda>w. w\<lparr>groupKeys := insert (validatorKey K (OperatorAddress v)) (groupKeys w)\<rparr>)) \<and>
     (\<forall>v. steps_to V (SetValidatorByPowerIndex T v) (\<lambda>w. w\<lparr>groupKeys := insert (powerKey K v) (groupKeys w)\<rparr>)) \<and>
     (\<forall>a n. steps_to V (SetLastValidatorPower T a n) (\<lambda>w. w\<lparr>groupKeys := insert (lastKey K a) (groupKeys w)\<rparr>)) \<and>
     (\<forall>v. steps_to V (SetValidatorByConsAddr T v) id) \<and>
     (\<forall>a. steps_to V (HookAfterValidatorCreated T a) id) \<and>
     (\<forall>a p n. steps_to V (SetValidatorHistoricalRewards T a p n) id) \<and>
     (\<forall>a p. steps_to V (SetValidatorCurrentRewards T a p) id) \<and>
     (\<forall>a. steps_to V (SetInitialAccumulatedCommission T a) id) \<and>
     (\<forall>a. steps_to V (SetEmptyOutstandingRewards T a) id) \<and>
     (\<forall>a i. steps_to V (SetSigningInfo T a i) id)"

text \<open>The bank mints into the mint module's account and sends what it holds.\<close>

definition test_bank_ok ::
  "('s, 'h, 'any, 'i, 'dec, 'coins) ops \<Rightarrow> ('s \<Rightarrow> testnet_view) \<Rightarrow> ('coins \<Rightarrow> string \<Rightarrow> int) \<Rightarrow> bool" where
  "test_bank_ok T V amt \<longleftrightarrow>
     (\<forall>c. steps_to V (BankMintCoins T (mintModule T) c) (\<lambda>w. w\<lparr>moduleBal := \<lambda>d. moduleBal w d + amt c d\<rparr>)) \<and>
     (\<forall>a c s. (\<forall>d. amt c d \<le> moduleBal (V s) d) \<longrightarrow>
        (\<exists>s'. SendCoinsFromModuleToAccount T (mintModule T) a c s = (s', Inr ()) \<and>
           V s' = (V s)\<lparr>moduleBal := \<lambda>d. moduleBal (V s) d - amt c d,
              accountBal := (accountBal (V s))(a := \<lambda>d. accountBal (V s) a d + amt c d)\<rparr>))"

lemma steps_toE:
  assumes "steps_to V f g" obtains s' where "f s = (s', Inr ())" "V s' = g (V s)"
  using assms by (auto simp: steps_to_def)

lemma dropS_Inr: "f s = (s', Inr x) \<Longrightarrow> dropS f s = (s', Inr ())"
  by (simp add: dropS_def)

lemma fatal_Inr: "f s = (s', Inr x) \<Longrightarrow> fatal f s = (s', Inr x)"
  by (simp add: fatal_def)

text \<open>An operation of the code that succeeds and acts on the view as \<open>g\<close>.\<close>

definition acts :: "('s \<Rightarrow> testnet_view) \<Rightarrow> ('s, unit) act \<Rightarrow> (testnet_view \<Rightarrow> testnet_view) \<Rightarrow> bool" where
  "acts V f g \<longleftrightarrow> (\<forall>s. \<exists>s'. f s = (s', Inr ()) \<and> V s' = g (V s))"

lemma actsE:
  assumes "acts V f g" obtains s' where "f s = (s', Inr ())" "V s' = g (V s)"
  using assms by (auto simp: acts_def)

lemma acts_drop: "steps_to V f g \<Longrightarrow> acts V (dropS (call f)) g"
  unfolding acts_def by (metis steps_toE call_Inr_iff dropS_Inr)

lemma acts_fatal: "steps_to V f g \<Longrightarrow> acts V (fatal (call f)) g"
  unfolding acts_def by (metis steps_toE call_Inr_iff fatal_Inr)

lemma acts_bind:
  assumes "acts V f g" "acts V f' g'" shows "acts V (bindS f (\<lambda>_. f')) (\<lambda>w. g' (g w))"
  unfolding acts_def
proof
  fix s
  obtain s1 where 1: "f s = (s1, Inr ())" "V s1 = g (V s)" using assms(1) by (rule actsE)
  obtain s2 where "f' s1 = (s2, Inr ())" "V s2 = g' (V s1)" using assms(2) by (rule actsE)
  with 1 show "\<exists>s'. bindS f (\<lambda>_. f') s = (s', Inr ()) \<and> V s' = g' (g (V s))" by (simp add: bindS_ok)
qed

lemma acts_id: "acts V f id \<Longrightarrow> acts V f' g \<Longrightarrow> acts V (bindS f (\<lambda>_. f')) g"
  using acts_bind [of V f id f' g] by simp

section \<open>The validators are replaced\<close>

lemma deleteAll_view:
  assumes "staking_store_ok T K h V"
  shows "V (deleteAll T h ks s) = (V s)\<lparr>groupKeys := groupKeys (V s) - set ks\<rparr>"
proof (induction ks arbitrary: s)
  case Nil
  then show ?case by (simp add: deleteAll_def)
next
  case (Cons k ks)
  have "V (StoreDelete T h k s) = (V s)\<lparr>groupKeys := groupKeys (V s) - {k}\<rparr>"
    using assms by (simp add: staking_store_ok_def)
  with Cons [of "StoreDelete T h k s"] show ?case
    by (simp add: deleteAll_def Diff_insert2 [of _ k "set ks"])
qed

lemma deletePrefix_view:
  assumes "staking_store_ok T K h V" "p \<in> {ValidatorsKey T, ValidatorQueueKey T}"
  shows "V (deletePrefix T h p s) = (V s)\<lparr>groupKeys := {k \<in> groupKeys (V s). \<not> prefix p k}\<rparr>"
proof -
  have "set (StoreIterator T h p (PrefixEndBytes T p) s) = {k \<in> groupKeys (V s). prefix p k}"
    using assms unfolding staking_store_ok_def by blast
  then have "groupKeys (V s) - set (StoreIterator T h p (PrefixEndBytes T p) s) =
      {k \<in> groupKeys (V s). \<not> prefix p k}" by blast
  then show ?thesis
    unfolding deletePrefix_def deleteAll_view [OF assms(1)] by (rule arg_cong)
qed

lemma clearValidators_acts:
  assumes T: "staking_store_ok T K h V"
  shows "acts V (clearValidators T h) (\<lambda>w. w\<lparr>groupKeys := {}\<rparr>)"
  unfolding acts_def
proof
  fix s
  have iters: "\<exists>ks. ValidatorsPowerStoreIterator T s = Inr ks \<and> set ks = {k \<in> groupKeys (V s). prefix (powerPrefix K) k}"
      "\<exists>ks. LastValidatorsIterator T s = Inr ks \<and> set ks = {k \<in> groupKeys (V s). prefix (lastPrefix K) k}" for s
    using T unfolding staking_store_ok_def by (elim conjE; simp)+
  obtain ks where ks: "ValidatorsPowerStoreIterator T s = Inr ks"
      "set ks = {k \<in> groupKeys (V s). prefix (powerPrefix K) k}" using iters(1) by blast
  let ?s1 = "deleteAll T h ks s"
  obtain ls where ls: "LastValidatorsIterator T ?s1 = Inr ls"
      "set ls = {k \<in> groupKeys (V ?s1). prefix (lastPrefix K) k}" using iters(2) by blast
  let ?s4 = "deletePrefix T h (ValidatorQueueKey T) (deletePrefix T h (ValidatorsKey T) (deleteAll T h ls ?s1))"
  have "clearValidators T h s = (?s4, Inr ())"
    using ks(1) ls(1) by (simp add: clearValidators_def bindS_def fatal_def readS_def)
  moreover have "V ?s4 = (V s)\<lparr>groupKeys := {k \<in> groupKeys (V s). \<not> (\<exists>p \<in> {powerPrefix K, lastPrefix K,
      ValidatorsKey T, ValidatorQueueKey T}. prefix p k)}\<rparr>"
    using ks(2) ls(2) by (auto simp: deletePrefix_view [OF T] deleteAll_view [OF T] intro!: arg_cong
        [where f = "\<lambda>g. (V s)\<lparr>groupKeys := g\<rparr>"])
  moreover have "\<dots> = (V s)\<lparr>groupKeys := {}\<rparr>"
    using T unfolding staking_store_ok_def by (elim conjE) (metis (mono_tags, lifting) empty_Collect_eq)
  ultimately show "\<exists>s'. clearValidators T h s = (s', Inr ()) \<and> V s' = (V s)\<lparr>groupKeys := {}\<rparr>" by metis
qed

lemma storeNewValidator_acts:
  assumes "setters_ok T K V"
  shows "acts V (storeNewValidator T v a) (\<lambda>w. w\<lparr>groupKeys :=
    {lastKey K a, powerKey K v, validatorKey K (OperatorAddress v)} \<union> groupKeys w\<rparr>)"
proof -
  let ?i = "\<lambda>k w. w\<lparr>groupKeys := insert k (groupKeys w)\<rparr>"
  have "acts V (storeNewValidator T v a)
      (\<lambda>w. id (?i (lastKey K a) (?i (powerKey K v) (id (?i (validatorKey K (OperatorAddress v)) w)))))"
    unfolding storeNewValidator_def
    by (intro acts_bind acts_drop acts_fatal) (use assms in \<open>simp_all add: setters_ok_def id_def\<close>)
  then show ?thesis by (simp add: insert_commute)
qed

lemma initRewards_acts: "setters_ok T K V \<Longrightarrow> acts V (initRewards T a) id"
  unfolding initRewards_def by (intro acts_id acts_drop) (simp_all add: setters_ok_def)

lemma setSigningInfo_acts: "setters_ok T K V \<Longrightarrow> acts V (setSigningInfo T args) id"
  unfolding setSigningInfo_def acts_def bindS_def readS_def
  using acts_drop [of V _ id] by (fastforce simp: setters_ok_def acts_def)

section \<open>The accounts are funded\<close>

definition credit :: "(string \<Rightarrow> int) \<Rightarrow> bytes list \<Rightarrow> testnet_view \<Rightarrow> testnet_view" where
  "credit c accounts w =
     w\<lparr>accountBal := \<lambda>a d. accountBal w a d + int (count_list accounts a) * c d\<rparr>"

lemma fundAccount_acts:
  assumes "test_bank_ok T V amt" "\<forall>d. 0 \<le> moduleBal (V s) d"
  shows "\<exists>s'. fundAccount T c a s = (s', Inr ()) \<and> V s' = credit (amt c) [a] (V s)"
proof -
  have m: "steps_to V (BankMintCoins T (mintModule T) c) (\<lambda>w. w\<lparr>moduleBal := \<lambda>d. moduleBal w d + amt c d\<rparr>)"
    and snd: "\<And>s. (\<forall>d. amt c d \<le> moduleBal (V s) d) \<Longrightarrow>
        (\<exists>s'. SendCoinsFromModuleToAccount T (mintModule T) a c s = (s', Inr ()) \<and>
           V s' = (V s)\<lparr>moduleBal := \<lambda>d. moduleBal (V s) d - amt c d,
              accountBal := (accountBal (V s))(a := \<lambda>d. accountBal (V s) a d + amt c d)\<rparr>)"
    using assms(1) by (simp_all add: test_bank_ok_def)
  obtain s1 where 1: "fatal (call (BankMintCoins T (mintModule T) c)) s = (s1, Inr ())"
      "V s1 = (V s)\<lparr>moduleBal := \<lambda>d. moduleBal (V s) d + amt c d\<rparr>"
    using actsE [OF acts_fatal [OF m]] by blast
  have "\<forall>d. amt c d \<le> moduleBal (V s1) d" using assms(2) by (simp add: 1(2))
  from snd [OF this] obtain s2 where 2: "SendCoinsFromModuleToAccount T (mintModule T) a c s1 = (s2, Inr ())"
      "V s2 = (V s1)\<lparr>moduleBal := \<lambda>d. moduleBal (V s1) d - amt c d,
         accountBal := (accountBal (V s1))(a := \<lambda>d. accountBal (V s1) a d + amt c d)\<rparr>" by blast
  have "V s2 = credit (amt c) [a] (V s)"
    by (simp add: 2(2) 1(2) credit_def fun_eq_iff)
  with 1(1) 2(1) show ?thesis by (simp add: fundAccount_def bindS_ok fatal_def call_def)
qed

lemma fund_all:
  assumes "test_bank_ok T V amt"
  shows "\<forall>d. 0 \<le> moduleBal (V s) d \<Longrightarrow>
    \<exists>s'. forS (fundAccount T c) as s = (s', Inr ()) \<and> V s' = credit (amt c) as (V s)"
proof (induction as arbitrary: s)
  case Nil
  then show ?case by (simp add: lift_def credit_def)
next
  case (Cons a as)
  obtain s1 where 1: "fundAccount T c a s = (s1, Inr ())" "V s1 = credit (amt c) [a] (V s)"
    using fundAccount_acts [OF assms Cons.prems] by blast
  have "\<forall>d. 0 \<le> moduleBal (V s1) d" using Cons.prems by (simp add: 1(2) credit_def)
  from Cons.IH [OF this] obtain s' where s': "forS (fundAccount T c) as s1 = (s', Inr ())"
      "V s' = credit (amt c) as (V s1)" by blast
  have "V s' = credit (amt c) (a # as) (V s)"
    by (simp add: s'(2) 1(2) credit_def fun_eq_iff algebra_simps)
  with 1(1) s'(1) show ?case by (auto simp: bindS_ok)
qed

section \<open>Properties\<close>


text \<open>A staking store that is a list of keys, with balances as functions.\<close>

record test_state =
  tsKeys :: "bytes list"
  tsModule :: "string \<Rightarrow> int"
  tsAccounts :: "bytes \<Rightarrow> string \<Rightarrow> int"

definition group_key :: "bytes \<Rightarrow> bool" where
  "group_key k \<longleftrightarrow> k \<noteq> [] \<and> hd k \<in> {0x23, 0x11, 0x21, 0x43}"

definition test_view :: "test_state \<Rightarrow> testnet_view" where
  "test_view s = \<lparr>groupKeys = {k \<in> set (tsKeys s). group_key k}, moduleBal = tsModule s, accountBal = tsAccounts s\<rparr>"

definition sample_layout :: "(unit, int, unit) key_layout" where
  "sample_layout = \<lparr>powerPrefix = [0x23], lastPrefix = [0x11], validatorKey = \<lambda>op. 0x21 # bytes_of op,
     powerKey = \<lambda>v. 0x23 # bytes_of (OperatorAddress v), lastKey = \<lambda>a. 0x11 # a\<rparr>"

definition sample_testnet :: "(test_state, unit, unit, int, unit, string \<times> int) ops" where
  "sample_testnet = \<lparr>NewAnyWithValue = \<lambda>_. Inr (), MakeInt = id, LegacyMustNewDecFromStr = \<lambda>_. Inr (),
     ValidatorAddressToBytes = \<lambda>s. Inr (bytes_of s), FindStoreKey = \<lambda>m. Some (KVStoreKey m),
     OpenKVStore = \<lambda>_. Inr (),
     ValidatorsPowerStoreIterator = \<lambda>s. Inr (filter (prefix [0x23]) (tsKeys s)),
     LastValidatorsIterator = \<lambda>s. Inr (filter (prefix [0x11]) (tsKeys s)),
     StoreIterator = \<lambda>_ p _ s. filter (prefix p) (tsKeys s), PrefixEndBytes = \<lambda>p. p,
     ValidatorsKey = [0x21], ValidatorQueueKey = [0x43],
     StoreDelete = \<lambda>_ k s. s\<lparr>tsKeys := removeAll k (tsKeys s)\<rparr>,
     StoreValidator = \<lambda>v s. (s\<lparr>tsKeys := (0x21 # bytes_of (OperatorAddress v)) # tsKeys s\<rparr>, Inr ()),
     SetValidatorByConsAddr = \<lambda>_ s. (s, Inr ()),
     SetValidatorByPowerIndex = \<lambda>v s. (s\<lparr>tsKeys := (0x23 # bytes_of (OperatorAddress v)) # tsKeys s\<rparr>, Inr ()),
     SetLastValidatorPower = \<lambda>a _ s. (s\<lparr>tsKeys := (0x11 # a) # tsKeys s\<rparr>, Inr ()),
     HookAfterValidatorCreated = \<lambda>_ s. (s, Inr ()), SetValidatorHistoricalRewards = \<lambda>_ _ _ s. (s, Inr ()),
     SetValidatorCurrentRewards = \<lambda>_ _ s. (s, Inr ()), SetInitialAccumulatedCommission = \<lambda>_ s. (s, Inr ()),
     SetEmptyOutstandingRewards = \<lambda>_ s. (s, Inr ()), ConsAddressString = string_of,
     AppLastBlockHeight = \<lambda>_. 41, SetSigningInfo = \<lambda>_ _ s. (s, Inr ()), BondDenom = \<lambda>_. Inr ''stake'',
     NewInt64Coins = \<lambda>d n. Inr (d, n), mintModule = ''mint'',
     BankMintCoins = \<lambda>_ (d, n) s. (s\<lparr>tsModule := (tsModule s)(d := tsModule s d + n)\<rparr>, Inr ()),
     SendCoinsFromModuleToAccount = \<lambda>_ a (d, n) s. (s\<lparr>tsModule := (tsModule s)(d := tsModule s d - n),
        tsAccounts := (tsAccounts s)(a := (tsAccounts s a)(d := tsAccounts s a d + n))\<rparr>, Inr ())\<rparr>"

definition coin_amt :: "string \<times> int \<Rightarrow> string \<Rightarrow> int" where
  "coin_amt = (\<lambda>(d, n) d'. if d' = d then n else 0)"

lemma prefix_singleton: "prefix [p] k \<longleftrightarrow> k \<noteq> [] \<and> hd k = p"
  by (cases k) auto

lemma sample_staking_store_ok: "staking_store_ok sample_testnet sample_layout () test_view"
  unfolding staking_store_ok_def
  by (intro conjI) (auto simp: sample_testnet_def sample_layout_def test_view_def group_key_def prefix_singleton)

lemma sample_setters_ok: "setters_ok sample_testnet sample_layout test_view"
  unfolding setters_ok_def
  by (intro conjI allI)
     (auto simp: sample_testnet_def sample_layout_def test_view_def steps_to_def group_key_def)

lemma sample_test_bank_ok: "test_bank_ok sample_testnet test_view coin_amt"
  unfolding test_bank_ok_def
  by (intro conjI allI)
     (auto simp: sample_testnet_def test_view_def steps_to_def coin_amt_def fun_eq_iff)

definition sample_valArgs :: valArgs where
  "sample_valArgs = \<lparr>newValAddr = [1], newOperatorAddress = ''op'', newValPubKey = [2],
     accountsToFund = [[7], [8], [7]], upgradeToTrigger = '''', homeDir = ''/home''\<rparr>"

definition sample_test_state :: test_state where
  "sample_test_state = \<lparr>tsKeys = [[0x21, 9], [0x23, 9], [0x11, 9], [0x43, 9], [0x30]], tsModule = \<lambda>_. 0,
     tsAccounts = \<lambda>_ _. 0\<rparr>"


section \<open>Arguments and flags\<close>

text \<open>The accounts to fund are the non-empty entries, in their order.\<close>

lemma fundAccounts_Inr:
  assumes "\<And>x. x \<in> set xs \<Longrightarrow> x \<noteq> '''' \<Longrightarrow> fromBech32 x = Inr (addr x)"
  shows "fundAccounts fromBech32 xs acc = Inr (acc @ map addr (filter (\<lambda>x. x \<noteq> '''') xs))"
  using assms by (induction xs arbitrary: acc) (auto simp: wrapErr_def)

lemma getCommandArgs_Inr:
  assumes "getCommandArgs toString fromBech32 opts = Inr args"
  shows "homeDir args \<noteq> '''' \<and> optGet opts KeyNewOpAddr = VString (newOperatorAddress args) \<and>
    optGet opts KeyNewValAddr = VHexBytes (newValAddr args) \<and> optGet opts KeyUserPubKey = VPubKey (newValPubKey args)"
  using assms
  by (auto simp: getCommandArgs_def bindR_Inr_conv asHexBytes_def asPubKey_def asString_def Let_def
      split: option_value.splits if_splits)

end
