(* ===== verification/CmdMultiNode.thy ===== *)
theory CmdMultiNode
  imports GoPath
begin

text \<open>
  \<open>cmd/bluechipchaind/cmd/testnet_multi_node.go\<close>: the \<open>multi-node\<close> command, which lays out the
  directories of a local testnet. Keys, transactions, genesis documents and configuration files
  are made by third-party code and are parameters, as are the effects of the operating system on a
  state \<open>'s\<close>; parsing, ports, names, paths and the order of the steps are the repository's.
\<close>

section \<open>Arguments\<close>

record 'c initArgs =
  algo :: string
  chainID :: string
  keyringBackend :: string
  minGasPrices :: string
  nodeDirPrefix :: string
  numValidators :: int
  outputDir :: string
  startingIPAddress :: string
  validatorsStakesAmount :: "nat \<Rightarrow> 'c option"
  ports :: "nat \<Rightarrow> string option"

text \<open>Reading a missing key of a \<open>map[int]string\<close> gives the empty string.\<close>

definition portOf :: "'c initArgs \<Rightarrow> nat \<Rightarrow> string" where
  "portOf args i = (case ports args i of None \<Rightarrow> '''' | Some p \<Rightarrow> p)"

text \<open>
  The loop over the stake amounts: an amount that is not a number is skipped without advancing the
  index. \<open>sdk.NewCoin\<close> panics on a negative amount.
\<close>

fun stakeLoop ::
  "(string \<Rightarrow> 'i option) \<Rightarrow> ('i \<Rightarrow> 'c ext) \<Rightarrow> string list \<Rightarrow> nat \<Rightarrow> (nat \<Rightarrow> 'c option) \<Rightarrow>
   (nat \<Rightarrow> 'c option) res" where
  "stakeLoop parse newCoin [] idx m = Inr m"
| "stakeLoop parse newCoin (amount # rest) idx m =
     (case parse amount of
        None \<Rightarrow> stakeLoop parse newCoin rest idx m
      | Some a \<Rightarrow> bindR (ext (newCoin a)) (\<lambda>c. stakeLoop parse newCoin rest (idx + 1) (m(idx \<mapsto> c))))"

text \<open>The ports: one per validator counting down from 26657, or those of the flag.\<close>

fun portLoop :: "string list \<Rightarrow> nat \<Rightarrow> (nat \<Rightarrow> string option) \<Rightarrow> nat \<Rightarrow> string option" where
  "portLoop [] idx m = m"
| "portLoop (p # rest) idx m = portLoop rest (idx + 1) (m(idx \<mapsto> p))"

definition defaultPorts :: "int \<Rightarrow> string list" where
  "defaultPorts n = map (\<lambda>i. Itoa (26657 - 3 * int i)) [0..<nat n]"

definition parsePorts :: "int \<Rightarrow> string \<Rightarrow> nat \<Rightarrow> string option" where
  "parsePorts n s =
     (if s = '''' then portLoop (defaultPorts n) 0 Map.empty
      else portLoop (splitOn (CHR '','') s) 0 Map.empty)"

record flags =
  f_algo :: string
  f_chainID :: string
  f_keyringBackend :: string
  f_minGasPrices :: string
  f_nodeDirPrefix :: string
  f_numValidators :: int
  f_outputDir :: string
  f_startingIPAddress :: string
  f_stakes :: string
  f_ports :: string

definition defaultFlags :: "string \<Rightarrow> string \<Rightarrow> flags" where
  "defaultFlags bondDenom keyType =
     \<lparr>f_algo = keyType, f_chainID = '''', f_keyringBackend = ''test'',
      f_minGasPrices = ''0.0001'' @ bondDenom, f_nodeDirPrefix = ''validator'', f_numValidators = 4,
      f_outputDir = ''./.testnets'', f_startingIPAddress = ''localhost'',
      f_stakes = ''100000000,100000000,100000000,100000000'', f_ports = ''''\<rparr>"

text \<open>The first half of the command: flags to arguments.\<close>

definition parseArgs :: "(string \<Rightarrow> 'i option) \<Rightarrow> ('i \<Rightarrow> 'c ext) \<Rightarrow> flags \<Rightarrow> 'c initArgs res" where
  "parseArgs parse newCoin f =
     bindR (stakeLoop parse newCoin (splitOn (CHR '','') (f_stakes f)) 0 Map.empty) (\<lambda>stakes.
       Inr \<lparr>algo = f_algo f, chainID = f_chainID f, keyringBackend = f_keyringBackend f,
            minGasPrices = f_minGasPrices f, nodeDirPrefix = f_nodeDirPrefix f,
            numValidators = f_numValidators f, outputDir = f_outputDir f,
            startingIPAddress = f_startingIPAddress f, validatorsStakesAmount = stakes,
            ports = parsePorts (f_numValidators f) (f_ports f)\<rparr>)"

section \<open>Configurations\<close>

text \<open>What the command sets of CometBFT's and of the server's configuration.\<close>

record node_config =
  RootDir :: string
  Moniker :: string
  RPC_ListenAddress :: string
  PersistentPeers :: string
  AllowDuplicateIP :: bool
  P2P_ListenAddress :: string
  ProxyApp :: string
  PrometheusListenAddr :: string
  Prometheus :: bool

record app_config =
  MinGasPrices :: string
  API_Enable :: bool
  EnableHostnameLabel :: bool
  Telemetry_Enabled :: bool
  PrometheusRetentionTime :: int
  GRPC_Address :: string
  API_Address :: string

text \<open>\<open>BaseConfig\<close> is embedded, so its \<open>MinGasPrices\<close> is the same field.\<close>

definition testnetAppConfig :: "string \<Rightarrow> 'c initArgs \<Rightarrow> app_config \<Rightarrow> app_config" where
  "testnetAppConfig bondDenom args dflt =
     dflt\<lparr>MinGasPrices := minGasPrices args\<rparr>
         \<lparr>API_Enable := False\<rparr>
         \<lparr>MinGasPrices := ''0.0001'' @ bondDenom\<rparr>
         \<lparr>EnableHostnameLabel := False, Telemetry_Enabled := False, PrometheusRetentionTime := 0\<rparr>"

definition nodeDirName :: "'c initArgs \<Rightarrow> nat \<Rightarrow> string" where
  "nodeDirName args i = nodeDirPrefix args @ Itoa (int i)"

definition nodeDir :: "'c initArgs \<Rightarrow> nat \<Rightarrow> string" where
  "nodeDir args i = Join [outputDir args, nodeDirName args i]"

definition gentxsDir :: "'c initArgs \<Rightarrow> nat \<Rightarrow> string" where
  "gentxsDir args i = Join [nodeDir args i, ''config'', ''gentx'']"

definition memoOf :: "'c initArgs \<Rightarrow> string \<Rightarrow> nat \<Rightarrow> string" where
  "memoOf args nodeID i = nodeID @ ''@'' @ startingIPAddress args @ '':'' @ Itoa (26656 - 3 * int i)"

text \<open>What \<open>initTestnetFiles\<close> and \<open>collectGenFiles\<close> write into the configurations of node \<open>i\<close>.\<close>

definition initConfig :: "'c initArgs \<Rightarrow> nat \<Rightarrow> node_config \<Rightarrow> node_config" where
  "initConfig args i cfg =
     cfg\<lparr>RootDir := nodeDir args i, Moniker := nodeDirName args i,
         RPC_ListenAddress := ''tcp://0.0.0.0:'' @ portOf args i\<rparr>"

definition collectConfig :: "'c initArgs \<Rightarrow> string \<Rightarrow> nat \<Rightarrow> node_config \<Rightarrow> node_config" where
  "collectConfig args peers i cfg =
     cfg\<lparr>PersistentPeers := peers, AllowDuplicateIP := True,
         P2P_ListenAddress := ''tcp://0.0.0.0:'' @ Itoa (26656 - 3 * int i),
         RPC_ListenAddress := ''tcp://127.0.0.1:'' @ portOf args i,
         ProxyApp := ''tcp://127.0.0.1:'' @ Itoa (26658 - 3 * int i),
         PrometheusListenAddr := '':'' @ Itoa (26660 + int i), Prometheus := True\<rparr>"

definition nodeAppConfig :: "'c initArgs \<Rightarrow> nat \<Rightarrow> app_config \<Rightarrow> app_config" where
  "nodeAppConfig args i cfg =
     cfg\<lparr>GRPC_Address := startingIPAddress args @ '':'' @ Itoa (9090 - 2 * int i),
         API_Address := ''tcp://localhost:'' @ Itoa (1317 - int i)\<rparr>"

section \<open>Files\<close>

text \<open>The operating system; a path is opened, created, synced and read as one content.\<close>

record 's os =
  MkdirAll :: "string \<Rightarrow> 's \<Rightarrow> 's \<times> unit ext"
  RemoveAll :: "string \<Rightarrow> 's \<Rightarrow> 's"
  WriteFile :: "string \<Rightarrow> bytes \<Rightarrow> 's \<Rightarrow> 's \<times> unit ext"
  Open :: "string \<Rightarrow> 's \<Rightarrow> bytes ext"
  Create :: "string \<Rightarrow> 's \<Rightarrow> 's \<times> unit ext"
  Copy :: "string \<Rightarrow> bytes \<Rightarrow> 's \<Rightarrow> 's \<times> nat ext"
  Sync :: "string \<Rightarrow> 's \<Rightarrow> 's \<times> unit ext"
  Getwd :: "'s \<Rightarrow> string ext"

definition writeFile :: "'s os \<Rightarrow> string \<Rightarrow> string \<Rightarrow> bytes \<Rightarrow> ('s, unit) act" where
  "writeFile OS file_name dir contents s =
     (case call (MkdirAll OS dir) s of
        (s', Inl e) \<Rightarrow> (s', Inl (if is_panic e then e else Wrapped ''could not create directory'' e))
      | (s', Inr _) \<Rightarrow> call (WriteFile OS file_name contents) s')"

definition copyFile :: "'s os \<Rightarrow> string \<Rightarrow> string \<Rightarrow> ('s, nat) act" where
  "copyFile OS src dstDir =
     (let dst = Join [dstDir, Base src] in
      bindS (readS (\<lambda>s. ext (Open OS src s))) (\<lambda>content.
      bindS (call (Create OS dst)) (\<lambda>_.
      bindS (call (Copy OS dst content)) (\<lambda>n.
      bindS (call (Sync OS dst)) (\<lambda>_. lift (Inr n))))))"

definition isSubDir :: "string ext \<Rightarrow> string \<Rightarrow> string \<Rightarrow> bool res" where
  "isSubDir wd src dstDir =
     bindR (Abs wd src) (\<lambda>absSrc.
     bindR (Abs wd dstDir) (\<lambda>absDstDir.
     bindR (Rel absDstDir absSrc) (\<lambda>relativePath.
       Inr (\<not> hasPrefix relativePath ''..'' \<and> \<not> IsAbs relativePath))))"

text \<open>A random index below the length of the character set is drawn for each place.\<close>

definition charset :: string where
  "charset = ''abcdefghijklmnopqrstuvwxyz0123456789''"

definition generateRandomString :: "(nat \<Rightarrow> nat) \<Rightarrow> nat \<Rightarrow> string" where
  "generateRandomString draw len = map (\<lambda>i. charset ! draw i) [0..<len]"


section \<open>One node\<close>

text \<open>Third-party code the loop calls: configuration files, keys, and the validator's transaction.\<close>

record ('s, 'c, 'kb, 'al, 'pk, 'tx) node_ops =
  InitializeNodeValidatorFiles :: "node_config \<Rightarrow> 's \<Rightarrow> 's \<times> (string \<times> 'pk) ext"
  GenesisFile :: "node_config \<Rightarrow> string"
  NewKeyring :: "string \<Rightarrow> string \<Rightarrow> 's \<Rightarrow> 's \<times> 'kb ext"
  SigningAlgo :: "string \<Rightarrow> 'kb \<Rightarrow> 'al ext"
  GenerateSaveCoinKey :: "'kb \<Rightarrow> string \<Rightarrow> 'al \<Rightarrow> 's \<Rightarrow> 's \<times> (bytes \<times> string) ext"
  MarshalSecret :: "string \<Rightarrow> bytes ext"
  TokensFromPower :: "int \<Rightarrow> int"
  NewTokenCoin :: "string \<Rightarrow> int \<Rightarrow> 'c ext"
  SortCoins :: "'c list \<Rightarrow> 'c list"
  bondDenom :: string
  AccAddrString :: "bytes \<Rightarrow> string"
  ValAddrString :: "bytes \<Rightarrow> string"
  NewMsgCreateValidator :: "string \<Rightarrow> 'pk \<Rightarrow> 'c \<Rightarrow> string \<Rightarrow> 'tx ext"
  SetMsgs :: "'tx \<Rightarrow> 'tx ext"
  SignTx :: "string \<Rightarrow> string \<Rightarrow> 'kb \<Rightarrow> string \<Rightarrow> 'tx \<Rightarrow> 'tx ext"
  EncodeTx :: "'tx \<Rightarrow> bytes ext"
  WriteAppToml :: "string \<Rightarrow> app_config \<Rightarrow> 's \<Rightarrow> 's \<times> unit ext"

text \<open>What the loop accumulates, and the two configurations it keeps changing.\<close>

record ('c, 'pk) progress =
  nodeCfg :: node_config
  appCfg :: app_config
  nodeIDs :: "string list"
  valPubKeys :: "'pk list"
  genAccounts :: "bytes list"
  genBalances :: "(string \<times> 'c list) list"
  genFiles :: "string list"
  persistentPeers :: string
  gentxsFiles :: "string list"

text \<open>\<open>if err != nil { _ = os.RemoveAll(args.outputDir); return err }\<close>\<close>

definition cleanup :: "'s os \<Rightarrow> 'c initArgs \<Rightarrow> ('s, 'a) act \<Rightarrow> ('s, 'a) act" where
  "cleanup OS args f s =
     (case f s of
        (s', Inl e) \<Rightarrow> (if is_panic e then s' else RemoveAll OS (outputDir args) s', Inl e)
      | (s', Inr x) \<Rightarrow> (s', Inr x))"

text \<open>\<open>persistentPeers\<close> grows by one peer, separated by a comma unless it was empty.\<close>

definition addPeer :: "string \<Rightarrow> string \<Rightarrow> string" where
  "addPeer peers memo = (if peers = '''' then memo else peers @ '','' @ memo)"

text \<open>The validator's own stake, or 100 units of consensus power.\<close>

definition stakeOf :: "('s, 'c, 'kb, 'al, 'pk, 'tx) node_ops \<Rightarrow> 'c initArgs \<Rightarrow> nat \<Rightarrow> 'c res" where
  "stakeOf N args i =
     (case validatorsStakesAmount args i of
        Some c \<Rightarrow> Inr c
      | None \<Rightarrow> ext (NewTokenCoin N (bondDenom N) (TokensFromPower N 100)))"

definition signedTx ::
  "('s, 'c, 'kb, 'al, 'pk, 'tx) node_ops \<Rightarrow> 'c initArgs \<Rightarrow> nat \<Rightarrow> 'kb \<Rightarrow> bytes \<Rightarrow> 'pk \<Rightarrow> string \<Rightarrow> bytes res" where
  "signedTx N args i kb addr pk memo =
     bindR (stakeOf N args i) (\<lambda>valTokens.
     bindR (ext (NewMsgCreateValidator N (ValAddrString N addr) pk valTokens (nodeDirName args i))) (\<lambda>msg.
     bindR (ext (SetMsgs N msg)) (\<lambda>txb.
     bindR (ext (SignTx N (chainID args) memo kb (nodeDirName args i) txb)) (\<lambda>tx.
       ext (EncodeTx N tx)))))"

definition initNode ::
  "'s os \<Rightarrow> ('s, 'c, 'kb, 'al, 'pk, 'tx) node_ops \<Rightarrow> 'c initArgs \<Rightarrow> nat \<Rightarrow> ('c, 'pk) progress \<Rightarrow>
   ('s, ('c, 'pk) progress) act" where
  "initNode OS N args i g =
     (let dir = nodeDir args i;
          name = nodeDirName args i;
          gentxs = Join [outputDir args, name, ''config'', ''gentx''];
          cfg = initConfig args i (nodeCfg g) in
      bindS (cleanup OS args (call (MkdirAll OS (Join [dir, ''config''])))) (\<lambda>_.
      bindS (cleanup OS args (call (InitializeNodeValidatorFiles N cfg))) (\<lambda>(nodeID, pk).
      let memo = memoOf args nodeID i in
      bindS (call (NewKeyring N (keyringBackend args) dir)) (\<lambda>kb.
      bindS (lift (ext (SigningAlgo N (algo args) kb))) (\<lambda>al.
      bindS (cleanup OS args (call (GenerateSaveCoinKey N kb name al))) (\<lambda>(addr, secret).
      bindS (lift (ext (MarshalSecret N secret))) (\<lambda>cliPrint.
      bindS (writeFile OS (Join [dir, ''key_seed.json'']) dir cliPrint) (\<lambda>_.
      bindS (lift (ext (NewTokenCoin N ''testtoken'' (TokensFromPower N 1000)))) (\<lambda>test.
      bindS (lift (ext (NewTokenCoin N (bondDenom N) (TokensFromPower N 500)))) (\<lambda>bond.
      bindS (lift (signedTx N args i kb addr pk memo)) (\<lambda>txBz.
      let file_name = Join [gentxs, ''gentx-'' @ nodeID @ ''.json''] in
      bindS (writeFile OS file_name gentxs txBz) (\<lambda>_.
      let acfg = nodeAppConfig args i (appCfg g) in
      bindS (dropS (call (WriteAppToml N (Join [dir, ''config'', ''app.toml'']) acfg))) (\<lambda>_.
        lift (Inr \<lparr>nodeCfg = cfg, appCfg = acfg, nodeIDs = nodeIDs g @ [nodeID],
                   valPubKeys = valPubKeys g @ [pk], genAccounts = genAccounts g @ [addr],
                   genBalances = genBalances g @ [(AccAddrString N addr, SortCoins N [test, bond])],
                   genFiles = genFiles g @ [GenesisFile N cfg],
                   persistentPeers = addPeer (persistentPeers g) memo,
                   gentxsFiles = gentxsFiles g @ [file_name]\<rparr>))))))))))))))"

fun initNodes ::
  "'s os \<Rightarrow> ('s, 'c, 'kb, 'al, 'pk, 'tx) node_ops \<Rightarrow> 'c initArgs \<Rightarrow> nat list \<Rightarrow> ('c, 'pk) progress \<Rightarrow>
   ('s, ('c, 'pk) progress) act" where
  "initNodes OS N args [] g = lift (Inr g)"
| "initNodes OS N args (i # is) g = bindS (initNode OS N args i g) (initNodes OS N args is)"

text \<open>The copies of the other nodes' transactions; a failing copy is not noticed.\<close>

definition copyGentx :: "'s os \<Rightarrow> 'c initArgs \<Rightarrow> nat \<Rightarrow> string \<Rightarrow> ('s, unit) act" where
  "copyGentx OS args i file_name =
     bindS (readS (\<lambda>s. Inr (isSubDir (Getwd OS s) file_name (gentxsDir args i)))) (\<lambda>yes.
       case yes of
         Inl e \<Rightarrow> lift (if is_panic e then Inl e else Inr ())
       | Inr True \<Rightarrow> lift (Inr ())
       | Inr False \<Rightarrow> dropS (copyFile OS file_name (gentxsDir args i)))"

definition copyGentxs :: "'s os \<Rightarrow> 'c initArgs \<Rightarrow> string list \<Rightarrow> ('s, unit) act" where
  "copyGentxs OS args gentxs =
     forS (\<lambda>i. forS (copyGentx OS args i) gentxs) [0..<nat (numValidators args)]"


section \<open>Genesis files\<close>

text \<open>The bank's genesis: balances and the supply that \<open>Supply.Add\<close> accumulates.\<close>

record ('c, 'sup) bank_genesis =
  Balances :: "(string \<times> 'c list) list"
  SupplyCoins :: 'sup

record ('s, 'c, 'pk, 'auth, 'sup) genesis_ops =
  authModule :: string
  bankModule :: string
  DefaultGenesisState :: "string \<Rightarrow> bytes option"
  UnmarshalAuth :: "bytes option \<Rightarrow> 'auth ext"
  PackAccounts :: "bytes list \<Rightarrow> 'auth \<Rightarrow> 'auth ext"
  MarshalAuth :: "'auth \<Rightarrow> bytes ext"
  UnmarshalBank :: "bytes option \<Rightarrow> ('c, 'sup) bank_genesis ext"
  SanitizeBalances :: "(string \<times> 'c list) list \<Rightarrow> (string \<times> 'c list) list"
  SupplyAdd :: "'sup \<Rightarrow> 'c list \<Rightarrow> 'sup"
  MarshalBank :: "('c, 'sup) bank_genesis \<Rightarrow> bytes ext"
  MarshalGenesis :: "(string \<Rightarrow> bytes option) \<Rightarrow> bytes ext"
  SaveAs :: "string \<Rightarrow> bytes \<Rightarrow> string \<Rightarrow> 's \<Rightarrow> 's \<times> unit ext"
  AppGenesisFromFile :: "string \<Rightarrow> 's \<Rightarrow> bytes ext"
  GenAppStateFromConfig :: "node_config \<Rightarrow> string \<Rightarrow> string \<Rightarrow> string \<Rightarrow> 'pk \<Rightarrow> bytes \<Rightarrow> 's \<Rightarrow> 's \<times> bytes ext"
  WriteConfigToml :: "string \<Rightarrow> node_config \<Rightarrow> 's \<Rightarrow> 's \<times> unit ext"
  ExportGenesisFileWithTime :: "string \<Rightarrow> string \<Rightarrow> bytes \<Rightarrow> int \<Rightarrow> 's \<Rightarrow> 's \<times> unit ext"

definition fundBalances ::
  "('s, 'c, 'pk, 'auth, 'sup) genesis_ops \<Rightarrow> (string \<times> 'c list) list \<Rightarrow> ('c, 'sup) bank_genesis \<Rightarrow>
   ('c, 'sup) bank_genesis" where
  "fundBalances G genBals b =
     (let b1 = b\<lparr>Balances := SanitizeBalances G genBals\<rparr>
      in b1\<lparr>SupplyCoins := foldl (\<lambda>s (_, coins). SupplyAdd G s coins) (SupplyCoins b1) (Balances b1)\<rparr>)"

definition index :: "'a list \<Rightarrow> nat \<Rightarrow> 'a res" where
  "index xs i = (if i < length xs then Inr (xs ! i) else Inl (Panic ''index out of range''))"

definition initGenFiles ::
  "('s, 'c, 'pk, 'auth, 'sup) genesis_ops \<Rightarrow> string \<Rightarrow> bytes list \<Rightarrow> (string \<times> 'c list) list \<Rightarrow> string list \<Rightarrow>
   int \<Rightarrow> ('s, unit) act" where
  "initGenFiles G chain accounts genBals genFileNames n =
     (let st0 = DefaultGenesisState G in
      bindS (lift (ext (UnmarshalAuth G (st0 (authModule G))))) (\<lambda>auth.
      bindS (lift (ext (PackAccounts G accounts auth))) (\<lambda>auth'.
      bindS (lift (ext (MarshalAuth G auth'))) (\<lambda>authJSON.
      let st1 = st0(authModule G \<mapsto> authJSON) in
      bindS (lift (ext (UnmarshalBank G (st1 (bankModule G))))) (\<lambda>bank.
      bindS (lift (ext (MarshalBank G (fundBalances G genBals bank)))) (\<lambda>bankJSON.
      bindS (lift (ext (MarshalGenesis G (st1(bankModule G \<mapsto> bankJSON))))) (\<lambda>appState.
        forS (\<lambda>i. bindS (lift (index genFileNames i)) (\<lambda>f. call (SaveAs G chain appState f)))
          [0..<nat n])))))))"

text \<open>
  One node of \<open>collectGenFiles\<close>: the first node's application state becomes the canonical one,
  which every node's genesis file gets with the same time.
\<close>

definition collectNode ::
  "('s, 'c, 'kb, 'al, 'pk, 'tx) node_ops \<Rightarrow> ('s, 'c, 'pk, 'auth, 'sup) genesis_ops \<Rightarrow> 'c initArgs \<Rightarrow>
   ('c, 'pk) progress \<Rightarrow> int \<Rightarrow> nat \<Rightarrow> node_config \<times> bytes option \<Rightarrow>
   ('s, node_config \<times> bytes option) act" where
  "collectNode N G args g genTime i acc =
     (let (cfg0, appState) = acc;
          cfg = cfg0\<lparr>Moniker := nodeDirName args i, RootDir := nodeDir args i\<rparr> in
      bindS (lift (index (nodeIDs g) i)) (\<lambda>nodeID.
      bindS (lift (index (valPubKeys g) i)) (\<lambda>pk.
      bindS (readS (\<lambda>s. ext (AppGenesisFromFile G (GenesisFile N cfg) s))) (\<lambda>appGenesis.
      bindS (call (GenAppStateFromConfig G cfg (chainID args) (gentxsDir args i) nodeID pk appGenesis))
        (\<lambda>nodeAppState.
      let cfg' = collectConfig args (persistentPeers g) i cfg;
          st = (case appState of None \<Rightarrow> nodeAppState | Some a \<Rightarrow> a) in
      bindS (dropS (call (WriteConfigToml G (Join [RootDir cfg', ''config'', ''config.toml'']) cfg'))) (\<lambda>_.
      bindS (call (ExportGenesisFileWithTime G (GenesisFile N cfg') (chainID args) st genTime)) (\<lambda>_.
        lift (Inr (cfg', Some st)))))))))"

fun collectGenFiles ::
  "('s, 'c, 'kb, 'al, 'pk, 'tx) node_ops \<Rightarrow> ('s, 'c, 'pk, 'auth, 'sup) genesis_ops \<Rightarrow> 'c initArgs \<Rightarrow>
   ('c, 'pk) progress \<Rightarrow> int \<Rightarrow> nat list \<Rightarrow> node_config \<times> bytes option \<Rightarrow> ('s, unit) act" where
  "collectGenFiles N G args g genTime [] acc = lift (Inr ())"
| "collectGenFiles N G args g genTime (i # is) acc =
     bindS (collectNode N G args g genTime i acc) (\<lambda>acc'. collectGenFiles N G args g genTime is acc')"

section \<open>The command\<close>

definition initTestnetFiles ::
  "'s os \<Rightarrow> ('s, 'c, 'kb, 'al, 'pk, 'tx) node_ops \<Rightarrow> ('s, 'c, 'pk, 'auth, 'sup) genesis_ops \<Rightarrow>
   (nat \<Rightarrow> nat) \<Rightarrow> int \<Rightarrow> app_config \<Rightarrow> node_config \<Rightarrow> 'c initArgs \<Rightarrow> ('s, unit) act" where
  "initTestnetFiles OS N G draw genTime dfltApp nodeConfig args0 =
     (let args = (if chainID args0 = '''' then args0\<lparr>chainID := ''chain-'' @ generateRandomString draw 6\<rparr>
                  else args0);
          n = numValidators args in
      if n < 0 then lift (Inl (Panic ''makeslice: len out of range''))
      else
        bindS (initNodes OS N args [0..<nat n]
            \<lparr>nodeCfg = nodeConfig, appCfg = testnetAppConfig (bondDenom N) args dfltApp, nodeIDs = [],
             valPubKeys = [], genAccounts = [], genBalances = [], genFiles = [], persistentPeers = '''',
             gentxsFiles = []\<rparr>) (\<lambda>g.
        bindS (initGenFiles G (chainID args) (genAccounts g) (genBalances g) (genFiles g) n) (\<lambda>_.
        bindS (copyGentxs OS args (gentxsFiles g)) (\<lambda>_.
          collectGenFiles N G args g genTime [0..<nat n] (nodeCfg g, None)))))"

text \<open>\<open>RunE\<close>: a client context, then the arguments, then the files.\<close>

definition multiNodeRun ::
  "'s os \<Rightarrow> ('s, 'c, 'kb, 'al, 'pk, 'tx) node_ops \<Rightarrow> ('s, 'c, 'pk, 'auth, 'sup) genesis_ops \<Rightarrow>
   (nat \<Rightarrow> nat) \<Rightarrow> int \<Rightarrow> app_config \<Rightarrow> node_config \<Rightarrow> unit ext \<Rightarrow> (string \<Rightarrow> 'i option) \<Rightarrow>
   ('i \<Rightarrow> 'c ext) \<Rightarrow> flags \<Rightarrow> ('s, unit) act" where
  "multiNodeRun OS N G draw genTime dfltApp nodeConfig clientCtx parse newCoin f =
     bindS (lift (ext clientCtx)) (\<lambda>_.
     bindS (lift (parseArgs parse newCoin f)) (\<lambda>args.
       initTestnetFiles OS N G draw genTime dfltApp nodeConfig args))"


section \<open>Parsing\<close>

lemma portLoop_alt:
  "portLoop ps idx m i = (if idx \<le> i \<and> i < idx + length ps then Some (ps ! (i - idx)) else m i)"
  by (induction ps arbitrary: idx m) (auto simp: nth_Cons')

lemma stakeLoop_alt:
  assumes "\<forall>a. \<exists>c. newCoin a = Inr c"
  shows "stakeLoop parse newCoin amounts idx m = Inr (\<lambda>i.
    if idx \<le> i \<and> i < idx + length (List.map_filter parse amounts)
    then Some (projr (newCoin (List.map_filter parse amounts ! (i - idx)))) else m i)"
proof (induction amounts arbitrary: idx m)
  case Nil
  then show ?case by (auto simp: map_filter_simps fun_eq_iff)
next
  case (Cons x xs)
  show ?case
  proof (cases "parse x")
    case None
    then have "List.map_filter parse (x # xs) = List.map_filter parse xs" by (simp add: map_filter_simps)
    with None show ?thesis by (simp add: Cons cong: if_cong)
  next
    case (Some a)
    obtain c where c: "newCoin a = Inr c" using assms by blast
    show ?thesis
      using Cons Some c by (auto simp: map_filter_simps fun_eq_iff nth_Cons')
  qed
qed

section \<open>Properties\<close>

definition service_port :: "nat \<Rightarrow> nat \<Rightarrow> int" where
  "service_port k i =
     [26656 - 3 * int i, 26657 - 3 * int i, 26658 - 3 * int i, 26660 + int i, 9090 - 2 * int i, 1317 - int i] ! k"

lemma service_port_cases:
  assumes "k < 6"
  shows "(k = 0 \<and> service_port k i = 26656 - 3 * int i) \<or> (k = 1 \<and> service_port k i = 26657 - 3 * int i) \<or>
    (k = 2 \<and> service_port k i = 26658 - 3 * int i) \<or> (k = 3 \<and> service_port k i = 26660 + int i) \<or>
    (k = 4 \<and> service_port k i = 9090 - 2 * int i) \<or> (k = 5 \<and> service_port k i = 1317 - int i)"
proof -
  from assms consider "k = 0" | "k = 1" | "k = 2" | "k = 3" | "k = 4" | "k = 5" by linarith
  then show ?thesis by cases (simp_all add: service_port_def)
qed

lemma service_port_range:
  assumes "k < 6" "i < 1317" shows "1 \<le> service_port k i \<and> service_port k i \<le> 65535"
  using service_port_cases [OF assms(1), of i] assms(2)
  by (elim disjE conjE) (simp_all only:, linarith+)

lemma service_port_inj:
  assumes "k < 6" "l < 6" "i < 1317" "j < 1317" "service_port k i = service_port l j"
  shows "k = l \<and> i = j"
  using service_port_cases [OF assms(1), of i] service_port_cases [OF assms(2), of j] assms(3-5)
  by (elim disjE; simp; presburger)

text \<open>
  C34. Ports: with the default ports and at most 1317 validators, every port the configurations of the nodes
  name (peer to peer, RPC, proxied application, Prometheus, gRPC, REST) lies between 1
  and 65535, and no two of them are equal, across services and across nodes.
\<close>

theorem default_ports_distinct:
  assumes "parseArgs parse newCoin f = Inr args" "f_ports f = ''''" "f_numValidators f \<le> 1317"
    and "i < nat (f_numValidators f)"
  shows "RPC_ListenAddress (collectConfig args peers i cfg) = ''tcp://127.0.0.1:'' @ Itoa (service_port 1 i) \<and>
    P2P_ListenAddress (collectConfig args peers i cfg) = ''tcp://0.0.0.0:'' @ Itoa (service_port 0 i) \<and>
    ProxyApp (collectConfig args peers i cfg) = ''tcp://127.0.0.1:'' @ Itoa (service_port 2 i) \<and>
    PrometheusListenAddr (collectConfig args peers i cfg) = '':'' @ Itoa (service_port 3 i) \<and>
    GRPC_Address (nodeAppConfig args i acfg) = startingIPAddress args @ '':'' @ Itoa (service_port 4 i) \<and>
    API_Address (nodeAppConfig args i acfg) = ''tcp://localhost:'' @ Itoa (service_port 5 i) \<and>
    (\<forall>k < 6. 1 \<le> service_port k i \<and> service_port k i \<le> 65535) \<and>
    (\<forall>k < 6. \<forall>l < 6. \<forall>j < nat (f_numValidators f). service_port k i = service_port l j \<longrightarrow> k = l \<and> i = j)"
proof -
  have i: "i < 1317" using assms(3,4) by linarith
  have p: "ports args = portLoop (defaultPorts (f_numValidators f)) 0 Map.empty"
    using assms(1,2) by (auto simp: parseArgs_def bindR_Inr_conv parsePorts_def)
  have "portOf args i = Itoa (26657 - 3 * int i)"
    using assms(4) unfolding portOf_def p portLoop_alt by (simp add: defaultPorts_def)
  moreover have "service_port 0 i = 26656 - 3 * int i" "service_port 1 i = 26657 - 3 * int i"
      "service_port 2 i = 26658 - 3 * int i" "service_port 3 i = 26660 + int i"
      "service_port 4 i = 9090 - 2 * int i" "service_port 5 i = 1317 - int i"
    by (simp_all add: service_port_def)
  moreover have "\<forall>k < 6. \<forall>l < 6. \<forall>j < nat (f_numValidators f).
      service_port k i = service_port l j \<longrightarrow> k = l \<and> i = j"
  proof (intro allI impI)
    fix k l j :: nat
    assume "k < 6" "l < 6" "j < nat (f_numValidators f)" "service_port k i = service_port l j"
    moreover from this(3) assms(3) have "j < 1317" by linarith
    ultimately show "k = l \<and> i = j" using service_port_inj i by blast
  qed
  ultimately show ?thesis
    using service_port_range [OF _ i] by (simp add: collectConfig_def nodeAppConfig_def)
qed


definition sample_flags :: flags where
  "sample_flags = (defaultFlags ''stake'' ''secp256k1'')\<lparr>f_stakes := ''7,x,5''\<rparr>"

definition sample_args :: "int initArgs" where
  "sample_args = (case parseArgs parseInt Inr sample_flags of Inr a \<Rightarrow> a)"

lemma sample_parseArgs: "parseArgs parseInt Inr sample_flags = Inr sample_args"
  by (simp add: sample_args_def parseArgs_def stakeLoop_alt)

theorem default_ports_distinct_witness:
  "P2P_ListenAddress (collectConfig sample_args [] 3
     \<lparr>RootDir = [], Moniker = [], RPC_ListenAddress = [], PersistentPeers = [], AllowDuplicateIP = False,
      P2P_ListenAddress = [], ProxyApp = [], PrometheusListenAddr = [], Prometheus = False\<rparr>) =
   ''tcp://0.0.0.0:'' @ Itoa 26647"
proof -
  have f: "f_ports sample_flags = ''''" "f_numValidators sample_flags \<le> 1317"
      "3 < nat (f_numValidators sample_flags)"
    by (simp_all add: sample_flags_def defaultFlags_def)
  show ?thesis
    using default_ports_distinct [OF sample_parseArgs f, of "[]"] by (simp add: service_port_def)
qed

text \<open>
  Stakes and ports from flags: the amount of validator \<open>i\<close> is the \<open>i\<close>-th amount of the list that is a
  number (an invalid amount is dropped and shifts the later ones, it does not fall back to a
  default in place), and a list of ports gives validator \<open>i\<close> the \<open>i\<close>-th of them.
\<close>

lemma flag_lists_parsed:
  assumes "\<forall>a. \<exists>c. newCoin a = Inr c" "parseArgs parse newCoin f = Inr args"
    and "f_ports f = joinWith (CHR '','') ps" "f_ports f \<noteq> ''''" "ps \<noteq> []" "\<forall>p \<in> set ps. CHR '','' \<notin> set p"
  shows "(\<forall>i. validatorsStakesAmount args i =
      (let as = List.map_filter parse (splitOn (CHR '','') (f_stakes f))
       in if i < length as then Some (projr (newCoin (as ! i))) else None)) \<and>
    (\<forall>i. portOf args i = (if i < length ps then ps ! i else ''''))"
proof -
  have "splitOn (CHR '','') (f_ports f) = ps"
    unfolding assms(3) by (rule splitOn_joinWith [OF assms(5,6)])
  then have "ports args = portLoop ps 0 Map.empty"
    using assms(2,4) by (auto simp: parseArgs_def bindR_Inr_conv parsePorts_def)
  moreover have "validatorsStakesAmount args = (\<lambda>i.
      if 0 \<le> i \<and> i < 0 + length (List.map_filter parse (splitOn (CHR '','') (f_stakes f)))
      then Some (projr (newCoin (List.map_filter parse (splitOn (CHR '','') (f_stakes f)) ! (i - 0)))) else None)"
    using assms(2) by (auto simp: parseArgs_def bindR_Inr_conv stakeLoop_alt [OF assms(1)])
  ultimately show ?thesis by (simp add: portOf_def portLoop_alt Let_def)
qed

text \<open>
  The minimum gas price of the flag has no effect: whatever it is, every node's application configuration gets
  the fixed price, because the embedded field is assigned twice.
\<close>

lemma min_gas_price_flag_ignored:
  "testnetAppConfig denom (args\<lparr>minGasPrices := x\<rparr>) dflt = testnetAppConfig denom args dflt \<and>
   MinGasPrices (nodeAppConfig args i (testnetAppConfig denom args dflt)) = ''0.0001'' @ denom"
  by (simp add: testnetAppConfig_def nodeAppConfig_def)

section \<open>Peers, paths and genesis\<close>

lemma addPeer_foldl:
  "\<forall>m \<in> set ms. m \<noteq> '''' \<Longrightarrow> peers \<noteq> [] \<Longrightarrow> \<forall>m \<in> set peers. m \<noteq> '''' \<Longrightarrow>
   foldl addPeer (joinWith (CHR '','') peers) ms = joinWith (CHR '','') (peers @ ms)"
proof (induction ms arbitrary: peers)
  case (Cons m ms)
  have ne: "joinWith (CHR '','') peers \<noteq> ''''"
    using Cons.prems(2,3) by (cases peers; cases "tl peers") auto
  have "joinWith (CHR '','') peers @ CHR '','' # m = joinWith (CHR '','') (peers @ [m])"
    using Cons.prems(2)
  proof (induction "CHR '',''" peers rule: joinWith.induct)
    case (3 x y ys)
    then show ?case by (cases "ys @ [m]") auto
  qed simp_all
  then have "addPeer (joinWith (CHR '','') peers) m = joinWith (CHR '','') (peers @ [m])"
    using ne by (simp add: addPeer_def)
  then show ?case using Cons.IH [of "peers @ [m]"] Cons.prems by simp
qed simp

lemma hasPrefix_joinWith:
  "name t \<Longrightarrow> hasPrefix (joinWith slash (t # ts)) ''..'' \<longleftrightarrow> hasPrefix t ''..''"
  by (cases ts; cases t; cases "tl t") (auto simp: hasPrefix_def name_def)

lemma isSubDir_render:
  assumes "list_all name cs" "list_all name ds" "dropCommon ds cs = (bs, ts)"
  shows "isSubDir wd (render True cs) (render True ds) =
    Inr (bs = [] \<and> (ts = [] \<or> \<not> hasPrefix (hd ts) ''..''))"
proof -
  obtain p where p: "ds = p @ bs" "cs = p @ ts" using dropCommon_props [OF assms(3)] by blast
  have n: "list_all name bs" "list_all name ts" using assms(1,2) p by auto
  have "\<not> (bs \<noteq> [] \<and> hd bs = ''..'')" using n(1) by (cases bs) (auto simp: name_def)
  then have r: "Rel (render True ds) (render True cs) =
      Inr (render False (replicate (length bs) ''..'' @ ts))"
    using assms by (auto simp: Rel_def components_render_abs)
  have s: "isSubDir wd (render True cs) (render True ds) =
      Inr (\<not> hasPrefix (render False (replicate (length bs) ''..'' @ ts)) ''..'' \<and>
           \<not> IsAbs (render False (replicate (length bs) ''..'' @ ts)))"
    using assms(1,2) by (simp add: isSubDir_def Abs_render r)
  show ?thesis
  proof (cases bs)
    case (Cons b bs')
    have "hasPrefix (joinWith slash (''..'' # xs)) ''..''" for xs
      by (cases xs) (simp_all add: hasPrefix_def)
    with Cons s show ?thesis by (simp add: render_def)
  next
    case Nil
    show ?thesis
    proof (cases ts)
      case Nil
      with \<open>bs = []\<close> s show ?thesis by (simp add: render_def hasPrefix_def IsAbs_def)
    next
      case (Cons t ts')
      then have "name t" using n(2) by simp
      moreover from this have "\<not> IsAbs (joinWith slash (t # ts'))"
        by (cases t; cases ts') (auto simp: IsAbs_def name_def)
      ultimately show ?thesis
        using Cons \<open>bs = []\<close> s hasPrefix_joinWith [of t ts'] by (simp add: render_def)
    qed
  qed
qed

text \<open>
  C35. A path is inside a directory exactly when its components extend the directory's and what
  follows does not begin with two dots: so the code recognises a node's own transaction file, does not take another
  node's directory for its own, and only errs on file names that begin with two dots.
\<close>

theorem isSubDir_decides:
  assumes "list_all name cs" "list_all name ds"
  shows "isSubDir wd (render True cs) (render True ds) =
    Inr (\<exists>ts. cs = ds @ ts \<and> (ts = [] \<or> \<not> hasPrefix (hd ts) ''..''))"
proof -
  obtain bs ts where d: "dropCommon ds cs = (bs, ts)" by fastforce
  obtain p where p: "ds = p @ bs" "cs = p @ ts" "bs = [] \<or> ts = [] \<or> hd bs \<noteq> hd ts"
    using dropCommon_props [OF d] by blast
  have "bs = []" if "cs = ds @ ts0" for ts0
    using that p by (cases bs) auto
  then have "(\<exists>ts. cs = ds @ ts \<and> (ts = [] \<or> \<not> hasPrefix (hd ts) ''..'')) \<longleftrightarrow>
      bs = [] \<and> (ts = [] \<or> \<not> hasPrefix (hd ts) ''..'')"
    using p by auto
  then show ?thesis using isSubDir_render [OF assms d] by simp
qed

theorem isSubDir_decides_witness:
  "isSubDir (Inl (Failed [])) ''/net/v0/gentx/a.json'' ''/net/v0/gentx'' = Inr True \<and>
   isSubDir (Inl (Failed [])) ''/net/v1/gentx/a.json'' ''/net/v0/gentx'' = Inr False \<and>
   isSubDir (Inl (Failed [])) ''/net/v0/gentx/..a'' ''/net/v0/gentx'' = Inr False"
proof -
  have n: "list_all name [''net'', ''v0'', ''gentx'', ''a.json'']" "list_all name [''net'', ''v0'', ''gentx'']"
    "list_all name [''net'', ''v1'', ''gentx'', ''a.json'']" "list_all name [''net'', ''v0'', ''gentx'', ''..a'']"
    by (simp_all add: name_def)
  show ?thesis
    using isSubDir_decides [OF n(1,2), of "Inl (Failed [])"] isSubDir_decides [OF n(3,2), of "Inl (Failed [])"]
      isSubDir_decides [OF n(4,2), of "Inl (Failed [])"]
    by (simp add: render_def hasPrefix_def)
qed

text \<open>
  The supply of the genesis file is the sum of the balances: after funding, the supply in each
  denomination has grown by the total of the balances that were written.
\<close>

lemma genesis_supply_is_sum:
  assumes "\<And>s cs d. amt (SupplyAdd G s cs) d = (amt s d + tot cs d :: int)"
  shows "amt (SupplyCoins (fundBalances G bals b)) d =
      amt (SupplyCoins b) d + (\<Sum>(a, cs) \<leftarrow> Balances (fundBalances G bals b). tot cs d) \<and>
    Balances (fundBalances G bals b) = SanitizeBalances G bals"
proof -
  have "amt (foldl (\<lambda>s (_, coins). SupplyAdd G s coins) s xs) d =
      amt s d + (\<Sum>(a, cs) \<leftarrow> xs. tot cs d)" for s xs
    by (induction xs arbitrary: s) (auto simp: assms)
  then show ?thesis by (simp add: fundBalances_def Let_def)
qed

definition sample_genesis_ops :: "(unit, int, unit, unit, int) genesis_ops" where
  "sample_genesis_ops = \<lparr>authModule = ''auth'', bankModule = ''bank'', DefaultGenesisState = \<lambda>_. None,
     UnmarshalAuth = \<lambda>_. Inr (), PackAccounts = \<lambda>_ _. Inr (), MarshalAuth = \<lambda>_. Inr [],
     UnmarshalBank = \<lambda>_. Inr \<lparr>Balances = [], SupplyCoins = 0\<rparr>, SanitizeBalances = \<lambda>b. b,
     SupplyAdd = \<lambda>s cs. s + sum_list cs, MarshalBank = \<lambda>_. Inr [], MarshalGenesis = \<lambda>_. Inr [],
     SaveAs = \<lambda>_ _ _ s. (s, Inr ()), AppGenesisFromFile = \<lambda>_ _. Inr [],
     GenAppStateFromConfig = \<lambda>_ _ _ _ _ _ s. (s, Inr []), WriteConfigToml = \<lambda>_ _ s. (s, Inr ()),
     ExportGenesisFileWithTime = \<lambda>_ _ _ _ s. (s, Inr ())\<rparr>"

section \<open>The nodes together\<close>

lemma initNode_success:
  assumes "initNode OS N args i g s = (s', Inr g')"
  shows "\<exists>nodeID pk addr. nodeIDs g' = nodeIDs g @ [nodeID] \<and> valPubKeys g' = valPubKeys g @ [pk] \<and>
    genAccounts g' = genAccounts g @ [addr] \<and>
    persistentPeers g' = addPeer (persistentPeers g) (memoOf args nodeID i) \<and>
    genFiles g' = genFiles g @ [GenesisFile N (initConfig args i (nodeCfg g))] \<and>
    gentxsFiles g' = gentxsFiles g @
      [Join [Join [outputDir args, nodeDirName args i, ''config'', ''gentx''], ''gentx-'' @ nodeID @ ''.json'']]"
  using assms unfolding initNode_def Let_def bindS_Inr_iff
  by (clarsimp simp: bindS_Inr_iff lift_def)

lemma initNodes_success:
  "initNodes OS N args is g s = (s', Inr g') \<Longrightarrow>
   \<exists>ids. length ids = length is \<and> nodeIDs g' = nodeIDs g @ ids \<and>
     length (valPubKeys g') = length (valPubKeys g) + length is \<and>
     length (genFiles g') = length (genFiles g) + length is \<and>
     length (gentxsFiles g') = length (gentxsFiles g) + length is \<and>
     persistentPeers g' = foldl addPeer (persistentPeers g) (map2 (memoOf args) ids is)"
proof (induction "is" arbitrary: g s)
  case Nil
  then show ?case by (simp add: lift_def)
next
  case (Cons i "is")
  then obtain g1 s1 where 1: "initNode OS N args i g s = (s1, Inr g1)"
      "initNodes OS N args is g1 s1 = (s', Inr g')"
    by (auto simp: bindS_Inr_iff)
  from initNode_success [OF 1(1)] obtain nodeID pk where
    n: "nodeIDs g1 = nodeIDs g @ [nodeID]" "valPubKeys g1 = valPubKeys g @ [pk]"
      "persistentPeers g1 = addPeer (persistentPeers g) (memoOf args nodeID i)"
      "length (genFiles g1) = Suc (length (genFiles g))"
      "length (gentxsFiles g1) = Suc (length (gentxsFiles g))" by auto
  from Cons.IH [OF 1(2)] obtain ids where "length ids = length is" "nodeIDs g' = nodeIDs g1 @ ids"
      "length (valPubKeys g') = length (valPubKeys g1) + length is"
      "length (genFiles g') = length (genFiles g1) + length is"
      "length (gentxsFiles g') = length (gentxsFiles g1) + length is"
      "persistentPeers g' = foldl addPeer (persistentPeers g1) (map2 (memoOf args) ids is)" by blast
  with n show ?case by (intro exI [of _ "nodeID # ids"]) simp
qed

lemma memoOf_not_Nil [simp]: "memoOf args nid i \<noteq> ''''"
  by (simp add: memoOf_def)

text \<open>
  The peer list is complete: if every node's directory was made, there is one identity, one key, one genesis
  file and one transaction file per node, and the persistent peers are the comma-separated addresses of all nodes
  in order, each with its node's peer-to-peer port.
\<close>

lemma peers_list_complete:
  assumes "initNodes OS N args [0..<n] g s = (s', Inr g')" "0 < n"
    and "nodeIDs g = []" "valPubKeys g = []" "genFiles g = []" "gentxsFiles g = []" "persistentPeers g = ''''"
  shows "\<exists>ids. nodeIDs g' = ids \<and> length ids = n \<and> length (valPubKeys g') = n \<and>
    length (genFiles g') = n \<and> length (gentxsFiles g') = n \<and>
    persistentPeers g' = joinWith (CHR '','')
      (map2 (\<lambda>nid i. nid @ ''@'' @ startingIPAddress args @ '':'' @ Itoa (26656 - 3 * int i)) ids [0..<n])"
proof -
  obtain ids where ids: "length ids = n" "nodeIDs g' = ids" "length (valPubKeys g') = n"
      "length (genFiles g') = n" "length (gentxsFiles g') = n"
      "persistentPeers g' = foldl addPeer '''' (map2 (memoOf args) ids [0..<n])"
    using initNodes_success [OF assms(1)] assms(3-7) by auto
  obtain m ms where ms: "map2 (memoOf args) ids [0..<n] = m # ms"
    using ids(1) assms(2) by (cases "map2 (memoOf args) ids [0..<n]") auto
  have all: "\<forall>x \<in> set (m # ms). x \<noteq> ''''"
    unfolding ms [symmetric] by auto
  have "persistentPeers g' = foldl addPeer (joinWith (CHR '','') [m]) ms"
    using ids(6) ms by (simp add: addPeer_def)
  also have "\<dots> = joinWith (CHR '','') ([m] @ ms)"
    using all by (intro addPeer_foldl) auto
  finally have "persistentPeers g' = joinWith (CHR '','') (map2 (memoOf args) ids [0..<n])"
    using ms by simp
  moreover have "memoOf args = (\<lambda>nid i. nid @ ''@'' @ startingIPAddress args @ '':'' @ Itoa (26656 - 3 * int i))"
    by (simp add: memoOf_def fun_eq_iff)
  ultimately show ?thesis using ids by metis
qed


text \<open>An operating system that accepts everything and keys named after their node.\<close>

type_synonym disk = "(string \<times> bytes) list"

definition sample_os :: "disk os" where
  "sample_os = \<lparr>MkdirAll = \<lambda>_ s. (s, Inr ()), RemoveAll = \<lambda>_ _. [], WriteFile = \<lambda>f c s. ((f, c) # s, Inr ()),
     Open = \<lambda>f s. (case map_of s f of None \<Rightarrow> Inl (Failed ''no such file'') | Some c \<Rightarrow> Inr c),
     Create = \<lambda>f s. ((f, []) # s, Inr ()), Copy = \<lambda>f c s. ((f, c) # s, Inr (length c)),
     Sync = \<lambda>_ s. (s, Inr ()), Getwd = \<lambda>_. Inr ''/net''\<rparr>"

definition sample_node_ops :: "(disk, int, unit, unit, unit, unit) node_ops" where
  "sample_node_ops =
     \<lparr>InitializeNodeValidatorFiles = \<lambda>cfg s. (s, Inr (''id-'' @ Moniker cfg, ())),
      GenesisFile = \<lambda>cfg. RootDir cfg @ ''/config/genesis.json'', NewKeyring = \<lambda>_ _ s. (s, Inr ()),
      SigningAlgo = \<lambda>_ _. Inr (), GenerateSaveCoinKey = \<lambda>_ _ _ s. (s, Inr ([], ''seed'')),
      MarshalSecret = \<lambda>x. Inr (bytes_of x), TokensFromPower = \<lambda>n. n, NewTokenCoin = \<lambda>_ n. Inr n,
      SortCoins = \<lambda>c. c, bondDenom = ''stake'', AccAddrString = string_of, ValAddrString = string_of,
      NewMsgCreateValidator = \<lambda>_ _ _ _. Inr (), SetMsgs = Inr, SignTx = \<lambda>_ _ _ _ t. Inr t,
      EncodeTx = \<lambda>_. Inr [1], WriteAppToml = \<lambda>_ _ s. (s, Inr ())\<rparr>"

definition empty_node :: node_config where
  "empty_node = \<lparr>RootDir = [], Moniker = [], RPC_ListenAddress = [], PersistentPeers = [],
     AllowDuplicateIP = False, P2P_ListenAddress = [], ProxyApp = [], PrometheusListenAddr = [],
     Prometheus = False\<rparr>"

definition empty_progress :: "(int, unit) progress" where
  "empty_progress = \<lparr>nodeCfg = empty_node,
     appCfg = \<lparr>MinGasPrices = [], API_Enable = False, EnableHostnameLabel = False, Telemetry_Enabled = False,
       PrometheusRetentionTime = 0, GRPC_Address = [], API_Address = []\<rparr>,
     nodeIDs = [], valPubKeys = [], genAccounts = [], genBalances = [], genFiles = [],
     persistentPeers = [], gentxsFiles = []\<rparr>"

lemma sample_initNode: "\<exists>g' s'. initNode sample_os sample_node_ops sample_args i g s = (s', Inr g')"
  by (simp add: initNode_def sample_os_def sample_node_ops_def cleanup_def writeFile_def signedTx_def
      stakeOf_def bindS_def lift_def dropS_def Let_def split: option.splits)

lemma sample_initNodes:
  "\<exists>g' s'. initNodes sample_os sample_node_ops sample_args is g s = (s', Inr g')"
proof (induction "is" arbitrary: g s)
  case (Cons i "is")
  obtain g1 s1 where "initNode sample_os sample_node_ops sample_args i g s = (s1, Inr g1)"
    using sample_initNode by blast
  then show ?case using Cons [of g1 s1] by (simp add: bindS_def)
qed (simp add: lift_def)

definition genesis_files_ok ::
  "('s, 'c, 'pk, 'auth, 'sup) genesis_ops \<Rightarrow> ('s \<Rightarrow> string \<Rightarrow> (string \<times> bytes \<times> int) option) \<Rightarrow> bool" where
  "genesis_files_ok G F \<longleftrightarrow>
     (\<forall>f chain st t s s'. ExportGenesisFileWithTime G f chain st t s = (s', Inr ()) \<longrightarrow>
        F s' = (F s)(f \<mapsto> (chain, st, t))) \<and>
     (\<forall>cfg chain d nid pk b s. F (fst (GenAppStateFromConfig G cfg chain d nid pk b s)) = F s) \<and>
     (\<forall>f cfg s. F (fst (WriteConfigToml G f cfg s)) = F s)"

lemma collectNode_success:
  assumes G: "genesis_files_ok G F" and N: "\<And>c. GenesisFile N c = gf (RootDir c)"
    and r: "collectNode N G args g genTime i (cfg, acc) s = (s', Inr (cfg', acc'))"
  shows "\<exists>st. acc' = Some st \<and> (acc \<noteq> None \<longrightarrow> acc = Some st) \<and>
    F s' = (F s)(gf (nodeDir args i) \<mapsto> (chainID args, st, genTime))"
proof -
  let ?cfg = "cfg\<lparr>Moniker := nodeDirName args i, RootDir := nodeDir args i\<rparr>"
  let ?cfg' = "collectConfig args (persistentPeers g) i ?cfg"
  from r obtain nid pk b s1 nas s2 where
    gen: "call (GenAppStateFromConfig G ?cfg (chainID args) (gentxsDir args i) nid pk b) s = (s1, Inr nas)"
    and wr: "dropS (call (WriteConfigToml G (Join [RootDir ?cfg', ''config'', ''config.toml'']) ?cfg')) s1 = (s2, Inr ())"
    and ex: "call (ExportGenesisFileWithTime G (GenesisFile N ?cfg') (chainID args)
        (case acc of None \<Rightarrow> nas | Some a \<Rightarrow> a) genTime) s2 = (s', Inr ())"
    and acc': "acc' = Some (case acc of None \<Rightarrow> nas | Some a \<Rightarrow> a)"
    unfolding collectNode_def Let_def bindS_Inr_iff prod.case
    by (clarsimp simp: bindS_Inr_iff lift_def readS_def)
  have "s1 = fst (GenAppStateFromConfig G ?cfg (chainID args) (gentxsDir args i) nid pk b s)"
    using gen by (metis fst_call fst_conv)
  then have 1: "F s1 = F s" using G by (simp add: genesis_files_ok_def)
  have "s2 = fst (WriteConfigToml G (Join [RootDir ?cfg', ''config'', ''config.toml'']) ?cfg' s1)"
    using wr by (metis fst_call fst_dropS fst_conv)
  then have 2: "F s2 = F s1" using G by (simp add: genesis_files_ok_def)
  have "F s' = (F s2)(GenesisFile N ?cfg' \<mapsto> (chainID args, case acc of None \<Rightarrow> nas | Some a \<Rightarrow> a, genTime))"
    using G ex unfolding call_Inr_iff genesis_files_ok_def by blast
  moreover have "GenesisFile N ?cfg' = gf (nodeDir args i)" by (simp add: N collectConfig_def)
  ultimately show ?thesis using 1 2 acc' by (auto split: option.splits)
qed


lemma collectGenFiles_success:
  assumes G: "genesis_files_ok G F" and N: "\<And>c. GenesisFile N c = gf (RootDir c)"
  shows "collectGenFiles N G args g genTime is (cfg, Some st) s = (s', Inr ()) \<Longrightarrow>
    F s' = (\<lambda>f. if f \<in> (\<lambda>i. gf (nodeDir args i)) ` set is then Some (chainID args, st, genTime) else F s f)"
proof (induction "is" arbitrary: cfg s)
  case Nil
  then show ?case by (auto simp: lift_def)
next
  case (Cons i "is")
  then obtain cfg1 acc1 s1 where 1: "collectNode N G args g genTime i (cfg, Some st) s = (s1, Inr (cfg1, acc1))"
      "collectGenFiles N G args g genTime is (cfg1, acc1) s1 = (s', Inr ())"
    by (auto simp: bindS_Inr_iff)
  from collectNode_success [OF G N 1(1)] have "acc1 = Some st"
      "F s1 = (F s)(gf (nodeDir args i) \<mapsto> (chainID args, st, genTime))" by auto
  with Cons.IH [of cfg1 s1] 1(2) show ?case by (auto simp: fun_eq_iff)
qed


text \<open>Genesis files alone: the state of a node's computation differs from node to node.\<close>

definition sample_collect_ops :: "(string \<Rightarrow> (string \<times> bytes \<times> int) option, int, unit, unit, int) genesis_ops" where
  "sample_collect_ops = \<lparr>authModule = ''auth'', bankModule = ''bank'', DefaultGenesisState = \<lambda>_. None,
     UnmarshalAuth = \<lambda>_. Inr (), PackAccounts = \<lambda>_ _. Inr (), MarshalAuth = \<lambda>_. Inr [],
     UnmarshalBank = \<lambda>_. Inr \<lparr>Balances = [], SupplyCoins = 0\<rparr>, SanitizeBalances = \<lambda>b. b,
     SupplyAdd = \<lambda>s cs. s + sum_list cs, MarshalBank = \<lambda>_. Inr [], MarshalGenesis = \<lambda>_. Inr [],
     SaveAs = \<lambda>_ _ _ s. (s, Inr ()), AppGenesisFromFile = \<lambda>_ _. Inr [],
     GenAppStateFromConfig = \<lambda>cfg _ _ _ _ _ s. (s, Inr (bytes_of (Moniker cfg))),
     WriteConfigToml = \<lambda>_ _ s. (s, Inr ()),
     ExportGenesisFileWithTime = \<lambda>f chain st t s. (s(f \<mapsto> (chain, st, t)), Inr ())\<rparr>"

definition sample_collect_nodes ::
  "(string \<Rightarrow> (string \<times> bytes \<times> int) option, int, unit, unit, unit, unit) node_ops" where
  "sample_collect_nodes =
     \<lparr>InitializeNodeValidatorFiles = \<lambda>cfg s. (s, Inr ([], ())),
      GenesisFile = \<lambda>cfg. RootDir cfg @ ''/config/genesis.json'', NewKeyring = \<lambda>_ _ s. (s, Inr ()),
      SigningAlgo = \<lambda>_ _. Inr (), GenerateSaveCoinKey = \<lambda>_ _ _ s. (s, Inr ([], ''seed'')),
      MarshalSecret = \<lambda>x. Inr [], TokensFromPower = \<lambda>n. n, NewTokenCoin = \<lambda>_ n. Inr n,
      SortCoins = \<lambda>c. c, bondDenom = ''stake'', AccAddrString = string_of, ValAddrString = string_of,
      NewMsgCreateValidator = \<lambda>_ _ _ _. Inr (), SetMsgs = Inr, SignTx = \<lambda>_ _ _ _ t. Inr t,
      EncodeTx = \<lambda>_. Inr [1], WriteAppToml = \<lambda>_ _ s. (s, Inr ())\<rparr>"


end
