(* ===== verification/CmdRoot.thy ===== *)
theory CmdRoot
  imports CmdFlags CmdTestnet CmdMultiNode
begin

text \<open>
  The program's entry: \<open>main.go\<close>, the root command of \<open>cmd/bluechipchaind/cmd/root.go\<close> with its pre-run hook, the
  tree of commands of \<open>commands.go\<close>, the configurations of \<open>config.go\<close>, and the \<open>init\<close> functions of
  \<open>app/app.go\<close> and \<open>app/config.go\<close>. Commands made by the SDK are the values of a parameter.
\<close>

section \<open>Commands of the SDK\<close>

text \<open>
  One constructor per library function that makes a command, with the arguments it is called
  with: the module manager \<open>'bm\<close>, the transaction configuration \<open>'tx\<close>, a function \<open>'cr\<close> that
  creates an application.
\<close>

datatype ('bm, 'tx, 'cr) lib_command =
    InitCmd 'bm string
  | InPlaceTestnetCreator 'cr
  | DebugCmd
  | ConfigCommand
  | PruningCmd 'cr string
  | SnapshotCmd 'cr
  | StatusCommand
  | GenutilCommands 'tx 'bm string
  | KeysCommands
  | QueryEventForTxCmd
  | ValidatorCommand
  | QueryBlockCmd
  | QueryTxsByEventsCmd
  | QueryBlocksCmd
  | QueryTxCmd
  | QueryBlockResultsCmd
  | GetSignCommand
  | GetSignBatchCommand
  | GetMultiSignCommand
  | GetMultiSignBatchCmd
  | GetValidateSignaturesCommand
  | LineBreak
  | GetBroadcastCommand
  | GetEncodeCommand
  | GetDecodeCommand
  | GetSimulateCmd

text \<open>What a command runs: \<open>client.ValidateCmd\<close>, the multi-node command, or the library's own.\<close>

datatype 'r runner = ValidateCmd | RunMultiNode | LibRun 'r

type_synonym 'r cmd = "(option_key, 'r runner) command"

record ('bm, 'tx, 'cr, 'ex, 'r) sdk_cli =
  libCommand :: "('bm, 'tx, 'cr) lib_command \<Rightarrow> 'r cmd"
  ServerAddCommands :: "'r cmd \<Rightarrow> string \<Rightarrow> 'cr \<Rightarrow> 'ex \<Rightarrow> ('r cmd \<Rightarrow> 'r cmd res) \<Rightarrow> 'r cmd res"
  CrisisAddModuleInitFlags :: "'r cmd \<Rightarrow> 'r cmd ext"
  WasmAddModuleInitFlags :: "'r cmd \<Rightarrow> 'r cmd ext"
  ExtendUnsafeResetAllCmd :: "'r cmd \<Rightarrow> 'r cmd ext"
  DefaultBondDenom :: string
  Secp256k1Type :: string

text \<open>The functions of this repository that the commands are given.\<close>

record ('cr, 'ex) app_funcs =
  fnNewApp :: 'cr
  fnNewTestnetApp :: 'cr
  fnAppExport :: 'ex

type_synonym ('s, 'ck, 'sk) creator = "appOptions \<Rightarrow> ('s, ('ck, 'sk, 's) App) act"
type_synonym 's app_exporter =
  "int \<Rightarrow> bool \<Rightarrow> string list \<Rightarrow> appOptions \<Rightarrow> string list \<Rightarrow> ('s, ExportedApp \<times> err option) act"

definition appFuncs ::
  "(appOptions \<Rightarrow> 's runtime) \<Rightarrow> (appOptions \<Rightarrow> ('ck, 'sk) calls) \<Rightarrow> (appOptions \<Rightarrow> string list) \<Rightarrow>
   (option_value \<Rightarrow> string) \<Rightarrow> (string \<Rightarrow> bytes ext) \<Rightarrow> ('s, 'h, 'any, 'i, 'dec, 'coins) ops \<Rightarrow>
   ('s, 'pool, 'coins) keepers \<Rightarrow> ('s \<Rightarrow> 's exporter) \<Rightarrow>
   (('s, 'ck, 'sk) creator, 's app_exporter) app_funcs" where
  "appFuncs R X defaultOptions toString fromBech32 T K exporterOf =
     \<lparr>fnNewApp = \<lambda>opts. newApp (R opts) (X opts) (defaultOptions opts),
      fnNewTestnetApp = \<lambda>opts.
        newTestnetApp (R opts) (X opts) (defaultOptions opts) toString fromBech32 T opts,
      fnAppExport = \<lambda>height forZeroHeight jailAllowedAddrs opts modulesToExport.
        appExport R X K exporterOf height forZeroHeight jailAllowedAddrs opts modulesToExport\<rparr>"

section \<open>Flags of the repository's commands\<close>

text \<open>An operation on the flags, or on the persistent flags, of a command.\<close>

definition onFlags ::
  "(('n \<Rightarrow> flag option) \<Rightarrow> ('n \<Rightarrow> flag option) ext) \<Rightarrow> ('n, 'r) command \<Rightarrow> ('n, 'r) command res" where
  "onFlags g c = bindR (ext (g (cmdFlags c))) (\<lambda>fs.
     Inr (Command (cmdUse c) (cmdAliases c) (cmdRunE c) fs (cmdPersistent c) (cmdCommands c)))"

definition onPersistent ::
  "(('n \<Rightarrow> flag option) \<Rightarrow> ('n \<Rightarrow> flag option) ext) \<Rightarrow> ('n, 'r) command \<Rightarrow> ('n, 'r) command res" where
  "onPersistent g c = bindR (ext (g (cmdPersistent c))) (\<lambda>fs.
     Inr (Command (cmdUse c) (cmdAliases c) (cmdRunE c) (cmdFlags c) fs (cmdCommands c)))"

definition flagNodeDirPrefix :: option_key where "flagNodeDirPrefix = OwnFlag ''node-dir-prefix''"
definition flagPorts :: option_key where "flagPorts = OwnFlag ''list-ports''"
definition flagNumValidators :: option_key where "flagNumValidators = OwnFlag ''v''"
definition flagOutputDir :: option_key where "flagOutputDir = OwnFlag ''output-dir''"
definition flagValidatorsStakeAmount :: option_key where
  "flagValidatorsStakeAmount = OwnFlag ''validators-stake-amount''"
definition flagStartingIPAddress :: option_key where
  "flagStartingIPAddress = OwnFlag ''starting-ip-address''"

text \<open>The old name of the key type's flag is still accepted.\<close>

definition normalizeName :: "option_key \<Rightarrow> option_key" where
  "normalizeName key = (if key = OwnFlag ''algo'' then FlagKeyType else key)"

definition addTestnetFlagsToCmd ::
  "(option_key, 'r) cobra \<Rightarrow> string \<Rightarrow> string \<Rightarrow> (option_key, 'r) command \<Rightarrow> (option_key, 'r) command res" where
  "addTestnetFlagsToCmd C denom keyType cmd =
     bindR (onFlags (DefineInt C flagNumValidators 4) cmd) (\<lambda>cmd.
     bindR (onFlags (DefineString C flagOutputDir ''./.testnets'') cmd) (\<lambda>cmd.
     bindR (onFlags (DefineString C FlagChainID '''') cmd) (\<lambda>cmd.
     bindR (onFlags (DefineString C FlagMinGasPrices (''0.0001'' @ denom)) cmd) (\<lambda>cmd.
     bindR (onFlags (DefineString C FlagKeyType keyType) cmd) (\<lambda>cmd.
       onFlags (\<lambda>fs. Inr (SetNormalizeFunc C normalizeName fs)) cmd)))))"

definition NewTestnetMultiNodeCmd ::
  "(option_key, 'r runner) cobra \<Rightarrow> string \<Rightarrow> string \<Rightarrow> 'r cmd res" where
  "NewTestnetMultiNodeCmd C denom keyType =
     bindR (addTestnetFlagsToCmd C denom keyType
       (Command ''multi-node'' [] (Some RunMultiNode) Map.empty Map.empty [])) (\<lambda>cmd.
     bindR (onFlags (DefineString C flagPorts '''') cmd) (\<lambda>cmd.
     bindR (onFlags (DefineString C flagNodeDirPrefix ''validator'') cmd) (\<lambda>cmd.
     bindR (onFlags (DefineString C flagValidatorsStakeAmount
       ''100000000,100000000,100000000,100000000'') cmd) (\<lambda>cmd.
     bindR (onFlags (DefineString C flagStartingIPAddress ''localhost'') cmd) (\<lambda>cmd.
       onFlags (DefineString C FlagKeyringBackend ''test'') cmd)))))"

text \<open>
  The reading of the flags when the command runs. The errors of six readers are dropped, which leaves an empty text
  or zero; the two lists are skipped if their flag cannot be read.
\<close>

definition getString :: "('n, 'r) cobra \<Rightarrow> ('n \<Rightarrow> flag option) \<Rightarrow> 'n \<Rightarrow> string" where
  "getString C fs key = (case GetString C fs key of Some s \<Rightarrow> s | None \<Rightarrow> '''')"

definition getInt :: "('n, 'r) cobra \<Rightarrow> ('n \<Rightarrow> flag option) \<Rightarrow> 'n \<Rightarrow> int" where
  "getInt C fs key = (case GetInt C fs key of Some i \<Rightarrow> i | None \<Rightarrow> 0)"

definition readFlags :: "(option_key, 'r) cobra \<Rightarrow> (option_key \<Rightarrow> flag option) \<Rightarrow> flags" where
  "readFlags C fs =
     \<lparr>f_algo = getString C fs FlagKeyType, f_chainID = getString C fs FlagChainID,
      f_keyringBackend = getString C fs FlagKeyringBackend, f_minGasPrices = getString C fs FlagMinGasPrices,
      f_nodeDirPrefix = getString C fs flagNodeDirPrefix, f_numValidators = getInt C fs flagNumValidators,
      f_outputDir = getString C fs flagOutputDir, f_startingIPAddress = getString C fs flagStartingIPAddress,
      f_stakes = getString C fs flagValidatorsStakeAmount, f_ports = getString C fs flagPorts\<rparr>"

definition multiNodeArgs ::
  "(option_key, 'r) cobra \<Rightarrow> (string \<Rightarrow> 'i option) \<Rightarrow> ('i \<Rightarrow> 'c ext) \<Rightarrow> (option_key \<Rightarrow> flag option) \<Rightarrow>
   'c initArgs res" where
  "multiNodeArgs C parse newCoin fs =
     (let f = readFlags C fs in
      bindR (case GetString C fs flagValidatorsStakeAmount of
               None \<Rightarrow> Inr Map.empty
             | Some s \<Rightarrow> stakeLoop parse newCoin (splitOn (CHR '','') s) 0 Map.empty) (\<lambda>stakes.
        Inr \<lparr>algo = f_algo f, chainID = f_chainID f, keyringBackend = f_keyringBackend f,
             minGasPrices = f_minGasPrices f, nodeDirPrefix = f_nodeDirPrefix f,
             numValidators = f_numValidators f, outputDir = f_outputDir f,
             startingIPAddress = f_startingIPAddress f, validatorsStakesAmount = stakes,
             ports = (case GetString C fs flagPorts of
                        None \<Rightarrow> Map.empty
                      | Some s \<Rightarrow> parsePorts (f_numValidators f) s)\<rparr>))"

section \<open>The tree of commands\<close>

definition addModuleInitFlags :: "('bm, 'tx, 'cr, 'ex, 'r) sdk_cli \<Rightarrow> 'r cmd \<Rightarrow> 'r cmd res" where
  "addModuleInitFlags S startCmd =
     bindR (ext (CrisisAddModuleInitFlags S startCmd)) (\<lambda>startCmd. ext (WasmAddModuleInitFlags S startCmd))"

text \<open>The texts that describe the command are left out.\<close>

definition NewInPlaceTestnetCmd ::
  "(option_key, 'r runner) cobra \<Rightarrow> ('bm, 'tx, 'cr, 'ex, 'r) sdk_cli \<Rightarrow> ('cr, 'ex) app_funcs \<Rightarrow>
   ('r cmd \<Rightarrow> 'r cmd res) \<Rightarrow> 'r cmd res" where
  "NewInPlaceTestnetCmd C S F addStartFlags =
     bindR (addStartFlags (libCommand S (InPlaceTestnetCreator (fnNewTestnetApp F)))) (\<lambda>cmd.
       onFlags (DefineString C flagAccountsToFund '''') cmd)"

fun addEach :: "('n, 'r) cobra \<Rightarrow> ('n, 'r) command \<Rightarrow> ('n, 'r) command list \<Rightarrow> ('n, 'r) command res" where
  "addEach C cmd [] = Inr cmd"
| "addEach C cmd (subCmd # cmds) = bindR (ext (AddCommand C cmd [subCmd])) (\<lambda>cmd. addEach C cmd cmds)"

definition genesisCommand ::
  "(option_key, 'r runner) cobra \<Rightarrow> ('bm, 'tx, 'cr, 'ex, 'r) sdk_cli \<Rightarrow> string \<Rightarrow> 'tx \<Rightarrow> 'bm \<Rightarrow>
   'r cmd list \<Rightarrow> 'r cmd res" where
  "genesisCommand C S home txConfig basicManager cmds =
     addEach C (libCommand S (GenutilCommands txConfig basicManager home)) cmds"

definition queryCommand ::
  "(option_key, 'r runner) cobra \<Rightarrow> ('bm, 'tx, 'cr, 'ex, 'r) sdk_cli \<Rightarrow> 'r cmd res" where
  "queryCommand C S =
     bindR (ext (AddCommand C (Command ''query'' [''q''] (Some ValidateCmd) Map.empty Map.empty [])
       (map (libCommand S) [QueryEventForTxCmd, ValidatorCommand, QueryBlockCmd, QueryTxsByEventsCmd,
          QueryBlocksCmd, QueryTxCmd, QueryBlockResultsCmd]))) (\<lambda>cmd.
       onPersistent (DefineString C FlagChainID '''') cmd)"

definition txCommand ::
  "(option_key, 'r runner) cobra \<Rightarrow> ('bm, 'tx, 'cr, 'ex, 'r) sdk_cli \<Rightarrow> 'r cmd res" where
  "txCommand C S =
     bindR (ext (AddCommand C (Command ''tx'' [] (Some ValidateCmd) Map.empty Map.empty [])
       (map (libCommand S) [GetSignCommand, GetSignBatchCommand, GetMultiSignCommand, GetMultiSignBatchCmd,
          GetValidateSignaturesCommand, LineBreak, GetBroadcastCommand, GetEncodeCommand, GetDecodeCommand,
          GetSimulateCmd]))) (\<lambda>cmd.
       onPersistent (DefineString C FlagChainID '''') cmd)"

text \<open>\<open>home\<close> is \<open>app.DefaultNodeHome\<close>.\<close>

definition initRootCmd ::
  "(option_key, 'r runner) cobra \<Rightarrow> ('bm, 'tx, 'cr, 'ex, 'r) sdk_cli \<Rightarrow> ('cr, 'ex) app_funcs \<Rightarrow> string \<Rightarrow>
   'r cmd \<Rightarrow> 'tx \<Rightarrow> 'bm \<Rightarrow> 'r cmd res" where
  "initRootCmd C S F home rootCmd txConfig basicManager =
     bindR (NewInPlaceTestnetCmd C S F (addModuleInitFlags S)) (\<lambda>inPlace.
     bindR (NewTestnetMultiNodeCmd C (DefaultBondDenom S) (Secp256k1Type S)) (\<lambda>multiNode.
     bindR (ext (AddCommand C rootCmd
       [libCommand S (InitCmd basicManager home), inPlace, multiNode, libCommand S DebugCmd,
        libCommand S ConfigCommand, libCommand S (PruningCmd (fnNewApp F) home),
        libCommand S (SnapshotCmd (fnNewApp F))])) (\<lambda>rootCmd.
     bindR (ServerAddCommands S rootCmd home (fnNewApp F) (fnAppExport F) (addModuleInitFlags S)) (\<lambda>rootCmd.
     bindR (genesisCommand C S home txConfig basicManager []) (\<lambda>genesis.
     bindR (queryCommand C S) (\<lambda>query.
     bindR (txCommand C S) (\<lambda>tx.
     bindR (ext (AddCommand C rootCmd
       [libCommand S StatusCommand, genesis, query, tx, libCommand S KeysCommands])) (\<lambda>rootCmd.
       ext (ExtendUnsafeResetAllCmd S rootCmd)))))))))"

text \<open>The tree with the overwritten defaults, before the generated commands are added to it.\<close>

definition rootTree ::
  "(option_key, 'r runner) cobra \<Rightarrow> ('bm, 'tx, 'cr, 'ex, 'r) sdk_cli \<Rightarrow> ('cr, 'ex) app_funcs \<Rightarrow> string \<Rightarrow>
   'tx \<Rightarrow> 'bm \<Rightarrow> 'r cmd res" where
  "rootTree C S F home txConfig basicManager =
     bindR (initRootCmd C S F home (Command (AppName @ ''d'') [] None Map.empty Map.empty [])
       txConfig basicManager) (\<lambda>rootCmd.
       Inr (overwriteFlagDefaults (SetValue C) rootDefaults rootCmd))"

section \<open>Configurations\<close>

definition initAppConfig :: "string \<Rightarrow> app_config \<Rightarrow> string \<times> app_config" where
  "initAppConfig template srvCfg = (template, srvCfg\<lparr>MinGasPrices := ''0.025ubluechip''\<rparr>)"

definition initCometBFTConfig :: "'cmt \<Rightarrow> 'cmt" where
  "initCometBFTConfig cfg = cfg"

section \<open>The client context\<close>

text \<open>
  The client's context \<open>'ctx\<close> and what is done with it on the process state \<open>'s\<close>. Reading the
  client's configuration returns a context beside its error.
\<close>

record ('s, 'ctx, 'cdc, 'reg, 'amino, 'txo, 'tx, 'cc, 'cmt, 'r) client_ops =
  EmptyContext :: 'ctx
  WithCodec :: "'cdc \<Rightarrow> 'ctx \<Rightarrow> 'ctx"
  WithInterfaceRegistry :: "'reg \<Rightarrow> 'ctx \<Rightarrow> 'ctx"
  WithLegacyAmino :: "'amino \<Rightarrow> 'ctx \<Rightarrow> 'ctx"
  WithInputStdin :: "'ctx \<Rightarrow> 'ctx"
  WithAccountRetriever :: "'ctx \<Rightarrow> 'ctx"
  WithHomeDir :: "string \<Rightarrow> 'ctx \<Rightarrow> 'ctx"
  WithViper :: "string \<Rightarrow> 'ctx \<Rightarrow> 'ctx"
  WithTxConfig :: "'tx \<Rightarrow> 'ctx \<Rightarrow> 'ctx"
  WithCmdContext :: "'cc \<Rightarrow> 'ctx \<Rightarrow> 'ctx"
  CodecOf :: "'ctx \<Rightarrow> 'cdc"
  InterfaceRegistryOf :: "'ctx \<Rightarrow> 'reg"
  TxConfigOf :: "'ctx \<Rightarrow> 'tx"
  WithGRPCCoinMetadata :: "'ctx \<Rightarrow> 'txo \<Rightarrow> 'txo"
  NewTxConfigWithOptions :: "'cdc \<Rightarrow> 'txo \<Rightarrow> 'tx ext"
  ReadFromClientConfig :: "'ctx \<Rightarrow> 's \<Rightarrow> 's \<times> ('ctx \<times> string option) ext"
  SetOutDefault :: "'r cmd \<Rightarrow> 's \<Rightarrow> 's"
  SetErrDefault :: "'r cmd \<Rightarrow> 's \<Rightarrow> 's"
  CmdContext :: "'r cmd \<Rightarrow> 's \<Rightarrow> 'cc"
  ReadPersistentCommandFlags :: "'ctx \<Rightarrow> (option_key \<Rightarrow> flag option) \<Rightarrow> 's \<Rightarrow> 's \<times> 'ctx ext"
  SetCmdClientContextHandler :: "'ctx \<Rightarrow> 'r cmd \<Rightarrow> 's \<Rightarrow> 's \<times> unit ext"
  InterceptConfigsPreRunHandler :: "'r cmd \<Rightarrow> string \<Rightarrow> app_config \<Rightarrow> 'cmt \<Rightarrow> 's \<Rightarrow> 's \<times> unit ext"
  DefaultConfigTemplate :: string
  DefaultAppConfig :: app_config
  DefaultCMTConfig :: 'cmt

text \<open>The error of the first reading of the configuration is dropped, the context it returned is kept.\<close>

definition ProvideClientContext ::
  "('s, 'ctx, 'cdc, 'reg, 'amino, 'txo, 'tx, 'cc, 'cmt, 'r) client_ops \<Rightarrow> string \<Rightarrow>
   'cdc \<Rightarrow> 'reg \<Rightarrow> 'txo \<Rightarrow> 'amino \<Rightarrow> ('s, 'ctx) act" where
  "ProvideClientContext K home appCodec interfaceRegistry txConfigOpts legacyAmino =
     (let clientCtx = WithViper K AppName (WithHomeDir K home (WithAccountRetriever K (WithInputStdin K
            (WithLegacyAmino K legacyAmino (WithInterfaceRegistry K interfaceRegistry
              (WithCodec K appCodec (EmptyContext K))))))) in
      bindS (call (ReadFromClientConfig K clientCtx)) (\<lambda>(clientCtx, _).
      bindS (panicS (lift (ext (NewTxConfigWithOptions K (CodecOf K clientCtx)
          (WithGRPCCoinMetadata K clientCtx txConfigOpts))))) (\<lambda>txConfig.
        lift (Inr (WithTxConfig K txConfig clientCtx)))))"

text \<open>
  The pre-run hook of the root command, for the command \<open>cmd\<close> that is run. It is a closure over the context of
  \<open>NewRootCmd\<close>, whose new value is returned beside the result: the first assignment
  changes it, the later ones declare and change a variable of the hook's own.
\<close>

definition PersistentPreRunE ::
  "('s, 'ctx, 'cdc, 'reg, 'amino, 'txo, 'tx, 'cc, 'cmt, 'r) client_ops \<Rightarrow> 'r cmd \<Rightarrow>
   'ctx \<Rightarrow> 's \<Rightarrow> 'ctx \<times> 's \<times> unit res" where
  "PersistentPreRunE K cmd clientCtx s =
     (let s = SetErrDefault K cmd (SetOutDefault K cmd s);
          outer = WithCmdContext K (CmdContext K cmd s) clientCtx in
      (outer,
       bindS (call (ReadPersistentCommandFlags K outer (cmdFlags cmd))) (\<lambda>clientCtx.
       bindS (call (ReadFromClientConfig K clientCtx)) (\<lambda>(clientCtx, err).
         case err of Some e \<Rightarrow> lift (Inl (External e))
         | None \<Rightarrow>
           bindS (call (SetCmdClientContextHandler K clientCtx cmd)) (\<lambda>_.
             let (customAppTemplate, customAppConfig) =
                   initAppConfig (DefaultConfigTemplate K) (DefaultAppConfig K);
                 customCMTConfig = initCometBFTConfig (DefaultCMTConfig K) in
             call (InterceptConfigsPreRunHandler K cmd customAppTemplate customAppConfig customCMTConfig)))) s))"

section \<open>Initialisation of the packages\<close>

text \<open>\<open>init\<close> of \<open>app/app.go\<close>: the prefix of environment variables and the default home directory.\<close>

definition appInit :: "(string \<Rightarrow> string ext) \<Rightarrow> (string \<times> string) res" where
  "appInit getNodeHomeDirectory =
     bindR (panicking (ext (getNodeHomeDirectory (''.'' @ AppName)))) (\<lambda>home. Inr (AppName, home))"

text \<open>\<open>init\<close> of \<open>app/config.go\<close> sets the SDK's configuration \<open>'cfg\<close> and seals it.\<close>

record 'cfg sdk_config =
  SetCoinType :: "nat \<Rightarrow> 'cfg \<Rightarrow> 'cfg ext"
  SetBech32PrefixForAccount :: "string \<Rightarrow> string \<Rightarrow> 'cfg \<Rightarrow> 'cfg ext"
  SetBech32PrefixForValidator :: "string \<Rightarrow> string \<Rightarrow> 'cfg \<Rightarrow> 'cfg ext"
  SetBech32PrefixForConsensusNode :: "string \<Rightarrow> string \<Rightarrow> 'cfg \<Rightarrow> 'cfg ext"
  Seal :: "'cfg \<Rightarrow> 'cfg"

definition configInit :: "'cfg sdk_config \<Rightarrow> 'cfg \<Rightarrow> 'cfg res" where
  "configInit G config =
     (let accountPubKeyPrefix = AccountAddressPrefix @ ''pub'';
          validatorAddressPrefix = AccountAddressPrefix @ ''valoper'';
          validatorPubKeyPrefix = AccountAddressPrefix @ ''valoperpub'';
          consNodeAddressPrefix = AccountAddressPrefix @ ''valcons'';
          consNodePubKeyPrefix = AccountAddressPrefix @ ''valconspub'' in
      bindR (ext (SetCoinType G ChainCoinType config)) (\<lambda>config.
      bindR (ext (SetBech32PrefixForAccount G AccountAddressPrefix accountPubKeyPrefix config)) (\<lambda>config.
      bindR (ext (SetBech32PrefixForValidator G validatorAddressPrefix validatorPubKeyPrefix config)) (\<lambda>config.
      bindR (ext (SetBech32PrefixForConsensusNode G consNodeAddressPrefix consNodePubKeyPrefix config)) (\<lambda>config.
        Inr (Seal G config))))))"

text \<open>The configuration dependency injection runs on: the module list and two custom module basics.\<close>

datatype ('v, 'h) module_basic = GenutilBasic 'v | GovBasic "'h list"

definition getGovProposalHandlers :: "'h \<Rightarrow> 'h list" where
  "getGovProposalHandlers paramsHandler = [] @ [paramsHandler]"

type_synonym ('v, 'h) app_module_config =
  "(modname \<times> module_config) list \<times> (modname \<rightharpoonup> ('v, 'h) module_basic)"

definition AppConfig :: "'v \<Rightarrow> 'h \<Rightarrow> ('v, 'h) app_module_config" where
  "AppConfig messageValidator paramsHandler =
     (appConfig, [M_genutil \<mapsto> GenutilBasic messageValidator,
                  M_gov \<mapsto> GovBasic (getGovProposalHandlers paramsHandler)])"

section \<open>The root command and the program\<close>

text \<open>
  Injection calls \<open>ProvideClientContext\<close> and yields the options and modules of the generated commands \<open>'m\<close>, the
  module manager's map \<open>'b\<close> and the client context. Both maps exist, as the code assigns to them.
\<close>

record ('s, 'ctx, 'cdc, 'reg, 'amino, 'txo, 'v, 'h, 'm, 'b, 'r) root_ops =
  RootInject :: "('v, 'h) app_module_config \<Rightarrow> ('cdc \<Rightarrow> 'reg \<Rightarrow> 'txo \<Rightarrow> 'amino \<Rightarrow> ('s, 'ctx) act) \<Rightarrow>
    ('s, (modname \<rightharpoonup> 'm) \<times> (modname \<rightharpoonup> 'b) \<times> 'ctx) act"
  DefaultMessageValidator :: 'v
  ParamsProposalHandler :: 'h
  RegisterModuleInterfaces :: "modname \<Rightarrow> 'reg \<Rightarrow> 's \<Rightarrow> 's"
  IBCAppModule :: "modname \<Rightarrow> 'm"
  CoreAppModuleBasicAdaptor :: "modname \<Rightarrow> 'm \<Rightarrow> 'b"
  EnhanceRootCommand :: "(modname \<rightharpoonup> 'm) \<Rightarrow> 'r cmd \<Rightarrow> 'r cmd ext"
  Execute :: "'r cmd \<Rightarrow> ('r cmd \<Rightarrow> 'ctx \<Rightarrow> 's \<Rightarrow> 'ctx \<times> 's \<times> unit res) \<Rightarrow> 'ctx \<Rightarrow> string \<Rightarrow> string \<Rightarrow>
    's \<Rightarrow> 's \<times> unit ext"
  PrintErr :: "'r cmd \<Rightarrow> err \<Rightarrow> 's \<Rightarrow> 's"

type_synonym ('s, 'ctx, 'cdc, 'reg, 'amino, 'txo, 'v, 'h, 'm, 'b, 'r) rops =
  "('s, 'ctx, 'cdc, 'reg, 'amino, 'txo, 'v, 'h, 'm, 'b, 'r) root_ops"

text \<open>The modules that dependency injection does not know are put into both maps by hand.\<close>

definition addIBCModules ::
  "(modname \<Rightarrow> 'm) \<Rightarrow> (modname \<Rightarrow> 'm \<Rightarrow> 'b) \<Rightarrow> modname list \<Rightarrow>
   (modname \<rightharpoonup> 'm) \<times> (modname \<rightharpoonup> 'b) \<Rightarrow> (modname \<rightharpoonup> 'm) \<times> (modname \<rightharpoonup> 'b)" where
  "addIBCModules ibcModule adaptor names maps =
     foldl (\<lambda>(cli, basics) m. (cli(m \<mapsto> ibcModule m), basics(m \<mapsto> adaptor m (ibcModule m)))) maps names"

definition NewRootCmd ::
  "(option_key, 'r runner) cobra \<Rightarrow> (modname \<rightharpoonup> 'b, 'tx, 'cr, 'ex, 'r) sdk_cli \<Rightarrow> ('cr, 'ex) app_funcs \<Rightarrow>
   ('s, 'ctx, 'cdc, 'reg, 'amino, 'txo, 'tx, 'cc, 'cmt, 'r) client_ops \<Rightarrow>
   ('s, 'ctx, 'cdc, 'reg, 'amino, 'txo, 'v, 'h, 'm, 'b, 'r) rops \<Rightarrow> string \<Rightarrow> ('s, 'r cmd \<times> 'ctx) act" where
  "NewRootCmd C S F K W home =
     bindS (panicS (RootInject W (AppConfig (DefaultMessageValidator W) (ParamsProposalHandler W))
       (ProvideClientContext K home))) (\<lambda>(autoCliModules, moduleBasicManager, clientCtx) s.
     let (s, ibcNames) = RegisterIBC (\<lambda>m. RegisterModuleInterfaces W m (InterfaceRegistryOf K clientCtx)) s;
         (autoCliModules, moduleBasicManager) = addIBCModules (IBCAppModule W) (CoreAppModuleBasicAdaptor W)
           ibcNames (autoCliModules, moduleBasicManager) in
     bindS (lift (rootTree C S F home (TxConfigOf K clientCtx) moduleBasicManager)) (\<lambda>rootCmd.
     bindS (panicS (lift (ext (EnhanceRootCommand W autoCliModules rootCmd)))) (\<lambda>rootCmd.
       lift (Inr (rootCmd, clientCtx)))) s)"

text \<open>\<open>main\<close>: an error of the command is printed, and the process exits with status 1.\<close>

definition main ::
  "(option_key, 'r runner) cobra \<Rightarrow> (modname \<rightharpoonup> 'b, 'tx, 'cr, 'ex, 'r) sdk_cli \<Rightarrow> ('cr, 'ex) app_funcs \<Rightarrow>
   ('s, 'ctx, 'cdc, 'reg, 'amino, 'txo, 'tx, 'cc, 'cmt, 'r) client_ops \<Rightarrow>
   ('s, 'ctx, 'cdc, 'reg, 'amino, 'txo, 'v, 'h, 'm, 'b, 'r) rops \<Rightarrow> string \<times> string \<Rightarrow> ('s, unit) act" where
  "main C S F K W = (\<lambda>(envPrefix, home).
     bindS (NewRootCmd C S F K W home) (\<lambda>(rootCmd, clientCtx) s.
       case call (Execute W rootCmd (PersistentPreRunE K) clientCtx envPrefix home) s of
         (s, Inl e) \<Rightarrow> if is_panic e then (s, Inl e) else (PrintErr W rootCmd e s, Inl (Fatal e))
       | (s, Inr _) \<Rightarrow> (s, Inr ())))"

section \<open>The flags of the multi-node command\<close>

lemma cobra_okD:
  assumes "cobra_ok C"
  shows "fs n = None \<Longrightarrow> DefineString C n v fs = Inr (fs(n \<mapsto> string_flag v))"
    and "fs n = None \<Longrightarrow> DefineInt C n i fs = Inr (fs(n \<mapsto> int_flag i))"
    and "\<forall>k \<in> dom fs. norm k = k \<Longrightarrow> SetNormalizeFunc C norm fs = (\<lambda>k. fs (norm k))"
    and "fs n = Some f \<Longrightarrow> FlagType f = StringFlag \<Longrightarrow> GetString C fs n = Some (FlagValue f)"
    and "fs n = Some f \<Longrightarrow> FlagType f = IntFlag \<Longrightarrow> GetInt C fs n = parseInt (FlagValue f)"
    and "FlagType f = StringFlag \<Longrightarrow> SetValue C f v = Inr v"
  using assms by (auto simp: cobra_ok_def)

lemma AddCommand_ok:
  assumes "cobra_ok C"
  obtains cs' where "AddCommand C c cs =
      Inr (Command (cmdUse c) (cmdAliases c) (cmdRunE c) (cmdFlags c) (cmdPersistent c) cs')"
    "set cs' = set (cmdCommands c) \<union> set cs"
  using assms unfolding cobra_ok_def by meson

lemma AddCommand_new:
  assumes "cobra_ok C"
  shows "\<exists>cs'. AddCommand C (Command use aliases run fs ps cs0) cs = Inr (Command use aliases run fs ps cs')"
  by (rule AddCommand_ok [OF assms, of "Command use aliases run fs ps cs0" cs]) auto

lemma AddCommand_set:
  assumes "cobra_ok C"
  shows "\<exists>c'. AddCommand C c cs = Inr c' \<and> set (cmdCommands c') = set (cmdCommands c) \<union> set cs"
  by (rule AddCommand_ok [OF assms, of c cs]) auto

lemmas flag_names = flagNodeDirPrefix_def flagPorts_def flagNumValidators_def flagOutputDir_def
  flagValidatorsStakeAmount_def flagStartingIPAddress_def

text \<open>What the multi-node command defines, by name.\<close>

definition multiNodeFlags :: "string \<Rightarrow> string \<Rightarrow> option_key \<Rightarrow> flag option" where
  "multiNodeFlags denom keyType key =
     map_of [(flagNumValidators, int_flag 4), (flagOutputDir, string_flag ''./.testnets''),
       (FlagChainID, string_flag ''''), (FlagMinGasPrices, string_flag (''0.0001'' @ denom)),
       (FlagKeyType, string_flag keyType), (flagPorts, string_flag ''''),
       (flagNodeDirPrefix, string_flag ''validator''),
       (flagValidatorsStakeAmount, string_flag ''100000000,100000000,100000000,100000000''),
       (flagStartingIPAddress, string_flag ''localhost''), (FlagKeyringBackend, string_flag ''test'')]
       (normalizeName key)"

lemma NewTestnetMultiNodeCmd_ok:
  assumes "cobra_ok C"
  shows "NewTestnetMultiNodeCmd C denom keyType =
    Inr (Command ''multi-node'' [] (Some RunMultiNode) (multiNodeFlags denom keyType) Map.empty [])"
proof -
  let ?fs = "[flagNumValidators \<mapsto> int_flag 4, flagOutputDir \<mapsto> string_flag ''./.testnets'',
    FlagChainID \<mapsto> string_flag '''', FlagMinGasPrices \<mapsto> string_flag (''0.0001'' @ denom),
    FlagKeyType \<mapsto> string_flag keyType]"
  have norm: "SetNormalizeFunc C normalizeName ?fs = (\<lambda>k. ?fs (normalizeName k))"
    by (rule cobra_okD(3) [OF assms]) (auto simp: normalizeName_def flag_names split: if_splits)
  have "addTestnetFlagsToCmd C denom keyType
      (Command ''multi-node'' [] (Some RunMultiNode) Map.empty Map.empty []) =
    Inr (Command ''multi-node'' [] (Some RunMultiNode) (\<lambda>k. ?fs (normalizeName k)) Map.empty [])"
    using norm by (simp add: addTestnetFlagsToCmd_def onFlags_def cobra_okD [OF assms] flag_names)
  then show ?thesis
    by (simp add: NewTestnetMultiNodeCmd_def onFlags_def cobra_okD [OF assms] flag_names
        normalizeName_def multiNodeFlags_def fun_eq_iff)
qed

text \<open>Reading the flags as the arguments do agrees with \<open>parseArgs\<close> when the two lists can be read.\<close>

lemma multiNodeArgs_parseArgs:
  assumes "GetString C fs flagValidatorsStakeAmount = Some s" "GetString C fs flagPorts = Some p"
  shows "multiNodeArgs C parse newCoin fs = parseArgs parse newCoin (readFlags C fs)"
  using assms
  by (simp add: multiNodeArgs_def parseArgs_def readFlags_def getString_def Let_def)

section \<open>What the tree relies on\<close>

text \<open>
  The SDK's functions that extend the root keep the repository's own commands, and the command of
  the in-place testnet takes the modules' flags and leaves the name of the repository's flag free.
\<close>

definition own_commands :: "string set" where
  "own_commands = {''query'', ''tx'', ''multi-node''}"

definition keeps_own :: "'r cmd \<Rightarrow> 'r cmd \<Rightarrow> bool" where
  "keeps_own root root' \<longleftrightarrow>
     (\<forall>c \<in> set (cmdCommands root). cmdUse c \<in> own_commands \<longrightarrow> c \<in> set (cmdCommands root'))"

definition sdk_cli_ok :: "('bm, 'tx, 'cr, 'ex, 'r) sdk_cli \<Rightarrow> bool" where
  "sdk_cli_ok S \<longleftrightarrow>
     (\<forall>cr. \<exists>c. addModuleInitFlags S (libCommand S (InPlaceTestnetCreator cr)) = Inr c \<and>
        cmdFlags c flagAccountsToFund = None) \<and>
     (\<forall>root home cr ex. \<exists>root'.
        ServerAddCommands S root home cr ex (addModuleInitFlags S) = Inr root' \<and> keeps_own root root') \<and>
     (\<forall>root. \<exists>root'. ExtendUnsafeResetAllCmd S root = Inr root' \<and> keeps_own root root')"

lemma group_command:
  assumes "cobra_ok C"
  shows "\<exists>c. bindR (ext (AddCommand C (Command use aliases run fs Map.empty []) cs)) (\<lambda>cmd.
      onPersistent (DefineString C FlagChainID '''') cmd) = Inr c \<and>
    cmdUse c = use \<and> cmdPersistent c FlagChainID = Some (string_flag '''')"
proof -
  obtain cs' where "AddCommand C (Command use aliases run fs Map.empty []) cs =
      Inr (Command use aliases run fs Map.empty cs')"
    using AddCommand_new [OF assms] by blast
  then show ?thesis by (simp add: onPersistent_def cobra_okD [OF assms])
qed

text \<open>The two commands that only group others carry a persistent flag for the chain.\<close>

lemma group_commands:
  assumes "cobra_ok C"
  shows "\<exists>q. queryCommand C S = Inr q \<and> cmdUse q = ''query'' \<and> cmdPersistent q FlagChainID = Some (string_flag '''')"
    and "\<exists>t. txCommand C S = Inr t \<and> cmdUse t = ''tx'' \<and> cmdPersistent t FlagChainID = Some (string_flag '''')"
  unfolding queryCommand_def txCommand_def by (rule group_command [OF assms])+

lemma initRootCmd_ok:
  assumes "cobra_ok (C :: (option_key, 'r runner) cobra)" "sdk_cli_ok S"
  obtains root q t where "initRootCmd C S F home rootCmd txConfig bm = Inr root"
    "{q, t, Command ''multi-node'' [] (Some RunMultiNode)
        (multiNodeFlags (DefaultBondDenom S) (Secp256k1Type S)) Map.empty []} \<subseteq> set (cmdCommands root)"
    "cmdUse q = ''query''" "cmdPersistent q FlagChainID = Some (string_flag '''')"
    "cmdUse t = ''tx''" "cmdPersistent t FlagChainID = Some (string_flag '''')"
proof -
  define mn :: "'r cmd" where "mn = Command ''multi-node'' [] (Some RunMultiNode)
    (multiNodeFlags (DefaultBondDenom S) (Secp256k1Type S)) Map.empty []"
  obtain c where c: "addModuleInitFlags S (libCommand S (InPlaceTestnetCreator (fnNewTestnetApp F))) = Inr c"
      "cmdFlags c flagAccountsToFund = None"
    using assms(2) unfolding sdk_cli_ok_def by meson
  obtain inPlace where inPlace: "NewInPlaceTestnetCmd C S F (addModuleInitFlags S) = Inr inPlace"
    using c by (simp add: NewInPlaceTestnetCmd_def onFlags_def cobra_okD [OF assms(1)])
  have multi: "NewTestnetMultiNodeCmd C (DefaultBondDenom S) (Secp256k1Type S) = Inr mn"
    unfolding mn_def by (rule NewTestnetMultiNodeCmd_ok [OF assms(1)])
  obtain q t where q: "queryCommand C S = Inr q" "cmdUse q = ''query''"
      "cmdPersistent q FlagChainID = Some (string_flag '''')"
    and t: "txCommand C S = Inr t" "cmdUse t = ''tx''" "cmdPersistent t FlagChainID = Some (string_flag '''')"
    using group_commands [OF assms(1), of S] by blast
  define cs1 where "cs1 = [libCommand S (InitCmd bm home), inPlace, mn, libCommand S DebugCmd,
        libCommand S ConfigCommand, libCommand S (PruningCmd (fnNewApp F) home),
        libCommand S (SnapshotCmd (fnNewApp F))]"
  obtain r1 where r1: "AddCommand C rootCmd cs1 = Inr r1" "mn \<in> set (cmdCommands r1)"
    using AddCommand_set [OF assms(1), of rootCmd cs1] by (auto simp: cs1_def)
  obtain r2 where r2: "ServerAddCommands S r1 home (fnNewApp F) (fnAppExport F) (addModuleInitFlags S) = Inr r2"
      "keeps_own r1 r2"
    using assms(2) unfolding sdk_cli_ok_def by meson
  have mn2: "mn \<in> set (cmdCommands r2)"
    using r1(2) r2(2) by (simp add: keeps_own_def own_commands_def mn_def)
  define cs2 where "cs2 = [libCommand S StatusCommand, libCommand S (GenutilCommands txConfig bm home),
        q, t, libCommand S KeysCommands]"
  obtain r3 where r3: "AddCommand C r2 cs2 = Inr r3" "{q, t, mn} \<subseteq> set (cmdCommands r3)"
    using AddCommand_set [OF assms(1), of r2 cs2] mn2 by (auto simp: cs2_def)
  obtain r4 where r4: "ExtendUnsafeResetAllCmd S r3 = Inr r4" "keeps_own r3 r4"
    using assms(2) unfolding sdk_cli_ok_def by meson
  have "{q, t, mn} \<subseteq> set (cmdCommands r4)"
    using r3(2) r4(2) q(2) t(2) by (simp add: keeps_own_def own_commands_def mn_def)
  moreover have "initRootCmd C S F home rootCmd txConfig bm = Inr r4"
    by (simp add: initRootCmd_def genesisCommand_def inPlace multi q(1) t(1) r1(1) [unfolded cs1_def]
        r2(1) r3(1) [unfolded cs2_def] r4(1))
  ultimately show ?thesis using that [of r4 q t] q t by (simp add: mn_def)
qed

section \<open>Properties\<close>

lemma rootDefaults_simps:
  "rootDefaults = [(FlagChainID, AppName), (FlagKeyringBackend, ''test'')]"
  "distinct (map fst rootDefaults)"
  by (simp_all add: rootDefaults_def AppName_def)

lemma setDefaults_root:
  "setDefaults setValue rootDefaults fs key =
     (if key = FlagChainID then map_option (defaulted setValue AppName) (fs key)
      else if key = FlagKeyringBackend then map_option (defaulted setValue ''test'') (fs key)
      else fs key)"
  by (subst setDefaults_alt [OF rootDefaults_simps(2)]) (simp add: rootDefaults_simps(1))

lemma setDefaults_root_in:
  "(key, val) \<in> set rootDefaults \<Longrightarrow>
     setDefaults setValue rootDefaults fs key = map_option (defaulted setValue val) (fs key)"
  by (subst setDefaults_alt) (simp_all add: rootDefaults_simps(2) map_of_is_SomeI)

lemma defaulted_string:
  assumes "cobra_ok C"
  shows "defaulted (SetValue C) v (string_flag u) = string_flag v"
  using cobra_okD(6) [OF assms, of "string_flag u"] by (simp add: defaulted_def string_flag_def)

text \<open>The tree of the root command, and what the walk over it leaves of the repository's own commands.\<close>

lemma rootTree_ok:
  assumes "cobra_ok (C :: (option_key, 'r runner) cobra)" "sdk_cli_ok S"
  obtains r root q t mn where
    "initRootCmd C S F home (Command (AppName @ ''d'') [] None Map.empty Map.empty []) txConfig bm = Inr r"
    "rootTree C S F home txConfig bm = Inr root" "root = overwriteFlagDefaults (SetValue C) rootDefaults r"
    "{q, t, mn} \<subseteq> set (cmdCommands root)"
    "cmdUse q = ''query''" "cmdPersistent q FlagChainID = Some (string_flag AppName)"
    "cmdUse t = ''tx''" "cmdPersistent t FlagChainID = Some (string_flag AppName)"
    "mn = Command ''multi-node'' [] (Some RunMultiNode) (setDefaults (SetValue C) rootDefaults
       (multiNodeFlags (DefaultBondDenom S) (Secp256k1Type S))) Map.empty []"
proof -
  let ?o = "overwriteFlagDefaults (SetValue C) rootDefaults"
  let ?mn = "Command ''multi-node'' [] (Some RunMultiNode)
    (multiNodeFlags (DefaultBondDenom S) (Secp256k1Type S)) Map.empty []"
  obtain r q t where r: "initRootCmd C S F home (Command (AppName @ ''d'') [] None Map.empty Map.empty [])
      txConfig bm = Inr r" "{q, t, ?mn} \<subseteq> set (cmdCommands r)"
    and q: "cmdUse q = ''query''" "cmdPersistent q FlagChainID = Some (string_flag '''')"
    and t: "cmdUse t = ''tx''" "cmdPersistent t FlagChainID = Some (string_flag '''')"
    by (rule initRootCmd_ok [OF assms])
  have "setDefaults (SetValue C) rootDefaults Map.empty = Map.empty"
    by (simp add: fun_eq_iff setDefaults_root)
  then have mn: "?o ?mn = Command ''multi-node'' [] (Some RunMultiNode) (setDefaults (SetValue C) rootDefaults
       (multiNodeFlags (DefaultBondDenom S) (Secp256k1Type S))) Map.empty []" by simp
  have "{?o q, ?o t, ?o ?mn} \<subseteq> set (cmdCommands (?o r))"
    using r(2) by (auto simp: overwriteFlagDefaults_sel simp del: overwriteFlagDefaults.simps)
  with r(1) q t mn show ?thesis
    by (intro that [of r "?o r" "?o q" "?o t" "?o ?mn"])
       (simp_all add: rootTree_def overwriteFlagDefaults_sel setDefaults_root defaulted_string [OF assms(1)])
qed

text \<open>
  C37. Defaults of the root command: building the tree succeeds; in every command of it, the libraries'
  included, a flag for the chain or the keyring has the overwritten default, and its value too
  if it takes texts; no other flag differs from the tree before the walk; the order in
  which the map of defaults is visited does not matter; and the query and transaction groups
  pass the chain's name on.
\<close>

theorem root_flag_defaults:
  assumes "cobra_ok C" "sdk_cli_ok S"
  shows "\<exists>r root. initRootCmd C S F home (Command (AppName @ ''d'') [] None Map.empty Map.empty []) txConfig bm =
      Inr r \<and> rootTree C S F home txConfig bm = Inr root \<and>
    (\<forall>c \<in> set (subtree root). \<forall>fs \<in> {cmdFlags c, cmdPersistent c}. \<forall>(key, val) \<in> set rootDefaults. \<forall>f.
       fs key = Some f \<longrightarrow> DefValue f = val \<and> (FlagType f = StringFlag \<longrightarrow> FlagValue f = val)) \<and>
    list_all2 (\<lambda>c c'. \<forall>key. key \<noteq> FlagChainID \<and> key \<noteq> FlagKeyringBackend \<longrightarrow>
       cmdFlags c' key = cmdFlags c key \<and> cmdPersistent c' key = cmdPersistent c key) (subtree r) (subtree root) \<and>
    (\<forall>ds. map_of ds = map_of rootDefaults \<longrightarrow> distinct (map fst ds) \<longrightarrow>
       root = overwriteFlagDefaults (SetValue C) ds r) \<and>
    (\<forall>use \<in> {''query'', ''tx''}. \<exists>c \<in> set (cmdCommands root). cmdUse c = use \<and>
       cmdPersistent c FlagChainID = Some (string_flag AppName))"
proof -
  let ?o = "overwriteFlagDefaults (SetValue C) rootDefaults"
  obtain r root q t where r:
    "initRootCmd C S F home (Command (AppName @ ''d'') [] None Map.empty Map.empty []) txConfig bm = Inr r"
    "rootTree C S F home txConfig bm = Inr root" "root = ?o r" "{q, t} \<subseteq> set (cmdCommands root)"
    "cmdUse q = ''query''" "cmdPersistent q FlagChainID = Some (string_flag AppName)"
    "cmdUse t = ''tx''" "cmdPersistent t FlagChainID = Some (string_flag AppName)"
    using rootTree_ok [OF assms] by (metis insert_subset)
  have setv: "FlagType f = StringFlag \<Longrightarrow> SetValue C f v = Inr v" for f v
    by (rule cobra_okD(6) [OF assms(1)])
  have "DefValue f = val \<and> (FlagType f = StringFlag \<longrightarrow> FlagValue f = val)"
    if "c \<in> set (subtree root)" "fs \<in> {cmdFlags c, cmdPersistent c}" "(key, val) \<in> set rootDefaults" "fs key = Some f"
    for c fs key val f
  proof -
    have "c \<in> ?o ` set (subtree r)" using that(1) by (simp add: r(3) subtree_overwrite)
    then obtain c0 where "c = ?o c0" by blast
    with that(2) obtain fs0 where "fs = setDefaults (SetValue C) rootDefaults fs0"
      by (auto simp: overwriteFlagDefaults_sel)
    with that(3,4) obtain f0 where "f = defaulted (SetValue C) val f0"
      by (auto simp: setDefaults_root_in)
    then show ?thesis using setv [of f0 val] by (auto simp: defaulted_def)
  qed
  moreover have "list_all2 (\<lambda>c c'. \<forall>key. key \<noteq> FlagChainID \<and> key \<noteq> FlagKeyringBackend \<longrightarrow>
       cmdFlags c' key = cmdFlags c key \<and> cmdPersistent c' key = cmdPersistent c key) (subtree r) (subtree root)"
    by (simp add: r(3) subtree_overwrite list_all2_map2 list_all2_same overwriteFlagDefaults_sel setDefaults_root)
  moreover have "root = overwriteFlagDefaults (SetValue C) ds r"
    if "map_of ds = map_of rootDefaults" "distinct (map fst ds)" for ds
    unfolding r(3) by (rule overwriteFlagDefaults_order) (use that rootDefaults_simps(2) in auto)
  moreover have "\<forall>use \<in> {''query'', ''tx''}. \<exists>c \<in> set (cmdCommands root). cmdUse c = use \<and>
       cmdPersistent c FlagChainID = Some (string_flag AppName)"
    using r(4-8) by auto
  ultimately show ?thesis using r(1,2) by (intro exI [of _ r] exI [of _ root]) blast
qed

text \<open>What is read of the flags the multi-node command defines, with the root's defaults and without.\<close>

lemma setDefaults_multiNodeFlags:
  assumes "cobra_ok C"
  shows "setDefaults (SetValue C) rootDefaults (multiNodeFlags denom keyType) =
    (multiNodeFlags denom keyType)(FlagChainID \<mapsto> string_flag AppName)"
  by (simp add: fun_eq_iff setDefaults_root multiNodeFlags_def normalizeName_def flag_names
      defaulted_string [OF assms])

lemma readFlags_multiNode:
  assumes "cobra_ok C"
  shows "readFlags C ((multiNodeFlags denom keyType)(FlagChainID \<mapsto> string_flag chain)) =
      (defaultFlags denom keyType)\<lparr>f_chainID := chain\<rparr>"
    and "GetString C ((multiNodeFlags denom keyType)(FlagChainID \<mapsto> string_flag chain)) flagPorts = Some ''''"
    and "GetString C ((multiNodeFlags denom keyType)(FlagChainID \<mapsto> string_flag chain)) flagValidatorsStakeAmount =
      Some ''100000000,100000000,100000000,100000000''"
proof -
  let ?fs = "(multiNodeFlags denom keyType)(FlagChainID \<mapsto> string_flag chain)"
  have get: "GetString C ?fs key = Some v" if "?fs key = Some (string_flag v)" for key v
    using cobra_okD(4) [OF assms, of ?fs key "string_flag v"] that by (simp add: string_flag_def)
  have num: "GetInt C ?fs flagNumValidators = Some 4"
    using cobra_okD(5) [OF assms, of ?fs flagNumValidators "int_flag 4"]
    by (simp add: multiNodeFlags_def normalizeName_def flag_names int_flag_def parseInt_Itoa)
  note [simp] = multiNodeFlags_def normalizeName_def flag_names
  show ports: "GetString C ?fs flagPorts = Some ''''"
    and stakes: "GetString C ?fs flagValidatorsStakeAmount = Some ''100000000,100000000,100000000,100000000''"
    by (rule get, simp)+
  have texts: "GetString C ?fs FlagKeyType = Some keyType" "GetString C ?fs FlagChainID = Some chain"
    "GetString C ?fs FlagKeyringBackend = Some ''test''" "GetString C ?fs FlagMinGasPrices = Some (''0.0001'' @ denom)"
    "GetString C ?fs flagNodeDirPrefix = Some ''validator''" "GetString C ?fs flagOutputDir = Some ''./.testnets''"
    "GetString C ?fs flagStartingIPAddress = Some ''localhost''"
    by (rule get, simp)+
  show "readFlags C ?fs = (defaultFlags denom keyType)\<lparr>f_chainID := chain\<rparr>"
    unfolding readFlags_def getString_def getInt_def ports stakes texts num defaultFlags_def by simp
qed

text \<open>
  C38. A test network without flags: the command of the tree reads the flags the code defines, with the
  chain's name in place of the empty chain id of its own definition. Its arguments are those of these flags, and
  since the id is not empty, no random one is drawn, although the flag's text promises that.
\<close>

theorem default_testnet_chain_id:
  assumes "cobra_ok C" "sdk_cli_ok S"
  shows "\<exists>root mn. rootTree C S F home txConfig bm = Inr root \<and> mn \<in> set (cmdCommands root) \<and>
    cmdRunE mn = Some RunMultiNode \<and>
    readFlags C (cmdFlags mn) =
      (defaultFlags (DefaultBondDenom S) (Secp256k1Type S))\<lparr>f_chainID := ''bluechipChain''\<rparr> \<and>
    multiNodeArgs C parse newCoin (cmdFlags mn) = parseArgs parse newCoin (readFlags C (cmdFlags mn)) \<and>
    (\<forall>draw draw'.
       multiNodeRun OS N G draw t dflt cfg ctx parse newCoin (readFlags C (cmdFlags mn)) =
       multiNodeRun OS N G draw' t dflt cfg ctx parse newCoin (readFlags C (cmdFlags mn))) \<and>
    (\<exists>own. NewTestnetMultiNodeCmd C (DefaultBondDenom S) (Secp256k1Type S) = Inr own \<and>
       f_chainID (readFlags C (cmdFlags own)) = '''')"
proof -
  let ?fs = "multiNodeFlags (DefaultBondDenom S) (Secp256k1Type S)"
  let ?mn = "Command ''multi-node'' [] (Some RunMultiNode) (?fs(FlagChainID \<mapsto> string_flag AppName)) Map.empty []"
  have own: "?fs(FlagChainID \<mapsto> string_flag '''') = ?fs"
    by (simp add: fun_eq_iff multiNodeFlags_def normalizeName_def flag_names)
  obtain root where root: "rootTree C S F home txConfig bm = Inr root" "?mn \<in> set (cmdCommands root)"
    using rootTree_ok [OF assms] unfolding setDefaults_multiNodeFlags [OF assms(1)] by (metis insert_subset)
  have f: "readFlags C (cmdFlags ?mn) =
      (defaultFlags (DefaultBondDenom S) (Secp256k1Type S))\<lparr>f_chainID := ''bluechipChain''\<rparr>"
    by (simp add: readFlags_multiNode(1) [OF assms(1)] AppName_def)
  have args: "multiNodeArgs C parse newCoin (cmdFlags ?mn) = parseArgs parse newCoin (readFlags C (cmdFlags ?mn))"
    using multiNodeArgs_parseArgs [of C "cmdFlags ?mn" _ _ parse newCoin] by (simp add: readFlags_multiNode(2,3) [OF assms(1)])
  have "chainID args \<noteq> ''''" if "parseArgs parse newCoin (readFlags C (cmdFlags ?mn)) = Inr args" for args
    using that unfolding f by (auto simp: parseArgs_def bindR_Inr_conv)
  then have "multiNodeRun OS N G draw t dflt cfg ctx parse newCoin (readFlags C (cmdFlags ?mn)) =
       multiNodeRun OS N G draw' t dflt cfg ctx parse newCoin (readFlags C (cmdFlags ?mn))" for draw draw'
    by (simp add: multiNodeRun_def bindS_def lift_def initTestnetFiles_def fun_eq_iff split: sum.splits)
  moreover have "f_chainID (readFlags C ?fs) = ''''"
    using readFlags_multiNode(1) [OF assms(1), of "DefaultBondDenom S" "Secp256k1Type S" "''''"]
    unfolding own by simp
  ultimately show ?thesis
    using root f args NewTestnetMultiNodeCmd_ok [OF assms(1), of "DefaultBondDenom S" "Secp256k1Type S"]
    by (intro exI [of _ root] exI [of _ ?mn]) simp
qed

text \<open>
  The client side knows the modules of the application: after injection of the configured modules, the
  maps filled by hand have exactly the modules the application has registered when \<open>registerIBCModules\<close> is done.
\<close>

lemma addIBCModules_dom:
  "dom (fst (addIBCModules ibcModule adaptor names maps)) = dom (fst maps) \<union> set names"
  "dom (snd (addIBCModules ibcModule adaptor names maps)) = dom (snd maps) \<union> set names"
proof -
  have "dom (fst (addIBCModules ibcModule adaptor names maps)) = dom (fst maps) \<union> set names \<and>
      dom (snd (addIBCModules ibcModule adaptor names maps)) = dom (snd maps) \<union> set names"
    unfolding addIBCModules_def by (induction names arbitrary: maps) (auto split: prod.splits)
  then show "dom (fst (addIBCModules ibcModule adaptor names maps)) = dom (fst maps) \<union> set names"
    "dom (snd (addIBCModules ibcModule adaptor names maps)) = dom (snd maps) \<union> set names" by blast+
qed

lemma client_knows_modules:
  assumes "cap_ok X scoped" "calls_ok X" "aModules a = map fst appConfig" "registerIBCModules X a = (a', Inr ())"
    and "dom (fst maps) = set (map fst appConfig)" "RegisterIBC reg r = (r', names)"
  shows "dom (fst (addIBCModules ibcModule adaptor names maps)) = set (aModules a')"
proof -
  have "set (aModules a') = set (map fst appConfig @ [M_wasm] @ ibcModules)"
    using registerIBCModules_ok [OF assms(1,2), of a] assms(3,4) by auto
  moreover have "set names = set ([M_wasm] @ ibcModules)"
    using assms(6) by (auto simp: RegisterIBC_def ibcModules_def Let_def)
  ultimately show ?thesis unfolding addIBCModules_dom assms(5) by (simp add: Un_assoc)
qed

section \<open>A command library and commands that satisfy the hypotheses\<close>

definition sample_cobra :: "(option_key, unit runner) cobra" where
  "sample_cobra = \<lparr>
     AddCommand = \<lambda>c cs. Inr (Command (cmdUse c) (cmdAliases c) (cmdRunE c) (cmdFlags c) (cmdPersistent c)
       (cmdCommands c @ cs)),
     DefineString = \<lambda>n v fs. if fs n = None then Inr (fs(n \<mapsto> string_flag v)) else Inl (Panicked ''flag redefined''),
     DefineInt = \<lambda>n i fs. if fs n = None then Inr (fs(n \<mapsto> int_flag i)) else Inl (Panicked ''flag redefined''),
     SetNormalizeFunc = \<lambda>norm fs n. fs (norm n),
     GetString = \<lambda>fs n. Option.bind (fs n) (\<lambda>f. if FlagType f = StringFlag then Some (FlagValue f) else None),
     GetInt = \<lambda>fs n. Option.bind (fs n) (\<lambda>f. if FlagType f = IntFlag then parseInt (FlagValue f) else None),
     SetValue = \<lambda>f v. if FlagType f = IntFlag \<and> parseInt v = None then Inl (Failed ''invalid syntax'') else Inr v\<rparr>"

lemma sample_cobra_ok: "cobra_ok sample_cobra"
  by (simp add: cobra_ok_def sample_cobra_def)

text \<open>
  The library's transaction query carries a chain flag and a numeric keyring flag, which the default cannot set; the server adds a
  start command with the modules' flags.
\<close>

definition sample_cli :: "(unit, unit, unit, unit, unit) sdk_cli" where
  "sample_cli = \<lparr>
     libCommand = \<lambda>lc. Command [] [] (Some (LibRun ()))
       (if lc = QueryTxCmd then [FlagChainID \<mapsto> string_flag ''other'', FlagKeyringBackend \<mapsto> int_flag 7]
        else Map.empty) Map.empty [],
     ServerAddCommands = \<lambda>root home cr ex g.
       bindR (g (Command ''start'' [] (Some (LibRun ())) Map.empty Map.empty [])) (\<lambda>start.
         Inr (Command (cmdUse root) (cmdAliases root) (cmdRunE root) (cmdFlags root) (cmdPersistent root)
           (cmdCommands root @ [start]))),
     CrisisAddModuleInitFlags = \<lambda>c. Inr (Command (cmdUse c) (cmdAliases c) (cmdRunE c)
       ((cmdFlags c)(OwnFlag ''x-crisis-skip-assert-invariants'' \<mapsto> string_flag ''false'')) (cmdPersistent c)
       (cmdCommands c)),
     WasmAddModuleInitFlags = Inr,
     ExtendUnsafeResetAllCmd = Inr,
     DefaultBondDenom = ''stake'',
     Secp256k1Type = ''secp256k1''\<rparr>"

lemma sample_cli_ok: "sdk_cli_ok sample_cli"
  by (auto simp: sdk_cli_ok_def sample_cli_def addModuleInitFlags_def keeps_own_def flagAccountsToFund_def)

definition sample_funcs :: "(unit, unit) app_funcs" where
  "sample_funcs = \<lparr>fnNewApp = (), fnNewTestnetApp = (), fnAppExport = ()\<rparr>"

theorem root_flag_defaults_witness:
  "\<exists>root c. rootTree sample_cobra sample_cli sample_funcs ''/home'' () () = Inr root \<and>
     c \<in> set (cmdCommands root) \<and> cmdUse c = ''tx'' \<and>
     cmdPersistent c FlagChainID = Some (string_flag ''bluechipChain'')"
proof -
  from root_flag_defaults [OF sample_cobra_ok sample_cli_ok, of sample_funcs "''/home''" "()" "()"]
  obtain root where "rootTree sample_cobra sample_cli sample_funcs ''/home'' () () = Inr root"
    "\<forall>use \<in> {''query'', ''tx''}. \<exists>c \<in> set (cmdCommands root). cmdUse c = use \<and>
       cmdPersistent c FlagChainID = Some (string_flag AppName)" by blast
  then show ?thesis unfolding AppName_def by blast
qed

theorem default_testnet_chain_id_witness:
  "\<exists>root mn args. rootTree sample_cobra sample_cli sample_funcs ''/home'' () () = Inr root \<and>
     mn \<in> set (cmdCommands root) \<and>
     multiNodeArgs sample_cobra parseInt (Inr :: int \<Rightarrow> int ext) (cmdFlags mn) = Inr args \<and>
     chainID args = ''bluechipChain'' \<and> numValidators args = 4"
proof -
  from default_testnet_chain_id [OF sample_cobra_ok sample_cli_ok, of sample_funcs "''/home''" "()" "()"
      parseInt "Inr :: int \<Rightarrow> int ext"]
  obtain root mn where mn: "rootTree sample_cobra sample_cli sample_funcs ''/home'' () () = Inr root"
    "mn \<in> set (cmdCommands root)"
    "readFlags sample_cobra (cmdFlags mn) =
      (defaultFlags (DefaultBondDenom sample_cli) (Secp256k1Type sample_cli))\<lparr>f_chainID := ''bluechipChain''\<rparr>"
    "multiNodeArgs sample_cobra parseInt (Inr :: int \<Rightarrow> int ext) (cmdFlags mn) =
       parseArgs parseInt (Inr :: int \<Rightarrow> int ext) (readFlags sample_cobra (cmdFlags mn))"
    by blast
  obtain args where "parseArgs parseInt (Inr :: int \<Rightarrow> int ext) (readFlags sample_cobra (cmdFlags mn)) = Inr args"
    "chainID args = ''bluechipChain''" "numValidators args = 4"
    unfolding mn(3) by (simp add: parseArgs_def stakeLoop_alt defaultFlags_def del: stakeLoop.simps)
  with mn(1,2,4) show ?thesis by auto
qed

end
