(* ===== verification/TestSupport.thy ===== *)
theory TestSupport
  imports MintProperties AppWiring AppExport
begin

text \<open>
  The fixtures of the tests, under \<open>testutil\<close>: \<open>nullify.Fill\<close>, which walks over a value by reflection, the keeper that
  the module's tests run on, the configuration of a test network with its free ports, and sample
  addresses. A failed \<open>require\<close> ends the test; it is a \<open>Fatal\<close> error.
\<close>

section \<open>nullify.go\<close>

text \<open>
  Go values as reflection sees them: structs with the name of their type and a mark on the exported fields. Values are
  trees, so two pointers to one object are two copies of it.
\<close>

datatype gval =
    BasicV string
  | PtrV "gval option"
  | IfaceV "gval option"
  | SliceV "gval list option"
  | StructV string "(bool \<times> gval) list"

definition coinType :: string where "coinType = ''types.Coin''"
definition coinsType :: string where "coinsType = ''types.Coins''"

definition zeroCoin :: gval where
  "zeroCoin = StructV coinType [(True, BasicV ''''), (True, StructV ''math.Int'' [(False, PtrV None)])]"

text \<open>\<open>reflect.Indirect(v).Interface()\<close>, and setting an element of a slice to it.\<close>

fun interfaceOf :: "gval \<Rightarrow> gval option res" where
  "interfaceOf (PtrV None) = Inl (Panic ''Interface of zero Value'')"
| "interfaceOf (PtrV (Some (IfaceV w))) = Inr w"
| "interfaceOf (PtrV (Some w)) = Inr (Some w)"
| "interfaceOf (IfaceV w) = Inr w"
| "interfaceOf v = Inr (Some v)"

fun setElem :: "gval \<Rightarrow> gval res" where
  "setElem (PtrV None) = Inl (Panic ''Interface of zero Value'')"
| "setElem (PtrV (Some w)) = Inl (Panic ''value not assignable to the pointer'')"
| "setElem (IfaceV None) = Inl (Panic ''Set using zero Value'')"
| "setElem v = Inr v"

text \<open>
  The \<open>switch\<close> on the kind, on a value that is addressable or not; the fields of a struct, of which one that is
  exported can be set if the struct is addressable or the field is a pointer to it; and the inner \<open>switch\<close>.
\<close>

fun fillV :: "bool \<Rightarrow> gval \<Rightarrow> gval res"
  and fillElems :: "gval list \<Rightarrow> gval list res"
  and fillFields :: "bool \<Rightarrow> (bool \<times> gval) list \<Rightarrow> (bool \<times> gval) list res"
  and fillField :: "gval \<Rightarrow> gval res" where
  "fillV addr (SliceV (Some xs)) = bindR (fillElems xs) (\<lambda>ys. Inr (SliceV (Some ys)))"
| "fillV addr (StructV ty fs) = bindR (fillFields addr fs) (\<lambda>gs. Inr (StructV ty gs))"
| "fillV addr (SliceV None) = Inr (SliceV None)"
| "fillV addr (BasicV s) = Inr (BasicV s)"
| "fillV addr (PtrV p) = Inr (PtrV p)"
| "fillV addr (IfaceV i) = Inr (IfaceV i)"
| "fillElems [] = Inr []"
| "fillElems (x # xs) =
     bindR (fillV True x) (\<lambda>y. bindR (setElem y) (\<lambda>y. bindR (fillElems xs) (\<lambda>ys. Inr (y # ys))))"
| "fillFields addr [] = Inr []"
| "fillFields addr ((exported, PtrV (Some f)) # fs) =
     bindR (if exported then bindR (fillField f) (\<lambda>f. Inr (PtrV (Some f))) else Inr (PtrV (Some f))) (\<lambda>g.
     bindR (fillFields addr fs) (\<lambda>gs. Inr ((exported, g) # gs)))"
| "fillFields addr ((exported, PtrV None) # fs) =
     bindR (fillFields addr fs) (\<lambda>gs. Inr ((exported, PtrV None) # gs))"
| "fillFields addr ((exported, f) # fs) =
     bindR (if exported \<and> addr then fillField f else Inr f) (\<lambda>g.
     bindR (fillFields addr fs) (\<lambda>gs. Inr ((exported, g) # gs)))"
| "fillField (SliceV s) = Inr (SliceV (Some []))"
| "fillField (StructV ty fs) =
     (if ty = coinType then Inr zeroCoin
      else if ty = coinsType then Inr (SliceV None)
      else bindR (fillFields True fs) (\<lambda>gs. Inr (StructV ty gs)))"
| "fillField f = Inr f"

text \<open>\<open>Fill\<close>: what becomes of the argument, which it changes in place, and the result.\<close>

fun Fill :: "gval option \<Rightarrow> (gval \<times> gval option) res" where
  "Fill None = Inl (Panic ''Interface of zero Value'')"
| "Fill (Some (PtrV None)) = Inl (Panic ''Interface of zero Value'')"
| "Fill (Some (PtrV (Some v))) =
     bindR (fillV True v) (\<lambda>v. bindR (interfaceOf v) (\<lambda>r. Inr (PtrV (Some v), r)))"
| "Fill (Some v) = bindR (fillV False v) (\<lambda>v. bindR (interfaceOf v) (\<lambda>r. Inr (v, r)))"

text \<open>\<open>sdk.Coins\<close> is a slice type: no struct has it, and the case for it is never reached.\<close>

fun coinsAreSlices :: "gval \<Rightarrow> bool" where
  "coinsAreSlices (StructV ty fs) \<longleftrightarrow> ty \<noteq> coinsType \<and> list_all (\<lambda>(_, f). coinsAreSlices f) fs"
| "coinsAreSlices (SliceV (Some xs)) \<longleftrightarrow> list_all coinsAreSlices xs"
| "coinsAreSlices (PtrV (Some v)) \<longleftrightarrow> coinsAreSlices v"
| "coinsAreSlices v \<longleftrightarrow> True"

text \<open>
  Filling again changes nothing: elements are set, and slices and coins of structs are already what they are set to.
\<close>

lemma setElem_Inr: "setElem x = Inr y \<Longrightarrow> y = x"
  by (cases x rule: setElem.cases) auto

lemma fillField_zeroCoin [simp]: "fillField zeroCoin = Inr zeroCoin"
  by (simp add: zeroCoin_def)

lemma fillFields_zeroCoin [simp]:
  "fillFields addr ((e, zeroCoin) # fs) = bindR (fillFields addr fs) (\<lambda>gs. Inr ((e, zeroCoin) # gs))"
  by (simp add: zeroCoin_def)

lemma fillFields_value: "\<nexists>p. f = PtrV p \<Longrightarrow> fillFields addr ((exported, f) # fs) =
  bindR (if exported \<and> addr then fillField f else Inr f) (\<lambda>g.
  bindR (fillFields addr fs) (\<lambda>gs. Inr ((exported, g) # gs)))"
  by (cases f) auto

lemma fillField_kind: "fillField f = Inr g \<Longrightarrow> (\<exists>p. g = PtrV p) \<longleftrightarrow> (\<exists>p. f = PtrV p)"
  by (cases f) (auto simp: bindR_Inr_conv zeroCoin_def split: if_splits)

lemma fillFields_again:
  assumes "\<nexists>p. f = PtrV p" "fillFields addr ((exported, f) # fs) = Inr fs'"
    and "\<And>g. exported \<and> addr \<Longrightarrow> fillField f = Inr g \<Longrightarrow> fillField g = Inr g"
    and "\<And>g gs. (if exported \<and> addr then fillField f else Inr f) = Inr g \<Longrightarrow> fillFields addr fs = Inr gs \<Longrightarrow>
      fillFields addr gs = Inr gs"
  shows "fillFields addr fs' = Inr fs'"
proof -
  obtain g gs where g: "(if exported \<and> addr then fillField f else Inr f) = Inr g" "fillFields addr fs = Inr gs"
    "fs' = (exported, g) # gs" using assms(1,2) by (auto simp: fillFields_value bindR_Inr_conv)
  then have "\<nexists>p. g = PtrV p" using fillField_kind [of f g] assms(1) by (auto split: if_splits)
  moreover have "(if exported \<and> addr then fillField g else Inr g) = Inr g"
    using g(1) assms(3) by (auto split: if_splits)
  ultimately show ?thesis using g(3) assms(4) [OF g(1,2)] by (simp add: fillFields_value)
qed

lemma fill_again:
  "coinsAreSlices v \<Longrightarrow> fillV addr v = Inr v' \<Longrightarrow> fillV addr v' = Inr v'"
  "list_all coinsAreSlices xs \<Longrightarrow> fillElems xs = Inr xs' \<Longrightarrow> fillElems xs' = Inr xs'"
  "list_all (\<lambda>(_, f). coinsAreSlices f) fs \<Longrightarrow> fillFields addr fs = Inr fs' \<Longrightarrow> fillFields addr fs' = Inr fs'"
  "coinsAreSlices f \<Longrightarrow> fillField f = Inr f' \<Longrightarrow> fillField f' = Inr f'"
proof (induction addr v and xs and addr fs and f arbitrary: v' and xs' and fs' and f'
    rule: fillV_fillElems_fillFields_fillField.induct)
  case (1 addr xs)
  then obtain ys where "fillElems xs = Inr ys" "v' = SliceV (Some ys)" by (auto simp: bindR_Inr_conv)
  with 1 show ?case by simp
next
  case (2 addr ty fs)
  then obtain gs where "fillFields addr fs = Inr gs" "v' = StructV ty gs" by (auto simp: bindR_Inr_conv)
  with 2 show ?case by simp
next
  case (8 x xs)
  from 8(4) obtain y z ys where y: "fillV True x = Inr y" "setElem y = Inr z" "fillElems xs = Inr ys" "xs' = z # ys"
    by (auto simp: bindR_Inr_conv)
  then have z: "z = y" "setElem y = Inr y" using setElem_Inr by auto
  have "fillV True y = Inr y" "fillElems ys = Inr ys" using 8(1,2,3) y by auto
  with y(4) z show ?case by simp
next
  case (10 addr exported f fs)
  from 10(4) obtain g gs where g: "if exported then fillField f = Inr g else g = f" "fillFields addr fs = Inr gs"
    "fs' = (exported, PtrV (Some g)) # gs" by (auto simp: bindR_Inr_conv split: if_splits)
  have "if exported then fillField g = Inr g else g = f" using 10(1,3) g(1) by (cases exported) auto
  moreover have "fillFields addr gs = Inr gs" using 10(2,3) g(1,2) by (cases exported) (auto simp: bindR_Inr_conv)
  ultimately show ?case using g(3) by (cases exported) simp_all
next
  case (11 addr exported fs)
  then show ?case by (auto simp: bindR_Inr_conv)
next
  case "12_1"
  show ?case by (rule fillFields_again [OF _ "12_1"(4)]) (use "12_1"(1,2,3) in auto)
next
  case "12_2"
  show ?case by (rule fillFields_again [OF _ "12_2"(4)]) (use "12_2"(1,2,3) in auto)
next
  case "12_3"
  show ?case by (rule fillFields_again [OF _ "12_3"(4)]) (use "12_3"(1,2,3) in auto)
next
  case "12_4"
  show ?case by (rule fillFields_again [OF _ "12_4"(4)]) (use "12_4"(1,2,3) in auto)
next
  case (14 ty fs)
  from 14(2,3) consider "ty = coinType" "f' = zeroCoin"
    | gs where "ty \<noteq> coinType" "fillFields True fs = Inr gs" "f' = StructV ty gs"
    by (auto simp: bindR_Inr_conv split: if_splits)
  then show ?case using 14(1,2) by cases (auto split: if_splits)
qed auto

text \<open>What becomes of an argument keeps its kind, so that it can be filled again.\<close>

lemma fillV_kind:
  "fillV addr v = Inr v' \<Longrightarrow> (\<exists>p. v' = PtrV p) \<longleftrightarrow> (\<exists>p. v = PtrV p)"
  by (cases "(addr, v)" rule: fillV.cases) (auto simp: bindR_Inr_conv)

lemma Fill_value: "\<nexists>p. v = PtrV p \<Longrightarrow>
  Fill (Some v) = bindR (fillV False v) (\<lambda>v. bindR (interfaceOf v) (\<lambda>r. Inr (v, r)))"
  by (cases v) auto

lemma Fill_again:
  assumes "coinsAreSlices x" "Fill (Some x) = Inr (y, r)"
  shows "Fill (Some y) = Inr (y, r)"
proof (cases "\<exists>p. x = PtrV p")
  case True
  with assms(2) obtain v where x: "x = PtrV (Some v)" by (cases "x" rule: interfaceOf.cases) auto
  with assms obtain v' where v': "fillV True v = Inr v'" "interfaceOf v' = Inr r" "y = PtrV (Some v')"
    by (auto simp: bindR_Inr_conv)
  with fill_again(1) [OF _ v'(1)] x assms(1) show ?thesis by simp
next
  case False
  with assms(2) have y: "fillV False x = Inr y" "interfaceOf y = Inr r"
    by (auto simp: Fill_value bindR_Inr_conv)
  with False fillV_kind [OF y(1)] fill_again(1) [OF assms(1) y(1)] show ?thesis by (simp add: Fill_value)
qed

text \<open>
  The comment of \<open>Fill\<close> promises to initialise nil slices and pointers. A pointer that is nil stays nil, and a slice
  in a struct is emptied whatever it holds.
\<close>

lemma fill_empties_slices:
  "Fill (Some (PtrV (Some (StructV ty [(True, SliceV s), (True, PtrV None)])))) =
    Inr (PtrV (Some (StructV ty [(True, SliceV (Some [])), (True, PtrV None)])),
      Some (StructV ty [(True, SliceV (Some [])), (True, PtrV None)]))"
  by simp

text \<open>A slice of pointers to structs makes it panic: the element is set to the struct.\<close>

lemma fill_pointers_panics: "\<exists>e. Fill (Some (SliceV (Some (PtrV (Some v) # xs)))) = Inl e \<and> is_panic e"
  by simp

text \<open>A genesis state, whose amount is a struct with an unexported pointer, is left as it is.\<close>

definition goInt :: "int option \<Rightarrow> gval" where
  "goInt i = StructV ''math.Int'' [(False, PtrV (map_option (\<lambda>n. StructV ''big.Int'' [(False, BasicV (Itoa n))]) i))]"

definition goParams :: "int option Params \<Rightarrow> gval" where
  "goParams p = StructV ''types.Params'' [(True, BasicV (MintDenom p)), (True, goInt (MintAmount p)),
     (True, BasicV (if MintEnabled p then ''true'' else ''false''))]"

definition goGenesis :: "int option GenesisState \<Rightarrow> gval" where
  "goGenesis g = StructV ''types.GenesisState'' [(True, goParams (gsParams g))]"

lemma fill_keeps_genesis: "Fill (Some (PtrV (Some (goGenesis g)))) = Inr (PtrV (Some (goGenesis g)), Some (goGenesis g))"
  by (cases "MintAmount (gsParams g)")
    (simp_all add: goGenesis_def goParams_def goInt_def coinType_def coinsType_def)

section \<open>network.go\<close>

text \<open>
  The listeners and networks of the SDK's test support: a free address comes with its port and a function that closes
  the listener which holds it.
\<close>

record ('s, 'h, 'app, 'cfg, 'net) network_lib =
  FreeTCPAddr :: "'s \<Rightarrow> 's \<times> (string \<times> 'h) ext"
  CloseFn :: "'h \<Rightarrow> 's \<Rightarrow> 's \<times> unit ext"
  DefaultConfigWithAppConfig :: "'app \<Rightarrow> 's \<Rightarrow> 's \<times> 'cfg ext"
  NewNetwork :: "'cfg \<Rightarrow> 's \<Rightarrow> 's \<times> 'net ext"
  WaitForHeight :: "'net \<Rightarrow> int \<Rightarrow> 's \<Rightarrow> 's \<times> int ext"
  RegisterCleanup :: "'net \<Rightarrow> 's \<Rightarrow> 's"

record network_config =
  APIAddress :: string
  RPCAddress :: string
  GRPCAddress :: string

text \<open>\<open>freePorts\<close>: the loop that opens, with the ports and closing functions in order, and the loop that closes.\<close>

fun openPorts :: "('s, 'h, 'app, 'cfg, 'net) network_lib \<Rightarrow> nat \<Rightarrow> ('s, (string \<times> 'h) list) act" where
  "openPorts N 0 = lift (Inr [])"
| "openPorts N (Suc n) =
     bindS (call (FreeTCPAddr N)) (\<lambda>p. bindS (openPorts N n) (\<lambda>ps. lift (Inr (p # ps))))"

definition freePorts :: "('s, 'h, 'app, 'cfg, 'net) network_lib \<Rightarrow> nat \<Rightarrow> ('s, string list) act" where
  "freePorts N n =
     bindS (openPorts N n) (\<lambda>ps.
     bindS (forS (\<lambda>c. call (CloseFn N c)) (map snd ps)) (\<lambda>_. lift (Inr (map fst ps))))"

definition networkDefaultConfig ::
  "('s, 'h, 'app, 'z network_config_scheme, 'net) network_lib \<Rightarrow> 'app \<Rightarrow> ('s, 'z network_config_scheme) act" where
  "networkDefaultConfig N appConf =
     bindS (panicS (call (DefaultConfigWithAppConfig N appConf))) (\<lambda>cfg.
     bindS (panicS (freePorts N 3)) (\<lambda>ports.
     let cfg = (if APIAddress cfg = '''' then cfg\<lparr>APIAddress := ''tcp://0.0.0.0:'' @ ports ! 0\<rparr> else cfg);
         cfg = (if RPCAddress cfg = '''' then cfg\<lparr>RPCAddress := ''tcp://0.0.0.0:'' @ ports ! 1\<rparr> else cfg);
         cfg = (if GRPCAddress cfg = '''' then cfg\<lparr>GRPCAddress := ''0.0.0.0:'' @ ports ! 2\<rparr> else cfg)
     in lift (Inr cfg)))"

text \<open>\<open>New\<close>, for the configurations it is given.\<close>

definition networkNew ::
  "('s, 'h, 'app, 'z network_config_scheme, 'net) network_lib \<Rightarrow> 'app \<Rightarrow> 'z network_config_scheme list \<Rightarrow>
   ('s, 'net) act" where
  "networkNew N appConf configs =
     (if 1 < length configs then lift (Inl (Panic ''at most one config should be provided''))
      else
        bindS (case configs of [] \<Rightarrow> networkDefaultConfig N appConf | cfg # _ \<Rightarrow> lift (Inr cfg)) (\<lambda>cfg.
        bindS (fatal (call (NewNetwork N cfg))) (\<lambda>net.
        bindS (fatal (call (WaitForHeight N net 1))) (\<lambda>_.
          \<lambda>s. (RegisterCleanup N net s, Inr net)))))"

text \<open>
  What the library promises of \<open>open\<close>, the listeners that are open with their ports: a free address has a port no open
  listener has, its listener is new, and closing an open listener works.
\<close>

definition free_ok ::
  "('s, 'h, 'app, 'cfg, 'net) network_lib \<Rightarrow> ('s \<Rightarrow> 'h \<rightharpoonup> string) \<Rightarrow> bool" where
  "free_ok N open \<longleftrightarrow>
     (\<forall>s s' port c. FreeTCPAddr N s = (s', Inr (port, c)) \<longrightarrow>
        port \<notin> ran (open s) \<and> c \<notin> dom (open s) \<and> open s' = (open s)(c \<mapsto> port)) \<and>
     (\<forall>s s' e. FreeTCPAddr N s = (s', Inl e) \<longrightarrow> open s' = open s) \<and>
     (\<forall>c s. c \<in> dom (open s) \<longrightarrow> (\<exists>s'. CloseFn N c s = (s', Inr ()) \<and> open s' = (open s)(c := None)))"

lemma map_of_swap: "c \<notin> set (map snd ps) \<Longrightarrow> map_of (map (\<lambda>(p, c). (c, p)) ps) c = None"
  by (induction ps) auto

lemma openPorts_open:
  assumes "free_ok N open" "openPorts N n s = (s', Inr ps)"
  shows "length ps = n \<and> distinct (map fst ps) \<and> distinct (map snd ps) \<and>
    set (map fst ps) \<inter> ran (open s) = {} \<and> set (map snd ps) \<inter> dom (open s) = {} \<and>
    open s' = open s ++ map_of (map (\<lambda>(p, c). (c, p)) ps)"
  using assms(2)
proof (induction n arbitrary: s s' ps)
  case 0
  then show ?case by (simp add: lift_def)
next
  case (Suc n)
  then obtain port c s1 qs where c: "FreeTCPAddr N s = (s1, Inr (port, c))" and
    q: "openPorts N n s1 = (s', Inr qs)" and ps: "ps = (port, c) # qs"
    by (auto simp: bindS_Inr_iff call_Inr_iff lift_def)
  then have o: "port \<notin> ran (open s)" "c \<notin> dom (open s)" "open s1 = (open s)(c \<mapsto> port)"
    using assms(1) unfolding free_ok_def by blast+
  note ih = Suc.IH [OF q]
  have "ran (open s1) = insert port (ran (open s))" "dom (open s1) = insert c (dom (open s))"
    using o(2) by (auto simp: o(3))
  with ih have new: "port \<notin> set (map fst qs)" "c \<notin> set (map snd qs)"
    "set (map fst qs) \<inter> ran (open s) = {}" "set (map snd qs) \<inter> dom (open s) = {}" by auto
  have "open s ++ map_of (map (\<lambda>(p, c). (c, p)) ps) = open s1 ++ map_of (map (\<lambda>(p, c). (c, p)) qs)"
    using map_of_swap [OF new(2)] by (auto simp: ps o(3) map_add_def fun_eq_iff split: option.splits)
  with ih have "open s' = open s ++ map_of (map (\<lambda>(p, c). (c, p)) ps)" by argo
  moreover have "length ps = Suc n" "distinct (map fst ps)" "distinct (map snd ps)"
    "set (map fst ps) \<inter> ran (open s) = {}" "set (map snd ps) \<inter> dom (open s) = {}"
    using ih new o(1,2) by (simp_all add: ps)
  ultimately show ?case by blast
qed

lemma closePorts:
  assumes "free_ok N open"
  shows "set cs \<subseteq> dom (open s) \<Longrightarrow> distinct cs \<Longrightarrow>
    \<exists>s'. forS (\<lambda>c. call (CloseFn N c)) cs s = (s', Inr ()) \<and> open s' = open s |` (- set cs)"
proof (induction cs arbitrary: s)
  case Nil
  show ?case by (simp add: lift_def)
next
  case (Cons c cs)
  then have "c \<in> dom (open s)" by simp
  then obtain s1 where s1: "CloseFn N c s = (s1, Inr ())" "open s1 = (open s)(c := None)"
    using assms unfolding free_ok_def by blast
  with Cons.prems have "set cs \<subseteq> dom (open s1)" "distinct cs" by auto
  from Cons.IH [OF this] obtain s2 where s2: "forS (\<lambda>c. call (CloseFn N c)) cs s1 = (s2, Inr ())"
    "open s2 = open s1 |` (- set cs)" by blast
  have "open s2 = open s |` (- set (c # cs))"
    by (auto simp: s2(2) s1(2) restrict_map_def fun_eq_iff)
  with s1(1) s2(1) show ?case by (simp add: bindS_def)
qed

text \<open>
  The ports are as many as asked for, different from each other and from all ports in use, because all are held
  open while the next is asked for; and afterwards none of the listeners is open any more.
\<close>

lemma freePorts_distinct:
  assumes "free_ok N open" "openPorts N n s = (s1, Inr ps)"
  shows "\<exists>s' ports. freePorts N n s = (s', Inr ports) \<and> length ports = n \<and> distinct ports \<and>
    set ports \<inter> ran (open s) = {} \<and> open s' = open s"
proof -
  note o = openPorts_open [OF assms]
  have d: "dom (map_of (map (\<lambda>(p, c). (c, p)) ps)) = set (map snd ps)"
    by (simp add: dom_map_of_conv_image_fst image_image case_prod_beta)
  then have "set (map snd ps) \<subseteq> dom (open s1)" using o by auto
  from closePorts [OF assms(1) this] o obtain s' where
    s': "forS (\<lambda>c. call (CloseFn N c)) (map snd ps) s1 = (s', Inr ())" "open s' = open s1 |` (- set (map snd ps))"
    by blast
  have "open s' x = open s x" for x
  proof (cases "x \<in> set (map snd ps)")
    case True
    with o have "open s x = None" by blast
    with True show ?thesis by (simp add: s'(2) restrict_map_def)
  next
    case False
    with o map_of_swap [OF False] show ?thesis by (simp add: s'(2) map_add_def)
  qed
  then have "open s' = open s" by blast
  with o s'(1) assms(2) show ?thesis
    by (intro exI [of _ s'] exI [of _ "map fst ps"]) (simp add: freePorts_def bindS_def lift_def)
qed

text \<open>If an address is refused, the listeners opened before it stay open: the closing functions are dropped.\<close>

lemma freePorts_leaks:
  assumes "free_ok N open" "FreeTCPAddr N s = (s1, Inr (port, c))" "FreeTCPAddr N s1 = (s2, Inl e)"
  shows "\<exists>err. freePorts N (Suc (Suc n)) s = (s2, Inl err) \<and> open s2 = (open s)(c \<mapsto> port)"
proof -
  have "open s2 = open s1" "open s1 = (open s)(c \<mapsto> port)" using assms unfolding free_ok_def by blast+
  with assms(2,3) show ?thesis by (cases e) (simp_all add: freePorts_def bindS_def call_def)
qed

text \<open>
  A host that numbers its listeners and hands out their numbers as ports keeps the promise; it counts
  the listeners and remembers which are closed.
\<close>

definition sample_host :: "(nat \<times> nat set, nat, unit, network_config, unit) network_lib" where
  "sample_host = \<lparr>
     FreeTCPAddr = (\<lambda>(n, closed). ((Suc n, closed - {n}), Inr (Itoa (int n), n))),
     CloseFn = (\<lambda>c (n, closed). ((n, insert c closed), Inr ())),
     DefaultConfigWithAppConfig = (\<lambda>_ s. (s, Inr \<lparr>APIAddress = [], RPCAddress = [], GRPCAddress = ''0.0.0.0:9090''\<rparr>)),
     NewNetwork = (\<lambda>_ s. (s, Inr ())), WaitForHeight = (\<lambda>_ h s. (s, Inr h)), RegisterCleanup = (\<lambda>_ s. s)\<rparr>"

definition sample_listening :: "nat \<times> nat set \<Rightarrow> nat \<rightharpoonup> string" where
  "sample_listening = (\<lambda>(n, closed) c. if c < n \<and> c \<notin> closed then Some (Itoa (int c)) else None)"

lemma sample_host_ok: "free_ok sample_host sample_listening"
  by (auto simp: free_ok_def sample_host_def sample_listening_def ran_def dom_def fun_eq_iff Itoa_inject split: if_splits)

text \<open>On it the default configuration fills exactly the addresses that are empty, with ports that are free again.\<close>

lemma default_config_sample:
  "networkDefaultConfig sample_host () (7, {}) =
    ((10, {7, 8, 9}), Inr \<lparr>APIAddress = ''tcp://0.0.0.0:7'', RPCAddress = ''tcp://0.0.0.0:8'', GRPCAddress = ''0.0.0.0:9090''\<rparr>)"
  unfolding networkDefaultConfig_def numeral_3_eq_3
  by (auto simp: freePorts_def sample_host_def bindS_def call_def panicS_def lift_def
      Itoa_def digits.simps digit_def char_of_def bit_0)

section \<open>keeper/fixedmint.go and sample.go\<close>

text \<open>
  The stores of the SDK, the codec it makes for an empty registry, the store service of the module's key, and the
  nil value that stands for the bank keeper.
\<close>

record ('s, 'i, 'k) fixture_lib =
  LoadLatestVersion :: "'s \<Rightarrow> 's \<times> unit ext"
  NewProtoCodec :: "'i BinaryCodec"
  NewKVStoreService :: "string \<Rightarrow> 's KVStore"
  nilBankKeeper :: "('s, 'k) BankKeeper"

definition FixedmintKeeper ::
  "('s, 'i, 'k) fixture_lib \<Rightarrow> Addresses \<Rightarrow> ('i, 'z) math_Int_scheme \<Rightarrow> ('s, ('s, 'i, 'k) Keeper) act" where
  "FixedmintKeeper F A I =
     bindS (fatal (call (LoadLatestVersion F))) (\<lambda>_.
     bindS (lift (NewKeeper A (NewProtoCodec F) (NewKVStoreService F StoreKey)
         (AccAddress_String A (NewModuleAddress A (govModuleName A))) (nilBankKeeper F))) (\<lambda>k.
     bindS (panicS (SetParams k (DefaultParams I))) (\<lambda>_. lift (Inr k))))"

text \<open>The keeper that tests get holds the default parameters and obeys the gov module; its bank is nil.\<close>

lemma fixture_ready:
  assumes "LoadLatestVersion F s = (s1, Inr ())"
    and "AccAddressFromBech32 A (AccAddress_String A (NewModuleAddress A (govModuleName A))) = Inr addr"
    and "codec_ok I (NewProtoCodec F)" "store_ok (NewKVStoreService F StoreKey) W"
    and "Params_ok I t (DefaultParams I)"
  shows "\<exists>k s'. FixedmintKeeper F A I s = (s', Inr k) \<and> GetParams I k s' = Inr (DefaultParams I) \<and>
    GetAuthority k = AccAddress_String A (NewModuleAddress A (govModuleName A)) \<and> bankKeeper k = nilBankKeeper F"
proof -
  let ?a = "AccAddress_String A (NewModuleAddress A (govModuleName A))"
  let ?k = "\<lparr>cdc = NewProtoCodec F, storeService = NewKVStoreService F StoreKey, authority = ?a,
    bankKeeper = nilBankKeeper F\<rparr>"
  have k: "codec_ok I (cdc ?k) \<and> store_ok (storeService ?k) W" using assms(3,4) by simp
  obtain s' where s': "SetParams ?k (DefaultParams I) s1 = (s', Inr ())"
    using param_store.set_view [OF k assms(5)] by blast
  have "GetParams I ?k s' = Inr (DefaultParams I)" using param_store.get_set [OF k assms(5), of s1] s' by simp
  moreover have "FixedmintKeeper F A I s = (s', Inr ?k)"
    using assms(1,2) s' by (simp add: FixedmintKeeper_def NewKeeper_def bindS_def fatal_def call_def lift_def panicS_def)
  ultimately show ?thesis by (intro exI [of _ ?k] exI [of _ s']) (simp add: GetAuthority_def)
qed

text \<open>\<open>sample.AccAddress\<close>: the text of the address of a fresh key.\<close>

definition sample_AccAddress ::
  "('s \<Rightarrow> 's \<times> 'key) \<Rightarrow> ('key \<Rightarrow> bytes) \<Rightarrow> Addresses \<Rightarrow> ('s, string) act" where
  "sample_AccAddress genPrivKey addressOf A s =
     (let (s', key) = genPrivKey s in (s', Inr (AccAddress_String A (addressOf key))))"

end
