(* ===== verification/Spec2Isabelle.thy ===== *)
theory Spec2Isabelle
  imports DescriptorProperties GatewayProperties ModuleGlue CmdRoot TestSupport
begin

text \<open>
  A verification library of the bluechip chain, a Cosmos SDK application in Go. Its own logic is a module,
  \<open>x/fixedmint\<close>, that mints a fixed reward in every block, and the assembly of an application and of
  test networks around the SDK's modules. The library models that logic as HOL functions
  and proves what makes each part correct. The SDK, CometBFT, IBC, CosmWasm and protobuf's runtime are not
  in the repository: their operations are fields of records that the definitions take as arguments,
  and what the code relies on of them are named predicates on those records. For every
  such predicate a concrete instance is proved to satisfy it (theory Sample, and the ends of the
  theories of the application), and the witnesses run the code on these instances.

  \<^bold>\<open>How Go is read.\<close> An operation with effects is a function \<open>'s \<Rightarrow> 's \<times> (err + 'a)\<close> (\<open>act\<close>), one without
  is a value of \<open>err + 'a\<close> (\<open>res\<close>); the type \<open>err\<close> of Prelude has one constructor per error of the source, and
  panics and process exits are errors that \<open>is_panic\<close> and \<open>Fatal\<close> tell apart. An error leaves the effects that came
  before it. \<open>panicS\<close>, \<open>fatal\<close> and \<open>dropS\<close> are \<open>panic(err)\<close>, \<open>log.Fatal(err)\<close> and \<open>_ = f()\<close>. Byte slices are lists of 8-bit words whose
  bounds checks are written out, varints are 64-bit words, and Go's \<open>int\<close> is an integer that wraps
  explicitly (\<open>wrap64\<close>) where untrusted numbers are added. Strings are lists of characters.

  \<^bold>\<open>The codec of the messages.\<close>
  \<^item> Varint, Wire: what the files \<open>types/*.pb.go\<close> repeat: \<open>encodeVarint\<close>, \<open>sov\<close>, the reading of varints, lengths and
    tags, \<open>skip\<close>, the decoding loop over fields, writing backwards into a sized buffer. The locale of a field decoder proves once that
    decoding terminates, never panics and merges concatenated messages; each message interprets it.
  \<^item> ParamsPb, GenesisPb, TxPb, QueryPb: the messages, field by field, with their \<open>Size\<close>, \<open>Marshal\<close>, \<open>MarshalTo\<close>,
    \<open>Unmarshal\<close>, \<open>Equal\<close> and getters. Loops over bytes take \<open>length + 1\<close> units of fuel: each iteration consumes at
    least one byte, and \<open>clean\<close> results never are \<open>OutOfFuel\<close>, so the bound is proved to be enough.
  \<^item> WireProperties: round trips, totality on arbitrary bytes, merging, unknown fields (C13 to C16).

  \<^bold>\<open>The second generated API\<close>, under \<open>api/bluechipchain/fixedmint\<close>.
  \<^item> ApiCore: what the \<open>*.pulsar.go\<close> files share: receivers that may be nil, panics of the switches over field names, the
    shape of \<open>size\<close>, \<open>marshal\<close> and \<open>unmarshal\<close>. \<open>cosmos_runtime\<close> and \<open>proto_lib\<close> are the two libraries they call;
    the locales \<open>api_decoder\<close> and \<open>api_message\<close> are the contracts of a switch and of a message, interpreted on a runtime
    made of the repository's own varint functions.
  \<^item> ApiReflect: the laws of access by descriptor as a locale, with the derived copying of a message.
  \<^item> ApiParams, ApiGenesis, ApiQuery, ApiTx, ApiModule: the seven messages. Their fuel is that of Wire.
  \<^item> ApiGrpc: \<open>tx_grpc.pb.go\<close> and \<open>query_grpc.pb.go\<close>.
  \<^item> ApiProperties: agreement with the chain's codec, an API client against the chain, round trips with unknown fields,
    termination, reflection, and where the two codecs differ (C17 to C23).

  \<^bold>\<open>The descriptors of the second API.\<close> Each \<open>*.pulsar.go\<close> embeds its \<open>.proto\<close> file as a table of bytes.
  \<^item> Descriptor: the documented wire format of such tables, a reader \<open>readFile\<close> and a writer \<open>encodeFile\<close> with
    \<open>readFile (encodeFile s) = Some s\<close>. It is a reference definition, not code of the repository.
  \<^item> ApiTables: the five tables, byte for byte, and for each the schema it declares: the table is the encoding of the schema.
  \<^item> ApiDescriptors: the package variables as a state (\<open>api_vars\<close>, with the library's registry of message names), the
    \<open>init\<close> functions and \<open>file_*_proto_init\<close>, \<open>rawDescGZIP\<close> and the methods \<open>Descriptor\<close>. \<open>protoimpl\<close> is the
    library they call; \<open>protoimpl_ok\<close> says that it builds files whose numbers, Go types and dependency indexes fit their table and whose
    messages are not registered yet. \<open>api_inv\<close> is the invariant of the variables, \<open>api_reachable\<close> the states.
  \<^item> Inflate: the documented format of compressed data, as far as fixed Huffman codes and stored blocks, with a writer of tokens
    and the proof that reading gives back what the tokens stand for. A reference definition too.
  \<^item> PbDescriptors: the compressed tables of \<open>types/*.pb.go\<close>, their registration and the methods \<open>Descriptor\<close> of the
    chain's messages. The tokens of each table are certificates: the bits are theirs, and they stand for the schema.
  \<^item> DescriptorProperties: the initialisation in any order, that decoders, encoders and service descriptions follow the
    tables, and that the chain's tables declare the same messages (C24 to C28). \<open>conforms\<close> takes the depth of nesting as fuel, 2 for every message here.

  \<^bold>\<open>The fixedmint module.\<close>
  \<^item> Types: \<open>keys.go\<close>, \<open>params.go\<close>, \<open>genesis.go\<close>, \<open>msg_update_params.go\<close>: names, defaults and validation.
  \<^item> MintKeeper: \<open>x/fixedmint/keeper\<close>: the keeper's state is one key of a store; \<open>GetParams\<close>, \<open>SetParams\<close>,
    \<open>MintFixedBlockReward\<close>, the message and query servers and the invariant. A \<open>world\<close> is the abstract state (the stored
    bytes, module balances, supply); \<open>codec_ok\<close>, \<open>store_ok\<close>, \<open>bank_ok\<close> and \<open>coins_ok\<close> say what the SDK promises on it, \<open>specBlock\<close> is the
    specified effect of a block and \<open>Mint_refines\<close> the refinement. The locale \<open>params_store\<close> is the contract
    of the stored parameters, interpreted on \<open>GetParams\<close> and \<open>SetParams\<close>.
  \<^item> Services: the gRPC handlers, service descriptions, clients and the HTTP gateway of \<open>tx.pb.go\<close>, \<open>query.pb.go\<close> and
    \<open>query.pb.gw.go\<close>.
  \<^item> FixedmintModule: \<open>x/fixedmint/module\<close>: genesis, block hooks, registration, wiring, and the chain as a
    step relation \<open>chain_step\<close> with the invariant \<open>module_inv\<close>.
  \<^item> MintProperties: the reward refines its specification and is linear in the number of blocks, the invariant holds in every
    reachable state, the supply grows without bound on infinite runs, who may change the parameters, genesis and wire round trips, and how validated parameters can
    still halt the chain (C1 to C10, C12).
  \<^item> GatewayProperties: the HTTP gateway over the keeper's query server, in process and over a connection, serves the
    stored parameters (C11). \<open>carries\<close> is what gRPC promises of a connection.
  \<^item> Strconv, Sample: decimal notation and the concrete instances of the contracts.

  \<^bold>\<open>The application.\<close>
  \<^item> AppAnte: \<open>app/ante.go\<close>, the checked options and the order of the decorators (C29).
  \<^item> AppWiring: \<open>app/app_config.go\<close>, \<open>app/ibc.go\<close>, \<open>app/wasm.go\<close> and the lookups of \<open>app/app.go\<close>: orders, permissions,
    and the registration of the modules that are wired by hand (C30, C32). Module and account names of the SDK are symbols.
  \<^item> AppExport: \<open>app/export.go\<close> and \<open>app/genesis_account.go\<close> (C33).
  \<^item> AppNew: \<open>New\<close> of \<open>app/app.go\<close>, \<open>app/upgrades.go\<close>, and \<open>newApp\<close> and \<open>appExport\<close> of \<open>commands.go\<close> (C31, C39).

  \<^bold>\<open>The commands\<close>, under \<open>cmd/bluechipchaind/cmd\<close>.
  \<^item> GoPath: the path functions of Go's standard library the commands use, and splitting and joining of strings.
  \<^item> CmdMultiNode: \<open>testnet_multi_node.go\<close>: flags, ports, one directory per node, genesis and its collection (C34 to C36).
  \<^item> CmdTestnet: \<open>testnet.go\<close>, which rewrites the validators of a loaded application (C40).
  \<^item> CmdFlags: a tree of commands with flag sets, the walk \<open>overwriteFlagDefaults\<close> of \<open>root.go\<close> over it, and the contract
    \<open>cobra_ok\<close> of the command library.
  \<^item> CmdRoot: \<open>main.go\<close>, \<open>root.go\<close>, the tree of \<open>commands.go\<close>, \<open>config.go\<close>, and the \<open>init\<close> functions of package
    \<open>app\<close>. Commands of the SDK are values of a parameter indexed by their constructor; the commands of the repository are
    built flag by flag, and the root hands them the functions of AppNew and CmdTestnet. The defaults that reach
    every command, and what the multi-node command therefore does without flags (C37, C38).
  \<^item> ModuleGlue: \<open>types/codec.go\<close>, \<open>types/errors.go\<close>, \<open>module/autocli.go\<close>, \<open>simulation/helpers.go\<close>, the HTTP routes
    of \<open>app/app.go\<close> and \<open>docs/docs.go\<close>.
  \<^item> TestSupport: \<open>testutil\<close>: \<open>nullify.Fill\<close> on a datatype of reflected values (filling twice is filling once), the keeper
    fixture, the test network and its free ports (distinct, and all released).

  \<^bold>\<open>Not modelled.\<close> Logging and telemetry; the registries of gogoproto and the SDK themselves; \<open>slowProtoReflect\<close>, which nothing calls; help texts of commands; metadata and cancellation of contexts; accessors of one field;
  build tools. Iterations of a store visit the keys read when they start. The counter of
  \<open>prepForZeroHeightGenesis\<close> is never read and is left out. The file system of the multi-node command is not
  a state but the list of its effects.
\<close>

end
